(* ===== verification/Prelude.thy ===== *)
theory Prelude
  imports Main "HOL-Library.Word" "HOL-Library.Char_ord" "HOL-Library.List_Lexorder" "HOL-Library.Sublist"
begin

text \<open>
  The shared base of the development: computations that read and write a session and may raise
  an exception, their weakest preconditions, and database tables as lists of rows.

  A service method of the program is a \<^emph>\<open>computation\<close>: it takes the session state, and either
  returns a value or raises, with the session state it leaves behind in both cases (an exception
  does not undo what was written before it; that is the rollback of the caller).
\<close>

named_theorems wp_rules \<open>equations that push wp through a computation\<close>
named_theorems wp_intros \<open>the same as introduction rules, which name the outcome of each test\<close>

section \<open>Results that may be an exception\<close>

definition bindE :: "'e + 'a \<Rightarrow> ('a \<Rightarrow> 'e + 'b) \<Rightarrow> 'e + 'b" where
  "bindE r f = (case r of Inl e \<Rightarrow> Inl e | Inr a \<Rightarrow> f a)"

lemma bindE_simps [simp]: "bindE (Inl e) f = Inl e" "bindE (Inr a) f = f a"
  by (simp_all add: bindE_def)

lemma bindE_Inr_iff: "bindE r f = Inr b \<longleftrightarrow> (\<exists>a. r = Inr a \<and> f a = Inr b)"
  by (cases r) simp_all

lemma bindE_Inl_iff: "bindE r f = Inl e \<longleftrightarrow> r = Inl e \<or> (\<exists>a. r = Inr a \<and> f a = Inl e)"
  by (cases r) simp_all

section \<open>Computations over a state\<close>

type_synonym ('s, 'e, 'a) comp = "'s \<Rightarrow> ('e + 'a) \<times> 's"

definition returnS :: "'a \<Rightarrow> ('s, 'e, 'a) comp" where
  "returnS a s = (Inr a, s)"

definition raiseS :: "'e \<Rightarrow> ('s, 'e, 'a) comp" where
  "raiseS e s = (Inl e, s)"

definition bindS :: "('s, 'e, 'a) comp \<Rightarrow> ('a \<Rightarrow> ('s, 'e, 'b) comp) \<Rightarrow> ('s, 'e, 'b) comp" where
  "bindS m f s = (case m s of (Inl e, s') \<Rightarrow> (Inl e, s') | (Inr a, s') \<Rightarrow> f a s')"

text \<open>\<open>try: m except p: h\<close>: only the exceptions that satisfy \<open>p\<close> are caught.\<close>

definition catchS ::
  "('s, 'e, 'a) comp \<Rightarrow> ('e \<Rightarrow> bool) \<Rightarrow> ('e \<Rightarrow> ('s, 'e, 'a) comp) \<Rightarrow> ('s, 'e, 'a) comp" where
  "catchS m p h s =
     (case m s of (Inl e, s') \<Rightarrow> (if p e then h e s' else (Inl e, s')) | (Inr a, s') \<Rightarrow> (Inr a, s'))"

definition askS :: "('s \<Rightarrow> 'e + 'a) \<Rightarrow> ('s, 'e, 'a) comp" where
  "askS q s = (q s, s)"

definition putS :: "('s \<Rightarrow> 's) \<Rightarrow> ('s, 'e, unit) comp" where
  "putS f s = (Inr (), f s)"

fun forS :: "'x list \<Rightarrow> ('x \<Rightarrow> ('s, 'e, unit) comp) \<Rightarrow> ('s, 'e, unit) comp" where
  "forS [] f = returnS ()"
| "forS (x # xs) f = bindS (f x) (\<lambda>_. forS xs f)"

subsection \<open>Weakest preconditions\<close>

text \<open>
  \<open>wp m Q R s\<close>: started in \<open>s\<close>, \<open>m\<close> ends in a return that satisfies \<open>Q\<close> or a raise that
  satisfies \<open>R\<close>. Computations are total, so this is total correctness. The equations below are
  all unconditional, which lets the simplifier run a whole method symbolically.
\<close>

definition wp ::
  "('s, 'e, 'a) comp \<Rightarrow> ('a \<Rightarrow> 's \<Rightarrow> bool) \<Rightarrow> ('e \<Rightarrow> 's \<Rightarrow> bool) \<Rightarrow> 's \<Rightarrow> bool" where
  "wp m Q R s = (case m s of (Inl e, s') \<Rightarrow> R e s' | (Inr a, s') \<Rightarrow> Q a s')"

lemma wp_returnS [wp_rules]: "wp (returnS a) Q R s = Q a s"
  by (simp add: wp_def returnS_def)

lemma wp_raiseS [wp_rules]: "wp (raiseS e) Q R s = R e s"
  by (simp add: wp_def raiseS_def)

lemma wp_bindS [wp_rules]: "wp (bindS m f) Q R s = wp m (\<lambda>a. wp (f a) Q R) R s"
  by (simp add: wp_def bindS_def split: prod.split sum.split)

lemma wp_catchS [wp_rules]:
  "wp (catchS m p h) Q R s = wp m Q (\<lambda>e s'. if p e then wp (h e) Q R s' else R e s') s"
  by (simp add: wp_def catchS_def split: prod.split sum.split)

lemma wp_askS [wp_rules]:
  "wp (askS q) Q R s = (case q s of Inl e \<Rightarrow> R e s | Inr a \<Rightarrow> Q a s)"
  by (simp add: wp_def askS_def)

lemma wp_putS [wp_rules]: "wp (putS f) Q R s = Q () (f s)"
  by (simp add: wp_def putS_def)

lemma wp_if [wp_rules]: "wp (if b then m else n) Q R s = (if b then wp m Q R s else wp n Q R s)"
  by simp

lemma wp_case_option [wp_rules]:
  "wp (case x of None \<Rightarrow> m | Some a \<Rightarrow> f a) Q R s =
     (case x of None \<Rightarrow> wp m Q R s | Some a \<Rightarrow> wp (f a) Q R s)"
  by (cases x) simp_all

lemma wp_Let [wp_rules]: "wp (Let x f) Q R s = Let x (\<lambda>a. wp (f a) Q R s)"
  by (simp add: Let_def)

lemma wp_case_prod [wp_rules]:
  "wp (case x of (a, b) \<Rightarrow> f a b) Q R s = (case x of (a, b) \<Rightarrow> wp (f a b) Q R s)"
  by (cases x) simp

lemma wp_mono:
  "wp m Q R s \<Longrightarrow> (\<And>a s'. Q a s' \<Longrightarrow> Q' a s') \<Longrightarrow> (\<And>e s'. R e s' \<Longrightarrow> R' e s') \<Longrightarrow> wp m Q' R' s"
  by (auto simp: wp_def split: prod.splits sum.splits)

lemma wpD_Inr: "wp m Q R s \<Longrightarrow> m s = (Inr a, s') \<Longrightarrow> Q a s'"
  by (simp add: wp_def)

lemma wpD_Inl: "wp m Q R s \<Longrightarrow> m s = (Inl e, s') \<Longrightarrow> R e s'"
  by (simp add: wp_def)

lemma wpD: "wp m Q R s \<Longrightarrow> m s = (r, s') \<Longrightarrow> (case r of Inl e \<Rightarrow> R e s' | Inr a \<Rightarrow> Q a s')"
  by (cases r) (simp_all add: wp_def)

lemma wp_trueI: "(\<And>a s'. Q a s') \<Longrightarrow> (\<And>e s'. R e s') \<Longrightarrow> wp m Q R s"
  by (simp add: wp_def split: prod.split sum.split)

text \<open>
  As introduction rules: one subgoal for each path through a method, with the tests made on it.
\<close>

lemma wp_bindI [wp_intros]: "wp m (\<lambda>a. wp (f a) Q R) R s \<Longrightarrow> wp (bindS m f) Q R s"
  by (simp add: wp_bindS)

lemma wp_returnI [wp_intros]: "Q a s \<Longrightarrow> wp (returnS a) Q R s"
  by (simp add: wp_returnS)

lemma wp_raiseI [wp_intros]: "R e s \<Longrightarrow> wp (raiseS e) Q R s"
  by (simp add: wp_raiseS)

lemma wp_ifI [wp_intros]:
  "(b \<Longrightarrow> wp m Q R s) \<Longrightarrow> (\<not> b \<Longrightarrow> wp n Q R s) \<Longrightarrow> wp (if b then m else n) Q R s"
  by simp

lemma wp_optionI [wp_intros]:
  "(x = None \<Longrightarrow> wp m Q R s) \<Longrightarrow> (\<And>a. x = Some a \<Longrightarrow> wp (f a) Q R s) \<Longrightarrow>
   wp (case x of None \<Rightarrow> m | Some a \<Rightarrow> f a) Q R s"
  by (cases x) simp_all

lemma wp_sumI [wp_intros]:
  "(\<And>a. x = Inl a \<Longrightarrow> wp (f a) Q R s) \<Longrightarrow> (\<And>b. x = Inr b \<Longrightarrow> wp (g b) Q R s) \<Longrightarrow>
   wp (case x of Inl a \<Rightarrow> f a | Inr b \<Rightarrow> g b) Q R s"
  by (cases x) simp_all

lemma wp_prodI [wp_intros]:
  "(\<And>a b. x = (a, b) \<Longrightarrow> wp (f a b) Q R s) \<Longrightarrow> wp (case x of (a, b) \<Rightarrow> f a b) Q R s"
  by (cases x) simp

lemma wp_LetI [wp_intros]: "(\<And>a. a = x \<Longrightarrow> wp (f a) Q R s) \<Longrightarrow> wp (Let x f) Q R s"
  by simp

text \<open>A loop keeps what each round keeps.\<close>

lemma wp_forS:
  assumes "\<And>x s. x \<in> set xs \<Longrightarrow> I s \<Longrightarrow> wp (f x) (\<lambda>_. I) R s" and "I s"
  shows "wp (forS xs f) (\<lambda>_. I) R s"
  using assms
proof (induction xs arbitrary: s)
  case Nil
  then show ?case by (simp add: wp_rules)
next
  case (Cons x xs)
  have "wp (f x) (\<lambda>_. I) R s" using Cons.prems by simp
  then have "wp (f x) (\<lambda>_. wp (forS xs f) (\<lambda>_. I) R) R s"
  proof (rule wp_mono)
    fix a s' assume "I s'"
    then show "wp (forS xs f) (\<lambda>_. I) R s'" using Cons.prems(1) by (intro Cons.IH) simp_all
  qed
  then show ?case by (simp add: wp_rules)
qed

section \<open>Tables as lists of rows\<close>

text \<open>\<open>UPDATE ... WHERE key = i\<close>: every row with that key is rewritten in place.\<close>

definition upd :: "('r \<Rightarrow> 'k) \<Rightarrow> 'k \<Rightarrow> ('r \<Rightarrow> 'r) \<Rightarrow> 'r list \<Rightarrow> 'r list" where
  "upd key i f rows = map (\<lambda>r. if key r = i then f r else r) rows"

lemma length_upd [simp]: "length (upd key i f rows) = length rows"
  by (simp add: upd_def)

lemma upd_Nil [simp]: "upd key i f [] = []"
  by (simp add: upd_def)

lemma upd_Cons: "upd key i f (r # rows) = (if key r = i then f r else r) # upd key i f rows"
  by (simp add: upd_def)

lemma set_updE:
  assumes "r \<in> set (upd key i f rows)"
  obtains "r \<in> set rows" "key r \<noteq> i" | q where "q \<in> set rows" "key q = i" "r = f q"
  using assms by (auto simp: upd_def split: if_splits)

lemma upd_absent: "i \<notin> key ` set rows \<Longrightarrow> upd key i f rows = rows"
  unfolding upd_def by (rule map_idI) auto

lemma upd_upd: "(\<And>r. key (f r) = key r) \<Longrightarrow> upd key i g (upd key i f rows) = upd key i (\<lambda>r. g (f r)) rows"
  by (simp add: upd_def)

lemma map_upd_same: "(\<And>r. g (f r) = g r) \<Longrightarrow> map g (upd key i f rows) = map g rows"
  by (simp add: upd_def)

lemma distinct_key_eq: "distinct (map key rows) \<Longrightarrow> r \<in> set rows \<Longrightarrow> q \<in> set rows \<Longrightarrow> key r = key q \<Longrightarrow> r = q"
  by (simp add: distinct_map inj_on_def)

text \<open>Summing over a table of which one row was rewritten.\<close>

lemma sum_list_upd:
  fixes g :: "'r \<Rightarrow> int"
  assumes "distinct (map key rows)" and "r \<in> set rows"
  shows "(\<Sum>x\<leftarrow>upd key (key r) f rows. g x) = (\<Sum>x\<leftarrow>rows. g x) - g r + g (f r)"
  using assms
proof (induction rows)
  case Nil
  then show ?case by simp
next
  case (Cons q rows)
  show ?case
  proof (cases "r = q")
    case True
    then have "key r \<notin> key ` set rows" using Cons.prems by simp
    then show ?thesis using True by (simp add: upd_Cons upd_absent)
  next
    case False
    then have r: "r \<in> set rows" using Cons.prems by simp
    then have "key q \<noteq> key r" using Cons.prems(1) by (metis distinct.simps(2) imageI list.set_map list.simps(9))
    then show ?thesis using Cons.IH Cons.prems r by (simp add: upd_Cons)
  qed
qed

lemma sum_list_upd_same:
  fixes g :: "'r \<Rightarrow> int"
  shows "(\<And>r. g (f r) = g r) \<Longrightarrow> (\<Sum>x\<leftarrow>upd key i f rows. g x) = (\<Sum>x\<leftarrow>rows. g x)"
  by (simp add: upd_def comp_def if_distrib cong: if_cong)

lemma filter_upd: "(\<And>r. P (f r) = P r) \<Longrightarrow> filter P (upd key i f rows) = upd key i f (filter P rows)"
  by (induction rows) (auto simp: upd_Cons)

text \<open>Counting the rows that satisfy a predicate, after one was rewritten.\<close>

lemma count_upd:
  assumes "distinct (map key rows)" and "r \<in> set rows"
  shows "int (length (filter P (upd key (key r) f rows))) =
    int (length (filter P rows)) - of_bool (P r) + of_bool (P (f r))"
proof -
  have "int (length (filter P xs)) = (\<Sum>x\<leftarrow>xs. of_bool (P x))" for xs by (induction xs) auto
  then show ?thesis using sum_list_upd [OF assms, where f = f and g = "\<lambda>x. of_bool (P x)"] by simp
qed

lemma find_key:
  "distinct (map key rows) \<Longrightarrow> r \<in> set rows \<Longrightarrow> find (\<lambda>x. key x = key r) rows = Some r"
  by (induction rows) auto

lemma find_upd: "(\<And>r. key (f r) = key r) \<Longrightarrow>
  find (\<lambda>x. key x = j) (upd key i f rows) = map_option (\<lambda>r. if j = i then f r else r) (find (\<lambda>x. key x = j) rows)"
  by (induction rows) (auto simp: upd_Cons)

text \<open>
  The interface of a column update: a rewrite that leaves the key column alone. Its clients are
  the repositories; its laws are what a lookup sees after the update.
\<close>

locale column_update =
  fixes key :: "'r \<Rightarrow> 'k" and f :: "'r \<Rightarrow> 'r"
  assumes key_f: "key (f r) = key r"
begin

lemma keys_upd: "map key (upd key i f rows) = map key rows"
  by (simp add: upd_def key_f)

lemma key_set_upd: "key ` set (upd key i f rows) = key ` set rows"
proof -
  have "set (map key (upd key i f rows)) = set (map key rows)" by (simp only: keys_upd)
  then show ?thesis by simp
qed

lemma filter_upd_other:
  "i \<noteq> j \<Longrightarrow> filter (\<lambda>r. key r = j \<and> P r) (upd key i f rows) = filter (\<lambda>r. key r = j \<and> P r) rows"
  by (induction rows) (auto simp: upd_Cons key_f)

lemma filter_upd_hit:
  "(\<And>r. P (f r) = P r) \<Longrightarrow>
   filter (\<lambda>r. key r = i \<and> P r) (upd key i f rows) = map f (filter (\<lambda>r. key r = i \<and> P r) rows)"
  by (induction rows) (auto simp: upd_Cons key_f)

lemma in_upd: "r \<in> set rows \<Longrightarrow> key r = i \<Longrightarrow> f r \<in> set (upd key i f rows)"
  by (auto simp: upd_def)

end

text \<open>
  A table over time: rows are only appended, and a row that is there evolves along \<open>R\<close>.
\<close>

definition grows :: "('r \<Rightarrow> 'r \<Rightarrow> bool) \<Rightarrow> 'r list \<Rightarrow> 'r list \<Rightarrow> bool" where
  "grows R xs ys \<longleftrightarrow> (\<exists>zs ws. ys = zs @ ws \<and> list_all2 R xs zs)"

lemma grows_refl: "(\<And>x. R x x) \<Longrightarrow> grows R xs xs"
  unfolding grows_def by (rule exI [of _ xs], rule exI [of _ "[]"]) (simp add: list_all2_refl)

lemma grows_append: "(\<And>x. R x x) \<Longrightarrow> grows R xs (xs @ ys)"
  unfolding grows_def by (rule exI [of _ xs], rule exI [of _ ys]) (simp add: list_all2_refl)

lemma grows_trans:
  assumes trans: "\<And>x y z. R x y \<Longrightarrow> R y z \<Longrightarrow> R x z" and "grows R xs ys" "grows R ys zs"
  shows "grows R xs zs"
proof -
  obtain a b where ys: "ys = a @ b" and xa: "list_all2 R xs a" using assms(2) by (auto simp: grows_def)
  obtain c e where zs: "zs = c @ e" and yc: "list_all2 R ys c" using assms(3) by (auto simp: grows_def)
  obtain c1 c2 where c: "c = c1 @ c2" and ac: "list_all2 R a c1"
    using yc unfolding ys list_all2_append1 by blast
  have "list_all2 R xs c1" by (rule list_all2_trans [OF trans xa ac])
  then show ?thesis unfolding grows_def zs c by (intro exI [of _ c1] exI [of _ "c2 @ e"]) simp
qed

lemma grows_map: "(\<And>x. x \<in> set xs \<Longrightarrow> R x (f x)) \<Longrightarrow> grows R xs (map f xs)"
  unfolding grows_def
  by (rule exI [of _ "map f xs"], rule exI [of _ "[]"]) (simp add: list_all2_map2 list.rel_refl_strong)

lemma grows_upd:
  "(\<And>x. R x x) \<Longrightarrow> (\<And>r. r \<in> set xs \<Longrightarrow> key r = i \<Longrightarrow> R r (f r)) \<Longrightarrow> grows R xs (upd key i f xs)"
  unfolding upd_def by (rule grows_map) auto

lemma grows_upd_row:
  assumes "\<And>x. R x x" and "distinct (map key xs)" and "r \<in> set xs" and "R r (f r)"
  shows "grows R xs (upd key (key r) f xs)"
proof (rule grows_upd [OF assms(1)])
  fix q assume "q \<in> set xs" "key q = key r"
  then have "q = r" using distinct_key_eq [OF assms(2) _ assms(3)] by simp
  then show "R q (f q)" using assms(4) by simp
qed

lemma growsD: "grows R xs ys \<Longrightarrow> x \<in> set xs \<Longrightarrow> \<exists>y\<in>set ys. R x y"
  by (fastforce simp: grows_def list_all2_conv_all_nth in_set_conv_nth)

section \<open>Small facts\<close>

lemma filter_single_in: "filter P xs = [x] \<Longrightarrow> x \<in> set xs \<and> P x"
  by (auto dest!: arg_cong [where f = set])

lemma find_SomeD: "find P xs = Some x \<Longrightarrow> x \<in> set xs \<and> P x"
  by (induction xs) (auto split: if_splits)

lemma sum_list_nonneg_int: "(\<And>x. x \<in> set xs \<Longrightarrow> 0 \<le> g x) \<Longrightarrow> 0 \<le> (\<Sum>x\<leftarrow>xs. (g x :: int))"
  by (induction xs) auto

lemma in_key_set: "r \<in> set rows \<Longrightarrow> key r = i \<Longrightarrow> i \<in> key ` set rows"
  by auto

end
