(* ===== verification/Python_Std.thy ===== *)
theory Python_Std
  imports Prelude
begin

text \<open>
  What the program uses of the Python standard library: \<open>uuid.UUID\<close> and its textual forms,
  the \<open>str\<close> methods, truth of optional strings, and \<open>sorted\<close> of two ids with \<open>key=str\<close>.
  Strings are \<^typ>\<open>string\<close> (ASCII). A UUID is its 128-bit value.
\<close>

type_synonym uuid = "128 word"

section \<open>UUID text\<close>

definition hex_digit :: "nat \<Rightarrow> char" where
  "hex_digit n = ''0123456789abcdef'' ! n"

definition nibble :: "uuid \<Rightarrow> nat \<Rightarrow> nat" where
  "nibble u i = unat (take_bit 4 (drop_bit (4 * i) u))"

text \<open>\<open>u.hex\<close>: 32 lower-case hexadecimal digits, most significant first.\<close>

definition uuid_hex :: "uuid \<Rightarrow> string" where
  "uuid_hex u = map (\<lambda>i. hex_digit (nibble u i)) (rev [0..<32])"

text \<open>\<open>str(u)\<close>: the digits grouped 8-4-4-4-12.\<close>

definition uuid_str :: "uuid \<Rightarrow> string" where
  "uuid_str u = (let h = uuid_hex u in
     take 8 h @ ''-'' @ take 4 (drop 8 h) @ ''-'' @ take 4 (drop 12 h) @ ''-'' @
     take 4 (drop 16 h) @ ''-'' @ drop 20 h)"

lemma nibble_less: "nibble u i < 16"
  using take_bit_nat_less_exp [of 4 "unat (drop_bit (4 * i) u)"]
  by (simp add: nibble_def unsigned_take_bit_eq)

lemma hex_digit_inj: "m < 16 \<Longrightarrow> n < 16 \<Longrightarrow> hex_digit m = hex_digit n \<Longrightarrow> m = n"
proof -
  have "distinct ''0123456789abcdef''" by simp
  then show "m < 16 \<Longrightarrow> n < 16 \<Longrightarrow> hex_digit m = hex_digit n \<Longrightarrow> m = n"
    by (simp only: hex_digit_def nth_eq_iff_index_eq) (simp add: nth_eq_iff_index_eq)
qed

lemma length_uuid_hex [simp]: "length (uuid_hex u) = 32"
  by (simp add: uuid_hex_def)

lemma uuid_eqI:
  assumes "\<And>i. i < 32 \<Longrightarrow> nibble u i = nibble v i" shows "u = v"
proof (rule bit_eqI)
  fix n assume "possible_bit TYPE(128 word) n"
  then have n: "n < 128" by (simp add: possible_bit_def)
  then have "nibble u (n div 4) = nibble v (n div 4)" by (intro assms) arith
  then have "take_bit 4 (drop_bit (4 * (n div 4)) u) = take_bit 4 (drop_bit (4 * (n div 4)) v)"
    unfolding nibble_def by (simp only: word_unat_eq_iff)
  then have "bit (take_bit 4 (drop_bit (4 * (n div 4)) u)) (n mod 4) =
             bit (take_bit 4 (drop_bit (4 * (n div 4)) v)) (n mod 4)"
    by (rule arg_cong)
  then show "bit u n = bit v n"
    by (simp add: bit_take_bit_iff bit_drop_bit_eq)
qed

lemma uuid_hex_inj: "uuid_hex u = uuid_hex v \<Longrightarrow> u = v"
  by (rule uuid_eqI) (auto simp: uuid_hex_def nibble_less intro: hex_digit_inj)

definition undash :: "string \<Rightarrow> string" where
  "undash s = take 8 s @ take 4 (drop 9 s) @ take 4 (drop 14 s) @ take 4 (drop 19 s) @ drop 24 s"

lemma take_drop_glue: "take m (drop n xs) @ drop (m + n) xs = drop n xs"
  by (metis append_take_drop_id drop_drop)

lemma undash_uuid_str: "undash (uuid_str u) = uuid_hex u"
proof -
  define h where "h = uuid_hex u"
  have len: "length h = 32" by (simp add: h_def)
  have "undash (uuid_str u) =
      take 8 h @ take 4 (drop 8 h) @ take 4 (drop 12 h) @ take 4 (drop 16 h) @ drop 20 h"
    using len by (simp add: undash_def uuid_str_def h_def [symmetric] Let_def min_def)
  also have "\<dots> = h"
    using take_drop_glue [of 4 16 h] take_drop_glue [of 4 12 h] take_drop_glue [of 4 8 h] by simp
  finally show ?thesis by (simp add: h_def)
qed

lemma uuid_str_inj: "uuid_str u = uuid_str v \<Longrightarrow> u = v"
  using undash_uuid_str uuid_hex_inj by metis

lemma uuid_str_eq_iff [simp]: "uuid_str u = uuid_str v \<longleftrightarrow> u = v"
  using uuid_str_inj by blast

section \<open>\<open>sorted([a, b], key=str)\<close>\<close>

text \<open>Python's sort is stable: the two ids change places only if the second key is smaller.\<close>

definition sorted_by_str :: "uuid \<Rightarrow> uuid \<Rightarrow> uuid \<times> uuid" where
  "sorted_by_str a b = (if uuid_str b < uuid_str a then (b, a) else (a, b))"

lemma sorted_by_str_cases: "sorted_by_str a b = (a, b) \<or> sorted_by_str a b = (b, a)"
  by (simp add: sorted_by_str_def)

lemma sorted_by_str_commute: "sorted_by_str a b = sorted_by_str b a"
proof (cases "a = b")
  case False
  then have "uuid_str a \<noteq> uuid_str b" by simp
  then consider "uuid_str a < uuid_str b" | "uuid_str b < uuid_str a" by (meson linorder_neqE)
  then show ?thesis by cases (simp_all add: sorted_by_str_def less_not_sym)
qed simp

section \<open>Strings\<close>

definition lower_char :: "char \<Rightarrow> char" where
  "lower_char c = (let n = of_char c :: nat in if 65 \<le> n \<and> n \<le> 90 then char_of (n + 32) else c)"

definition str_lower :: "string \<Rightarrow> string" where
  "str_lower = map lower_char"

definition upper_char :: "char \<Rightarrow> char" where
  "upper_char c = (let n = of_char c :: nat in if 97 \<le> n \<and> n \<le> 122 then char_of (n - 32) else c)"

definition str_upper :: "string \<Rightarrow> string" where
  "str_upper = map upper_char"

text \<open>\<open>s.replace(a, b)\<close> for a one-character \<open>a\<close>.\<close>

definition replace_char :: "char \<Rightarrow> string \<Rightarrow> string \<Rightarrow> string" where
  "replace_char a b s = concat (map (\<lambda>c. if c = a then b else [c]) s)"

definition is_space :: "char \<Rightarrow> bool" where
  "is_space c = (let n = of_char c :: nat in n = 32 \<or> (9 \<le> n \<and> n \<le> 13) \<or> (28 \<le> n \<and> n \<le> 31))"

definition str_strip :: "string \<Rightarrow> string" where
  "str_strip s = rev (dropWhile is_space (rev (dropWhile is_space s)))"

text \<open>\<open>str(n)\<close> of an integer, and the format \<open>{n:,.0f}\<close> with its thousands separators.\<close>

fun show_nat :: "nat \<Rightarrow> string" where
  "show_nat n = (if n < 10 then [char_of (48 + n)] else show_nat (n div 10) @ [char_of (48 + n mod 10)])"

declare show_nat.simps [simp del]

definition show_int :: "int \<Rightarrow> string" where
  "show_int i = (if i < 0 then ''-'' @ show_nat (nat (- i)) else show_nat (nat i))"

fun group3 :: "string \<Rightarrow> string" where
  "group3 (a # b # c # d # xs) = a # b # c # CHR '','' # group3 (d # xs)"
| "group3 xs = xs"

definition show_thousands :: "int \<Rightarrow> string" where
  "show_thousands i =
     (if i < 0 then ''-'' @ rev (group3 (rev (show_nat (nat (- i))))) else rev (group3 (rev (show_nat (nat i)))))"

text \<open>\<open>if s:\<close> for an \<open>Optional[str]\<close>: false for \<open>None\<close> and for the empty string.\<close>

definition truthy :: "string option \<Rightarrow> bool" where
  "truthy s = (case s of None \<Rightarrow> False | Some t \<Rightarrow> t \<noteq> [])"

lemma truthy_simps [simp]: "\<not> truthy None" "truthy (Some t) \<longleftrightarrow> t \<noteq> []"
  by (simp_all add: truthy_def)

text \<open>\<open>d.get(k, default)\<close> of a field that may be missing.\<close>

definition get_or :: "'a \<Rightarrow> 'a option \<Rightarrow> 'a" where
  "get_or d x = (case x of None \<Rightarrow> d | Some v \<Rightarrow> v)"

lemma get_or_simps [simp]: "get_or d None = d" "get_or d (Some v) = v"
  by (simp_all add: get_or_def)

end
