(* ===== verification/Models.thy ===== *)
theory Models
  imports Python_Std
begin

text \<open>
  The data model: the exceptions of \<open>app/core/exceptions.py\<close>, the settings of
  \<open>app/core/config.py\<close>, the tables of \<open>app/models\<close>, the database with the constraints the
  models declare, and the session through which services read and write it.

  Money is an integer number of kobo: the columns are \<open>NUMERIC(20, 2)\<close>, so an amount is a
  whole number of hundredths. A time is an integer number of microseconds since the epoch (UTC).
  \<open>updated_at\<close> is left out of every row: nothing in the program reads it.
\<close>

type_synonym money = int
type_synonym timestamp = int

definition naira :: "int \<Rightarrow> money" where
  "naira n = 100 * n"

section \<open>Exceptions\<close>

text \<open>
  The application's errors with their constructor arguments, then the library errors its code
  can meet: a failed pydantic validation, a violated constraint, a value out of a column's range,
  \<open>scalar_one_or_none\<close> on several rows, a message broker that cannot be reached, an attribute of
  None, a value that cannot be converted, a body that is not JSON.
\<close>

datatype exn =
    NotFoundError (resource: string)
  | ConflictError string string
  | UnauthorizedError string
  | ForbiddenError string
  | ValidationError string string
  | InsufficientBalanceError
  | KYCTierError string
  | DailyLimitError
  | DuplicateTransferError
  | ExternalServiceError string
  | RequestValidationError string
  | IntegrityError
  | DataError
  | MultipleResultsFound
  | BrokerError
  | AttributeError
  | ValueError
  | JSONDecodeError

fun error_code :: "exn \<Rightarrow> string" where
  "error_code (NotFoundError r) = replace_char (CHR '' '') ''_'' (str_upper r) @ ''_NOT_FOUND''"
| "error_code (ConflictError m c) = c"
| "error_code (UnauthorizedError m) = ''UNAUTHORIZED''"
| "error_code (ForbiddenError m) = ''FORBIDDEN''"
| "error_code (ValidationError m c) = c"
| "error_code InsufficientBalanceError = ''INSUFFICIENT_BALANCE''"
| "error_code (KYCTierError m) = ''KYC_TIER_INSUFFICIENT''"
| "error_code DailyLimitError = ''DAILY_LIMIT_EXCEEDED''"
| "error_code DuplicateTransferError = ''DUPLICATE_TRANSFER''"
| "error_code (ExternalServiceError s) = ''EXTERNAL_SERVICE_ERROR''"
| "error_code (RequestValidationError m) = ''VALIDATION_ERROR''"
| "error_code _ = ''INTERNAL_SERVER_ERROR''"

text \<open>The HTTP status each handler of \<open>app/main.py\<close> answers with.\<close>

fun status_code :: "exn \<Rightarrow> nat" where
  "status_code (NotFoundError r) = 404"
| "status_code (ConflictError m c) = 409"
| "status_code (UnauthorizedError m) = 401"
| "status_code (ForbiddenError m) = 403"
| "status_code (ValidationError m c) = 422"
| "status_code InsufficientBalanceError = 422"
| "status_code (KYCTierError m) = 403"
| "status_code DailyLimitError = 422"
| "status_code DuplicateTransferError = 429"
| "status_code (ExternalServiceError s) = 503"
| "status_code (RequestValidationError m) = 422"
| "status_code _ = 500"

section \<open>Settings\<close>

record settings =
  ACCESS_TOKEN_EXPIRE_MINUTES :: int
  REFRESH_TOKEN_EXPIRE_DAYS :: int
  PAYSTACK_SECRET_KEY :: string
  PAYSTACK_WEBHOOK_SECRET :: string
  KYC_TIER0_DAILY_FUNDING_LIMIT :: int
  KYC_TIER1_DAILY_LIMIT :: int
  KYC_TIER2_DAILY_LIMIT :: int
  KYC_TIER1_SINGLE_LIMIT :: int
  KYC_TIER2_SINGLE_LIMIT :: int
  FRAUD_DUPLICATE_WINDOW_SECONDS :: int
  FRAUD_RAPID_TRANSFER_COUNT :: int
  FRAUD_RAPID_TRANSFER_WINDOW_SECONDS :: int
  FRAUD_MERCHANT_PAYMENT_FLAG_THRESHOLD :: int

definition default_settings :: settings where
  "default_settings = \<lparr>
     ACCESS_TOKEN_EXPIRE_MINUTES = 30,
     REFRESH_TOKEN_EXPIRE_DAYS = 1,
     PAYSTACK_SECRET_KEY = '''',
     PAYSTACK_WEBHOOK_SECRET = '''',
     KYC_TIER0_DAILY_FUNDING_LIMIT = 10000,
     KYC_TIER1_DAILY_LIMIT = 50000,
     KYC_TIER2_DAILY_LIMIT = 500000,
     KYC_TIER1_SINGLE_LIMIT = 50000,
     KYC_TIER2_SINGLE_LIMIT = 500000,
     FRAUD_DUPLICATE_WINDOW_SECONDS = 60,
     FRAUD_RAPID_TRANSFER_COUNT = 5,
     FRAUD_RAPID_TRANSFER_WINDOW_SECONDS = 600,
     FRAUD_MERCHANT_PAYMENT_FLAG_THRESHOLD = 100000\<rparr>"

section \<open>Enumerations\<close>

datatype user_role = USER | MERCHANT | ADMIN

datatype transaction_type = FUNDING | TRANSFER | MERCHANT_PAYMENT | WITHDRAWAL | REVERSAL

datatype transaction_status = PENDING | PROCESSING | COMPLETED | FAILED | REVERSED

datatype entry_type = DEBIT | CREDIT

datatype kyc_status = KYC_PENDING | KYC_APPROVED | KYC_REJECTED

datatype delivery_status = WD_PENDING | WD_DELIVERED | WD_FAILED

datatype actor_type = ACTOR_USER | ACTOR_SYSTEM | ACTOR_ADMIN

text \<open>The types are finite, so a statement about every status is decided by evaluation.\<close>

instantiation transaction_status :: enum
begin

definition enum_transaction_status :: "transaction_status list" where
  "enum_transaction_status = [PENDING, PROCESSING, COMPLETED, FAILED, REVERSED]"

definition enum_all_transaction_status :: "(transaction_status \<Rightarrow> bool) \<Rightarrow> bool" where
  "enum_all_transaction_status P \<longleftrightarrow> P PENDING \<and> P PROCESSING \<and> P COMPLETED \<and> P FAILED \<and> P REVERSED"

definition enum_ex_transaction_status :: "(transaction_status \<Rightarrow> bool) \<Rightarrow> bool" where
  "enum_ex_transaction_status P \<longleftrightarrow> P PENDING \<or> P PROCESSING \<or> P COMPLETED \<or> P FAILED \<or> P REVERSED"

instance
proof
  show univ: "UNIV = set (enum_class.enum :: transaction_status list)"
    using transaction_status.exhaust by (auto simp: enum_transaction_status_def)
  show "distinct (enum_class.enum :: transaction_status list)"
    by (simp add: enum_transaction_status_def)
  show "enum_class.enum_all P \<longleftrightarrow> Ball UNIV P" for P :: "transaction_status \<Rightarrow> bool"
    unfolding univ by (simp add: enum_all_transaction_status_def enum_transaction_status_def)
  show "enum_class.enum_ex P \<longleftrightarrow> Bex UNIV P" for P :: "transaction_status \<Rightarrow> bool"
    unfolding univ by (simp add: enum_ex_transaction_status_def enum_transaction_status_def)
qed

end

text \<open>\<open>VALID_TRANSITIONS\<close>, the transaction state machine.\<close>

fun valid_transitions :: "transaction_status \<Rightarrow> transaction_status list" where
  "valid_transitions PENDING = [PROCESSING]"
| "valid_transitions PROCESSING = [COMPLETED, FAILED]"
| "valid_transitions COMPLETED = [REVERSED]"
| "valid_transitions FAILED = []"
| "valid_transitions REVERSED = []"

section \<open>Rows\<close>

text \<open>
  The two texts the fraud rules give for a flag:
  \<open>Large merchant payment from Tier 1 user: ... NGN.\<close> and
  \<open>Rapid transfers to ... distinct recipients within ... minutes.\<close>
\<close>

datatype flag_reason = LargeMerchantPayment money | RapidTransfers nat int

text \<open>
  Values stored in a JSONB column: a string, an amount or a UUID that the code puts in as
  \<open>str(x)\<close>, an integer, a boolean, the text of a fraud flag, the ISO form of a time, null,
  a nested object.
\<close>

datatype jval = JStr string | JMoney money | JUuid uuid | JInt int | JBool bool | JReason flag_reason
  | JTime timestamp | JNull | JObj "(string \<times> jval) list"

type_synonym json = "(string \<times> jval) list"

record user =
  u_id :: uuid
  u_email :: string
  u_phone :: "string option"
  u_hashed_password :: string
  u_full_name :: string
  u_role :: user_role
  u_kyc_tier :: int
  u_is_active :: bool
  u_is_email_verified :: bool
  u_deleted_at :: "timestamp option"
  u_created_at :: timestamp

record wallet =
  w_id :: uuid
  w_user_id :: uuid
  w_currency :: string
  w_balance :: money
  w_is_active :: bool
  w_deleted_at :: "timestamp option"
  w_created_at :: timestamp

record transaction =
  t_id :: uuid
  t_reference :: string
  t_type :: transaction_type
  t_status :: transaction_status
  t_amount :: money
  t_currency :: string
  t_source_wallet_id :: "uuid option"
  t_destination_wallet_id :: "uuid option"
  t_initiated_by_user_id :: uuid
  t_provider_reference :: "string option"
  t_idempotency_key :: "string option"
  t_extra_data :: "json option"
  t_failure_reason :: "string option"
  t_risk_flagged :: bool
  t_risk_flag_reason :: "flag_reason option"
  t_created_at :: timestamp

record ledger_entry =
  e_id :: uuid
  e_transaction_id :: uuid
  e_wallet_id :: uuid
  e_entry_type :: entry_type
  e_amount :: money
  e_currency :: string
  e_balance_after :: money
  e_created_at :: timestamp

record merchant =
  m_id :: uuid
  m_user_id :: uuid
  m_business_name :: string
  m_api_key_hash :: string
  m_api_key_prefix :: string
  m_webhook_url :: "string option"
  m_webhook_secret :: "string option"
  m_is_active :: bool
  m_deleted_at :: "timestamp option"
  m_created_at :: timestamp

record kyc_submission =
  k_id :: uuid
  k_user_id :: uuid
  k_requested_tier :: int
  k_status :: kyc_status
  k_document_key :: string
  k_reviewer_id :: "uuid option"
  k_rejection_reason :: "string option"
  k_reviewed_at :: "timestamp option"
  k_created_at :: timestamp

record bank_account =
  b_id :: uuid
  b_user_id :: uuid
  b_account_name :: string
  b_account_number :: string
  b_bank_code :: string
  b_bank_name :: string
  b_is_default :: bool
  b_paystack_recipient_code :: "string option"
  b_deleted_at :: "timestamp option"
  b_created_at :: timestamp

record refresh_token =
  r_id :: uuid
  r_user_id :: uuid
  r_token_hash :: string
  r_expires_at :: timestamp
  r_is_revoked :: bool
  r_created_at :: timestamp

record webhook_delivery =
  d_id :: uuid
  d_merchant_id :: uuid
  d_transaction_id :: uuid
  d_event_type :: string
  d_payload :: json
  d_status :: delivery_status
  d_attempt_count :: int
  d_next_retry_at :: "timestamp option"
  d_last_response_code :: "int option"
  d_last_error :: "string option"
  d_created_at :: timestamp

record audit_log =
  a_id :: uuid
  a_actor_id :: "uuid option"
  a_actor_type :: actor_type
  a_action :: string
  a_target_type :: "string option"
  a_target_id :: "uuid option"
  a_metadata :: "json option"
  a_ip_address :: "string option"
  a_created_at :: timestamp

section \<open>The database and its constraints\<close>

record db =
  users :: "user list"
  wallets :: "wallet list"
  transactions :: "transaction list"
  ledger_entries :: "ledger_entry list"
  merchants :: "merchant list"
  kyc_submissions :: "kyc_submission list"
  bank_accounts :: "bank_account list"
  refresh_tokens :: "refresh_token list"
  webhook_deliveries :: "webhook_delivery list"
  audit_logs :: "audit_log list"

definition empty_db :: db where
  "empty_db = \<lparr>users = [], wallets = [], transactions = [], ledger_entries = [], merchants = [],
     kyc_submissions = [], bank_accounts = [], refresh_tokens = [], webhook_deliveries = [],
     audit_logs = []\<rparr>"

text \<open>A UNIQUE column; for a nullable one, NULL never clashes.\<close>

definition clashes :: "('r \<Rightarrow> 'k) \<Rightarrow> 'r \<Rightarrow> 'r list \<Rightarrow> bool" where
  "clashes f r rows \<longleftrightarrow> f r \<in> f ` set rows"

definition clashes_opt :: "('r \<Rightarrow> 'k option) \<Rightarrow> 'r \<Rightarrow> 'r list \<Rightarrow> bool" where
  "clashes_opt f r rows \<longleftrightarrow> f r \<noteq> None \<and> f r \<in> f ` set rows"

text \<open>A FOREIGN KEY column names a row of another table; a nullable one may also be NULL.\<close>

definition refers :: "'k \<Rightarrow> ('r \<Rightarrow> 'k) \<Rightarrow> 'r list \<Rightarrow> bool" where
  "refers k key rows \<longleftrightarrow> k \<in> key ` set rows"

definition refers_opt :: "'k option \<Rightarrow> ('r \<Rightarrow> 'k) \<Rightarrow> 'r list \<Rightarrow> bool" where
  "refers_opt k key rows \<longleftrightarrow> (case k of None \<Rightarrow> True | Some i \<Rightarrow> refers i key rows)"

text \<open>The range of \<open>NUMERIC(20, 2)\<close>: fewer than \<open>10 ^ 18\<close> units, \<open>10 ^ 20\<close> hundredths.\<close>

definition fits_numeric :: "money \<Rightarrow> bool" where
  "fits_numeric x \<longleftrightarrow> \<bar>x\<bar> < 10 ^ 20"

text \<open>
  The width of a \<open>VARCHAR\<close> column. It is checked where a string comes from a client or from
  Paystack; constants, hashes and values copied from a column of the same width always fit.
\<close>

definition fits_varchar :: "nat \<Rightarrow> string \<Rightarrow> bool" where
  "fits_varchar n s \<longleftrightarrow> length s \<le> n"

definition fits_varchar_opt :: "nat \<Rightarrow> string option \<Rightarrow> bool" where
  "fits_varchar_opt n s \<longleftrightarrow> (case s of None \<Rightarrow> True | Some v \<Rightarrow> fits_varchar n v)"

definition user_fits :: "user \<Rightarrow> bool" where
  "user_fits u \<longleftrightarrow> fits_varchar 255 (u_email u) \<and> fits_varchar_opt 20 (u_phone u) \<and> fits_varchar 255 (u_full_name u)"

definition transaction_fits :: "transaction \<Rightarrow> bool" where
  "transaction_fits t \<longleftrightarrow> fits_numeric (t_amount t) \<and> fits_varchar_opt 100 (t_provider_reference t) \<and>
     fits_varchar_opt 255 (t_idempotency_key t)"

definition bank_account_fits :: "bank_account \<Rightarrow> bool" where
  "bank_account_fits b \<longleftrightarrow> fits_varchar 255 (b_account_name b) \<and> fits_varchar 20 (b_account_number b) \<and>
     fits_varchar 20 (b_bank_code b) \<and> fits_varchar 100 (b_bank_name b)"

text \<open>\<open>INSERT\<close> into each table, with the columns' types, the primary key, UNIQUE, CHECK and FOREIGN KEY
  constraints.\<close>

definition insert_user :: "user \<Rightarrow> db \<Rightarrow> exn + db" where
  "insert_user u d =
     (if \<not> user_fits u then Inl DataError
      else if clashes u_id u (users d) \<or> clashes u_email u (users d) \<or> clashes_opt u_phone u (users d)
      then Inl IntegrityError else Inr (d\<lparr>users := users d @ [u]\<rparr>))"

definition insert_wallet :: "wallet \<Rightarrow> db \<Rightarrow> exn + db" where
  "insert_wallet w d =
     (if clashes w_id w (wallets d) \<or> clashes w_user_id w (wallets d) \<or> w_balance w < 0
        \<or> \<not> refers (w_user_id w) u_id (users d)
      then Inl IntegrityError else Inr (d\<lparr>wallets := wallets d @ [w]\<rparr>))"

definition insert_transaction :: "transaction \<Rightarrow> db \<Rightarrow> exn + db" where
  "insert_transaction t d =
     (if \<not> transaction_fits t then Inl DataError
      else if clashes t_id t (transactions d) \<or> clashes t_reference t (transactions d)
        \<or> clashes_opt t_idempotency_key t (transactions d)
        \<or> \<not> refers_opt (t_source_wallet_id t) w_id (wallets d) \<or> \<not> refers_opt (t_destination_wallet_id t) w_id (wallets d)
        \<or> \<not> refers (t_initiated_by_user_id t) u_id (users d)
      then Inl IntegrityError else Inr (d\<lparr>transactions := transactions d @ [t]\<rparr>))"

definition insert_ledger_entry :: "ledger_entry \<Rightarrow> db \<Rightarrow> exn + db" where
  "insert_ledger_entry e d =
     (if \<not> fits_numeric (e_amount e) \<or> \<not> fits_numeric (e_balance_after e) then Inl DataError
      else if clashes e_id e (ledger_entries d)
        \<or> \<not> refers (e_transaction_id e) t_id (transactions d) \<or> \<not> refers (e_wallet_id e) w_id (wallets d)
      then Inl IntegrityError else Inr (d\<lparr>ledger_entries := ledger_entries d @ [e]\<rparr>))"

definition insert_merchant :: "merchant \<Rightarrow> db \<Rightarrow> exn + db" where
  "insert_merchant m d =
     (if \<not> fits_varchar 255 (m_business_name m) then Inl DataError
      else if clashes m_id m (merchants d) \<or> clashes m_user_id m (merchants d)
        \<or> \<not> refers (m_user_id m) u_id (users d)
      then Inl IntegrityError else Inr (d\<lparr>merchants := merchants d @ [m]\<rparr>))"

definition insert_kyc_submission :: "kyc_submission \<Rightarrow> db \<Rightarrow> exn + db" where
  "insert_kyc_submission k d =
     (if \<not> fits_varchar 500 (k_document_key k) then Inl DataError
      else if clashes k_id k (kyc_submissions d)
        \<or> \<not> refers (k_user_id k) u_id (users d) \<or> \<not> refers_opt (k_reviewer_id k) u_id (users d)
      then Inl IntegrityError else Inr (d\<lparr>kyc_submissions := kyc_submissions d @ [k]\<rparr>))"

definition insert_bank_account :: "bank_account \<Rightarrow> db \<Rightarrow> exn + db" where
  "insert_bank_account b d =
     (if \<not> bank_account_fits b then Inl DataError
      else if clashes b_id b (bank_accounts d) \<or> \<not> refers (b_user_id b) u_id (users d)
      then Inl IntegrityError else Inr (d\<lparr>bank_accounts := bank_accounts d @ [b]\<rparr>))"

definition insert_refresh_token :: "refresh_token \<Rightarrow> db \<Rightarrow> exn + db" where
  "insert_refresh_token r d =
     (if clashes r_id r (refresh_tokens d) \<or> clashes r_token_hash r (refresh_tokens d)
        \<or> \<not> refers (r_user_id r) u_id (users d)
      then Inl IntegrityError else Inr (d\<lparr>refresh_tokens := refresh_tokens d @ [r]\<rparr>))"

definition insert_webhook_delivery :: "webhook_delivery \<Rightarrow> db \<Rightarrow> exn + db" where
  "insert_webhook_delivery w d =
     (if clashes d_id w (webhook_deliveries d)
        \<or> \<not> refers (d_merchant_id w) m_id (merchants d) \<or> \<not> refers (d_transaction_id w) t_id (transactions d)
      then Inl IntegrityError else Inr (d\<lparr>webhook_deliveries := webhook_deliveries d @ [w]\<rparr>))"

definition insert_audit_log :: "audit_log \<Rightarrow> db \<Rightarrow> exn + db" where
  "insert_audit_log a d =
     (if clashes a_id a (audit_logs d)
      then Inl IntegrityError else Inr (d\<lparr>audit_logs := audit_logs d @ [a]\<rparr>))"

lemma refers_here: "r \<in> set rows \<Longrightarrow> refers (key r) key rows"
  by (simp add: refers_def)

lemma refers_simps [simp]:
  "refers k key (rows @ rest) \<longleftrightarrow> refers k key rows \<or> refers k key rest" "refers k key [r] \<longleftrightarrow> key r = k" "\<not> refers k key []"
  "refers_opt None key rows" "refers_opt (Some k) key rows = refers k key rows"
  by (auto simp: refers_def refers_opt_def)

lemma refers_upd [simp]: "(\<And>r. key (f r) = key r) \<Longrightarrow> refers k key (upd key i f rows) = refers k key rows"
  by (simp add: refers_def column_update.key_set_upd [OF column_update.intro])

section \<open>Sessions\<close>

text \<open>
  The \<open>data\<close> dictionary of a Paystack event or answer: the keys the code reads, each of which
  may be missing. Then the messages sent to the task queue, with the arguments of each task.
\<close>

record event_data =
  ev_reference :: "string option"
  ev_amount :: "int option"
  ev_transfer_code :: "string option"
  ev_status :: "string option"
  ev_authorization_url :: "string option"
  ev_recipient_code :: "string option"
  ev_account_name :: "string option"

definition empty_data :: event_data where
  "empty_data = \<lparr>ev_reference = None, ev_amount = None, ev_transfer_code = None, ev_status = None,
     ev_authorization_url = None, ev_recipient_code = None, ev_account_name = None\<rparr>"

datatype task =
    FlagTransactionRisk uuid flag_reason
  | DeliverMerchantWebhook uuid
  | ProcessPaystackWebhook string event_data
  | ProcessWithdrawal uuid
  | CheckStaleTransactions
  | RetryPendingWebhooks

text \<open>
  One request or task runs in one session: \<open>committed\<close> is what other sessions see, \<open>working\<close>
  what this session has flushed. Closing the session drops uncommitted work, and so does an
  exception (\<open>get_db\<close>, \<open>async with session_factory()\<close>). \<open>outbox\<close> is what the run has
  sent to the broker.
\<close>

record session =
  committed :: db
  working :: db
  outbox :: "task list"

text \<open>
  What a run takes from outside: the clock, the successive values of \<open>uuid.uuid4()\<close>, and
  whether the message broker can be reached.
\<close>

record env =
  now :: timestamp
  uuid4 :: "nat \<Rightarrow> uuid"
  broker_up :: bool

type_synonym 'a svc = "(session, exn, 'a) comp"

definition fresh_session :: "db \<Rightarrow> session" where
  "fresh_session d = \<lparr>committed = d, working = d, outbox = []\<rparr>"

text \<open>\<open>result.scalar_one_or_none()\<close>.\<close>

definition scalar_one_or_none :: "'r list \<Rightarrow> exn + 'r option" where
  "scalar_one_or_none rows =
     (case rows of [] \<Rightarrow> Inr None | [r] \<Rightarrow> Inr (Some r) | _ \<Rightarrow> Inl MultipleResultsFound)"

definition query :: "(db \<Rightarrow> exn + 'a) \<Rightarrow> 'a svc" where
  "query q = askS (\<lambda>s. q (working s))"

definition select :: "(db \<Rightarrow> 'a) \<Rightarrow> 'a svc" where
  "select q = askS (\<lambda>s. Inr (q (working s)))"

definition flush :: "(db \<Rightarrow> exn + db) \<Rightarrow> unit svc" where
  "flush f s = (case f (working s) of Inl x \<Rightarrow> (Inl x, s) | Inr d \<Rightarrow> (Inr (), s\<lparr>working := d\<rparr>))"

definition commit :: "unit svc" where
  "commit = putS (\<lambda>s. s\<lparr>committed := working s\<rparr>)"

definition rollback :: "unit svc" where
  "rollback = putS (\<lambda>s. s\<lparr>working := committed s\<rparr>)"

definition delay :: "env \<Rightarrow> task \<Rightarrow> unit svc" where
  "delay en t s = (if broker_up en then (Inr (), s\<lparr>outbox := outbox s @ [t]\<rparr>) else (Inl BrokerError, s))"

text \<open>A whole request or task: the answer, the database it leaves, the messages it sent.\<close>

definition run :: "'a svc \<Rightarrow> db \<Rightarrow> (exn + 'a) \<times> db \<times> task list" where
  "run m d = (case m (fresh_session d) of (r, s) \<Rightarrow> (r, committed s, outbox s))"

subsection \<open>Rules\<close>

lemma wp_query [wp_rules]: "wp (query q) Q R s = (case q (working s) of Inl e \<Rightarrow> R e s | Inr a \<Rightarrow> Q a s)"
  by (simp add: query_def wp_rules)

lemma wp_select [wp_rules]: "wp (select q) Q R s = Q (q (working s)) s"
  by (simp add: select_def wp_rules)

lemma wp_flush [wp_rules]:
  "wp (flush f) Q R s = (case f (working s) of Inl e \<Rightarrow> R e s | Inr d \<Rightarrow> Q () (s\<lparr>working := d\<rparr>))"
  by (simp add: wp_def flush_def split: sum.split)

lemma wp_commit [wp_rules]: "wp commit Q R s = Q () (s\<lparr>committed := working s\<rparr>)"
  by (simp add: commit_def wp_rules)

lemma wp_rollback [wp_rules]: "wp rollback Q R s = Q () (s\<lparr>working := committed s\<rparr>)"
  by (simp add: rollback_def wp_rules)

lemma wp_delay [wp_rules]:
  "wp (delay en t) Q R s =
     (if broker_up en then Q () (s\<lparr>outbox := outbox s @ [t]\<rparr>) else R BrokerError s)"
  by (simp add: wp_def delay_def)

lemma wp_queryI [wp_intros]:
  "(\<And>e. q (working s) = Inl e \<Longrightarrow> R e s) \<Longrightarrow> (\<And>a. q (working s) = Inr a \<Longrightarrow> Q a s) \<Longrightarrow> wp (query q) Q R s"
  by (simp add: wp_query split: sum.split)

lemma wp_selectI [wp_intros]: "Q (q (working s)) s \<Longrightarrow> wp (select q) Q R s"
  by (simp add: wp_select)

lemma wp_flushI [wp_intros]:
  "(\<And>e. f (working s) = Inl e \<Longrightarrow> R e s) \<Longrightarrow> (\<And>d. f (working s) = Inr d \<Longrightarrow> Q () (s\<lparr>working := d\<rparr>)) \<Longrightarrow>
   wp (flush f) Q R s"
  by (simp add: wp_flush split: sum.split)

lemma wp_commitI [wp_intros]: "Q () (s\<lparr>committed := working s\<rparr>) \<Longrightarrow> wp commit Q R s"
  by (simp add: wp_commit)

lemma wp_rollbackI [wp_intros]: "Q () (s\<lparr>working := committed s\<rparr>) \<Longrightarrow> wp rollback Q R s"
  by (simp add: wp_rollback)

lemma wp_delayI [wp_intros]:
  "(broker_up en \<Longrightarrow> Q () (s\<lparr>outbox := outbox s @ [t]\<rparr>)) \<Longrightarrow> (\<not> broker_up en \<Longrightarrow> R BrokerError s) \<Longrightarrow>
   wp (delay en t) Q R s"
  by (simp add: wp_delay)

text \<open>\<open>try: task.delay(...) except Exception: log\<close>.\<close>

lemma wp_delay_quietI [wp_intros]:
  assumes "Q () (s\<lparr>outbox := outbox s @ (if broker_up en then [t] else [])\<rparr>)"
  shows "wp (catchS (delay en t) (\<lambda>_. True) (\<lambda>_. returnS ())) Q R s"
  using assms by (cases "broker_up en") (simp_all add: wp_rules)

lemma fresh_session_simps [simp]:
  "committed (fresh_session d) = d" "working (fresh_session d) = d" "outbox (fresh_session d) = []"
  by (simp_all add: fresh_session_def)

lemma scalar_simps [simp]:
  "scalar_one_or_none [] = Inr None" "scalar_one_or_none [r] = Inr (Some r)"
  "scalar_one_or_none (r # q # rows) = Inl MultipleResultsFound"
  by (simp_all add: scalar_one_or_none_def)

lemma scalar_Inr_Some_iff: "scalar_one_or_none rows = Inr (Some r) \<longleftrightarrow> rows = [r]"
  by (auto simp: scalar_one_or_none_def split: list.splits)

lemma scalar_Inr_None_iff: "scalar_one_or_none rows = Inr None \<longleftrightarrow> rows = []"
  by (auto simp: scalar_one_or_none_def split: list.splits)

lemma scalar_Inl_iff: "scalar_one_or_none rows = Inl e \<longleftrightarrow> 2 \<le> length rows \<and> e = MultipleResultsFound"
proof (cases rows)
  case (Cons a as)
  then show ?thesis by (cases as) auto
qed simp

lemma scalar_filter_Some:
  "scalar_one_or_none (filter P rows) = Inr (Some r) \<Longrightarrow> r \<in> set rows \<and> P r"
  unfolding scalar_Inr_Some_iff by (rule filter_single_in)

text \<open>On a column with distinct values a lookup never meets several rows.\<close>

lemma filter_key_unique:
  assumes "distinct (map key rows)"
  shows "length (filter (\<lambda>r. key r = i \<and> P r) rows) \<le> 1"
  using assms by (induction rows) (auto simp: filter_empty_conv image_iff)

lemma scalar_key_total:
  assumes "distinct (map key rows)"
  shows "\<exists>x. scalar_one_or_none (filter (\<lambda>r. key r = i \<and> P r) rows) = Inr x"
  using filter_key_unique [OF assms, of i P] by (cases "filter (\<lambda>r. key r = i \<and> P r) rows") auto

lemma scalar_key_hit:
  assumes "distinct (map key rows)" and "r \<in> set rows" and "key r = i" and "P r"
  shows "scalar_one_or_none (filter (\<lambda>r. key r = i \<and> P r) rows) = Inr (Some r)"
proof -
  let ?f = "filter (\<lambda>r. key r = i \<and> P r) rows"
  have "r \<in> set ?f" and "length ?f \<le> 1" using assms filter_key_unique [OF assms(1)] by auto
  then have "?f = [r]" by (cases ?f) auto
  then show ?thesis by simp
qed

lemma runE:
  assumes "run m d = (r, d', out)" and "wp m Q R (fresh_session d)"
  obtains s where "committed s = d'" and "outbox s = out" and "case r of Inl e \<Rightarrow> R e s | Inr a \<Rightarrow> Q a s"
  using assms by (cases r) (auto simp: run_def wp_def split: prod.splits)

text \<open>Where a run of an operation returned, or raised.\<close>

lemma run_returns:
  assumes "\<not> isl (fst (run m d))"
  obtains t d' out where "run m d = (Inr t, d', out)"
  using assms by (cases "run m d"; cases "fst (run m d)") auto

lemma run_raises:
  assumes "isl (fst (run m d))"
  obtains e d' out where "run m d = (Inl e, d', out)"
  using assms by (cases "run m d"; cases "fst (run m d)") auto

text \<open>
  \<open>keeps I m\<close>: a run of \<open>m\<close> on a clean session leaves a committed database that satisfies \<open>I\<close>,
  whether it returns or raises.
\<close>

definition keeps :: "(db \<Rightarrow> bool) \<Rightarrow> 'a svc \<Rightarrow> bool" where
  "keeps I m \<longleftrightarrow> (\<forall>s. working s = committed s \<longrightarrow> I (committed s) \<longrightarrow>
     wp m (\<lambda>_ s'. I (committed s')) (\<lambda>_ s'. I (committed s')) s)"

lemma keepsI:
  "(\<And>s. working s = committed s \<Longrightarrow> I (committed s) \<Longrightarrow>
     wp m (\<lambda>_ s'. I (committed s')) (\<lambda>_ s'. I (committed s')) s) \<Longrightarrow> keeps I m"
  by (simp add: keeps_def)

lemma keeps_run: "keeps I m \<Longrightarrow> I d \<Longrightarrow> run m d = (r, d', out) \<Longrightarrow> I d'"
proof -
  assume "keeps I m" and "I d" and r: "run m d = (r, d', out)"
  then have "wp m (\<lambda>_ s'. I (committed s')) (\<lambda>_ s'. I (committed s')) (fresh_session d)"
    by (simp add: keeps_def)
  with r show "I d'"
    by (cases r) (auto simp: run_def wp_def split: prod.splits)
qed

end
