(* ===== verification/Audit_Trail.thy ===== *)
theory Audit_Trail
  imports Models
begin

text \<open>
  The audit trail: \<open>AuditLogRepository\<close> (\<open>app/repositories/audit_log.py\<close>) and
  \<open>AuditService.log\<close> (\<open>app/services/audit.py\<close>), which every service calls after its own commit.
\<close>

text \<open>\<open>AuditLogRepository.create\<close>: \<open>i\<close> is the value the primary key default draws.\<close>

definition audit_create ::
  "env \<Rightarrow> uuid \<Rightarrow> uuid option \<Rightarrow> actor_type \<Rightarrow> string \<Rightarrow> string option \<Rightarrow> uuid option \<Rightarrow> json option \<Rightarrow>
   string option \<Rightarrow> audit_log svc" where
  "audit_create en i actor_id actor_type action target_type target_id metadata ip_address =
     (let entry = \<lparr>a_id = i, a_actor_id = actor_id, a_actor_type = actor_type, a_action = action,
        a_target_type = target_type, a_target_id = target_id, a_metadata = metadata,
        a_ip_address = ip_address, a_created_at = now en\<rparr>
      in bindS (flush (insert_audit_log entry)) (\<lambda>_. returnS entry))"

text \<open>\<open>AuditService.log\<close>: any exception is swallowed and the session rolled back.\<close>

definition audit_log_write ::
  "env \<Rightarrow> uuid \<Rightarrow> uuid option \<Rightarrow> actor_type \<Rightarrow> string \<Rightarrow> string option \<Rightarrow> uuid option \<Rightarrow> json option \<Rightarrow>
   unit svc" where
  "audit_log_write en i actor_id actor_type action target_type target_id metadata =
     catchS
       (bindS (audit_create en i actor_id actor_type action target_type target_id metadata None) (\<lambda>_. commit))
       (\<lambda>_. True) (\<lambda>_. rollback)"

text \<open>\<open>log_sync\<close>, its counterpart for the synchronous Celery tasks.\<close>

definition log_sync ::
  "env \<Rightarrow> uuid \<Rightarrow> uuid option \<Rightarrow> actor_type \<Rightarrow> string \<Rightarrow> string option \<Rightarrow> uuid option \<Rightarrow> json option \<Rightarrow>
   unit svc" where
  "log_sync en i actor_id actor_type action target_type target_id metadata =
     catchS
       (let entry = \<lparr>a_id = i, a_actor_id = actor_id, a_actor_type = actor_type, a_action = action,
          a_target_type = target_type, a_target_id = target_id, a_metadata = metadata,
          a_ip_address = None, a_created_at = now en\<rparr>
        in bindS (flush (insert_audit_log entry)) (\<lambda>_. commit))
       (\<lambda>_. True) (\<lambda>_. rollback)"

text \<open>The filters of the admin list; an absent filter lets every row through.\<close>

definition opt_filter :: "('x \<Rightarrow> 'r \<Rightarrow> bool) \<Rightarrow> 'x option \<Rightarrow> 'r \<Rightarrow> bool" where
  "opt_filter p x r = (case x of None \<Rightarrow> True | Some v \<Rightarrow> p v r)"

definition audit_filter ::
  "uuid option \<Rightarrow> string option \<Rightarrow> timestamp option \<Rightarrow> timestamp option \<Rightarrow> audit_log \<Rightarrow> bool" where
  "audit_filter actor_id action from_date to_date a \<longleftrightarrow>
     opt_filter (\<lambda>v a. a_actor_id a = Some v) actor_id a \<and>
     opt_filter (\<lambda>v a. a_action a = v) action a \<and>
     opt_filter (\<lambda>v a. v \<le> a_created_at a) from_date a \<and>
     opt_filter (\<lambda>v a. a_created_at a \<le> v) to_date a"

text \<open>
  \<open>ORDER BY f DESC LIMIT limit OFFSET offset\<close>. SQL leaves the order of equal keys open; here they
  stay in insertion order.
\<close>

definition order_desc :: "('r \<Rightarrow> int) \<Rightarrow> 'r list \<Rightarrow> 'r list" where
  "order_desc f rows = sort_key (\<lambda>r. - f r) rows"

definition page :: "nat \<Rightarrow> nat \<Rightarrow> 'r list \<Rightarrow> 'r list" where
  "page lim off rows = take lim (drop off rows)"

definition audit_list_all ::
  "nat \<Rightarrow> nat \<Rightarrow> uuid option \<Rightarrow> string option \<Rightarrow> timestamp option \<Rightarrow> timestamp option \<Rightarrow> db \<Rightarrow> audit_log list" where
  "audit_list_all lim off actor_id action from_date to_date d =
     page lim off (order_desc a_created_at
       (filter (audit_filter actor_id action from_date to_date) (audit_logs d)))"

definition audit_count_all ::
  "uuid option \<Rightarrow> string option \<Rightarrow> timestamp option \<Rightarrow> timestamp option \<Rightarrow> db \<Rightarrow> nat" where
  "audit_count_all actor_id action from_date to_date d =
     length (filter (audit_filter actor_id action from_date to_date) (audit_logs d))"

section \<open>Lemmas\<close>

text \<open>
  Writing an audit entry has two outcomes, and neither is an exception: the entry is committed,
  or everything uncommitted is dropped.
\<close>

lemma wp_audit_log_write [wp_rules]:
  "wp (audit_log_write en i ai at act tt ti md) Q R s =
     (if clashes a_id \<lparr>a_id = i, a_actor_id = ai, a_actor_type = at, a_action = act, a_target_type = tt,
           a_target_id = ti, a_metadata = md, a_ip_address = None, a_created_at = now en\<rparr>
           (audit_logs (working s))
      then Q () (s\<lparr>working := committed s\<rparr>)
      else (let d = (working s)\<lparr>audit_logs := audit_logs (working s) @
              [\<lparr>a_id = i, a_actor_id = ai, a_actor_type = at, a_action = act, a_target_type = tt,
                a_target_id = ti, a_metadata = md, a_ip_address = None, a_created_at = now en\<rparr>]\<rparr>
            in Q () (s\<lparr>working := d, committed := d\<rparr>)))"
  by (simp add: audit_log_write_def audit_create_def insert_audit_log_def wp_rules Let_def)

lemma log_sync_eq: "log_sync = audit_log_write"
  by (intro ext) (simp add: log_sync_def audit_log_write_def audit_create_def Let_def bindS_def returnS_def
      commit_def flush_def catchS_def split: sum.split prod.split)

lemma audit_never_raises: "wp (audit_log_write en i ai at act tt ti md) (\<lambda>_ _. True) (\<lambda>_ _. False) s"
  by (simp add: wp_rules Let_def)

text \<open>The filters agree between the page and the count.\<close>

lemma length_order_desc [simp]: "length (order_desc f rows) = length rows"
  by (simp add: order_desc_def)

lemma set_order_desc [simp]: "set (order_desc f rows) = set rows"
  by (simp add: order_desc_def)

lemma set_page_subset: "set (page lim off rows) \<subseteq> set rows"
  by (auto simp: page_def dest!: in_set_takeD in_set_dropD)

lemma length_page: "length (page lim off rows) = min lim (length rows - off)"
  by (simp add: page_def min.commute)

lemma sorted_order_desc: "sorted (map (\<lambda>r. - f r) (order_desc f rows))"
  by (simp add: order_desc_def)

text \<open>Consecutive pages of one query cut the ordered rows without gap or overlap.\<close>

lemma page_append: "page m off rows @ page n (off + m) rows = page (m + n) off rows"
  by (simp add: page_def take_add add.commute [of off m] flip: drop_drop)

text \<open>On a clean session both outcomes are the database with some audit table.\<close>

lemma wp_audit_clean:
  assumes "working s = committed s"
    and "\<And>al. prefix (audit_logs (committed s)) al \<Longrightarrow> Q () (s\<lparr>working := (committed s)\<lparr>audit_logs := al\<rparr>, committed := (committed s)\<lparr>audit_logs := al\<rparr>\<rparr>)"
  shows "wp (audit_log_write en i ai at act tt ti md) Q R s"
  using assms(1) assms(2) [of "audit_logs (committed s)"] assms(2)
  by (simp add: wp_audit_log_write Let_def)

end
