(* ===== verification/Wallets.thy ===== *)
theory Wallets
  imports Audit_Trail
begin

text \<open>
  Wallets: \<open>WalletRepository\<close> (\<open>app/repositories/wallet.py\<close>) and \<open>WalletService\<close>
  (\<open>app/services/wallet.py\<close>). A balance is written with the value its caller computed; the column
  has the range of \<open>NUMERIC(20, 2)\<close> and a CHECK that it is not negative.
\<close>

section \<open>Repository\<close>

definition new_wallet :: "uuid \<Rightarrow> timestamp \<Rightarrow> uuid \<Rightarrow> string \<Rightarrow> wallet" where
  "new_wallet i ts user_id currency =
     \<lparr>w_id = i, w_user_id = user_id, w_currency = currency, w_balance = 0, w_is_active = True,
      w_deleted_at = None, w_created_at = ts\<rparr>"

definition wallet_create :: "env \<Rightarrow> uuid \<Rightarrow> uuid \<Rightarrow> string \<Rightarrow> wallet svc" where
  "wallet_create en i user_id currency =
     (let wallet = new_wallet i (now en) user_id currency
      in bindS (flush (insert_wallet wallet)) (\<lambda>_. returnS wallet))"

definition wallet_get_by_id :: "uuid \<Rightarrow> db \<Rightarrow> exn + wallet option" where
  "wallet_get_by_id wallet_id d =
     scalar_one_or_none (filter (\<lambda>w. w_id w = wallet_id \<and> w_deleted_at w = None) (wallets d))"

definition wallet_get_by_user_id :: "uuid \<Rightarrow> db \<Rightarrow> exn + wallet option" where
  "wallet_get_by_user_id user_id d =
     scalar_one_or_none (filter (\<lambda>w. w_user_id w = user_id \<and> w_deleted_at w = None) (wallets d))"

text \<open>\<open>SELECT ... FOR UPDATE\<close>: within one session the row it finds is that of \<open>get_by_id\<close>.\<close>

definition wallet_lock_for_update :: "uuid \<Rightarrow> db \<Rightarrow> exn + wallet option" where
  "wallet_lock_for_update wallet_id d =
     scalar_one_or_none (filter (\<lambda>w. w_id w = wallet_id \<and> w_deleted_at w = None) (wallets d))"

definition write_balance :: "uuid \<Rightarrow> money \<Rightarrow> db \<Rightarrow> exn + db" where
  "write_balance wallet_id new_balance d =
     (if \<not> fits_numeric new_balance then Inl DataError
      else if new_balance < 0 then Inl IntegrityError
      else Inr (d\<lparr>wallets := upd w_id wallet_id (\<lambda>w. w\<lparr>w_balance := new_balance\<rparr>) (wallets d)\<rparr>))"

definition wallet_update_balance :: "wallet \<Rightarrow> money \<Rightarrow> wallet svc" where
  "wallet_update_balance wallet new_balance =
     bindS (flush (write_balance (w_id wallet) new_balance))
       (\<lambda>_. returnS (wallet\<lparr>w_balance := new_balance\<rparr>))"

definition wallet_set_active :: "wallet \<Rightarrow> bool \<Rightarrow> wallet svc" where
  "wallet_set_active wallet active =
     bindS (flush (\<lambda>d. Inr (d\<lparr>wallets := upd w_id (w_id wallet) (\<lambda>w. w\<lparr>w_is_active := active\<rparr>) (wallets d)\<rparr>)))
       (\<lambda>_. returnS (wallet\<lparr>w_is_active := active\<rparr>))"

definition wallet_soft_delete :: "env \<Rightarrow> wallet \<Rightarrow> unit svc" where
  "wallet_soft_delete en wallet =
     flush (\<lambda>d. Inr (d\<lparr>wallets := upd w_id (w_id wallet) (\<lambda>w. w\<lparr>w_deleted_at := Some (now en)\<rparr>) (wallets d)\<rparr>))"

section \<open>Service\<close>

definition create_wallet :: "env \<Rightarrow> uuid \<Rightarrow> uuid \<Rightarrow> string \<Rightarrow> wallet svc" where
  "create_wallet en i user_id currency =
     bindS (query (wallet_get_by_user_id user_id)) (\<lambda>existing.
     if existing \<noteq> None
     then raiseS (ConflictError ''A wallet already exists for this user.'' ''WALLET_ALREADY_EXISTS'')
     else wallet_create en i user_id currency)"

definition get_wallet :: "uuid \<Rightarrow> db \<Rightarrow> exn + wallet" where
  "get_wallet user_id d =
     bindE (wallet_get_by_user_id user_id d) (\<lambda>wallet.
     case wallet of None \<Rightarrow> Inl (NotFoundError ''Wallet'') | Some w \<Rightarrow> Inr w)"

definition get_balance :: "uuid \<Rightarrow> db \<Rightarrow> exn + money" where
  "get_balance user_id d = bindE (get_wallet user_id d) (\<lambda>wallet. Inr (w_balance wallet))"

definition assert_wallet_active :: "uuid \<Rightarrow> db \<Rightarrow> exn + wallet" where
  "assert_wallet_active user_id d =
     bindE (get_wallet user_id d) (\<lambda>wallet.
     if \<not> w_is_active wallet
     then Inl (ForbiddenError ''Wallet is deactivated. Please contact support.'') else Inr wallet)"

section \<open>Lemmas\<close>

lemma new_wallet_simps [simp]:
  "w_id (new_wallet i ts u c) = i" "w_user_id (new_wallet i ts u c) = u"
  "w_currency (new_wallet i ts u c) = c" "w_balance (new_wallet i ts u c) = 0"
  "w_is_active (new_wallet i ts u c)" "w_deleted_at (new_wallet i ts u c) = None"
  by (simp_all add: new_wallet_def)

text \<open>A balance update is a column update of the wallets table.\<close>

interpretation bal: column_update w_id "\<lambda>w. w\<lparr>w_balance := b\<rparr>" for b
  by unfold_locales simp

interpretation act: column_update w_id "\<lambda>w. w\<lparr>w_is_active := a\<rparr>" for a
  by unfold_locales simp

lemma wallet_get_by_user_idD:
  "wallet_get_by_user_id u d = Inr (Some w) \<Longrightarrow> w \<in> set (wallets d) \<and> w_user_id w = u \<and> w_deleted_at w = None"
  unfolding wallet_get_by_user_id_def by (drule scalar_filter_Some) simp

lemma wallet_lockD:
  "wallet_lock_for_update i d = Inr (Some w) \<Longrightarrow> w \<in> set (wallets d) \<and> w_id w = i \<and> w_deleted_at w = None"
  unfolding wallet_lock_for_update_def by (drule scalar_filter_Some) simp

lemma wallet_lock_hit:
  "distinct (map w_id (wallets d)) \<Longrightarrow> w \<in> set (wallets d) \<Longrightarrow> w_deleted_at w = None \<Longrightarrow>
   wallet_lock_for_update (w_id w) d = Inr (Some w)"
  unfolding wallet_lock_for_update_def by (rule scalar_key_hit) simp_all

lemma wallet_user_hit:
  "distinct (map w_user_id (wallets d)) \<Longrightarrow> w \<in> set (wallets d) \<Longrightarrow> w_deleted_at w = None \<Longrightarrow>
   wallet_get_by_user_id (w_user_id w) d = Inr (Some w)"
  unfolding wallet_get_by_user_id_def by (rule scalar_key_hit) simp_all

lemma wallet_lock_frame [simp]:
  "wallet_lock_for_update i (d\<lparr>transactions := ts\<rparr>) = wallet_lock_for_update i d"
  "wallet_lock_for_update i (d\<lparr>ledger_entries := es\<rparr>) = wallet_lock_for_update i d"
  by (simp_all add: wallet_lock_for_update_def)

text \<open>What is read after a balance update.\<close>

lemma write_balance_Inr_iff:
  "write_balance i b d = Inr d' \<longleftrightarrow> fits_numeric b \<and> 0 \<le> b \<and>
     d' = d\<lparr>wallets := upd w_id i (\<lambda>w. w\<lparr>w_balance := b\<rparr>) (wallets d)\<rparr>"
  by (auto simp: write_balance_def)

lemma lock_after_write_same:
  assumes "wallet_lock_for_update i d = Inr (Some w)" and "write_balance i b d = Inr d'"
  shows "wallet_lock_for_update i d' = Inr (Some (w\<lparr>w_balance := b\<rparr>))"
  using assms by (simp add: wallet_lock_for_update_def write_balance_Inr_iff scalar_Inr_Some_iff bal.filter_upd_hit)

lemma lock_after_write_other:
  assumes "i \<noteq> j" and "write_balance i b d = Inr d'"
  shows "wallet_lock_for_update j d' = wallet_lock_for_update j d"
  using assms by (simp add: wallet_lock_for_update_def write_balance_Inr_iff bal.filter_upd_other)

lemma wp_wallet_update_balance [wp_rules]:
  "wp (wallet_update_balance w b) Q R s =
     (case write_balance (w_id w) b (working s) of Inl e \<Rightarrow> R e s
      | Inr d \<Rightarrow> Q (w\<lparr>w_balance := b\<rparr>) (s\<lparr>working := d\<rparr>))"
  by (simp add: wallet_update_balance_def wp_rules split: sum.split)

lemma wp_wallet_create [wp_rules]:
  "wp (wallet_create en i u c) Q R s =
     (case insert_wallet (new_wallet i (now en) u c) (working s) of Inl e \<Rightarrow> R e s
      | Inr d \<Rightarrow> Q (new_wallet i (now en) u c) (s\<lparr>working := d\<rparr>))"
  by (simp add: wallet_create_def wp_rules Let_def split: sum.split)

lemma wp_update_balanceI [wp_intros]:
  "(\<And>e. R e s) \<Longrightarrow>
   (\<And>d. fits_numeric b \<Longrightarrow> 0 \<le> b \<Longrightarrow>
      d = (working s)\<lparr>wallets := upd w_id (w_id w) (\<lambda>w. w\<lparr>w_balance := b\<rparr>) (wallets (working s))\<rparr> \<Longrightarrow>
      Q (w\<lparr>w_balance := b\<rparr>) (s\<lparr>working := d\<rparr>)) \<Longrightarrow>
   wp (wallet_update_balance w b) Q R s"
  by (simp add: wp_wallet_update_balance write_balance_def)

end
