(* ===== verification/Transactions.thy ===== *)
theory Transactions
  imports Wallets
begin

text \<open>
  Transactions and the ledger: \<open>TransactionRepository\<close>, \<open>LedgerRepository\<close>,
  \<open>TransactionService\<close>, \<open>LedgerService\<close> and the wallet statement. The repository enforces the
  state machine \<^const>\<open>valid_transitions\<close>; the ledger repository only appends.
\<close>

section \<open>Transaction repository\<close>

text \<open>The row \<open>create\<close> builds when only its required arguments are given.\<close>

definition new_transaction ::
  "uuid \<Rightarrow> timestamp \<Rightarrow> string \<Rightarrow> transaction_type \<Rightarrow> money \<Rightarrow> uuid \<Rightarrow> transaction" where
  "new_transaction i ts ref ty amount user_id =
     \<lparr>t_id = i, t_reference = ref, t_type = ty, t_status = PENDING, t_amount = amount,
      t_currency = ''NGN'', t_source_wallet_id = None, t_destination_wallet_id = None,
      t_initiated_by_user_id = user_id, t_provider_reference = None, t_idempotency_key = None,
      t_extra_data = None, t_failure_reason = None, t_risk_flagged = False,
      t_risk_flag_reason = None, t_created_at = ts\<rparr>"

definition transaction_create :: "transaction \<Rightarrow> transaction svc" where
  "transaction_create txn = bindS (flush (insert_transaction txn)) (\<lambda>_. returnS txn)"

definition transaction_get_by_id :: "uuid \<Rightarrow> db \<Rightarrow> exn + transaction option" where
  "transaction_get_by_id i d = scalar_one_or_none (filter (\<lambda>t. t_id t = i) (transactions d))"

definition get_by_reference :: "string \<Rightarrow> db \<Rightarrow> exn + transaction option" where
  "get_by_reference ref d = scalar_one_or_none (filter (\<lambda>t. t_reference t = ref) (transactions d))"

definition get_by_provider_reference :: "string \<Rightarrow> db \<Rightarrow> exn + transaction option" where
  "get_by_provider_reference ref d =
     scalar_one_or_none (filter (\<lambda>t. t_provider_reference t = Some ref) (transactions d))"

definition get_by_idempotency_key :: "string \<Rightarrow> db \<Rightarrow> exn + transaction option" where
  "get_by_idempotency_key key d =
     scalar_one_or_none (filter (\<lambda>t. t_idempotency_key t = Some key) (transactions d))"

text \<open>
  \<open>if idempotency_key: existing = await ...\<close>: the lookup every service makes before it creates
  a transaction; a missing or empty key skips it.
\<close>

definition find_existing :: "string option \<Rightarrow> db \<Rightarrow> exn + transaction option" where
  "find_existing idempotency_key d =
     (if truthy idempotency_key then get_by_idempotency_key (the idempotency_key) d else Inr None)"

definition get_by_wallet :: "uuid \<Rightarrow> nat \<Rightarrow> nat \<Rightarrow> db \<Rightarrow> transaction list \<times> nat" where
  "get_by_wallet wallet_id lim off d =
     (let wallet_filter = (\<lambda>t. t_source_wallet_id t = Some wallet_id \<or> t_destination_wallet_id t = Some wallet_id);
          total = length (filter wallet_filter (transactions d));
          rows = page lim off (order_desc t_created_at (filter wallet_filter (transactions d)))
      in (rows, total))"

definition get_by_user ::
  "uuid \<Rightarrow> nat \<Rightarrow> nat \<Rightarrow> transaction_type option \<Rightarrow> transaction_status option \<Rightarrow> db \<Rightarrow> transaction list \<times> nat" where
  "get_by_user user_id lim off type_filter status_filter d =
     (let where_clause = (\<lambda>t. t_initiated_by_user_id t = user_id \<and>
            opt_filter (\<lambda>v t. t_type t = v) type_filter t \<and>
            opt_filter (\<lambda>v t. t_status t = v) status_filter t);
          total = length (filter where_clause (transactions d));
          rows = page lim off (order_desc t_created_at (filter where_clause (transactions d)))
      in (rows, total))"

fun status_value :: "transaction_status \<Rightarrow> string" where
  "status_value PENDING = ''pending''"
| "status_value PROCESSING = ''processing''"
| "status_value COMPLETED = ''completed''"
| "status_value FAILED = ''failed''"
| "status_value REVERSED = ''reversed''"

text \<open>The columns \<open>update_status\<close> sets: a reason or provider reference only when one is given.\<close>

definition set_status ::
  "transaction_status \<Rightarrow> string option \<Rightarrow> string option \<Rightarrow> transaction \<Rightarrow> transaction" where
  "set_status new_status failure_reason provider_reference t =
     t\<lparr>t_status := new_status,
       t_failure_reason := (if failure_reason \<noteq> None then failure_reason else t_failure_reason t),
       t_provider_reference := (if provider_reference \<noteq> None then provider_reference else t_provider_reference t)\<rparr>"

definition update_status ::
  "transaction \<Rightarrow> transaction_status \<Rightarrow> string option \<Rightarrow> string option \<Rightarrow> transaction svc" where
  "update_status txn new_status failure_reason provider_reference =
     (if new_status \<notin> set (valid_transitions (t_status txn))
      then raiseS (ValidationError
        (''Cannot transition transaction from '' @ [CHR 0x27] @ status_value (t_status txn) @ [CHR 0x27] @
         '' to '' @ [CHR 0x27] @ status_value new_status @ [CHR 0x27] @ ''.'') ''INVALID_STATUS_TRANSITION'')
      else let f = set_status new_status failure_reason provider_reference
        in bindS (flush (\<lambda>d. Inr (d\<lparr>transactions := upd t_id (t_id txn) f (transactions d)\<rparr>)))
             (\<lambda>_. returnS (f txn)))"

definition transaction_admin_filter ::
  "transaction_status option \<Rightarrow> transaction_type option \<Rightarrow> bool option \<Rightarrow> timestamp option \<Rightarrow>
   timestamp option \<Rightarrow> transaction \<Rightarrow> bool" where
  "transaction_admin_filter status ty risk_flagged from_date to_date t \<longleftrightarrow>
     opt_filter (\<lambda>v t. t_status t = v) status t \<and>
     opt_filter (\<lambda>v t. t_type t = v) ty t \<and>
     opt_filter (\<lambda>v t. t_risk_flagged t = v) risk_flagged t \<and>
     opt_filter (\<lambda>v t. v \<le> t_created_at t) from_date t \<and>
     opt_filter (\<lambda>v t. t_created_at t \<le> v) to_date t"

definition list_admin ::
  "nat \<Rightarrow> nat \<Rightarrow> transaction_status option \<Rightarrow> transaction_type option \<Rightarrow> bool option \<Rightarrow>
   timestamp option \<Rightarrow> timestamp option \<Rightarrow> db \<Rightarrow> transaction list" where
  "list_admin lim off status ty risk_flagged from_date to_date d =
     page lim off (order_desc t_created_at
       (filter (transaction_admin_filter status ty risk_flagged from_date to_date) (transactions d)))"

definition count_admin ::
  "transaction_status option \<Rightarrow> transaction_type option \<Rightarrow> bool option \<Rightarrow>
   timestamp option \<Rightarrow> timestamp option \<Rightarrow> db \<Rightarrow> nat" where
  "count_admin status ty risk_flagged from_date to_date d =
     length (filter (transaction_admin_filter status ty risk_flagged from_date to_date) (transactions d))"

section \<open>Ledger\<close>

definition create_entry ::
  "env \<Rightarrow> uuid \<Rightarrow> uuid \<Rightarrow> uuid \<Rightarrow> entry_type \<Rightarrow> money \<Rightarrow> string \<Rightarrow> money \<Rightarrow> ledger_entry svc" where
  "create_entry en i transaction_id wallet_id entry_type amount currency balance_after =
     (let entry = \<lparr>e_id = i, e_transaction_id = transaction_id, e_wallet_id = wallet_id,
        e_entry_type = entry_type, e_amount = amount, e_currency = currency,
        e_balance_after = balance_after, e_created_at = now en\<rparr>
      in bindS (flush (insert_ledger_entry entry)) (\<lambda>_. returnS entry))"

definition ledger_get_by_transaction :: "uuid \<Rightarrow> db \<Rightarrow> ledger_entry list" where
  "ledger_get_by_transaction transaction_id d =
     sort_key e_created_at (filter (\<lambda>e. e_transaction_id e = transaction_id) (ledger_entries d))"

definition ledger_get_by_wallet :: "uuid \<Rightarrow> nat \<Rightarrow> nat \<Rightarrow> db \<Rightarrow> ledger_entry list \<times> nat" where
  "ledger_get_by_wallet wallet_id lim off d =
     (let total = length (filter (\<lambda>e. e_wallet_id e = wallet_id) (ledger_entries d));
          rows = page lim off (order_desc e_created_at (filter (\<lambda>e. e_wallet_id e = wallet_id) (ledger_entries d)))
      in (rows, total))"

text \<open>\<open>i\<close> and \<open>j\<close> are the primary keys the two rows draw.\<close>

definition post_double_entry ::
  "env \<Rightarrow> uuid \<Rightarrow> uuid \<Rightarrow> uuid \<Rightarrow> uuid \<Rightarrow> uuid \<Rightarrow> money \<Rightarrow> string \<Rightarrow> money \<Rightarrow> money \<Rightarrow>
   (ledger_entry \<times> ledger_entry) svc" where
  "post_double_entry en i j transaction_id debit_wallet_id credit_wallet_id amount currency
       debit_balance_after credit_balance_after =
     bindS (create_entry en i transaction_id debit_wallet_id DEBIT amount currency debit_balance_after) (\<lambda>debit.
     bindS (create_entry en j transaction_id credit_wallet_id CREDIT amount currency credit_balance_after) (\<lambda>credit.
     returnS (debit, credit)))"

section \<open>Transaction service and wallet statement\<close>

definition create_transaction ::
  "env \<Rightarrow> transaction_type \<Rightarrow> money \<Rightarrow> uuid \<Rightarrow> uuid option \<Rightarrow> uuid option \<Rightarrow> string \<Rightarrow> string option \<Rightarrow>
   json option \<Rightarrow> transaction svc" where
  "create_transaction en ty amount initiated_by source_wallet_id destination_wallet_id currency
       idempotency_key extra_data =
     bindS (query (find_existing idempotency_key)) (\<lambda>existing.
     case existing of Some t \<Rightarrow> returnS t
     | None \<Rightarrow>
         transaction_create ((new_transaction (uuid4 en 1) (now en)
             (''txn_'' @ uuid_str (uuid4 en 0)) ty amount initiated_by)
           \<lparr>t_status := PENDING, t_currency := currency, t_source_wallet_id := source_wallet_id,
            t_destination_wallet_id := destination_wallet_id, t_idempotency_key := idempotency_key,
            t_extra_data := extra_data\<rparr>))"

definition get_transaction :: "string \<Rightarrow> uuid \<Rightarrow> db \<Rightarrow> exn + transaction" where
  "get_transaction ref requesting_user_id d =
     bindE (get_by_reference ref d) (\<lambda>txn.
     case txn of None \<Rightarrow> Inl (NotFoundError ''Transaction'')
     | Some t \<Rightarrow> if t_initiated_by_user_id t \<noteq> requesting_user_id then Inl (NotFoundError ''Transaction'')
                else Inr t)"

record 'r paginated =
  pg_items :: "'r list"
  pg_total :: nat
  pg_limit :: nat
  pg_offset :: nat

definition list_transactions ::
  "uuid \<Rightarrow> nat \<Rightarrow> nat \<Rightarrow> transaction_type option \<Rightarrow> transaction_status option \<Rightarrow> db \<Rightarrow> transaction paginated" where
  "list_transactions user_id lim off type_filter status_filter d =
     (let (items, total) = get_by_user user_id lim off type_filter status_filter d
      in \<lparr>pg_items = items, pg_total = total, pg_limit = lim, pg_offset = off\<rparr>)"

definition get_statement :: "uuid \<Rightarrow> nat \<Rightarrow> nat \<Rightarrow> db \<Rightarrow> exn + transaction paginated" where
  "get_statement user_id lim off d =
     bindE (get_wallet user_id d) (\<lambda>wallet.
     let (items, total) = get_by_wallet (w_id wallet) lim off d
     in Inr \<lparr>pg_items = items, pg_total = total, pg_limit = lim, pg_offset = off\<rparr>)"

section \<open>Lemmas\<close>

lemma new_transaction_simps [simp]:
  "t_id (new_transaction i ts ref ty a u) = i"
  "t_reference (new_transaction i ts ref ty a u) = ref"
  "t_type (new_transaction i ts ref ty a u) = ty"
  "t_status (new_transaction i ts ref ty a u) = PENDING"
  "t_amount (new_transaction i ts ref ty a u) = a"
  "t_currency (new_transaction i ts ref ty a u) = ''NGN''"
  "t_source_wallet_id (new_transaction i ts ref ty a u) = None"
  "t_destination_wallet_id (new_transaction i ts ref ty a u) = None"
  "t_initiated_by_user_id (new_transaction i ts ref ty a u) = u"
  "t_provider_reference (new_transaction i ts ref ty a u) = None"
  "t_idempotency_key (new_transaction i ts ref ty a u) = None"
  "t_extra_data (new_transaction i ts ref ty a u) = None"
  "t_created_at (new_transaction i ts ref ty a u) = ts"
  by (simp_all add: new_transaction_def)

lemma set_status_simps [simp]:
  "t_id (set_status st fr pr t) = t_id t" "t_status (set_status st fr pr t) = st"
  "t_type (set_status st fr pr t) = t_type t" "t_amount (set_status st fr pr t) = t_amount t"
  "t_currency (set_status st fr pr t) = t_currency t"
  "t_source_wallet_id (set_status st fr pr t) = t_source_wallet_id t"
  "t_destination_wallet_id (set_status st fr pr t) = t_destination_wallet_id t"
  "t_reference (set_status st fr pr t) = t_reference t"
  "t_initiated_by_user_id (set_status st fr pr t) = t_initiated_by_user_id t"
  "t_idempotency_key (set_status st fr pr t) = t_idempotency_key t"
  "t_extra_data (set_status st fr pr t) = t_extra_data t"
  "t_created_at (set_status st fr pr t) = t_created_at t"
  "t_provider_reference (set_status st fr None t) = t_provider_reference t"
  by (simp_all add: set_status_def)

interpretation stat: column_update t_id "set_status st fr pr" for st fr pr
  by unfold_locales simp

lemma transaction_get_by_idD:
  "transaction_get_by_id i d = Inr (Some t) \<Longrightarrow> t \<in> set (transactions d) \<and> t_id t = i"
  unfolding transaction_get_by_id_def by (drule scalar_filter_Some) simp

lemma get_by_referenceD:
  "get_by_reference r d = Inr (Some t) \<Longrightarrow> t \<in> set (transactions d) \<and> t_reference t = r"
  unfolding get_by_reference_def by (drule scalar_filter_Some) simp

lemma get_by_provider_referenceD:
  "get_by_provider_reference r d = Inr (Some t) \<Longrightarrow>
   t \<in> set (transactions d) \<and> t_provider_reference t = Some r"
  unfolding get_by_provider_reference_def by (drule scalar_filter_Some) simp

lemma get_by_idempotency_keyD:
  "get_by_idempotency_key k d = Inr (Some t) \<Longrightarrow> t \<in> set (transactions d) \<and> t_idempotency_key t = Some k"
  unfolding get_by_idempotency_key_def by (drule scalar_filter_Some) simp

lemma find_existing_Some_iff:
  "find_existing k d = Inr (Some t) \<longleftrightarrow> truthy k \<and> get_by_idempotency_key (the k) d = Inr (Some t)"
  by (auto simp: find_existing_def)

lemma find_existingD:
  "find_existing k d = Inr (Some t) \<Longrightarrow> truthy k \<and> t \<in> set (transactions d) \<and> t_idempotency_key t = k"
  by (cases k) (auto simp: find_existing_Some_iff dest: get_by_idempotency_keyD)

lemma wp_transaction_create [wp_rules]:
  "wp (transaction_create t) Q R s =
     (case insert_transaction t (working s) of Inl e \<Rightarrow> R e s | Inr d \<Rightarrow> Q t (s\<lparr>working := d\<rparr>))"
  by (simp add: transaction_create_def wp_rules split: sum.split)

text \<open>A status update either is refused by the state machine or rewrites one row.\<close>

lemma wp_update_status [wp_rules]:
  "wp (update_status t st fr pr) Q R s =
     (if st \<in> set (valid_transitions (t_status t))
      then Q (set_status st fr pr t)
        (s\<lparr>working := (working s)\<lparr>transactions := upd t_id (t_id t) (set_status st fr pr) (transactions (working s))\<rparr>\<rparr>)
      else R (ValidationError
        (''Cannot transition transaction from '' @ [CHR 0x27] @ status_value (t_status t) @ [CHR 0x27] @
         '' to '' @ [CHR 0x27] @ status_value st @ [CHR 0x27] @ ''.'') ''INVALID_STATUS_TRANSITION'') s)"
  by (simp add: update_status_def wp_rules Let_def)

lemma wp_create_entry [wp_rules]:
  "wp (create_entry en i ti wi ty a c b) Q R s =
     (let e = \<lparr>e_id = i, e_transaction_id = ti, e_wallet_id = wi, e_entry_type = ty, e_amount = a,
        e_currency = c, e_balance_after = b, e_created_at = now en\<rparr>
      in case insert_ledger_entry e (working s) of Inl x \<Rightarrow> R x s | Inr d \<Rightarrow> Q e (s\<lparr>working := d\<rparr>))"
  by (simp add: create_entry_def wp_rules Let_def split: sum.split)

text \<open>Ownership is enforced by the lookup itself: a foreign transaction is not found.\<close>

lemma get_transaction_owner:
  "get_transaction ref uid d = Inr t \<Longrightarrow>
   t \<in> set (transactions d) \<and> t_reference t = ref \<and> t_initiated_by_user_id t = uid"
  by (auto simp: get_transaction_def bindE_Inr_iff split: option.splits if_splits dest: get_by_referenceD)

text \<open>The keys of a transaction are not taken, and it refers to rows that exist.\<close>

definition fresh_in :: "transaction \<Rightarrow> db \<Rightarrow> bool" where
  "fresh_in t d \<longleftrightarrow> \<not> clashes t_id t (transactions d) \<and> \<not> clashes t_reference t (transactions d) \<and>
     \<not> clashes_opt t_idempotency_key t (transactions d) \<and>
     refers_opt (t_source_wallet_id t) w_id (wallets d) \<and> refers_opt (t_destination_wallet_id t) w_id (wallets d) \<and>
     refers (t_initiated_by_user_id t) u_id (users d)"

text \<open>The writes as introduction rules.\<close>

lemma insert_transaction_Inr_iff:
  "insert_transaction t d = Inr d' \<longleftrightarrow> transaction_fits t \<and> fresh_in t d \<and>
     d' = d\<lparr>transactions := transactions d @ [t]\<rparr>"
  by (auto simp: insert_transaction_def fresh_in_def)

lemma wp_transaction_createI [wp_intros]:
  "(\<And>e. R e s) \<Longrightarrow>
   (\<And>d. transaction_fits t \<Longrightarrow> fresh_in t (working s) \<Longrightarrow>
      d = (working s)\<lparr>transactions := transactions (working s) @ [t]\<rparr> \<Longrightarrow> Q t (s\<lparr>working := d\<rparr>)) \<Longrightarrow>
   wp (transaction_create t) Q R s"
  by (auto simp: wp_transaction_create insert_transaction_Inr_iff split: sum.split)

lemma wp_update_statusI [wp_intros]:
  "(\<And>e. R e s) \<Longrightarrow>
   (\<And>d. st \<in> set (valid_transitions (t_status t)) \<Longrightarrow>
      d = (working s)\<lparr>transactions := upd t_id (t_id t) (set_status st fr pr) (transactions (working s))\<rparr> \<Longrightarrow>
      Q (set_status st fr pr t) (s\<lparr>working := d\<rparr>)) \<Longrightarrow>
   wp (update_status t st fr pr) Q R s"
  by (simp add: wp_update_status)

lemma wp_create_entryI [wp_intros]:
  "(\<And>e. R e s) \<Longrightarrow>
   (\<And>e d. e = \<lparr>e_id = i, e_transaction_id = ti, e_wallet_id = wi, e_entry_type = ty, e_amount = a,
        e_currency = c, e_balance_after = b, e_created_at = now en\<rparr> \<Longrightarrow>
      d = (working s)\<lparr>ledger_entries := ledger_entries (working s) @ [e]\<rparr> \<Longrightarrow> Q e (s\<lparr>working := d\<rparr>)) \<Longrightarrow>
   wp (create_entry en i ti wi ty a c b) Q R s"
  by (simp add: wp_create_entry Let_def insert_ledger_entry_def)

end
