(* ===== verification/Fraud.thy ===== *)
theory Fraud
  imports Transactions
begin

text \<open>
  The fraud rules: the queries of \<open>app/repositories/fraud.py\<close>, the checks and flags of
  \<open>app/services/fraud.py\<close>, and the Celery task \<open>flag_transaction_risk\<close>
  (\<open>app/workers/fraud_tasks.py\<close>). The checks only read, so they are functions of the database.
\<close>

definition seconds :: "int \<Rightarrow> timestamp" where
  "seconds n = n * 1000000"

text \<open>\<open>now.replace(hour=0, minute=0, second=0, microsecond=0)\<close> in UTC.\<close>

definition day_start_of :: "timestamp \<Rightarrow> timestamp" where
  "day_start_of t = t - t mod seconds 86400"

section \<open>Queries\<close>

definition get_daily_outgoing_sum :: "uuid \<Rightarrow> transaction_type \<Rightarrow> timestamp \<Rightarrow> db \<Rightarrow> money" where
  "get_daily_outgoing_sum user_id txn_type day_start d =
     (\<Sum>t\<leftarrow>filter (\<lambda>t. t_initiated_by_user_id t = user_id \<and> t_type t = txn_type \<and>
        t_status t = COMPLETED \<and> day_start \<le> t_created_at t) (transactions d). t_amount t)"

definition count_recent_transfers :: "uuid \<Rightarrow> uuid \<Rightarrow> money \<Rightarrow> timestamp \<Rightarrow> db \<Rightarrow> nat" where
  "count_recent_transfers source_wallet_id destination_wallet_id amount since d =
     length (filter (\<lambda>t. t_source_wallet_id t = Some source_wallet_id \<and>
       t_destination_wallet_id t = Some destination_wallet_id \<and> t_amount t = amount \<and>
       t_type t = TRANSFER \<and> since \<le> t_created_at t) (transactions d))"

text \<open>\<open>COUNT(DISTINCT destination_wallet_id)\<close>: NULL is not counted.\<close>

definition count_distinct_recipients_recently :: "uuid \<Rightarrow> timestamp \<Rightarrow> db \<Rightarrow> nat" where
  "count_distinct_recipients_recently source_wallet_id since d =
     length (remdups (filter (\<lambda>x. x \<noteq> None) (map t_destination_wallet_id
       (filter (\<lambda>t. t_source_wallet_id t = Some source_wallet_id \<and> t_type t = TRANSFER \<and>
          since \<le> t_created_at t) (transactions d)))))"

section \<open>Checks\<close>

definition single_limit :: "settings \<Rightarrow> int \<Rightarrow> int" where
  "single_limit cfg kyc_tier =
     (if kyc_tier = 1 then KYC_TIER1_SINGLE_LIMIT cfg else KYC_TIER2_SINGLE_LIMIT cfg)"

definition daily_limit :: "settings \<Rightarrow> int \<Rightarrow> int" where
  "daily_limit cfg kyc_tier =
     (if kyc_tier = 1 then KYC_TIER1_DAILY_LIMIT cfg else KYC_TIER2_DAILY_LIMIT cfg)"

definition enforce_kyc_single_limit :: "settings \<Rightarrow> int \<Rightarrow> money \<Rightarrow> exn + unit" where
  "enforce_kyc_single_limit cfg kyc_tier amount =
     (if kyc_tier = 0
      then Inl (KYCTierError (''KYC verification is required to initiate transactions. '' @
                              ''Please complete Tier 1 verification.''))
      else if naira (single_limit cfg kyc_tier) < amount
      then Inl (KYCTierError (''Amount exceeds the single-transaction limit of '' @
             show_thousands (single_limit cfg kyc_tier) @ '' NGN for KYC Tier '' @
             show_int kyc_tier @ ''.''))
      else Inr ())"

definition enforce_daily_limit ::
  "settings \<Rightarrow> env \<Rightarrow> uuid \<Rightarrow> int \<Rightarrow> money \<Rightarrow> transaction_type \<Rightarrow> db \<Rightarrow> exn + unit" where
  "enforce_daily_limit cfg en user_id kyc_tier amount txn_type d =
     (let daily_sum = get_daily_outgoing_sum user_id txn_type (day_start_of (now en)) d
      in if naira (daily_limit cfg kyc_tier) < daily_sum + amount then Inl DailyLimitError else Inr ())"

definition enforce_no_duplicate_transfer ::
  "settings \<Rightarrow> env \<Rightarrow> uuid \<Rightarrow> uuid \<Rightarrow> money \<Rightarrow> db \<Rightarrow> exn + unit" where
  "enforce_no_duplicate_transfer cfg en source_wallet_id destination_wallet_id amount d =
     (let window_start = now en - seconds (FRAUD_DUPLICATE_WINDOW_SECONDS cfg)
      in if 0 < count_recent_transfers source_wallet_id destination_wallet_id amount window_start d
         then Inl DuplicateTransferError else Inr ())"

definition check_transfer ::
  "settings \<Rightarrow> env \<Rightarrow> user \<Rightarrow> wallet \<Rightarrow> uuid \<Rightarrow> money \<Rightarrow> db \<Rightarrow> exn + unit" where
  "check_transfer cfg en sender_user sender_wallet recipient_wallet_id amount d =
     bindE (enforce_kyc_single_limit cfg (u_kyc_tier sender_user) amount) (\<lambda>_.
     bindE (enforce_daily_limit cfg en (u_id sender_user) (u_kyc_tier sender_user) amount TRANSFER d) (\<lambda>_.
     enforce_no_duplicate_transfer cfg en (w_id sender_wallet) recipient_wallet_id amount d))"

definition check_merchant_payment ::
  "settings \<Rightarrow> env \<Rightarrow> user \<Rightarrow> wallet \<Rightarrow> uuid \<Rightarrow> money \<Rightarrow> db \<Rightarrow> exn + unit" where
  "check_merchant_payment cfg en user wallet merchant_wallet_id amount d =
     bindE (enforce_kyc_single_limit cfg (u_kyc_tier user) amount) (\<lambda>_.
     enforce_daily_limit cfg en (u_id user) (u_kyc_tier user) amount MERCHANT_PAYMENT d)"

definition check_withdrawal ::
  "settings \<Rightarrow> env \<Rightarrow> user \<Rightarrow> wallet \<Rightarrow> money \<Rightarrow> db \<Rightarrow> exn + unit" where
  "check_withdrawal cfg en user wallet amount d =
     (if u_kyc_tier user < 2
      then Inl (KYCTierError (''Withdrawals require KYC Tier 2 verification. '' @
                              ''Please complete identity verification to unlock withdrawals.''))
      else bindE (enforce_kyc_single_limit cfg (u_kyc_tier user) amount) (\<lambda>_.
           enforce_daily_limit cfg en (u_id user) (u_kyc_tier user) amount WITHDRAWAL d))"

section \<open>Flags\<close>

definition maybe_flag_merchant_payment ::
  "settings \<Rightarrow> env \<Rightarrow> uuid \<Rightarrow> user \<Rightarrow> money \<Rightarrow> unit svc" where
  "maybe_flag_merchant_payment cfg en transaction_id user amount =
     (let threshold = naira (FRAUD_MERCHANT_PAYMENT_FLAG_THRESHOLD cfg)
      in if u_kyc_tier user = 1 \<and> threshold < amount
         then delay en (FlagTransactionRisk transaction_id (LargeMerchantPayment amount))
         else returnS ())"

definition maybe_flag_rapid_transfers :: "settings \<Rightarrow> env \<Rightarrow> uuid \<Rightarrow> uuid \<Rightarrow> unit svc" where
  "maybe_flag_rapid_transfers cfg en transaction_id sender_wallet_id =
     (let window_start = now en - seconds (FRAUD_RAPID_TRANSFER_WINDOW_SECONDS cfg)
      in bindS (select (count_distinct_recipients_recently sender_wallet_id window_start)) (\<lambda>distinct_count.
         if FRAUD_RAPID_TRANSFER_COUNT cfg < int distinct_count
         then delay en (FlagTransactionRisk transaction_id
                (RapidTransfers distinct_count (FRAUD_RAPID_TRANSFER_WINDOW_SECONDS cfg div 60)))
         else returnS ()))"

definition set_risk :: "flag_reason \<Rightarrow> transaction \<Rightarrow> transaction" where
  "set_risk reason t = t\<lparr>t_risk_flagged := True, t_risk_flag_reason := Some reason\<rparr>"

definition flag_transaction_risk :: "env \<Rightarrow> uuid \<Rightarrow> flag_reason \<Rightarrow> unit svc" where
  "flag_transaction_risk en transaction_id reason =
     bindS (query (transaction_get_by_id transaction_id)) (\<lambda>txn.
     case txn of None \<Rightarrow> returnS ()
     | Some t \<Rightarrow>
       if t_risk_flagged t then returnS ()
       else
         bindS (flush (\<lambda>d. Inr (d\<lparr>transactions := upd t_id (t_id t) (set_risk reason) (transactions d)\<rparr>))) (\<lambda>_.
         bindS commit (\<lambda>_.
         log_sync en (uuid4 en 0) (Some (t_initiated_by_user_id t)) ACTOR_SYSTEM
           ''admin.transaction_flagged'' (Some ''transaction'') (Some (t_id t))
           (Some [(''reason'', JReason reason)]))))"

section \<open>Lemmas\<close>

lemma set_risk_simps [simp]:
  "t_id (set_risk r t) = t_id t" "t_status (set_risk r t) = t_status t" "t_type (set_risk r t) = t_type t"
  "t_amount (set_risk r t) = t_amount t" "t_source_wallet_id (set_risk r t) = t_source_wallet_id t"
  "t_destination_wallet_id (set_risk r t) = t_destination_wallet_id t"
  "t_reference (set_risk r t) = t_reference t" "t_provider_reference (set_risk r t) = t_provider_reference t"
  "t_idempotency_key (set_risk r t) = t_idempotency_key t" "t_risk_flagged (set_risk r t)"
  "t_initiated_by_user_id (set_risk r t) = t_initiated_by_user_id t"
  "t_created_at (set_risk r t) = t_created_at t" "t_extra_data (set_risk r t) = t_extra_data t"
  by (simp_all add: set_risk_def)

interpretation risk: column_update t_id "set_risk r" for r
  by unfold_locales simp

lemma day_start_of_bounds: "day_start_of t \<le> t" "t < day_start_of t + seconds 86400"
proof -
  have "0 \<le> t mod seconds 86400" "t mod seconds 86400 < seconds 86400"
    by (simp_all add: seconds_def)
  then show "day_start_of t \<le> t" "t < day_start_of t + seconds 86400"
    by (simp_all add: day_start_of_def)
qed

lemma enforce_kyc_single_limit_ok:
  "enforce_kyc_single_limit cfg tier a = Inr () \<longleftrightarrow> tier \<noteq> 0 \<and> a \<le> naira (single_limit cfg tier)"
  by (auto simp: enforce_kyc_single_limit_def)

lemma enforce_daily_limit_ok:
  "enforce_daily_limit cfg en u tier a ty d = Inr () \<longleftrightarrow>
     get_daily_outgoing_sum u ty (day_start_of (now en)) d + a \<le> naira (daily_limit cfg tier)"
  by (auto simp: enforce_daily_limit_def Let_def)

lemma enforce_no_duplicate_ok:
  "enforce_no_duplicate_transfer cfg en src dst a d = Inr () \<longleftrightarrow>
     count_recent_transfers src dst a (now en - seconds (FRAUD_DUPLICATE_WINDOW_SECONDS cfg)) d = 0"
  by (auto simp: enforce_no_duplicate_transfer_def Let_def)

lemmas fraud_ok = enforce_kyc_single_limit_ok enforce_daily_limit_ok enforce_no_duplicate_ok

lemma check_transfer_ok:
  "check_transfer cfg en u w rw a d = Inr () \<longleftrightarrow>
     u_kyc_tier u \<noteq> 0 \<and> a \<le> naira (single_limit cfg (u_kyc_tier u)) \<and>
     get_daily_outgoing_sum (u_id u) TRANSFER (day_start_of (now en)) d + a \<le> naira (daily_limit cfg (u_kyc_tier u)) \<and>
     count_recent_transfers (w_id w) rw a (now en - seconds (FRAUD_DUPLICATE_WINDOW_SECONDS cfg)) d = 0"
  by (auto simp: check_transfer_def bindE_Inr_iff fraud_ok)

lemma check_merchant_payment_ok:
  "check_merchant_payment cfg en u w mw a d = Inr () \<longleftrightarrow>
     u_kyc_tier u \<noteq> 0 \<and> a \<le> naira (single_limit cfg (u_kyc_tier u)) \<and>
     get_daily_outgoing_sum (u_id u) MERCHANT_PAYMENT (day_start_of (now en)) d + a
       \<le> naira (daily_limit cfg (u_kyc_tier u))"
  by (auto simp: check_merchant_payment_def bindE_Inr_iff fraud_ok)

lemma check_withdrawal_ok:
  "check_withdrawal cfg en u w a d = Inr () \<longleftrightarrow>
     2 \<le> u_kyc_tier u \<and> a \<le> naira (single_limit cfg (u_kyc_tier u)) \<and>
     get_daily_outgoing_sum (u_id u) WITHDRAWAL (day_start_of (now en)) d + a
       \<le> naira (daily_limit cfg (u_kyc_tier u))"
  by (auto simp: check_withdrawal_def bindE_Inr_iff fraud_ok)

text \<open>The flags never write to the database; they send at most one message.\<close>

lemma wp_maybe_flag_merchant_payment [wp_rules]:
  "wp (maybe_flag_merchant_payment cfg en ti u a) Q R s =
     (if u_kyc_tier u = 1 \<and> naira (FRAUD_MERCHANT_PAYMENT_FLAG_THRESHOLD cfg) < a
      then (if broker_up en then Q () (s\<lparr>outbox := outbox s @ [FlagTransactionRisk ti (LargeMerchantPayment a)]\<rparr>)
            else R BrokerError s)
      else Q () s)"
  by (simp add: maybe_flag_merchant_payment_def wp_rules Let_def)

lemma wp_maybe_flag_rapid_transfers [wp_rules]:
  "wp (maybe_flag_rapid_transfers cfg en ti wi) Q R s =
     (let n = count_distinct_recipients_recently wi
                (now en - seconds (FRAUD_RAPID_TRANSFER_WINDOW_SECONDS cfg)) (working s)
      in if FRAUD_RAPID_TRANSFER_COUNT cfg < int n
         then (if broker_up en
               then Q () (s\<lparr>outbox := outbox s @ [FlagTransactionRisk ti
                      (RapidTransfers n (FRAUD_RAPID_TRANSFER_WINDOW_SECONDS cfg div 60))]\<rparr>)
               else R BrokerError s)
         else Q () s)"
  by (simp add: maybe_flag_rapid_transfers_def wp_rules Let_def)

lemma wp_flag_rapidI:
  "(\<And>out. Q () (s\<lparr>outbox := out\<rparr>)) \<Longrightarrow> (\<not> broker_up en \<Longrightarrow> R BrokerError s) \<Longrightarrow>
   wp (maybe_flag_rapid_transfers cfg en ti wi) Q R s"
  using session.surjective[of s] by (simp add: wp_rules Let_def) (metis session.surjective session.update_convs(3))

end
