(* ===== verification/Users.thy ===== *)
theory Users
  imports Audit_Trail
begin

text \<open>
  Users: \<open>UserRepository\<close> (\<open>app/repositories/user.py\<close>), \<open>UserService\<close>
  (\<open>app/services/user.py\<close>) and the validators of \<open>UserUpdateRequest\<close>.
\<close>

section \<open>Repository\<close>

definition user_create ::
  "env \<Rightarrow> uuid \<Rightarrow> string \<Rightarrow> string \<Rightarrow> string \<Rightarrow> string option \<Rightarrow> user_role \<Rightarrow> user svc" where
  "user_create en i email hashed_password full_name phone role =
     (let user = \<lparr>u_id = i, u_email = str_strip (str_lower email), u_phone = phone,
        u_hashed_password = hashed_password, u_full_name = full_name, u_role = role,
        u_kyc_tier = 0, u_is_active = True, u_is_email_verified = False, u_deleted_at = None,
        u_created_at = now en\<rparr>
      in bindS (flush (insert_user user)) (\<lambda>_. returnS user))"

definition user_get_by_id :: "uuid \<Rightarrow> db \<Rightarrow> exn + user option" where
  "user_get_by_id user_id d =
     scalar_one_or_none (filter (\<lambda>u. u_id u = user_id \<and> u_deleted_at u = None) (users d))"

definition user_get_by_email :: "string \<Rightarrow> db \<Rightarrow> exn + user option" where
  "user_get_by_email email d =
     scalar_one_or_none (filter (\<lambda>u. u_email u = str_strip (str_lower email) \<and> u_deleted_at u = None) (users d))"

definition user_get_by_phone :: "string \<Rightarrow> db \<Rightarrow> exn + user option" where
  "user_get_by_phone phone d =
     scalar_one_or_none (filter (\<lambda>u. u_phone u = Some phone \<and> u_deleted_at u = None) (users d))"

text \<open>An \<open>UPDATE\<close> of one user row; a phone another row holds violates its UNIQUE constraint.\<close>

definition write_user :: "uuid \<Rightarrow> (user \<Rightarrow> user) \<Rightarrow> db \<Rightarrow> exn + db" where
  "write_user i f d =
     (let rows = upd u_id i f (users d)
      in if (\<exists>u\<in>set rows. u_id u = i \<and> \<not> user_fits u) then Inl DataError
         else if (\<exists>u\<in>set rows. u_id u = i \<and> u_phone u \<noteq> None \<and>
               (\<exists>v\<in>set rows. u_id v \<noteq> i \<and> u_phone v = u_phone u))
         then Inl IntegrityError else Inr (d\<lparr>users := rows\<rparr>))"

definition set_profile :: "string option \<Rightarrow> string option \<Rightarrow> user \<Rightarrow> user" where
  "set_profile full_name phone u =
     u\<lparr>u_full_name := get_or (u_full_name u) full_name,
       u_phone := (if phone \<noteq> None then phone else u_phone u)\<rparr>"

definition user_update_profile :: "user \<Rightarrow> string option \<Rightarrow> string option \<Rightarrow> user svc" where
  "user_update_profile user full_name phone =
     bindS (flush (write_user (u_id user) (set_profile full_name phone)))
       (\<lambda>_. returnS (set_profile full_name phone user))"

definition user_update_kyc_tier :: "user \<Rightarrow> int \<Rightarrow> user svc" where
  "user_update_kyc_tier user tier =
     bindS (flush (\<lambda>d. Inr (d\<lparr>users := upd u_id (u_id user) (\<lambda>u. u\<lparr>u_kyc_tier := tier\<rparr>) (users d)\<rparr>)))
       (\<lambda>_. returnS (user\<lparr>u_kyc_tier := tier\<rparr>))"

definition user_set_active :: "user \<Rightarrow> bool \<Rightarrow> user svc" where
  "user_set_active user active =
     bindS (flush (\<lambda>d. Inr (d\<lparr>users := upd u_id (u_id user) (\<lambda>u. u\<lparr>u_is_active := active\<rparr>) (users d)\<rparr>)))
       (\<lambda>_. returnS (user\<lparr>u_is_active := active\<rparr>))"

definition user_soft_delete :: "env \<Rightarrow> user \<Rightarrow> unit svc" where
  "user_soft_delete en user =
     flush (\<lambda>d. Inr (d\<lparr>users := upd u_id (u_id user) (\<lambda>u. u\<lparr>u_deleted_at := Some (now en)\<rparr>) (users d)\<rparr>))"

definition user_filter :: "user_role option \<Rightarrow> int option \<Rightarrow> user \<Rightarrow> bool" where
  "user_filter role kyc_tier u \<longleftrightarrow>
     u_deleted_at u = None \<and> opt_filter (\<lambda>v u. u_role u = v) role u \<and>
     opt_filter (\<lambda>v u. u_kyc_tier u = v) kyc_tier u"

definition user_list_all :: "nat \<Rightarrow> nat \<Rightarrow> user_role option \<Rightarrow> int option \<Rightarrow> db \<Rightarrow> user list" where
  "user_list_all lim off role kyc_tier d =
     page lim off (order_desc u_created_at (filter (user_filter role kyc_tier) (users d)))"

definition user_count_all :: "user_role option \<Rightarrow> int option \<Rightarrow> db \<Rightarrow> nat" where
  "user_count_all role kyc_tier d = length (filter (user_filter role kyc_tier) (users d))"

section \<open>Service\<close>

definition get_profile :: "uuid \<Rightarrow> db \<Rightarrow> exn + user" where
  "get_profile user_id d =
     bindE (user_get_by_id user_id d) (\<lambda>user.
     case user of None \<Rightarrow> Inl (NotFoundError ''User'') | Some u \<Rightarrow> Inr u)"

text \<open>The method does not commit; neither does the endpoint that calls it.\<close>

definition update_profile :: "uuid \<Rightarrow> string option \<Rightarrow> string option \<Rightarrow> user svc" where
  "update_profile user_id full_name phone =
     bindS (query (user_get_by_id user_id)) (\<lambda>user.
     case user of None \<Rightarrow> raiseS (NotFoundError ''User'')
     | Some u \<Rightarrow>
       bindS (if phone \<noteq> None \<and> phone \<noteq> u_phone u
              then bindS (query (user_get_by_phone (the phone))) (\<lambda>existing.
                   case existing of None \<Rightarrow> returnS ()
                   | Some x \<Rightarrow> if u_id x \<noteq> user_id
                       then raiseS (ConflictError ''This phone number is already registered.'' ''PHONE_CONFLICT'')
                       else returnS ())
              else returnS ()) (\<lambda>_.
       user_update_profile u full_name phone))"

definition update_kyc_tier :: "uuid \<Rightarrow> int \<Rightarrow> user svc" where
  "update_kyc_tier user_id tier =
     bindS (query (user_get_by_id user_id)) (\<lambda>user.
     case user of None \<Rightarrow> raiseS (NotFoundError ''User'') | Some u \<Rightarrow> user_update_kyc_tier u tier)"

section \<open>Lemmas\<close>

interpretation tier: column_update u_id "\<lambda>u. u\<lparr>u_kyc_tier := t\<rparr>" for t
  by unfold_locales simp

interpretation prof: column_update u_id "set_profile n p" for n p
  by unfold_locales (simp add: set_profile_def)

lemma user_get_by_idD:
  "user_get_by_id i d = Inr (Some u) \<Longrightarrow> u \<in> set (users d) \<and> u_id u = i \<and> u_deleted_at u = None"
  unfolding user_get_by_id_def by (drule scalar_filter_Some) simp

lemma user_get_by_emailD:
  "user_get_by_email m d = Inr (Some u) \<Longrightarrow>
   u \<in> set (users d) \<and> u_email u = str_strip (str_lower m) \<and> u_deleted_at u = None"
  unfolding user_get_by_email_def by (drule scalar_filter_Some) simp

lemma wp_update_kyc_tier [wp_rules]:
  "wp (update_kyc_tier i t) Q R s =
     (case user_get_by_id i (working s) of Inl e \<Rightarrow> R e s
      | Inr None \<Rightarrow> R (NotFoundError ''User'') s
      | Inr (Some u) \<Rightarrow> Q (u\<lparr>u_kyc_tier := t\<rparr>)
          (s\<lparr>working := (working s)\<lparr>users := upd u_id (u_id u) (\<lambda>u. u\<lparr>u_kyc_tier := t\<rparr>) (users (working s))\<rparr>\<rparr>))"
  by (simp add: update_kyc_tier_def user_update_kyc_tier_def wp_rules split: sum.split option.split)

lemma wp_update_kyc_tierI [wp_intros]:
  "(\<And>e. R e s) \<Longrightarrow>
   (\<And>u d. user_get_by_id i (working s) = Inr (Some u) \<Longrightarrow>
      d = (working s)\<lparr>users := upd u_id i (\<lambda>u. u\<lparr>u_kyc_tier := t\<rparr>) (users (working s))\<rparr> \<Longrightarrow>
      Q (u\<lparr>u_kyc_tier := t\<rparr>) (s\<lparr>working := d\<rparr>)) \<Longrightarrow>
   wp (update_kyc_tier i t) Q R s"
  by (auto simp: wp_update_kyc_tier split: sum.split option.split dest: user_get_by_idD)

lemma user_get_frame [simp]: "user_get_by_id i (d\<lparr>kyc_submissions := ks\<rparr>) = user_get_by_id i d"
  by (simp add: user_get_by_id_def)

end
