(* ===== verification/Accounts.thy ===== *)
theory Accounts
  imports Transactions
begin

text \<open>
  The accounting specification the services are proved against: what the ledger and the open
  withdrawals say a wallet's balance is, which transactions can exist, and which ledger entries
  each of them has. \<open>sound\<close> puts these together; it depends on the wallets, the transactions
  and the ledger only. The lemmas of this theory show that each kind of database change the
  services make keeps it.
\<close>

section \<open>Specification\<close>

text \<open>The entries of one kind on one wallet, added up.\<close>

definition entry_sum :: "entry_type \<Rightarrow> uuid \<Rightarrow> ledger_entry list \<Rightarrow> money" where
  "entry_sum ty i es = (\<Sum>e\<leftarrow>es. if e_wallet_id e = i \<and> e_entry_type e = ty then e_amount e else 0)"

text \<open>A withdrawal holds its amount from its initiation until it is completed or failed.\<close>

definition active_withdrawal :: "transaction \<Rightarrow> bool" where
  "active_withdrawal t \<longleftrightarrow> t_type t = WITHDRAWAL \<and> t_status t \<in> {PENDING, PROCESSING}"

definition hold_of :: "uuid \<Rightarrow> transaction \<Rightarrow> money" where
  "hold_of i t = (if active_withdrawal t \<and> t_source_wallet_id t = Some i then t_amount t else 0)"

definition held :: "uuid \<Rightarrow> transaction list \<Rightarrow> money" where
  "held i ts = (\<Sum>t\<leftarrow>ts. hold_of i t)"

text \<open>What the books say the balance of wallet \<open>i\<close> is.\<close>

definition book_balance :: "uuid \<Rightarrow> transaction list \<Rightarrow> ledger_entry list \<Rightarrow> money" where
  "book_balance i ts es = entry_sum CREDIT i es - entry_sum DEBIT i es - held i ts"

text \<open>The transactions the services create, by type, with the states each type can be in.\<close>

fun type_ok :: "transaction_type \<Rightarrow> transaction_status \<Rightarrow> uuid option \<Rightarrow> uuid option \<Rightarrow> string option \<Rightarrow> bool" where
  "type_ok FUNDING st src dst pr \<longleftrightarrow> src = None \<and> dst \<noteq> None \<and> st \<noteq> REVERSED"
| "type_ok TRANSFER st src dst pr \<longleftrightarrow> src \<noteq> None \<and> dst \<noteq> None \<and> src \<noteq> dst \<and> st = COMPLETED"
| "type_ok MERCHANT_PAYMENT st src dst pr \<longleftrightarrow> src \<noteq> None \<and> dst \<noteq> None \<and> src \<noteq> dst \<and> st = COMPLETED"
| "type_ok WITHDRAWAL st src dst pr \<longleftrightarrow>
     src \<noteq> None \<and> dst = None \<and> st \<noteq> REVERSED \<and> (st = PENDING \<longrightarrow> pr = None)"
| "type_ok REVERSAL st src dst pr \<longleftrightarrow> False"

definition txn_ok :: "transaction \<Rightarrow> bool" where
  "txn_ok t \<longleftrightarrow> type_ok (t_type t) (t_status t) (t_source_wallet_id t) (t_destination_wallet_id t)
     (t_provider_reference t)"

text \<open>The ledger entries of a transaction, as kind, wallet and amount.\<close>

definition postings :: "uuid \<Rightarrow> ledger_entry list \<Rightarrow> (entry_type \<times> uuid \<times> money) list" where
  "postings i es =
     map (\<lambda>e. (e_entry_type e, e_wallet_id e, e_amount e)) (filter (\<lambda>e. e_transaction_id e = i) es)"

definition posted_as :: "transaction \<Rightarrow> (entry_type \<times> uuid \<times> money) list \<Rightarrow> bool" where
  "posted_as t ps \<longleftrightarrow>
     (if t_status t \<noteq> COMPLETED then ps = []
      else case t_type t of
        FUNDING \<Rightarrow> map (\<lambda>(ty, w, x). (ty, w)) ps = [(CREDIT, the (t_destination_wallet_id t))]
      | WITHDRAWAL \<Rightarrow> ps = [(DEBIT, the (t_source_wallet_id t), t_amount t)]
      | _ \<Rightarrow> ps = [(DEBIT, the (t_source_wallet_id t), t_amount t),
                  (CREDIT, the (t_destination_wallet_id t), t_amount t)])"

definition keys_ok :: "wallet list \<Rightarrow> transaction list \<Rightarrow> bool" where
  "keys_ok ws ts \<longleftrightarrow> distinct (map w_id ws) \<and> distinct (map w_user_id ws) \<and>
     distinct (map t_id ts) \<and> distinct (map t_reference ts)"

text \<open>Referential integrity: transactions and entries name rows that exist.\<close>

definition refs_ok :: "wallet list \<Rightarrow> transaction list \<Rightarrow> ledger_entry list \<Rightarrow> bool" where
  "refs_ok ws ts es \<longleftrightarrow>
     (\<forall>t\<in>set ts. set_option (t_source_wallet_id t) \<subseteq> w_id ` set ws \<and>
                 set_option (t_destination_wallet_id t) \<subseteq> w_id ` set ws) \<and>
     (\<forall>e\<in>set es. e_wallet_id e \<in> w_id ` set ws \<and> e_transaction_id e \<in> t_id ` set ts)"

definition balances_ok :: "wallet list \<Rightarrow> transaction list \<Rightarrow> ledger_entry list \<Rightarrow> bool" where
  "balances_ok ws ts es \<longleftrightarrow>
     (\<forall>w\<in>set ws. 0 \<le> w_balance w \<and> w_balance w = book_balance (w_id w) ts es)"

definition postings_ok :: "transaction list \<Rightarrow> ledger_entry list \<Rightarrow> bool" where
  "postings_ok ts es \<longleftrightarrow> (\<forall>t\<in>set ts. posted_as t (postings (t_id t) es))"

text \<open>A user has at most one active withdrawal.\<close>

definition active_ok :: "transaction list \<Rightarrow> bool" where
  "active_ok ts \<longleftrightarrow> distinct (map t_initiated_by_user_id (filter active_withdrawal ts))"

definition sound_tables :: "wallet list \<Rightarrow> transaction list \<Rightarrow> ledger_entry list \<Rightarrow> bool" where
  "sound_tables ws ts es \<longleftrightarrow> keys_ok ws ts \<and> refs_ok ws ts es \<and> (\<forall>t\<in>set ts. txn_ok t) \<and>
     balances_ok ws ts es \<and> postings_ok ts es \<and> active_ok ts"

definition sound :: "db \<Rightarrow> bool" where
  "sound d \<longleftrightarrow> sound_tables (wallets d) (transactions d) (ledger_entries d)"

section \<open>Basic facts\<close>

lemma sound_empty: "sound empty_db"
  by (simp add: sound_def sound_tables_def empty_db_def keys_ok_def refs_ok_def balances_ok_def postings_ok_def
      active_ok_def)

text \<open>Changes to the other tables do not matter.\<close>

lemma sound_frame [simp]:
  "sound (d\<lparr>users := us\<rparr>) = sound d" "sound (d\<lparr>merchants := ms\<rparr>) = sound d"
  "sound (d\<lparr>kyc_submissions := ks\<rparr>) = sound d" "sound (d\<lparr>bank_accounts := bs\<rparr>) = sound d"
  "sound (d\<lparr>refresh_tokens := rs\<rparr>) = sound d" "sound (d\<lparr>webhook_deliveries := ws\<rparr>) = sound d"
  "sound (d\<lparr>audit_logs := al\<rparr>) = sound d"
  by (simp_all add: sound_def)

lemma entry_sum_simps [simp]:
  "entry_sum ty i [] = 0"
  "entry_sum ty i (es @ fs) = entry_sum ty i es + entry_sum ty i fs"
  "entry_sum ty i (e # es) = (if e_wallet_id e = i \<and> e_entry_type e = ty then e_amount e else 0) + entry_sum ty i es"
  by (simp_all add: entry_sum_def)

lemma held_simps [simp]:
  "held i [] = 0" "held i (ts @ us) = held i ts + held i us" "held i (t # ts) = hold_of i t + held i ts"
  by (simp_all add: held_def)

lemma postings_simps [simp]:
  "postings i [] = []" "postings i (es @ fs) = postings i es @ postings i fs"
  "postings i (e # es) = (if e_transaction_id e = i then [(e_entry_type e, e_wallet_id e, e_amount e)] else []) @ postings i es"
  by (simp_all add: postings_def)

text \<open>A wallet or transaction that does not exist yet has no entries and no holds.\<close>

lemma entry_sum_absent:
  assumes "refs_ok ws ts es" and "i \<notin> w_id ` set ws" shows "entry_sum ty i es = 0"
proof -
  have "\<forall>e\<in>set es. e_wallet_id e \<noteq> i" using assms by (auto simp: refs_ok_def)
  then show ?thesis by (induction es) auto
qed

lemma held_absent:
  assumes "refs_ok ws ts es" and "i \<notin> w_id ` set ws" shows "held i ts = 0"
proof -
  have "\<forall>t\<in>set ts. t_source_wallet_id t \<noteq> Some i" using assms by (fastforce simp: refs_ok_def)
  then show ?thesis by (induction ts) (auto simp: hold_of_def)
qed

lemma postings_absent:
  assumes "refs_ok ws ts es" and "i \<notin> t_id ` set ts" shows "postings i es = []"
proof -
  have "\<forall>e\<in>set es. e_transaction_id e \<noteq> i" using assms by (auto simp: refs_ok_def)
  then show ?thesis by (induction es) auto
qed

lemma held_upd:
  assumes "distinct (map t_id ts)" and "t \<in> set ts"
  shows "held i (upd t_id (t_id t) f ts) = held i ts - hold_of i t + hold_of i (f t)"
  unfolding held_def using assms by (rule sum_list_upd)

section \<open>Changes that keep the database sound\<close>

text \<open>A new wallet, with balance zero.\<close>

lemma sound_insert_wallet:
  assumes "sound d" and "\<not> clashes w_id w (wallets d)" and "\<not> clashes w_user_id w (wallets d)" and "w_balance w = 0"
  shows "sound (d\<lparr>wallets := wallets d @ [w]\<rparr>)"
proof -
  have r: "refs_ok (wallets d) (transactions d) (ledger_entries d)"
    using assms(1) by (simp add: sound_def sound_tables_def)
  have i: "w_id w \<notin> w_id ` set (wallets d)" using assms(2) by (simp add: clashes_def)
  have "book_balance (w_id w) (transactions d) (ledger_entries d) = 0"
    by (simp add: book_balance_def entry_sum_absent [OF r i] held_absent [OF r i])
  then show ?thesis
    using assms by (fastforce simp: sound_def sound_tables_def keys_ok_def refs_ok_def balances_ok_def clashes_def)
qed

text \<open>A new pending transaction that holds nothing (a funding).\<close>

lemma sound_insert_transaction:
  assumes "sound d" and "txn_ok t" and "t_status t = PENDING" and "t_type t \<noteq> WITHDRAWAL"
    and "\<not> clashes t_id t (transactions d)" and "\<not> clashes t_reference t (transactions d)"
    and "set_option (t_source_wallet_id t) \<subseteq> w_id ` set (wallets d)"
    and "set_option (t_destination_wallet_id t) \<subseteq> w_id ` set (wallets d)"
  shows "sound (d\<lparr>transactions := transactions d @ [t]\<rparr>)"
proof -
  have "refs_ok (wallets d) (transactions d) (ledger_entries d)"
    using assms(1) by (simp add: sound_def sound_tables_def)
  then have "postings (t_id t) (ledger_entries d) = []"
    using assms(5) by (simp add: postings_absent clashes_def)
  then show ?thesis
    using assms by (auto simp: sound_def sound_tables_def keys_ok_def refs_ok_def balances_ok_def
      postings_ok_def posted_as_def book_balance_def hold_of_def active_withdrawal_def active_ok_def clashes_def)
qed

section \<open>Posting to the books\<close>

text \<open>
  \<open>rebalanced delta ws ws'\<close>: the same wallets, each balance moved by \<open>delta\<close> of its wallet and
  still not negative.
\<close>

definition rebalanced :: "(uuid \<Rightarrow> money) \<Rightarrow> wallet list \<Rightarrow> wallet list \<Rightarrow> bool" where
  "rebalanced delta ws ws' \<longleftrightarrow> map w_id ws' = map w_id ws \<and> map w_user_id ws' = map w_user_id ws \<and>
     (\<forall>w'\<in>set ws'. \<exists>w\<in>set ws. w_id w' = w_id w \<and> w_balance w' = w_balance w + delta (w_id w) \<and> 0 \<le> w_balance w')"

lemma rebalanced_refl: "\<forall>w\<in>set ws. 0 \<le> w_balance w \<and> delta (w_id w) = 0 \<Longrightarrow> rebalanced delta ws ws"
  by (auto simp: rebalanced_def)

lemma rebalanced_trans:
  assumes "rebalanced f ws us" and "rebalanced g us vs" shows "rebalanced (\<lambda>i. f i + g i) ws vs"
  unfolding rebalanced_def
proof (intro conjI ballI)
  fix v assume "v \<in> set vs"
  then obtain u where u: "u \<in> set us" "w_id v = w_id u" "w_balance v = w_balance u + g (w_id u)" "0 \<le> w_balance v"
    using assms(2) by (auto simp: rebalanced_def)
  then obtain w where "w \<in> set ws" "w_id u = w_id w" "w_balance u = w_balance w + f (w_id w)"
    using assms(1) by (auto simp: rebalanced_def)
  with u show "\<exists>w\<in>set ws. w_id v = w_id w \<and> w_balance v = w_balance w + (f (w_id w) + g (w_id w)) \<and> 0 \<le> w_balance v"
    by auto
qed (use assms in \<open>simp_all add: rebalanced_def\<close>)

lemma rebalanced_upd:
  assumes "distinct (map w_id ws)" and "w \<in> set ws" and "0 \<le> b" and "\<forall>v\<in>set ws. 0 \<le> w_balance v"
  shows "rebalanced (\<lambda>i. if i = w_id w then b - w_balance w else 0) ws
           (upd w_id (w_id w) (\<lambda>w. w\<lparr>w_balance := b\<rparr>) ws)"
  unfolding rebalanced_def
proof (intro conjI ballI)
  fix v assume "v \<in> set (upd w_id (w_id w) (\<lambda>w. w\<lparr>w_balance := b\<rparr>) ws)"
  then show "\<exists>u\<in>set ws. w_id v = w_id u \<and>
      w_balance v = w_balance u + (if w_id u = w_id w then b - w_balance w else 0) \<and> 0 \<le> w_balance v"
    using assms distinct_key_eq [OF assms(1,2)] by (elim set_updE) auto
qed (simp_all add: bal.keys_upd map_upd_same)

lemma rebalanced_keys: "rebalanced delta ws ws' \<Longrightarrow> keys_ok ws' ts = keys_ok ws ts"
  by (simp add: rebalanced_def keys_ok_def)

lemma rebalanced_refs: "rebalanced delta ws ws' \<Longrightarrow> refs_ok ws' ts es = refs_ok ws ts es"
  unfolding rebalanced_def refs_ok_def by (metis list.set_map)

lemma rebalanced_books:
  assumes "balances_ok ws ts es" and "rebalanced delta ws ws'"
    and "\<And>i. book_balance i ts' es' = book_balance i ts es + delta i"
  shows "balances_ok ws' ts' es'"
  using assms unfolding balances_ok_def rebalanced_def by fastforce

lemma postings_other:
  "(\<And>e. e \<in> set es \<Longrightarrow> e_transaction_id e \<noteq> i) \<Longrightarrow> postings i es = []"
  by (induction es) auto

text \<open>What entries and a released hold do to the books.\<close>

definition effect :: "ledger_entry list \<Rightarrow> (uuid \<Rightarrow> money) \<Rightarrow> uuid \<Rightarrow> money" where
  "effect new freed i = entry_sum CREDIT i new - entry_sum DEBIT i new + freed i"

text \<open>A new transaction with its entries.\<close>

lemma sound_append:
  assumes sound: "sound d" and ok: "txn_ok t"
    and fresh: "\<not> clashes t_id t (transactions d)" "\<not> clashes t_reference t (transactions d)"
    and wals: "set_option (t_source_wallet_id t) \<subseteq> w_id ` set (wallets d)"
       "set_option (t_destination_wallet_id t) \<subseteq> w_id ` set (wallets d)"
    and new: "\<And>e. e \<in> set new \<Longrightarrow> e_transaction_id e = t_id t \<and> e_wallet_id e \<in> w_id ` set (wallets d)"
    and posted: "posted_as t (postings (t_id t) new)"
    and bal: "rebalanced (effect new (\<lambda>i. - hold_of i t)) (wallets d) ws"
    and act: "active_withdrawal t \<Longrightarrow>
      \<forall>u\<in>set (transactions d). active_withdrawal u \<longrightarrow> t_initiated_by_user_id u \<noteq> t_initiated_by_user_id t"
  shows "sound (d\<lparr>transactions := transactions d @ [t], ledger_entries := ledger_entries d @ new, wallets := ws\<rparr>)"
proof -
  have st: "sound_tables (wallets d) (transactions d) (ledger_entries d)" using sound by (simp add: sound_def)
  then have old: "postings (t_id t) (ledger_entries d) = []"
    using fresh by (intro postings_absent [of "wallets d" "transactions d"]) (simp_all add: sound_tables_def clashes_def)
  have "keys_ok ws (transactions d @ [t])" "refs_ok ws (transactions d @ [t]) (ledger_entries d @ new)"
    unfolding rebalanced_keys [OF bal] rebalanced_refs [OF bal] using st fresh wals new
    by (auto simp: sound_tables_def keys_ok_def refs_ok_def clashes_def)
  moreover have "balances_ok ws (transactions d @ [t]) (ledger_entries d @ new)"
    by (rule rebalanced_books [OF _ bal]) (use st in \<open>auto simp: sound_tables_def book_balance_def effect_def\<close>)
  moreover have "postings (t_id u) new = []" if "u \<in> set (transactions d)" for u
    using that new fresh by (intro postings_other) (auto simp: clashes_def)
  moreover have "active_ok (transactions d @ [t])"
    using st act by (auto simp: sound_tables_def active_ok_def)
  ultimately show ?thesis
    using st ok posted old by (auto simp: sound_def sound_tables_def postings_ok_def)
qed

text \<open>
  One transaction settles: its row is rewritten by \<open>f\<close>, entries for it are appended, and the
  balances move by the entries and the hold it releases.
\<close>

lemma refs_settle:
  assumes "refs_ok ws ts es" and "\<And>u. t_id (f u) = t_id u"
    and "\<And>u. t_source_wallet_id (f u) = t_source_wallet_id u"
    and "\<And>u. t_destination_wallet_id (f u) = t_destination_wallet_id u"
    and "\<And>e. e \<in> set new \<Longrightarrow> e_transaction_id e \<in> t_id ` set ts \<and> e_wallet_id e \<in> w_id ` set ws"
  shows "refs_ok ws (upd t_id i f ts) (es @ new)"
proof -
  have "t_id ` set (upd t_id i f ts) = t_id ` set ts"
    by (rule column_update.key_set_upd) (simp add: column_update_def assms)
  then show ?thesis using assms unfolding refs_ok_def by (fastforce elim!: set_updE)
qed

lemma postings_settle:
  assumes "postings_ok ts es" and dt: "distinct (map t_id ts)" and t: "t \<in> set ts" and f: "\<And>u. t_id (f u) = t_id u"
    and new: "\<And>e. e \<in> set new \<Longrightarrow> e_transaction_id e = t_id t"
    and posted: "posted_as (f t) (postings (t_id t) (es @ new))"
  shows "postings_ok (upd t_id (t_id t) f ts) (es @ new)"
  unfolding postings_ok_def
proof (intro ballI)
  fix u assume "u \<in> set (upd t_id (t_id t) f ts)"
  then show "posted_as u (postings (t_id u) (es @ new))"
  proof (rule set_updE)
    assume u: "u \<in> set ts" "t_id u \<noteq> t_id t"
    then have "postings (t_id u) new = []" by (intro postings_other) (use new in fastforce)
    then show ?thesis using assms(1) u(1) by (simp add: postings_ok_def)
  next
    fix q assume q: "q \<in> set ts" "t_id q = t_id t" "u = f q"
    then have "q = t" using distinct_key_eq [OF dt _ t] by simp
    then show ?thesis using posted q f by simp
  qed
qed

lemma active_settle:
  assumes "active_ok ts" and dt: "distinct (map t_id ts)" and t: "t \<in> set ts"
    and "t_initiated_by_user_id (f t) = t_initiated_by_user_id t"
    and "active_withdrawal (f t) \<Longrightarrow> active_withdrawal t"
  shows "active_ok (upd t_id (t_id t) f ts)"
  using assms
proof (induction ts)
  case Nil
  then show ?case by simp
next
  case (Cons u ts)
  let ?us = "\<lambda>ts. map t_initiated_by_user_id (filter active_withdrawal ts)"
  have sub: "set (?us (upd t_id (t_id t) f ts)) \<subseteq> set (?us ts)"
    using Cons.prems distinct_key_eq [OF Cons.prems(2,3)] by (auto simp: image_iff elim!: set_updE) (metis list.set_intros(2))
  show ?case
  proof (cases "u = t")
    case True
    then have "t_id t \<notin> t_id ` set ts" using Cons.prems by simp
    then show ?thesis using Cons.prems True by (auto simp: upd_Cons upd_absent active_ok_def split: if_splits)
  next
    case False
    then have "t \<in> set ts" "t_id u \<noteq> t_id t" using Cons.prems distinct_key_eq [OF Cons.prems(2)] by auto
    then show ?thesis using Cons sub by (auto simp: upd_Cons active_ok_def split: if_splits)
  qed
qed

lemma sound_settle:
  assumes sound: "sound d" and t: "t \<in> set (transactions d)"
    and f: "\<And>u. t_id (f u) = t_id u" "\<And>u. t_reference (f u) = t_reference u"
      "\<And>u. t_source_wallet_id (f u) = t_source_wallet_id u"
      "\<And>u. t_destination_wallet_id (f u) = t_destination_wallet_id u"
    and ok: "txn_ok (f t)"
    and new: "\<And>e. e \<in> set new \<Longrightarrow> e_transaction_id e = t_id t \<and> e_wallet_id e \<in> w_id ` set (wallets d)"
    and posted: "posted_as (f t) (postings (t_id t) (ledger_entries d @ new))"
    and bal: "rebalanced (effect new (\<lambda>i. hold_of i t - hold_of i (f t))) (wallets d) ws"
    and act: "t_initiated_by_user_id (f t) = t_initiated_by_user_id t" "active_withdrawal (f t) \<Longrightarrow> active_withdrawal t"
  shows "sound (d\<lparr>transactions := upd t_id (t_id t) f (transactions d),
                 ledger_entries := ledger_entries d @ new, wallets := ws\<rparr>)"
proof -
  have st: "sound_tables (wallets d) (transactions d) (ledger_entries d)" using sound by (simp add: sound_def)
  then have dt: "distinct (map t_id (transactions d))" by (simp add: sound_tables_def keys_ok_def)
  have "keys_ok ws (upd t_id (t_id t) f (transactions d))"
    unfolding rebalanced_keys [OF bal] using st by (simp add: sound_tables_def keys_ok_def map_upd_same f)
  moreover have "refs_ok ws (upd t_id (t_id t) f (transactions d)) (ledger_entries d @ new)"
    unfolding rebalanced_refs [OF bal] using st t new by (intro refs_settle) (auto simp: sound_tables_def f)
  moreover have "txn_ok u" if "u \<in> set (upd t_id (t_id t) f (transactions d))" for u
    using that st ok distinct_key_eq [OF dt _ t] by (auto simp: sound_tables_def elim!: set_updE)
  moreover have "balances_ok ws (upd t_id (t_id t) f (transactions d)) (ledger_entries d @ new)"
    by (rule rebalanced_books [OF _ bal])
      (use st in \<open>auto simp: sound_tables_def book_balance_def effect_def held_upd [OF dt t]\<close>)
  moreover have "postings_ok (upd t_id (t_id t) f (transactions d)) (ledger_entries d @ new)"
    using st new posted by (intro postings_settle [OF _ dt t f(1)]) (auto simp: sound_tables_def)
  moreover have "active_ok (upd t_id (t_id t) f (transactions d))"
    by (rule active_settle [OF _ dt t]) (use st act in \<open>auto simp: sound_tables_def\<close>)
  ultimately show ?thesis by (simp add: sound_def sound_tables_def)
qed

text \<open>A rewrite that leaves all of this alone, such as a risk flag.\<close>

lemma soundD:
  assumes "sound d"
  shows "distinct (map w_id (wallets d))" "distinct (map t_id (transactions d))"
    "distinct (map w_user_id (wallets d))" "distinct (map t_reference (transactions d))"
    "w \<in> set (wallets d) \<Longrightarrow> 0 \<le> w_balance w"
    "w \<in> set (wallets d) \<Longrightarrow> w_balance w = book_balance (w_id w) (transactions d) (ledger_entries d)"
    "t \<in> set (transactions d) \<Longrightarrow> txn_ok t"
    "t \<in> set (transactions d) \<Longrightarrow> posted_as t (postings (t_id t) (ledger_entries d))"
  using assms by (auto simp: sound_def sound_tables_def keys_ok_def balances_ok_def postings_ok_def)

lemma sound_touch:
  assumes "sound d" and t: "t \<in> set (transactions d)"
    and f: "\<And>u. t_id (f u) = t_id u" "\<And>u. t_reference (f u) = t_reference u"
      "\<And>u. t_source_wallet_id (f u) = t_source_wallet_id u"
      "\<And>u. t_destination_wallet_id (f u) = t_destination_wallet_id u"
    and "txn_ok (f t)" "posted_as (f t) (postings (t_id t) (ledger_entries d))" "\<And>i. hold_of i (f t) = hold_of i t"
    and "t_initiated_by_user_id (f t) = t_initiated_by_user_id t" "active_withdrawal (f t) \<Longrightarrow> active_withdrawal t"
  shows "sound (d\<lparr>transactions := upd t_id (t_id t) f (transactions d)\<rparr>)"
proof -
  have "rebalanced (effect [] (\<lambda>i. hold_of i t - hold_of i (f t))) (wallets d) (wallets d)"
    by (rule rebalanced_refl) (use assms in \<open>auto simp: effect_def dest: soundD\<close>)
  from sound_settle [OF assms(1) t f assms(7) _ _ this] assms(8,10,11) show ?thesis
    by (simp add: db.defs)
qed

section \<open>Balances\<close>

text \<open>The balance a wallet shows.\<close>

definition balance_of :: "uuid \<Rightarrow> db \<Rightarrow> money option" where
  "balance_of i d = map_option w_balance (find (\<lambda>w. w_id w = i) (wallets d))"

lemma balance_of_wallet: "distinct (map w_id (wallets d)) \<Longrightarrow> w \<in> set (wallets d) \<Longrightarrow> balance_of (w_id w) d = Some (w_balance w)"
  by (simp add: balance_of_def find_key)

lemma balance_of_frame [simp]:
  "balance_of i (d\<lparr>audit_logs := al\<rparr>) = balance_of i d" "balance_of i (d\<lparr>webhook_deliveries := wd\<rparr>) = balance_of i d"
  "balance_of i (d\<lparr>transactions := ts\<rparr>) = balance_of i d" "balance_of i (d\<lparr>ledger_entries := es\<rparr>) = balance_of i d"
  by (simp_all add: balance_of_def)

text \<open>A balance written as the old one plus \<open>x\<close>.\<close>

lemma balance_of_write:
  assumes "distinct (map w_id (wallets d))" "w \<in> set (wallets d)"
  shows "balance_of i (d\<lparr>wallets := upd w_id (w_id w) (\<lambda>v. v\<lparr>w_balance := w_balance w + x\<rparr>) (wallets d)\<rparr>) =
    map_option (\<lambda>b. b + (if i = w_id w then x else 0)) (balance_of i d)"
  using find_key [OF assms] by (cases "i = w_id w") (simp_all add: balance_of_def find_upd option.map_comp comp_def)

end
