(* ===== verification/Merchants.thy ===== *)
theory Merchants
  imports Users Wallets
begin

text \<open>
  Merchants: \<open>MerchantRepository\<close> (\<open>app/repositories/merchant.py\<close>), \<open>MerchantService\<close> and
  \<open>MerchantAuthService\<close> (\<open>app/services/merchant.py\<close>), and the API keys of
  \<open>app/core/security.py\<close>. The bcrypt functions are parameters: \<open>hashpw\<close> is one call of
  \<open>bcrypt.hashpw\<close> (with the salt it draws), \<open>checkpw\<close> is \<open>bcrypt.checkpw\<close>.
\<close>

section \<open>API keys\<close>

definition generate_api_key :: "(string \<Rightarrow> string) \<Rightarrow> uuid \<Rightarrow> string \<times> string \<times> string" where
  "generate_api_key hashpw u =
     (let raw = ''pk_live_'' @ uuid_hex u; prefix = take 8 raw; hashed = hashpw raw
      in (raw, prefix, hashed))"

definition verify_api_key :: "(string \<Rightarrow> string \<Rightarrow> bool) \<Rightarrow> string \<Rightarrow> string \<Rightarrow> bool" where
  "verify_api_key checkpw raw hashed = checkpw raw hashed"

section \<open>Repository\<close>

definition merchant_create ::
  "env \<Rightarrow> uuid \<Rightarrow> uuid \<Rightarrow> string \<Rightarrow> string \<Rightarrow> string \<Rightarrow> string \<Rightarrow> merchant svc" where
  "merchant_create en i user_id business_name api_key_hash api_key_prefix webhook_secret =
     (let merchant = \<lparr>m_id = i, m_user_id = user_id, m_business_name = business_name,
        m_api_key_hash = api_key_hash, m_api_key_prefix = api_key_prefix, m_webhook_url = None,
        m_webhook_secret = Some webhook_secret, m_is_active = True, m_deleted_at = None,
        m_created_at = now en\<rparr>
      in bindS (flush (insert_merchant merchant)) (\<lambda>_. returnS merchant))"

definition merchant_get_by_id :: "uuid \<Rightarrow> db \<Rightarrow> exn + merchant option" where
  "merchant_get_by_id merchant_id d =
     scalar_one_or_none (filter (\<lambda>m. m_id m = merchant_id \<and> m_deleted_at m = None) (merchants d))"

definition merchant_get_by_user_id :: "uuid \<Rightarrow> db \<Rightarrow> exn + merchant option" where
  "merchant_get_by_user_id user_id d =
     scalar_one_or_none (filter (\<lambda>m. m_user_id m = user_id \<and> m_deleted_at m = None) (merchants d))"

definition get_active_by_prefix :: "string \<Rightarrow> db \<Rightarrow> merchant list" where
  "get_active_by_prefix api_prefix d =
     filter (\<lambda>m. m_api_key_prefix m = api_prefix \<and> m_is_active m \<and> m_deleted_at m = None) (merchants d)"

definition write_merchant :: "uuid \<Rightarrow> (merchant \<Rightarrow> merchant) \<Rightarrow> db \<Rightarrow> exn + db" where
  "write_merchant i f d = Inr (d\<lparr>merchants := upd m_id i f (merchants d)\<rparr>)"

definition set_api_key :: "string \<Rightarrow> string \<Rightarrow> merchant \<Rightarrow> merchant" where
  "set_api_key api_key_hash api_key_prefix m =
     m\<lparr>m_api_key_hash := api_key_hash, m_api_key_prefix := api_key_prefix\<rparr>"

definition update_api_key :: "merchant \<Rightarrow> string \<Rightarrow> string \<Rightarrow> merchant svc" where
  "update_api_key merchant api_key_hash api_key_prefix =
     bindS (flush (write_merchant (m_id merchant) (set_api_key api_key_hash api_key_prefix)))
       (\<lambda>_. returnS (set_api_key api_key_hash api_key_prefix merchant))"

definition set_webhook :: "string option \<Rightarrow> string option \<Rightarrow> merchant \<Rightarrow> merchant" where
  "set_webhook webhook_url webhook_secret m =
     m\<lparr>m_webhook_url := (if webhook_url \<noteq> None then webhook_url else m_webhook_url m),
       m_webhook_secret := (if webhook_secret \<noteq> None then webhook_secret else m_webhook_secret m)\<rparr>"

definition update_webhook :: "merchant \<Rightarrow> string option \<Rightarrow> string option \<Rightarrow> merchant svc" where
  "update_webhook merchant webhook_url webhook_secret =
     bindS (flush (write_merchant (m_id merchant) (set_webhook webhook_url webhook_secret)))
       (\<lambda>_. returnS (set_webhook webhook_url webhook_secret merchant))"

definition merchant_soft_delete :: "env \<Rightarrow> merchant \<Rightarrow> unit svc" where
  "merchant_soft_delete en merchant =
     flush (write_merchant (m_id merchant) (\<lambda>m. m\<lparr>m_deleted_at := Some (now en)\<rparr>))"

section \<open>Service\<close>

definition set_role :: "uuid \<Rightarrow> user_role \<Rightarrow> db \<Rightarrow> exn + db" where
  "set_role i role d = Inr (d\<lparr>users := upd u_id i (\<lambda>u. u\<lparr>u_role := role\<rparr>) (users d)\<rparr>)"

definition create_merchant ::
  "(string \<Rightarrow> string) \<Rightarrow> env \<Rightarrow> user \<Rightarrow> string \<Rightarrow> (merchant \<times> string) svc" where
  "create_merchant hashpw en user business_name =
     bindS (query (merchant_get_by_user_id (u_id user))) (\<lambda>existing.
     if existing \<noteq> None
     then raiseS (ConflictError ''A merchant profile already exists for this account.'' ''MERCHANT_ALREADY_EXISTS'')
     else
     let (raw_key, prefix, hashed_key) = generate_api_key hashpw (uuid4 en 0) in
     bindS (merchant_create en (uuid4 en 2) (u_id user) business_name hashed_key prefix (uuid_str (uuid4 en 1))) (\<lambda>merchant.
     bindS (query (wallet_get_by_user_id (u_id user))) (\<lambda>wallet.
     bindS (case wallet of None \<Rightarrow> bindS (wallet_create en (uuid4 en 3) (u_id user) ''NGN'') (\<lambda>_. returnS ())
            | Some _ \<Rightarrow> returnS ()) (\<lambda>_.
     bindS (flush (set_role (u_id user) MERCHANT)) (\<lambda>_.
     bindS commit (\<lambda>_.
     bindS (audit_log_write en (uuid4 en 4) (Some (u_id user)) ACTOR_USER ''merchant.created''
        (Some ''merchant'') (Some (m_id merchant)) (Some [(''business_name'', JStr business_name)])) (\<lambda>_.
     bindS (audit_log_write en (uuid4 en 5) (Some (u_id user)) ACTOR_USER ''api_key.generated''
        (Some ''merchant'') (Some (m_id merchant)) None) (\<lambda>_.
     returnS (merchant, raw_key)))))))))"

definition get_merchant_profile :: "uuid \<Rightarrow> db \<Rightarrow> exn + merchant" where
  "get_merchant_profile user_id d =
     bindE (merchant_get_by_user_id user_id d) (\<lambda>merchant.
     case merchant of None \<Rightarrow> Inl (NotFoundError ''Merchant profile'') | Some m \<Rightarrow> Inr m)"

definition rotate_api_key :: "(string \<Rightarrow> string) \<Rightarrow> env \<Rightarrow> uuid \<Rightarrow> (merchant \<times> string) svc" where
  "rotate_api_key hashpw en user_id =
     bindS (query (get_merchant_profile user_id)) (\<lambda>merchant.
     let (raw_key, prefix, hashed_key) = generate_api_key hashpw (uuid4 en 0) in
     bindS (update_api_key merchant hashed_key prefix) (\<lambda>merchant.
     bindS commit (\<lambda>_.
     bindS (audit_log_write en (uuid4 en 1) (Some (m_user_id merchant)) ACTOR_USER ''api_key.generated''
        (Some ''merchant'') (Some (m_id merchant)) None) (\<lambda>_.
     returnS (merchant, raw_key)))))"

definition update_webhook_config :: "env \<Rightarrow> uuid \<Rightarrow> string option \<Rightarrow> bool \<Rightarrow> merchant svc" where
  "update_webhook_config en user_id webhook_url regenerate_secret =
     bindS (query (get_merchant_profile user_id)) (\<lambda>merchant.
     let new_secret = (if regenerate_secret then Some (uuid_str (uuid4 en 0)) else None) in
     bindS (update_webhook merchant webhook_url new_secret) (\<lambda>merchant.
     bindS commit (\<lambda>_. returnS merchant)))"

text \<open>\<open>for candidate in candidates: if verify_api_key(...): return candidate\<close>.\<close>

definition authenticate :: "(string \<Rightarrow> string \<Rightarrow> bool) \<Rightarrow> string \<Rightarrow> db \<Rightarrow> exn + merchant" where
  "authenticate checkpw raw_key d =
     (let prefix = take 8 raw_key; candidates = get_active_by_prefix prefix d
      in case find (\<lambda>c. verify_api_key checkpw raw_key (m_api_key_hash c)) candidates of
           Some m \<Rightarrow> Inr m | None \<Rightarrow> Inl (UnauthorizedError ''Invalid API key.''))"

section \<open>Lemmas\<close>

lemma generate_api_key_prefix:
  "generate_api_key hashpw u = (raw, pre, hashed) \<Longrightarrow>
   pre = ''pk_live_'' \<and> take 8 raw = pre \<and> hashed = hashpw raw \<and> length raw = 40"
  by (auto simp: generate_api_key_def Let_def)

lemma merchant_get_by_idD:
  "merchant_get_by_id i d = Inr (Some m) \<Longrightarrow> m \<in> set (merchants d) \<and> m_id m = i \<and> m_deleted_at m = None"
  unfolding merchant_get_by_id_def by (drule scalar_filter_Some) simp

lemma get_merchant_profileD:
  "get_merchant_profile u d = Inr m \<Longrightarrow> m \<in> set (merchants d) \<and> m_user_id m = u \<and> m_deleted_at m = None"
  unfolding get_merchant_profile_def merchant_get_by_user_id_def
  by (auto simp: bindE_Inr_iff split: option.splits dest: scalar_filter_Some)

lemma authenticate_Inr:
  assumes "authenticate checkpw raw d = Inr m"
  shows "m \<in> set (merchants d) \<and> m_is_active m \<and> m_deleted_at m = None \<and> m_api_key_prefix m = take 8 raw \<and>
    checkpw raw (m_api_key_hash m)"
proof -
  have "find (\<lambda>c. verify_api_key checkpw raw (m_api_key_hash c)) (get_active_by_prefix (take 8 raw) d) = Some m"
    using assms by (simp add: authenticate_def Let_def split: option.splits)
  from find_SomeD [OF this] show ?thesis by (simp add: verify_api_key_def get_active_by_prefix_def)
qed

lemma authenticate_hit:
  assumes "m \<in> set (merchants d)" "m_is_active m" "m_deleted_at m = None" "m_api_key_prefix m = take 8 raw"
    and "checkpw raw (m_api_key_hash m)"
    and only: "\<And>n. n \<in> set (merchants d) \<Longrightarrow> checkpw raw (m_api_key_hash n) \<Longrightarrow> n = m"
  shows "authenticate checkpw raw d = Inr m"
proof -
  let ?c = "get_active_by_prefix (take 8 raw) d"
  have "m \<in> set ?c" using assms(1-4) by (simp add: get_active_by_prefix_def)
  then have "find (\<lambda>c. checkpw raw (m_api_key_hash c)) ?c \<noteq> None"
    using assms(5) by (auto simp: find_None_iff)
  then obtain n where n: "find (\<lambda>c. checkpw raw (m_api_key_hash c)) ?c = Some n" by auto
  then have "n \<in> set ?c" "checkpw raw (m_api_key_hash n)" by (auto simp: find_Some_iff)
  then have "n = m" using only [of n] by (simp add: get_active_by_prefix_def)
  with n show ?thesis by (simp add: authenticate_def verify_api_key_def)
qed

interpretation key: column_update m_id "set_api_key h p" for h p
  by unfold_locales (simp add: set_api_key_def)

end
