(* ===== verification/Webhook_Delivery.thy ===== *)
theory Webhook_Delivery
  imports Merchants Transactions
begin

text \<open>
  Webhooks to merchants: \<open>WebhookDeliveryRepository\<close> (\<open>app/repositories/webhook_delivery.py\<close>),
  \<open>WebhookDeliveryService\<close> (\<open>app/services/webhook_delivery.py\<close>) and the Celery tasks of
  \<open>app/workers/webhook_tasks.py\<close>. Three functions stand for what the code calls outside:
  \<open>dumps\<close> is \<open>json.dumps\<close>, \<open>hmac\<close> the hex digest of HMAC-SHA256, and \<open>post\<close> the HTTP request
  (URL, body, signature header), which answers with a status code or fails with an exception's text.
\<close>

section \<open>Repository\<close>

definition delivery_create :: "env \<Rightarrow> uuid \<Rightarrow> uuid \<Rightarrow> uuid \<Rightarrow> string \<Rightarrow> json \<Rightarrow> webhook_delivery svc" where
  "delivery_create en i merchant_id transaction_id event_type payload =
     (let delivery = \<lparr>d_id = i, d_merchant_id = merchant_id, d_transaction_id = transaction_id,
        d_event_type = event_type, d_payload = payload, d_status = WD_PENDING, d_attempt_count = 0,
        d_next_retry_at = None, d_last_response_code = None, d_last_error = None, d_created_at = now en\<rparr>
      in bindS (flush (insert_webhook_delivery delivery)) (\<lambda>_. returnS delivery))"

definition delivery_get_by_id :: "uuid \<Rightarrow> db \<Rightarrow> exn + webhook_delivery option" where
  "delivery_get_by_id i d = scalar_one_or_none (filter (\<lambda>w. d_id w = i) (webhook_deliveries d))"

definition due :: "timestamp \<Rightarrow> webhook_delivery \<Rightarrow> bool" where
  "due ts w \<longleftrightarrow> d_status w = WD_PENDING \<and> (case d_next_retry_at w of None \<Rightarrow> False | Some r \<Rightarrow> r \<le> ts)"

definition get_pending_for_retry :: "timestamp \<Rightarrow> nat \<Rightarrow> db \<Rightarrow> webhook_delivery list" where
  "get_pending_for_retry ts lim d =
     take lim (sort_key (\<lambda>w. the (d_next_retry_at w)) (filter (due ts) (webhook_deliveries d)))"

definition set_result ::
  "delivery_status \<Rightarrow> int \<Rightarrow> timestamp option \<Rightarrow> int option \<Rightarrow> string option \<Rightarrow> webhook_delivery \<Rightarrow> webhook_delivery" where
  "set_result status attempt_count next_retry_at last_response_code last_error w =
     w\<lparr>d_status := status, d_attempt_count := attempt_count, d_next_retry_at := next_retry_at,
       d_last_response_code := last_response_code, d_last_error := last_error\<rparr>"

definition write_delivery :: "uuid \<Rightarrow> (webhook_delivery \<Rightarrow> webhook_delivery) \<Rightarrow> db \<Rightarrow> exn + db" where
  "write_delivery i f d = Inr (d\<lparr>webhook_deliveries := upd d_id i f (webhook_deliveries d)\<rparr>)"

definition update_delivery_result ::
  "webhook_delivery \<Rightarrow> delivery_status \<Rightarrow> int \<Rightarrow> timestamp option \<Rightarrow> int option \<Rightarrow> string option \<Rightarrow>
   webhook_delivery svc" where
  "update_delivery_result delivery status attempt_count next_retry_at last_response_code last_error =
     (let f = set_result status attempt_count next_retry_at last_response_code last_error
      in bindS (flush (write_delivery (d_id delivery) f)) (\<lambda>_. returnS (f delivery)))"

definition delivery_list_all :: "nat \<Rightarrow> nat \<Rightarrow> db \<Rightarrow> webhook_delivery list" where
  "delivery_list_all lim off d = page lim off (order_desc d_created_at (webhook_deliveries d))"

definition delivery_count_all :: "db \<Rightarrow> nat" where
  "delivery_count_all d = length (webhook_deliveries d)"

section \<open>Service\<close>

definition create_and_enqueue ::
  "env \<Rightarrow> uuid \<Rightarrow> merchant \<Rightarrow> uuid \<Rightarrow> string \<Rightarrow> json \<Rightarrow> webhook_delivery option svc" where
  "create_and_enqueue en i merchant transaction_id event_type payload =
     (if \<not> truthy (m_webhook_url merchant) then returnS None
      else
        bindS (delivery_create en i (m_id merchant) transaction_id event_type payload) (\<lambda>delivery.
        bindS commit (\<lambda>_.
        bindS (catchS (delay en (DeliverMerchantWebhook (d_id delivery))) (\<lambda>_. True) (\<lambda>_. returnS ())) (\<lambda>_.
        returnS (Some delivery)))))"

definition mark_delivered :: "webhook_delivery \<Rightarrow> int \<Rightarrow> webhook_delivery svc" where
  "mark_delivered delivery response_code =
     update_delivery_result delivery WD_DELIVERED (d_attempt_count delivery + 1) None (Some response_code) None"

definition mark_failed :: "webhook_delivery \<Rightarrow> string \<Rightarrow> int option \<Rightarrow> webhook_delivery svc" where
  "mark_failed delivery err response_code =
     update_delivery_result delivery WD_FAILED (d_attempt_count delivery + 1) None response_code (Some err)"

section \<open>Tasks\<close>

definition RETRY_DELAYS_MINUTES :: "int list" where
  "RETRY_DELAYS_MINUTES = [0, 2, 4, 8, 16, 32]"

definition MAX_ATTEMPTS :: int where
  "MAX_ATTEMPTS = int (length RETRY_DELAYS_MINUTES)"

definition minutes :: "int \<Rightarrow> timestamp" where
  "minutes n = n * 60000000"

text \<open>\<open>resp.is_success\<close>.\<close>

definition is_success :: "int \<Rightarrow> bool" where
  "is_success code \<longleftrightarrow> 200 \<le> code \<and> code < 300"

text \<open>The row the failure branch writes: a retry on the schedule, or FAILED for good.\<close>

definition record_failure ::
  "timestamp \<Rightarrow> int \<Rightarrow> int option \<Rightarrow> string \<Rightarrow> webhook_delivery \<Rightarrow> webhook_delivery" where
  "record_failure ts attempt response_code error_msg w =
     (if MAX_ATTEMPTS \<le> attempt
      then w\<lparr>d_status := WD_FAILED, d_attempt_count := attempt, d_last_response_code := response_code,
             d_last_error := Some error_msg, d_next_retry_at := None\<rparr>
      else w\<lparr>d_attempt_count := attempt, d_last_response_code := response_code,
             d_last_error := Some error_msg,
             d_next_retry_at := Some (ts + minutes (RETRY_DELAYS_MINUTES ! nat attempt))\<rparr>)"

definition deliver_merchant_webhook ::
  "(json \<Rightarrow> string) \<Rightarrow> (string \<Rightarrow> string \<Rightarrow> string) \<Rightarrow> (string \<Rightarrow> string \<Rightarrow> string \<Rightarrow> string + int) \<Rightarrow>
   env \<Rightarrow> uuid \<Rightarrow> unit svc" where
  "deliver_merchant_webhook dumps hmac post en delivery_id =
     bindS (query (delivery_get_by_id delivery_id)) (\<lambda>delivery.
     case delivery of None \<Rightarrow> returnS ()
     | Some w \<Rightarrow>
     if d_status w = WD_DELIVERED then returnS ()
     else
     bindS (query (\<lambda>d. scalar_one_or_none (filter (\<lambda>m. m_id m = d_merchant_id w) (merchants d)))) (\<lambda>merchant.
     case (case merchant of None \<Rightarrow> None
           | Some m \<Rightarrow> if truthy (m_webhook_url m) then Some (the (m_webhook_url m), m) else None) of
       None \<Rightarrow>
         bindS (flush (write_delivery (d_id w) (\<lambda>w. w\<lparr>d_status := WD_FAILED,
            d_last_error := Some ''Merchant has no webhook URL configured.''\<rparr>))) (\<lambda>_. commit)
     | Some (url, m) \<Rightarrow>
         let payload_bytes = dumps (d_payload w);
             secret = get_or '''' (m_webhook_secret m);
             signature = hmac secret payload_bytes;
             attempt = d_attempt_count w + 1;
             (response_code, error_msg) = (case post url payload_bytes (''sha256='' @ signature) of
                 Inl exc \<Rightarrow> (None, Some exc)
               | Inr code \<Rightarrow> (Some code, if is_success code then None else Some (''HTTP '' @ show_int code)))
         in case error_msg of
           None \<Rightarrow>
             bindS (flush (write_delivery (d_id w) (\<lambda>w. w\<lparr>d_status := WD_DELIVERED, d_attempt_count := attempt,
                d_last_response_code := response_code, d_next_retry_at := None\<rparr>))) (\<lambda>_. commit)
         | Some msg \<Rightarrow>
             bindS (flush (write_delivery (d_id w) (record_failure (now en) attempt response_code msg))) (\<lambda>_.
             bindS commit (\<lambda>_.
             if MAX_ATTEMPTS \<le> attempt
             then log_sync en (uuid4 en 0) None ACTOR_SYSTEM ''webhook_delivery.failed''
               (Some ''webhook_delivery'') (Some (d_id w))
               (Some [(''merchant_id'', JUuid (d_merchant_id w)), (''attempts'', JInt attempt), (''last_error'', JStr msg)])
             else returnS ()))))"

definition retry_pending_webhooks :: "env \<Rightarrow> unit svc" where
  "retry_pending_webhooks en =
     bindS (select (\<lambda>d. map d_id (take 100 (filter (due (now en)) (webhook_deliveries d))))) (\<lambda>delivery_ids.
     forS delivery_ids (\<lambda>i. delay en (DeliverMerchantWebhook i)))"

section \<open>Lemmas\<close>

lemma max_attempts [simp]: "MAX_ATTEMPTS = 6"
  by (simp add: MAX_ATTEMPTS_def RETRY_DELAYS_MINUTES_def)

interpretation failure: column_update d_id "record_failure ts n c m" for ts n c m
  by unfold_locales (simp add: record_failure_def)

lemma delivery_get_by_idD:
  "delivery_get_by_id i d = Inr (Some w) \<Longrightarrow> w \<in> set (webhook_deliveries d) \<and> d_id w = i"
  unfolding delivery_get_by_id_def by (drule scalar_filter_Some) simp

text \<open>The deliveries table before and after one was perhaps set up.\<close>

definition enqueued :: "webhook_delivery list \<Rightarrow> webhook_delivery list \<Rightarrow> bool" where
  "enqueued ws ws' \<longleftrightarrow> ws' = ws \<or>
     (\<exists>w. d_status w = WD_PENDING \<and> d_attempt_count w = 0 \<and> \<not> clashes d_id w ws \<and> ws' = ws @ [w])"

lemma enqueued_refl [simp]: "enqueued ws ws"
  by (simp add: enqueued_def)

lemma enqueued_append:
  "d_status w = WD_PENDING \<Longrightarrow> d_attempt_count w = 0 \<Longrightarrow> \<not> clashes d_id w ws \<Longrightarrow> enqueued ws (ws @ [w])"
  by (auto simp: enqueued_def)

text \<open>Setting up a delivery only adds to the deliveries and sends at most one message.\<close>

lemma wp_create_and_enqueueI:
  assumes clean: "working s = committed s"
    and raised: "\<And>e. R e s" and none: "\<not> truthy (m_webhook_url m) \<Longrightarrow> Q None s"
    and made: "\<And>w wd s'. truthy (m_webhook_url m) \<Longrightarrow> d_status w = WD_PENDING \<Longrightarrow> d_attempt_count w = 0 \<Longrightarrow>
        d_next_retry_at w = None \<Longrightarrow> d_id w = i \<Longrightarrow> wd = webhook_deliveries (committed s) @ [w] \<Longrightarrow>
        committed s' = (committed s)\<lparr>webhook_deliveries := wd\<rparr> \<Longrightarrow> working s' = committed s' \<Longrightarrow>
        outbox s' = outbox s @ (if broker_up en then [DeliverMerchantWebhook i] else []) \<Longrightarrow>
        Q (Some w) s'"
  shows "wp (create_and_enqueue en i m ti ev pl) Q R s"
  using clean
  by (auto simp: create_and_enqueue_def delivery_create_def wp_rules Let_def insert_webhook_delivery_def
      intro!: raised none made)

text \<open>A failed attempt moves along the schedule; the sixth is the last.\<close>

lemma record_failure_schedule:
  "0 \<le> d_attempt_count w \<Longrightarrow> d_attempt_count w < 6 \<Longrightarrow> d_status w = WD_PENDING \<Longrightarrow>
   w' = record_failure ts (d_attempt_count w + 1) c m w \<Longrightarrow>
   (d_attempt_count w' = 6 \<and> d_status w' = WD_FAILED \<and> d_next_retry_at w' = None) \<or>
   (d_attempt_count w' < 6 \<and> d_status w' = WD_PENDING \<and>
    d_next_retry_at w' = Some (ts + minutes (2 ^ nat (d_attempt_count w'))))"
proof -
  assume "0 \<le> d_attempt_count w" "d_attempt_count w < 6"
  then consider "d_attempt_count w = 0" | "d_attempt_count w = 1" | "d_attempt_count w = 2"
    | "d_attempt_count w = 3" | "d_attempt_count w = 4" | "d_attempt_count w = 5" by linarith
  moreover assume "d_status w = WD_PENDING" "w' = record_failure ts (d_attempt_count w + 1) c m w"
  ultimately show ?thesis
    by cases (auto simp: record_failure_def RETRY_DELAYS_MINUTES_def minutes_def eval_nat_numeral)
qed

end
