(* ===== verification/Transfers.thy ===== *)
theory Transfers
  imports Fraud Users Accounts Webhook_Delivery
begin

text \<open>
  Money movement between two wallets: \<open>TransferService.initiate_transfer\<close>
  (\<open>app/services/transfer.py\<close>). The block that locks the two wallets, checks the balance and
  writes the transaction, the two ledger entries and the two balances is spelled out in the
  transfer and in the merchant payment; it is one definition here, \<open>move_funds\<close>.
\<close>

section \<open>Moving funds\<close>

text \<open>
  \<open>Inl\<close> is the early return of the IntegrityError handler: another request with the same
  idempotency key has committed, and its transaction is the answer.
\<close>

definition write_movement ::
  "env \<Rightarrow> transaction_type \<Rightarrow> wallet \<Rightarrow> wallet \<Rightarrow> money \<Rightarrow> uuid \<Rightarrow> string option \<Rightarrow>
   (transaction + transaction \<times> wallet \<times> wallet) svc" where
  "write_movement en ty locked_source locked_target amount initiator idempotency_key =
     (let source_balance_after = w_balance locked_source - amount;
          target_balance_after = w_balance locked_target + amount in
     catchS
       (bindS (transaction_create
          ((new_transaction (uuid4 en 1) (now en) (''txn_'' @ take 12 (uuid_hex (uuid4 en 0))) ty amount initiator)
            \<lparr>t_status := COMPLETED, t_currency := w_currency locked_source,
             t_source_wallet_id := Some (w_id locked_source),
             t_destination_wallet_id := Some (w_id locked_target),
             t_idempotency_key := idempotency_key\<rparr>)) (\<lambda>txn.
        bindS (post_double_entry en (uuid4 en 2) (uuid4 en 3) (t_id txn) (w_id locked_source)
          (w_id locked_target) amount (w_currency locked_source) source_balance_after target_balance_after) (\<lambda>_.
        bindS (wallet_update_balance locked_source source_balance_after) (\<lambda>_.
        bindS (wallet_update_balance locked_target target_balance_after) (\<lambda>_.
        bindS commit (\<lambda>_. returnS (Inr (txn, locked_source, locked_target))))))))
       (\<lambda>x. x = IntegrityError)
       (\<lambda>x. bindS rollback (\<lambda>_.
          bindS (query (find_existing idempotency_key)) (\<lambda>existing.
          case existing of Some t \<Rightarrow> returnS (Inl t) | None \<Rightarrow> raiseS x))))"

definition move_funds ::
  "env \<Rightarrow> transaction_type \<Rightarrow> wallet \<Rightarrow> wallet \<Rightarrow> money \<Rightarrow> uuid \<Rightarrow> string option \<Rightarrow>
   (transaction + transaction \<times> wallet \<times> wallet) svc" where
  "move_funds en ty source_wallet target_wallet amount initiator idempotency_key =
     (let (first_id, second_id) = sorted_by_str (w_id source_wallet) (w_id target_wallet) in
     bindS (query (wallet_lock_for_update first_id)) (\<lambda>locked_first.
     bindS (query (wallet_lock_for_update second_id)) (\<lambda>locked_second.
     case locked_first of None \<Rightarrow> raiseS (NotFoundError ''Wallet'')
     | Some lf \<Rightarrow>
     case locked_second of None \<Rightarrow> raiseS (NotFoundError ''Wallet'')
     | Some ls \<Rightarrow>
     let (locked_source, locked_target) = (if first_id = w_id source_wallet then (lf, ls) else (ls, lf)) in
     if w_balance locked_source < amount then raiseS InsufficientBalanceError
     else write_movement en ty locked_source locked_target amount initiator idempotency_key)))"

section \<open>The transfer\<close>

text \<open>The user id wins; with neither given, \<open>email.lower()\<close> on None is an AttributeError.\<close>

definition find_recipient :: "uuid option \<Rightarrow> string option \<Rightarrow> db \<Rightarrow> exn + user option" where
  "find_recipient recipient_user_id recipient_email d =
     (case recipient_user_id of Some i \<Rightarrow> user_get_by_id i d
      | None \<Rightarrow> (case recipient_email of Some m \<Rightarrow> user_get_by_email m d | None \<Rightarrow> Inl AttributeError))"

definition initiate_transfer ::
  "settings \<Rightarrow> env \<Rightarrow> user \<Rightarrow> uuid option \<Rightarrow> string option \<Rightarrow> money \<Rightarrow> string option \<Rightarrow> transaction svc" where
  "initiate_transfer cfg en sender recipient_user_id recipient_email amount idempotency_key =
     bindS (query (wallet_get_by_user_id (u_id sender))) (\<lambda>sender_wallet.
     case sender_wallet of None \<Rightarrow> raiseS (ForbiddenError ''Your wallet is inactive.'')
     | Some sw \<Rightarrow>
     if \<not> w_is_active sw then raiseS (ForbiddenError ''Your wallet is inactive.'')
     else
     bindS (query (find_recipient recipient_user_id recipient_email)) (\<lambda>recipient.
     case recipient of None \<Rightarrow> raiseS (NotFoundError ''Recipient'')
     | Some rcp \<Rightarrow>
     if \<not> u_is_active rcp then raiseS (NotFoundError ''Recipient'')
     else if u_id sender = u_id rcp
     then raiseS (ValidationError ''You cannot transfer funds to yourself.'' ''SELF_TRANSFER'')
     else
     bindS (query (wallet_get_by_user_id (u_id rcp))) (\<lambda>recipient_wallet.
     case recipient_wallet of None \<Rightarrow> raiseS (ForbiddenError ''Recipient wallet is inactive.'')
     | Some rw \<Rightarrow>
     if \<not> w_is_active rw then raiseS (ForbiddenError ''Recipient wallet is inactive.'')
     else
     bindS (query (find_existing idempotency_key)) (\<lambda>existing.
     case existing of Some t \<Rightarrow> returnS t
     | None \<Rightarrow>
     bindS (query (check_transfer cfg en sender sw (w_id rw) amount)) (\<lambda>_.
     bindS (move_funds en TRANSFER sw rw amount (u_id sender) idempotency_key) (\<lambda>outcome.
     case outcome of Inl t \<Rightarrow> returnS t
     | Inr (txn, locked_sender, locked_recipient) \<Rightarrow>
     bindS (maybe_flag_rapid_transfers cfg en (t_id txn) (w_id locked_sender)) (\<lambda>_.
     bindS (audit_log_write en (uuid4 en 4) (Some (u_id sender)) ACTOR_USER ''transfer.completed''
        (Some ''transaction'') (Some (t_id txn))
        (Some [(''amount'', JMoney amount), (''currency'', JStr (w_currency locked_sender)),
               (''recipient_wallet_id'', JUuid (w_id locked_recipient))])) (\<lambda>_.
     returnS txn))))))))"

section \<open>Lemmas\<close>

text \<open>The rows a completed movement adds, and the database it leaves.\<close>

definition moved_txn ::
  "env \<Rightarrow> transaction_type \<Rightarrow> wallet \<Rightarrow> wallet \<Rightarrow> money \<Rightarrow> uuid \<Rightarrow> string option \<Rightarrow> transaction" where
  "moved_txn en ty src dst amount initiator key =
     (new_transaction (uuid4 en 1) (now en) (''txn_'' @ take 12 (uuid_hex (uuid4 en 0))) ty amount initiator)
       \<lparr>t_status := COMPLETED, t_currency := w_currency src, t_source_wallet_id := Some (w_id src),
        t_destination_wallet_id := Some (w_id dst), t_idempotency_key := key\<rparr>"

definition posted_entry :: "env \<Rightarrow> uuid \<Rightarrow> uuid \<Rightarrow> uuid \<Rightarrow> entry_type \<Rightarrow> money \<Rightarrow> string \<Rightarrow> money \<Rightarrow> ledger_entry" where
  "posted_entry en i ti wi ty a c b =
     \<lparr>e_id = i, e_transaction_id = ti, e_wallet_id = wi, e_entry_type = ty, e_amount = a,
      e_currency = c, e_balance_after = b, e_created_at = now en\<rparr>"

definition funds_moved ::
  "env \<Rightarrow> transaction_type \<Rightarrow> wallet \<Rightarrow> wallet \<Rightarrow> money \<Rightarrow> uuid \<Rightarrow> string option \<Rightarrow> db \<Rightarrow> db" where
  "funds_moved en ty src dst amount initiator key d =
     d\<lparr>transactions := transactions d @ [moved_txn en ty src dst amount initiator key],
       ledger_entries := ledger_entries d @
         [posted_entry en (uuid4 en 2) (uuid4 en 1) (w_id src) DEBIT amount (w_currency src) (w_balance src - amount),
          posted_entry en (uuid4 en 3) (uuid4 en 1) (w_id dst) CREDIT amount (w_currency src) (w_balance dst + amount)],
       wallets := upd w_id (w_id dst) (\<lambda>w. w\<lparr>w_balance := w_balance dst + amount\<rparr>)
         (upd w_id (w_id src) (\<lambda>w. w\<lparr>w_balance := w_balance src - amount\<rparr>) (wallets d))\<rparr>"

lemma funds_moved_tables [simp]:
  "audit_logs (funds_moved en ty src dst a u k d) = audit_logs d"
  "webhook_deliveries (funds_moved en ty src dst a u k d) = webhook_deliveries d"
  by (simp_all add: funds_moved_def)

lemma moved_txn_simps [simp]:
  "t_id (moved_txn en ty src dst a u k) = uuid4 en 1" "t_status (moved_txn en ty src dst a u k) = COMPLETED"
  "t_type (moved_txn en ty src dst a u k) = ty" "t_amount (moved_txn en ty src dst a u k) = a"
  "t_source_wallet_id (moved_txn en ty src dst a u k) = Some (w_id src)"
  "t_destination_wallet_id (moved_txn en ty src dst a u k) = Some (w_id dst)"
  "t_initiated_by_user_id (moved_txn en ty src dst a u k) = u"
  "t_idempotency_key (moved_txn en ty src dst a u k) = k"
  "t_created_at (moved_txn en ty src dst a u k) = now en"
  "t_provider_reference (moved_txn en ty src dst a u k) = None"
  "t_currency (moved_txn en ty src dst a u k) = w_currency src"
  by (simp_all add: moved_txn_def)

lemma posted_entry_simps [simp]:
  "e_id (posted_entry en i ti wi ty a c b) = i" "e_transaction_id (posted_entry en i ti wi ty a c b) = ti"
  "e_wallet_id (posted_entry en i ti wi ty a c b) = wi" "e_entry_type (posted_entry en i ti wi ty a c b) = ty"
  "e_amount (posted_entry en i ti wi ty a c b) = a" "e_balance_after (posted_entry en i ti wi ty a c b) = b"
  "e_currency (posted_entry en i ti wi ty a c b) = c"
  by (simp_all add: posted_entry_def)

text \<open>
  The three ends of a movement on a clean session: it raises and nothing is committed; it returns
  the transaction that already holds the key and nothing is committed; or it commits exactly
  \<open>funds_moved\<close>, with both rows locked, the balance sufficient, and the new key unused.
\<close>

lemma session_back:
  fixes s s' :: session
  shows "working s = committed s \<Longrightarrow> committed s' = committed s \<Longrightarrow> outbox s' = outbox s \<Longrightarrow>
   s'\<lparr>working := committed s\<rparr> = s"
  by (rule session.equality) simp_all

lemma wp_write_movement:
  assumes clean: "working s = committed s"
    and raised: "\<And>e s'. committed s' = committed s \<Longrightarrow> outbox s' = outbox s \<Longrightarrow> R e s'"
    and replay: "\<And>t. find_existing key (committed s) = Inr (Some t) \<Longrightarrow> Q (Inl t) s"
    and moved: "a \<le> w_balance src \<Longrightarrow> 0 \<le> w_balance dst + a \<Longrightarrow>
       fresh_in (moved_txn en ty src dst a u key) (committed s) \<Longrightarrow>
       Q (Inr (moved_txn en ty src dst a u key, src, dst))
         (s\<lparr>working := funds_moved en ty src dst a u key (committed s),
            committed := funds_moved en ty src dst a u key (committed s)\<rparr>)"
  shows "wp (write_movement en ty src dst a u key) Q R s"
  unfolding write_movement_def Let_def wp_catchS moved_txn_def [symmetric]
proof (rule wp_mono [where Q = "\<lambda>r s'. a \<le> w_balance src \<and> 0 \<le> w_balance dst + a \<and>
       fresh_in (moved_txn en ty src dst a u key) (committed s) \<and>
       r = Inr (moved_txn en ty src dst a u key, src, dst) \<and>
       s' = s\<lparr>working := funds_moved en ty src dst a u key (committed s),
            committed := funds_moved en ty src dst a u key (committed s)\<rparr>"
   and R = "\<lambda>e s'. committed s' = committed s \<and> outbox s' = outbox s"], goal_cases)
  case 1
  show ?case
    using clean
    by (simp add: post_double_entry_def wp_rules Let_def insert_transaction_def insert_ledger_entry_def
        write_balance_def posted_entry_def funds_moved_def fresh_in_def)
next
  case (2 r s')
  then show ?case using moved by blast
next
  case (3 e s')
  then show ?case
    by (auto simp: wp_rules session_back [OF clean] clean intro!: raised replay split: sum.split option.split)
qed

lemma wp_move_funds:
  assumes clean: "working s = committed s"
    and raised: "\<And>e s'. committed s' = committed s \<Longrightarrow> outbox s' = outbox s \<Longrightarrow> R e s'"
    and replay: "\<And>t. find_existing key (committed s) = Inr (Some t) \<Longrightarrow> Q (Inl t) s"
    and moved: "\<And>src dst. wallet_lock_for_update (w_id sw) (committed s) = Inr (Some src) \<Longrightarrow>
       wallet_lock_for_update (w_id tw) (committed s) = Inr (Some dst) \<Longrightarrow>
       a \<le> w_balance src \<Longrightarrow> 0 \<le> w_balance dst + a \<Longrightarrow>
       fresh_in (moved_txn en ty src dst a u key) (committed s) \<Longrightarrow>
       Q (Inr (moved_txn en ty src dst a u key, src, dst))
         (s\<lparr>working := funds_moved en ty src dst a u key (committed s),
            committed := funds_moved en ty src dst a u key (committed s)\<rparr>)"
  shows "wp (move_funds en ty sw tw a u key) Q R s"
  using sorted_by_str_cases [of "w_id sw" "w_id tw"]
  by (auto simp: move_funds_def wp_rules Let_def clean split: sum.split option.split
      intro!: raised wp_write_movement [OF clean] replay moved)

text \<open>A completed movement keeps the books sound.\<close>

lemma sound_funds_moved:
  assumes sound: "sound d" and ty: "ty \<in> {TRANSFER, MERCHANT_PAYMENT}"
    and src: "src \<in> set (wallets d)" and dst: "dst \<in> set (wallets d)" and ne: "w_id src \<noteq> w_id dst"
    and funds: "a \<le> w_balance src" "0 \<le> w_balance dst + a"
    and fresh: "\<not> clashes t_id (moved_txn en ty src dst a u key) (transactions d)"
      "\<not> clashes t_reference (moved_txn en ty src dst a u key) (transactions d)"
  shows "sound (funds_moved en ty src dst a u key d)"
proof -
  let ?new = "[posted_entry en (uuid4 en 2) (uuid4 en 1) (w_id src) DEBIT a (w_currency src) (w_balance src - a),
     posted_entry en (uuid4 en 3) (uuid4 en 1) (w_id dst) CREDIT a (w_currency src) (w_balance dst + a)]"
  let ?t = "moved_txn en ty src dst a u key"
  define ws where "ws = upd w_id (w_id src) (\<lambda>w. w\<lparr>w_balance := w_balance src - a\<rparr>) (wallets d)"
  note dw = soundD(1) [OF sound] and pos = soundD(5) [OF sound]
  have fst_leg: "rebalanced (\<lambda>i. if i = w_id src then w_balance src - a - w_balance src else 0) (wallets d) ws"
    unfolding ws_def by (rule rebalanced_upd) (use dw src funds pos in auto)
  have dst': "dst \<in> set ws" using dst ne by (auto simp: ws_def upd_def)
  have snd_leg: "rebalanced (\<lambda>i. if i = w_id dst then w_balance dst + a - w_balance dst else 0) ws
       (upd w_id (w_id dst) (\<lambda>w. w\<lparr>w_balance := w_balance dst + a\<rparr>) ws)"
    by (rule rebalanced_upd) (use dw dst' funds fst_leg in \<open>auto simp: rebalanced_def ws_def bal.keys_upd\<close>)
  have "effect ?new (\<lambda>i. - hold_of i ?t) = (\<lambda>i. (if i = w_id src then w_balance src - a - w_balance src else 0) +
       (if i = w_id dst then w_balance dst + a - w_balance dst else 0))"
    by (rule ext) (use ne in \<open>auto simp: effect_def hold_of_def active_withdrawal_def\<close>)
  then have "rebalanced (effect ?new (\<lambda>i. - hold_of i ?t)) (wallets d)
       (upd w_id (w_id dst) (\<lambda>w. w\<lparr>w_balance := w_balance dst + a\<rparr>) ws)"
    using rebalanced_trans [OF fst_leg snd_leg] by simp
  with ty src dst ne fresh show ?thesis
    unfolding funds_moved_def ws_def
    by (intro sound_append [OF sound]) (auto simp: txn_ok_def posted_as_def active_withdrawal_def)
qed

text \<open>A completed movement leaves the total of the balances alone.\<close>

definition total_balance :: "db \<Rightarrow> money" where
  "total_balance d = (\<Sum>w\<leftarrow>wallets d. w_balance w)"

lemma total_funds_moved:
  assumes dw: "distinct (map w_id (wallets d))"
    and src: "src \<in> set (wallets d)" and dst: "dst \<in> set (wallets d)" and ne: "w_id src \<noteq> w_id dst"
  shows "total_balance (funds_moved en ty src dst a u key d) = total_balance d"
proof -
  define ws where "ws = upd w_id (w_id src) (\<lambda>w. w\<lparr>w_balance := w_balance src - a\<rparr>) (wallets d)"
  have dst': "dst \<in> set ws" using dst ne by (auto simp: ws_def upd_def)
  have dw': "distinct (map w_id ws)" using dw by (simp add: ws_def bal.keys_upd)
  have one: "(\<Sum>w\<leftarrow>ws. w_balance w) = (\<Sum>w\<leftarrow>wallets d. w_balance w) - a"
    unfolding ws_def by (simp add: sum_list_upd [OF dw src])
  show ?thesis
    by (simp add: total_balance_def funds_moved_def flip: ws_def) (simp add: sum_list_upd [OF dw' dst'] one)
qed

lemma balance_of_funds_moved:
  assumes dw: "distinct (map w_id (wallets d))" and src: "src \<in> set (wallets d)" and dst: "dst \<in> set (wallets d)"
    and ne: "w_id src \<noteq> w_id dst"
  shows "balance_of i (funds_moved en ty src dst a u key d) =
     map_option (\<lambda>b. b + (if i = w_id dst then a else if i = w_id src then - a else 0)) (balance_of i d)"
proof -
  let ?d = "d\<lparr>wallets := upd w_id (w_id src) (\<lambda>v. v\<lparr>w_balance := w_balance src + (- a)\<rparr>) (wallets d)\<rparr>"
  have "dst \<in> set (wallets ?d)" using dst ne by (auto simp: upd_def)
  moreover have "distinct (map w_id (wallets ?d))" using dw by (simp add: bal.keys_upd)
  ultimately show ?thesis
    using balance_of_write [OF dw src, of i "- a"] balance_of_write [of ?d dst i a] ne
    by (simp add: funds_moved_def balance_of_def option.map_comp comp_def)
qed

section \<open>The contract of a money movement\<close>

text \<open>The database after a movement that went through.\<close>

definition moved ::
  "env \<Rightarrow> transaction_type \<Rightarrow> wallet \<Rightarrow> wallet \<Rightarrow> money \<Rightarrow> uuid \<Rightarrow> string option \<Rightarrow> db \<Rightarrow> db \<Rightarrow> bool" where
  "moved en ty src dst a u key d d' \<longleftrightarrow> fresh_in (moved_txn en ty src dst a u key) d \<and>
     (\<exists>wd al. enqueued (webhook_deliveries d) wd \<and> prefix (audit_logs d) al \<and>
        d' = (funds_moved en ty src dst a u key d)\<lparr>webhook_deliveries := wd, audit_logs := al\<rparr>)"

lemma movedI:
  assumes "fresh_in (moved_txn en ty src dst a u key) d" and "enqueued (webhook_deliveries d) wd" and "prefix (audit_logs d) al"
    and "d' = (funds_moved en ty src dst a u key d)\<lparr>webhook_deliveries := wd, audit_logs := al\<rparr>"
  shows "moved en ty src dst a u key d d'"
  using assms by (auto simp: moved_def)

lemma movedI_audit:
  assumes "fresh_in (moved_txn en ty src dst a u key) d" and "prefix (audit_logs d) al"
    and "d' = (funds_moved en ty src dst a u key d)\<lparr>audit_logs := al\<rparr>"
  shows "moved en ty src dst a u key d d'"
  using assms by (intro movedI [where wd = "webhook_deliveries d" and al = al]) (simp_all add: funds_moved_def)

lemma movedI_plain:
  assumes "fresh_in (moved_txn en ty src dst a u key) d" and "d' = funds_moved en ty src dst a u key d"
  shows "moved en ty src dst a u key d d'"
  using assms by (intro movedI_audit [where al = "audit_logs d"]) (simp_all add: funds_moved_def)

lemma moved_postings:
  assumes "sound d" and "moved en ty src dst a u key d d'"
  shows "postings (uuid4 en 1) (ledger_entries d') = [(DEBIT, w_id src, a), (CREDIT, w_id dst, a)]"
proof -
  have "uuid4 en 1 \<notin> t_id ` set (transactions d)" using assms(2) by (auto simp: moved_def fresh_in_def clashes_def)
  then have "postings (uuid4 en 1) (ledger_entries d) = []"
    using assms(1) by (intro postings_absent) (auto simp: sound_def sound_tables_def)
  then show ?thesis using assms(2) by (auto simp: moved_def funds_moved_def)
qed

lemma moved_transactions: "moved en ty src dst a u key d d' \<Longrightarrow> transactions d' = transactions d @ [moved_txn en ty src dst a u key]"
  by (auto simp: moved_def funds_moved_def)

lemma daily_sum_moved:
  assumes "moved en ty src dst a u key d d'"
  shows "get_daily_outgoing_sum u ty (day_start_of (now en)) d' = get_daily_outgoing_sum u ty (day_start_of (now en)) d + a"
  using assms day_start_of_bounds(1) [of "now en"] by (auto simp: moved_def funds_moved_def get_daily_outgoing_sum_def)

lemma total_balance_frame [simp]:
  "total_balance (d\<lparr>webhook_deliveries := wd\<rparr>) = total_balance d" "total_balance (d\<lparr>audit_logs := al\<rparr>) = total_balance d"
  by (simp_all add: total_balance_def)

text \<open>
  What the services that move money between wallets promise, whatever their own checks \<open>may\<close>
  are: a run fails and changes nothing, answers with the transaction that already holds the
  idempotency key and changes nothing, or moves the amount. A request \<open>r\<close> names an initiator.
\<close>

locale money_movement =
  fixes svc :: "env \<Rightarrow> 'r \<Rightarrow> money \<Rightarrow> string option \<Rightarrow> transaction svc"
    and ty :: transaction_type
    and initiator :: "'r \<Rightarrow> uuid"
    and may :: "env \<Rightarrow> 'r \<Rightarrow> wallet \<Rightarrow> wallet \<Rightarrow> money \<Rightarrow> db \<Rightarrow> bool"
  assumes ty: "ty = TRANSFER \<or> ty = MERCHANT_PAYMENT"
    and may_wallets: "may en r src dst a d \<Longrightarrow> src \<in> set (wallets d) \<and> dst \<in> set (wallets d) \<and>
      w_user_id src = initiator r \<and> w_user_id dst \<noteq> initiator r \<and> a \<le> w_balance src \<and> 0 \<le> w_balance dst + a"
    and ends: "run (svc en r a key) d = (res, d', out) \<Longrightarrow> distinct (map w_id (wallets d)) \<Longrightarrow>
      (d' = d \<and> out = [] \<and> (\<forall>t. res = Inr t \<longrightarrow> find_existing key d = Inr (Some t))) \<or>
      (\<exists>src dst. may en r src dst a d \<and> moved en ty src dst a (initiator r) key d d' \<and>
        (res = Inr (moved_txn en ty src dst a (initiator r) key) \<or> res = Inl BrokerError \<and> \<not> broker_up en))"
begin

lemma ends_cases:
  assumes "run (svc en r a key) d = (res, d', out)" "distinct (map w_id (wallets d))"
  obtains (unchanged) "d' = d" "out = []" "\<And>t. res = Inr t \<Longrightarrow> find_existing key d = Inr (Some t)"
  | (moved) src dst where "may en r src dst a d" "moved en ty src dst a (initiator r) key d d'"
      "res = Inr (moved_txn en ty src dst a (initiator r) key) \<or> res = Inl BrokerError \<and> \<not> broker_up en"
      "src \<in> set (wallets d)" "dst \<in> set (wallets d)" "w_id src \<noteq> w_id dst" "a \<le> w_balance src" "0 \<le> w_balance dst + a"
proof (rule disjE [OF ends [OF assms]])
  assume "\<exists>src dst. may en r src dst a d \<and> moved en ty src dst a (initiator r) key d d' \<and>
    (res = Inr (moved_txn en ty src dst a (initiator r) key) \<or> res = Inl BrokerError \<and> \<not> broker_up en)"
  then obtain src dst where m: "may en r src dst a d" "moved en ty src dst a (initiator r) key d d'"
    "res = Inr (moved_txn en ty src dst a (initiator r) key) \<or> res = Inl BrokerError \<and> \<not> broker_up en"
    by blast
  note w = may_wallets [OF m(1)]
  have "w_id src \<noteq> w_id dst" using distinct_key_eq [OF assms(2), of src dst] w by auto
  with w show thesis by (intro moved [OF m]) simp_all
qed (rule unchanged; simp)

lemma keeps_sound:
  assumes "run (svc en r a key) d = (res, d', out)" "sound d"
  shows "sound d'"
  using assms(1) soundD(1) [OF assms(2)]
proof (cases rule: ends_cases)
  case (moved src dst)
  then have "sound (funds_moved en ty src dst a (initiator r) key d)"
    using assms(2) ty by (intro sound_funds_moved) (auto simp: moved_def fresh_in_def)
  then show ?thesis using moved(2) by (auto simp: moved_def)
qed (use assms in simp)

lemma failure_changes_nothing:
  "run (svc en r a key) d = (Inl e, d', out) \<Longrightarrow> distinct (map w_id (wallets d)) \<Longrightarrow> broker_up en \<Longrightarrow> d' = d \<and> out = []"
  by (erule ends_cases) auto

lemma conserves:
  assumes "run (svc en r a key) d = (res, d', out)" "distinct (map w_id (wallets d))"
  shows "total_balance d' = total_balance d"
  using assms by (cases rule: ends_cases) (auto simp: moved_def total_funds_moved [OF assms(2)])

lemma replay_answers_the_same:
  assumes "run (svc en r a key) d = (res, d', out)" "distinct (map w_id (wallets d))"
    and "find_existing key d = Inr (Some t)"
  shows "d' = d \<and> out = [] \<and> (\<forall>t'. res = Inr t' \<longrightarrow> t' = t)"
  using assms(1,2)
proof (cases rule: ends_cases)
  case (moved src dst)
  then show ?thesis
    using find_existingD [OF assms(3)] by (auto simp: moved_def fresh_in_def clashes_opt_def)
qed (use assms(3) in simp)

lemma moves_the_amount:
  assumes "run (svc en r a key) d = (Inr t, d', out)" "distinct (map w_id (wallets d))"
    and "find_existing key d = Inr None"
  obtains src dst where "may en r src dst a d" "moved en ty src dst a (initiator r) key d d'"
    "t = moved_txn en ty src dst a (initiator r) key"
    "\<And>i. balance_of i d' =
       map_option (\<lambda>b. b + (if i = w_id dst then a else if i = w_id src then - a else 0)) (balance_of i d)"
  using assms(1,2)
proof (cases rule: ends_cases)
  case (moved src dst)
  show thesis
  proof (rule that [OF moved(1,2)])
    show "t = moved_txn en ty src dst a (initiator r) key" using moved(3) by simp
    show "balance_of i d' =
       map_option (\<lambda>b. b + (if i = w_id dst then a else if i = w_id src then - a else 0)) (balance_of i d)" for i
      using moved(2) balance_of_funds_moved [OF assms(2) moved(4-6)] by (auto simp: moved_def)
  qed
qed (use assms(3) in simp)

end

section \<open>The outcomes of a transfer\<close>

text \<open>What the checks of a transfer established about the wallets that were locked.\<close>

definition may_transfer :: "settings \<Rightarrow> env \<Rightarrow> user \<Rightarrow> wallet \<Rightarrow> wallet \<Rightarrow> money \<Rightarrow> db \<Rightarrow> bool" where
  "may_transfer cfg en sender src dst a d \<longleftrightarrow>
     src \<in> set (wallets d) \<and> dst \<in> set (wallets d) \<and> w_user_id src = u_id sender \<and>
     w_user_id dst \<noteq> u_id sender \<and> w_is_active src \<and> w_is_active dst \<and>
     (\<exists>u\<in>set (users d). u_id u = w_user_id dst \<and> u_is_active u) \<and>
     a \<le> w_balance src \<and> 0 \<le> w_balance dst + a \<and>
     check_transfer cfg en sender src (w_id dst) a d = Inr ()"

lemma may_transferI:
  assumes "distinct (map w_id (wallets d))"
    and "wallet_get_by_user_id (u_id sender) d = Inr (Some sw)" "w_is_active sw"
    and "wallet_get_by_user_id (u_id r) d = Inr (Some rw)" "w_is_active rw"
    and "find_recipient i m d = Inr (Some r)" "u_is_active r" "u_id sender \<noteq> u_id r"
    and "wallet_lock_for_update (w_id sw) d = Inr (Some src)" "wallet_lock_for_update (w_id rw) d = Inr (Some dst)"
    and "check_transfer cfg en sender sw (w_id rw) a d = Inr ()" "a \<le> w_balance src" "0 \<le> w_balance dst + a"
  shows "may_transfer cfg en sender src dst a d"
proof -
  note same = distinct_key_eq [OF assms(1)]
  from assms have "src = sw" "dst = rw"
    by (auto intro!: same dest: wallet_lockD wallet_get_by_user_idD)
  moreover have "r \<in> set (users d)"
    using assms(6) by (auto simp: find_recipient_def split: option.splits dest: user_get_by_idD user_get_by_emailD)
  ultimately show ?thesis
    using assms by (auto simp: may_transfer_def dest!: wallet_get_by_user_idD)
qed

lemma wp_initiate_transfer:
  assumes clean: "working s = committed s" and dw: "distinct (map w_id (wallets (committed s)))"
    and raised: "\<And>e s'. committed s' = committed s \<Longrightarrow> outbox s' = outbox s \<Longrightarrow> R e s'"
    and replay: "\<And>t. find_existing key (committed s) = Inr (Some t) \<Longrightarrow> Q t s"
    and moved: "\<And>src dst t s' al. may_transfer cfg en sender src dst a (committed s) \<Longrightarrow>
       t = moved_txn en TRANSFER src dst a (u_id sender) key \<Longrightarrow> fresh_in t (committed s) \<Longrightarrow>
       committed s' = (funds_moved en TRANSFER src dst a (u_id sender) key (committed s))\<lparr>audit_logs := al\<rparr> \<Longrightarrow> prefix (audit_logs (committed s)) al \<Longrightarrow>
       Q t s'"
    and unflagged: "\<And>src dst s'. may_transfer cfg en sender src dst a (committed s) \<Longrightarrow>
       fresh_in (moved_txn en TRANSFER src dst a (u_id sender) key) (committed s) \<Longrightarrow>
       committed s' = funds_moved en TRANSFER src dst a (u_id sender) key (committed s) \<Longrightarrow>
       \<not> broker_up en \<Longrightarrow> R BrokerError s'"
  shows "wp (initiate_transfer cfg en sender rid email a key) Q R s"
  unfolding initiate_transfer_def
  by (intro wp_intros wp_move_funds [OF clean] wp_flag_rapidI wp_audit_clean; (rule raised; simp; fail)?)
    (auto simp: clean intro: replay moved unflagged may_transferI [OF dw])

text \<open>A transfer is a money movement.\<close>

lemma transfer_ends:
  assumes run: "run (initiate_transfer cfg en sender rid email a key) d = (res, d', out)"
    and dw: "distinct (map w_id (wallets d))"
  shows "(d' = d \<and> out = [] \<and> (\<forall>t. res = Inr t \<longrightarrow> find_existing key d = Inr (Some t))) \<or>
    (\<exists>src dst. may_transfer cfg en sender src dst a d \<and> moved en TRANSFER src dst a (u_id sender) key d d' \<and>
      (res = Inr (moved_txn en TRANSFER src dst a (u_id sender) key) \<or> res = Inl BrokerError \<and> \<not> broker_up en))"
proof -
  let ?Q = "\<lambda>r s'. (committed s' = d \<and> outbox s' = [] \<and> (\<forall>t. r = Inr t \<longrightarrow> find_existing key d = Inr (Some t))) \<or>
    (\<exists>src dst. may_transfer cfg en sender src dst a d \<and> moved en TRANSFER src dst a (u_id sender) key d (committed s') \<and>
      (r = Inr (moved_txn en TRANSFER src dst a (u_id sender) key) \<or> r = Inl BrokerError \<and> \<not> broker_up en))"
  have "wp (initiate_transfer cfg en sender rid email a key) (\<lambda>t. ?Q (Inr t)) (\<lambda>e. ?Q (Inl e)) (fresh_session d)"
  proof (rule wp_initiate_transfer, goal_cases)
    case (5 src dst t s' al)
    then have "moved en TRANSFER src dst a (u_id sender) key d (committed s')" by (intro movedI_audit) simp_all
    with 5 show ?case by auto
  next
    case (6 src dst s')
    then have "moved en TRANSFER src dst a (u_id sender) key d (committed s')" by (intro movedI_plain) simp_all
    with 6 show ?case by auto
  qed (use dw in simp_all)
  then show ?thesis
    by (rule runE [OF run]) (auto split: sum.splits)
qed

definition transfer_request ::
  "settings \<Rightarrow> env \<Rightarrow> user \<times> uuid option \<times> string option \<Rightarrow> money \<Rightarrow> string option \<Rightarrow> transaction svc" where
  "transfer_request cfg en r a key = (case r of (sender, rid, email) \<Rightarrow> initiate_transfer cfg en sender rid email a key)"

interpretation transfer: money_movement "transfer_request cfg" TRANSFER "\<lambda>r. u_id (fst r)"
    "\<lambda>en r. may_transfer cfg en (fst r)" for cfg
proof unfold_locales
  show "run (transfer_request cfg en r a key) d = (res, d', out) \<Longrightarrow> distinct (map w_id (wallets d)) \<Longrightarrow>
      (d' = d \<and> out = [] \<and> (\<forall>t. res = Inr t \<longrightarrow> find_existing key d = Inr (Some t))) \<or>
      (\<exists>src dst. may_transfer cfg en (fst r) src dst a d \<and> moved en TRANSFER src dst a (u_id (fst r)) key d d' \<and>
        (res = Inr (moved_txn en TRANSFER src dst a (u_id (fst r)) key) \<or> res = Inl BrokerError \<and> \<not> broker_up en))"
    for en r a key d res d' out
    by (cases r) (simp add: transfer_request_def transfer_ends)
qed (auto simp: may_transfer_def)

end
