(* ===== verification/Payments.thy ===== *)
theory Payments
  imports Transfers Webhook_Delivery
begin

text \<open>
  Payments to merchants: \<open>MerchantPaymentService.initiate_payment\<close>
  (\<open>app/services/merchant_payment.py\<close>). The money moves by the same locked block as a transfer,
  \<^const>\<open>move_funds\<close>; after the commit the payment is flagged, a webhook delivery is set up and
  an audit entry written.
\<close>

definition initiate_payment ::
  "settings \<Rightarrow> env \<Rightarrow> user \<Rightarrow> uuid \<Rightarrow> money \<Rightarrow> string option \<Rightarrow> transaction svc" where
  "initiate_payment cfg en payer merchant_id amount idempotency_key =
     bindS (query (merchant_get_by_id merchant_id)) (\<lambda>merchant.
     case merchant of None \<Rightarrow> raiseS (NotFoundError ''Merchant'')
     | Some m \<Rightarrow>
     if \<not> m_is_active m then raiseS (ForbiddenError ''Merchant account is inactive.'')
     else if u_id payer = m_user_id m
     then raiseS (ValidationError ''You cannot pay yourself.'' ''SELF_PAYMENT'')
     else
     bindS (query (wallet_get_by_user_id (u_id payer))) (\<lambda>payer_wallet.
     case payer_wallet of None \<Rightarrow> raiseS (ForbiddenError ''Your wallet is inactive.'')
     | Some pw \<Rightarrow>
     if \<not> w_is_active pw then raiseS (ForbiddenError ''Your wallet is inactive.'')
     else
     bindS (query (wallet_get_by_user_id (m_user_id m))) (\<lambda>merchant_wallet.
     case merchant_wallet of None \<Rightarrow> raiseS (ForbiddenError ''Merchant wallet is inactive.'')
     | Some mw \<Rightarrow>
     if \<not> w_is_active mw then raiseS (ForbiddenError ''Merchant wallet is inactive.'')
     else
     bindS (query (find_existing idempotency_key)) (\<lambda>existing.
     case existing of Some t \<Rightarrow> returnS t
     | None \<Rightarrow>
     bindS (query (check_merchant_payment cfg en payer pw (w_id mw) amount)) (\<lambda>_.
     bindS (move_funds en MERCHANT_PAYMENT pw mw amount (u_id payer) idempotency_key) (\<lambda>outcome.
     case outcome of Inl t \<Rightarrow> returnS t
     | Inr (txn, locked_payer, locked_merchant) \<Rightarrow>
     bindS (maybe_flag_merchant_payment cfg en (t_id txn) payer amount) (\<lambda>_.
     let payload = [(''event'', JStr ''payment.received''),
           (''data'', JObj [(''transaction_reference'', JStr (t_reference txn)), (''amount'', JMoney amount),
              (''currency'', JStr (w_currency locked_payer)), (''payer_id'', JUuid (u_id payer))]),
           (''timestamp'', JTime (now en))] in
     bindS (catchS (bindS (create_and_enqueue en (uuid4 en 4) m (t_id txn) ''payment.received'' payload)
                     (\<lambda>_. returnS ())) (\<lambda>_. True) (\<lambda>_. returnS ())) (\<lambda>_.
     bindS (audit_log_write en (uuid4 en 5) (Some (u_id payer)) ACTOR_USER ''merchant_payment.completed''
        (Some ''transaction'') (Some (t_id txn))
        (Some [(''merchant_id'', JUuid (m_id m)), (''amount'', JMoney amount),
               (''currency'', JStr (w_currency locked_payer))])) (\<lambda>_.
     returnS txn)))))))))"

section \<open>The outcomes of a payment\<close>

definition may_pay :: "settings \<Rightarrow> env \<Rightarrow> user \<Rightarrow> uuid \<Rightarrow> wallet \<Rightarrow> wallet \<Rightarrow> money \<Rightarrow> db \<Rightarrow> bool" where
  "may_pay cfg en payer merchant_id src dst a d \<longleftrightarrow>
     src \<in> set (wallets d) \<and> dst \<in> set (wallets d) \<and> w_user_id src = u_id payer \<and>
     w_user_id dst \<noteq> u_id payer \<and> w_is_active src \<and> w_is_active dst \<and>
     (\<exists>m\<in>set (merchants d). m_id m = merchant_id \<and> m_is_active m \<and> m_deleted_at m = None \<and>
       m_user_id m = w_user_id dst) \<and>
     a \<le> w_balance src \<and> 0 \<le> w_balance dst + a \<and>
     check_merchant_payment cfg en payer src (w_id dst) a d = Inr ()"

lemma may_payI:
  assumes "distinct (map w_id (wallets d))"
    and "wallet_get_by_user_id (u_id payer) d = Inr (Some sw)" "w_is_active sw"
    and "wallet_get_by_user_id (m_user_id m) d = Inr (Some rw)" "w_is_active rw"
    and "merchant_get_by_id i d = Inr (Some m)" "m_is_active m" "u_id payer \<noteq> m_user_id m"
    and "wallet_lock_for_update (w_id sw) d = Inr (Some src)" "wallet_lock_for_update (w_id rw) d = Inr (Some dst)"
    and "check_merchant_payment cfg en payer sw (w_id rw) a d = Inr ()" "a \<le> w_balance src" "0 \<le> w_balance dst + a"
  shows "may_pay cfg en payer i src dst a d"
proof -
  note same = distinct_key_eq [OF assms(1)]
  from assms have "src = sw" "dst = rw"
    by (auto intro!: same dest: wallet_lockD wallet_get_by_user_idD)
  then show ?thesis
    using assms by (auto simp: may_pay_def dest!: wallet_get_by_user_idD merchant_get_by_idD)
qed

lemma wp_flag_paymentI:
  "(\<And>out. Q () (s\<lparr>outbox := out\<rparr>)) \<Longrightarrow> (\<not> broker_up en \<Longrightarrow> R BrokerError s) \<Longrightarrow>
   wp (maybe_flag_merchant_payment cfg en ti u a) Q R s"
  using session.surjective[of s] by (simp add: wp_rules) (metis session.surjective session.update_convs(3))

text \<open>The delivery is set up in a \<open>try\<close> of its own, which never fails.\<close>

lemma wp_enqueue_quiet:
  assumes clean: "working s = committed s"
    and ret: "\<And>wd s'. committed s' = (committed s)\<lparr>webhook_deliveries := wd\<rparr> \<Longrightarrow> enqueued (webhook_deliveries (committed s)) wd \<Longrightarrow> working s' = committed s' \<Longrightarrow> Q () s'"
  shows "wp (catchS (bindS (create_and_enqueue en i m ti ev pl) (\<lambda>_. returnS ())) (\<lambda>_. True) (\<lambda>_. returnS ())) Q R s"
proof -
  have same: "Q () s" by (rule ret [of _ "webhook_deliveries (committed s)"]) (simp_all add: clean)
  show ?thesis
    using clean same
    by (auto simp: create_and_enqueue_def delivery_create_def wp_rules Let_def insert_webhook_delivery_def
        intro!: ret [OF _ enqueued_append])
qed

lemma wp_initiate_payment:
  assumes clean: "working s = committed s" and dw: "distinct (map w_id (wallets (committed s)))"
    and raised: "\<And>e s'. committed s' = committed s \<Longrightarrow> outbox s' = outbox s \<Longrightarrow> R e s'"
    and replay: "\<And>t. find_existing key (committed s) = Inr (Some t) \<Longrightarrow> Q t s"
    and moved: "\<And>src dst t s' al wd. may_pay cfg en payer mid src dst a (committed s) \<Longrightarrow>
       t = moved_txn en MERCHANT_PAYMENT src dst a (u_id payer) key \<Longrightarrow> fresh_in t (committed s) \<Longrightarrow>
       committed s' = (funds_moved en MERCHANT_PAYMENT src dst a (u_id payer) key (committed s))
         \<lparr>webhook_deliveries := wd, audit_logs := al\<rparr> \<Longrightarrow>
       enqueued (webhook_deliveries (committed s)) wd \<Longrightarrow> prefix (audit_logs (committed s)) al \<Longrightarrow>
       Q t s'"
    and unflagged: "\<And>src dst s'. may_pay cfg en payer mid src dst a (committed s) \<Longrightarrow>
       fresh_in (moved_txn en MERCHANT_PAYMENT src dst a (u_id payer) key) (committed s) \<Longrightarrow>
       committed s' = funds_moved en MERCHANT_PAYMENT src dst a (u_id payer) key (committed s) \<Longrightarrow>
       \<not> broker_up en \<Longrightarrow> R BrokerError s'"
  shows "wp (initiate_payment cfg en payer mid a key) Q R s"
  unfolding initiate_payment_def
  by (intro wp_intros wp_move_funds [OF clean] wp_flag_paymentI wp_audit_clean wp_enqueue_quiet; (rule raised; simp; fail)?)
    (auto simp: clean intro: replay moved unflagged may_payI [OF dw])

text \<open>A payment is a money movement.\<close>

lemma payment_ends:
  assumes run: "run (initiate_payment cfg en payer mid a key) d = (res, d', out)"
    and dw: "distinct (map w_id (wallets d))"
  shows "(d' = d \<and> out = [] \<and> (\<forall>t. res = Inr t \<longrightarrow> find_existing key d = Inr (Some t))) \<or>
    (\<exists>src dst. may_pay cfg en payer mid src dst a d \<and> moved en MERCHANT_PAYMENT src dst a (u_id payer) key d d' \<and>
      (res = Inr (moved_txn en MERCHANT_PAYMENT src dst a (u_id payer) key) \<or> res = Inl BrokerError \<and> \<not> broker_up en))"
proof -
  let ?Q = "\<lambda>r s'. (committed s' = d \<and> outbox s' = [] \<and> (\<forall>t. r = Inr t \<longrightarrow> find_existing key d = Inr (Some t))) \<or>
    (\<exists>src dst. may_pay cfg en payer mid src dst a d \<and> moved en MERCHANT_PAYMENT src dst a (u_id payer) key d (committed s') \<and>
      (r = Inr (moved_txn en MERCHANT_PAYMENT src dst a (u_id payer) key) \<or> r = Inl BrokerError \<and> \<not> broker_up en))"
  have "wp (initiate_payment cfg en payer mid a key) (\<lambda>t. ?Q (Inr t)) (\<lambda>e. ?Q (Inl e)) (fresh_session d)"
  proof (rule wp_initiate_payment, goal_cases)
    case (5 src dst t s' al wd)
    then have "moved en MERCHANT_PAYMENT src dst a (u_id payer) key d (committed s')" by (intro movedI) simp_all
    with 5 show ?case by auto
  next
    case (6 src dst s')
    then have "moved en MERCHANT_PAYMENT src dst a (u_id payer) key d (committed s')" by (intro movedI_plain) simp_all
    with 6 show ?case by auto
  qed (use dw in simp_all)
  then show ?thesis
    by (rule runE [OF run]) (auto split: sum.splits)
qed

definition payment_request ::
  "settings \<Rightarrow> env \<Rightarrow> user \<times> uuid \<Rightarrow> money \<Rightarrow> string option \<Rightarrow> transaction svc" where
  "payment_request cfg en r a key = (case r of (payer, mid) \<Rightarrow> initiate_payment cfg en payer mid a key)"

interpretation payment: money_movement "payment_request cfg" MERCHANT_PAYMENT "\<lambda>r. u_id (fst r)"
    "\<lambda>en r. may_pay cfg en (fst r) (snd r)" for cfg
proof unfold_locales
  show "run (payment_request cfg en r a key) d = (res, d', out) \<Longrightarrow> distinct (map w_id (wallets d)) \<Longrightarrow>
      (d' = d \<and> out = [] \<and> (\<forall>t. res = Inr t \<longrightarrow> find_existing key d = Inr (Some t))) \<or>
      (\<exists>src dst. may_pay cfg en (fst r) (snd r) src dst a d \<and> moved en MERCHANT_PAYMENT src dst a (u_id (fst r)) key d d' \<and>
        (res = Inr (moved_txn en MERCHANT_PAYMENT src dst a (u_id (fst r)) key) \<or> res = Inl BrokerError \<and> \<not> broker_up en))"
    for en r a key d res d' out
    by (cases r) (simp add: payment_request_def payment_ends)
qed (auto simp: may_pay_def)

end
