(* ===== verification/Paystack.thy ===== *)
theory Paystack
  imports Webhook_Delivery
begin

text \<open>
  The Paystack client (\<open>app/integrations/paystack.py\<close>). Paystack itself is a parameter: two
  functions that answer a POST or a GET, or fail to. The client turns every failure the
  network or Paystack reports into \<open>ExternalServiceError\<close>.
\<close>

datatype http_answer =
    NetworkError
  | Answer (http_status: int) (http_body: http_body)
  and http_body = NotJson | Body (body_data: "event_data option")

record http_client =
  http_post :: "string \<Rightarrow> json \<Rightarrow> http_answer"
  http_get :: "string \<Rightarrow> http_answer"

text \<open>The common part of \<open>_post\<close> and \<open>_get\<close>; \<open>resp.json().get("data", {})\<close>.\<close>

definition read_answer :: "http_answer \<Rightarrow> exn + event_data" where
  "read_answer a = (case a of
       NetworkError \<Rightarrow> Inl (ExternalServiceError ''Paystack'')
     | Answer code body \<Rightarrow>
         if \<not> is_success code then Inl (ExternalServiceError ''Paystack'')
         else (case body of NotJson \<Rightarrow> Inl JSONDecodeError | Body x \<Rightarrow> Inr (get_or empty_data x)))"

definition paystack_post :: "http_client \<Rightarrow> string \<Rightarrow> json \<Rightarrow> exn + event_data" where
  "paystack_post client path payload = read_answer (http_post client path payload)"

definition paystack_get :: "http_client \<Rightarrow> string \<Rightarrow> exn + event_data" where
  "paystack_get client path = read_answer (http_get client path)"

definition initialize_transaction :: "http_client \<Rightarrow> string \<Rightarrow> int \<Rightarrow> string \<Rightarrow> exn + event_data" where
  "initialize_transaction client email amount_kobo reference =
     paystack_post client ''/transaction/initialize''
       [(''email'', JStr email), (''amount'', JInt amount_kobo), (''reference'', JStr reference)]"

definition verify_transaction :: "http_client \<Rightarrow> string \<Rightarrow> exn + event_data" where
  "verify_transaction client reference = paystack_get client (''/transaction/verify/'' @ reference)"

definition create_transfer_recipient :: "http_client \<Rightarrow> string \<Rightarrow> string \<Rightarrow> string \<Rightarrow> string \<Rightarrow> exn + event_data" where
  "create_transfer_recipient client name account_number bank_code currency =
     paystack_post client ''/transferrecipient''
       [(''type'', JStr ''nuban''), (''name'', JStr name), (''account_number'', JStr account_number),
        (''bank_code'', JStr bank_code), (''currency'', JStr currency)]"

definition paystack_transfer :: "http_client \<Rightarrow> int \<Rightarrow> string \<Rightarrow> string \<Rightarrow> string \<Rightarrow> exn + event_data" where
  "paystack_transfer client amount_kobo recipient_code reference reason =
     paystack_post client ''/transfer''
       [(''source'', JStr ''balance''), (''amount'', JInt amount_kobo), (''recipient'', JStr recipient_code),
        (''reference'', JStr reference), (''reason'', JStr reason)]"

definition verify_transfer :: "http_client \<Rightarrow> string \<Rightarrow> exn + event_data" where
  "verify_transfer client transfer_code = paystack_get client (''/transfer/'' @ transfer_code)"

definition resolve_account :: "http_client \<Rightarrow> string \<Rightarrow> string \<Rightarrow> exn + event_data" where
  "resolve_account client account_number bank_code =
     paystack_get client (''/bank/resolve?account_number='' @ account_number @ ''&bank_code='' @ bank_code)"

section \<open>Lemmas\<close>

lemma read_answer_Inr:
  "read_answer a = Inr x \<longleftrightarrow> (\<exists>code body. a = Answer code (Body body) \<and> 200 \<le> code \<and> code < 300 \<and> x = get_or empty_data body)"
  by (auto simp: read_answer_def is_success_def split: http_answer.splits http_body.splits if_splits)

lemma read_answer_Inl: "read_answer a = Inl e \<Longrightarrow> e = ExternalServiceError ''Paystack'' \<or> e = JSONDecodeError"
  by (auto simp: read_answer_def split: http_answer.splits http_body.splits if_splits)

lemma read_answer_status: "a = NetworkError \<or> (\<exists>code body. a = Answer code body \<and> \<not> is_success code) \<Longrightarrow>
   read_answer a = Inl (ExternalServiceError ''Paystack'')"
  by (auto simp: read_answer_def)

end
