(* ===== verification/Bank_Accounts.thy ===== *)
theory Bank_Accounts
  imports Users Paystack
begin

text \<open>
  Bank accounts: \<open>BankAccountRepository\<close> (\<open>app/repositories/bank_account.py\<close>), the account
  verification of \<open>app/services/withdrawal.py\<close> and its account management methods. Removing an
  account needs the user's active withdrawal; that part is in \<open>Withdrawals\<close>.
\<close>

section \<open>Repository\<close>

definition account_create ::
  "env \<Rightarrow> uuid \<Rightarrow> uuid \<Rightarrow> string \<Rightarrow> string \<Rightarrow> string \<Rightarrow> string \<Rightarrow> bool \<Rightarrow> bank_account svc" where
  "account_create en i user_id account_name account_number bank_code bank_name is_default =
     (let account = \<lparr>b_id = i, b_user_id = user_id, b_account_name = account_name,
        b_account_number = account_number, b_bank_code = bank_code, b_bank_name = bank_name,
        b_is_default = is_default, b_paystack_recipient_code = None, b_deleted_at = None,
        b_created_at = now en\<rparr>
      in bindS (flush (insert_bank_account account)) (\<lambda>_. returnS account))"

definition account_get_by_id :: "uuid \<Rightarrow> db \<Rightarrow> exn + bank_account option" where
  "account_get_by_id account_id d =
     scalar_one_or_none (filter (\<lambda>b. b_id b = account_id \<and> b_deleted_at b = None) (bank_accounts d))"

definition account_get_by_user_id :: "uuid \<Rightarrow> db \<Rightarrow> bank_account list" where
  "account_get_by_user_id user_id d =
     sort_key b_created_at (filter (\<lambda>b. b_user_id b = user_id \<and> b_deleted_at b = None) (bank_accounts d))"

definition get_default :: "uuid \<Rightarrow> db \<Rightarrow> exn + bank_account option" where
  "get_default user_id d =
     scalar_one_or_none (filter (\<lambda>b. b_user_id b = user_id \<and> b_is_default b \<and> b_deleted_at b = None) (bank_accounts d))"

definition count_by_user :: "uuid \<Rightarrow> db \<Rightarrow> nat" where
  "count_by_user user_id d = length (filter (\<lambda>b. b_user_id b = user_id \<and> b_deleted_at b = None) (bank_accounts d))"

definition write_account :: "uuid \<Rightarrow> (bank_account \<Rightarrow> bank_account) \<Rightarrow> db \<Rightarrow> exn + db" where
  "write_account i f d = Inr (d\<lparr>bank_accounts := upd b_id i f (bank_accounts d)\<rparr>)"

definition unset_all_defaults :: "uuid \<Rightarrow> db \<Rightarrow> exn + db" where
  "unset_all_defaults user_id d =
     Inr (d\<lparr>bank_accounts := map (\<lambda>b. if b_user_id b = user_id \<and> b_deleted_at b = None
       then b\<lparr>b_is_default := False\<rparr> else b) (bank_accounts d)\<rparr>)"

definition mark_default :: "bool \<Rightarrow> bank_account \<Rightarrow> bank_account" where
  "mark_default v b = b\<lparr>b_is_default := v\<rparr>"

definition set_default :: "bank_account \<Rightarrow> bank_account svc" where
  "set_default bank_account =
     bindS (flush (unset_all_defaults (b_user_id bank_account))) (\<lambda>_.
     bindS (flush (write_account (b_id bank_account) (mark_default True))) (\<lambda>_.
     returnS (mark_default True bank_account)))"

definition set_recipient_code :: "bank_account \<Rightarrow> string \<Rightarrow> bank_account svc" where
  "set_recipient_code bank_account code =
     bindS (flush (write_account (b_id bank_account) (\<lambda>b. b\<lparr>b_paystack_recipient_code := Some code\<rparr>)))
       (\<lambda>_. returnS (bank_account\<lparr>b_paystack_recipient_code := Some code\<rparr>))"

definition delete_account :: "timestamp \<Rightarrow> bank_account \<Rightarrow> bank_account" where
  "delete_account ts b = b\<lparr>b_deleted_at := Some ts, b_is_default := False\<rparr>"

text \<open>If the deleted account was the default, the oldest remaining one is promoted.\<close>

definition account_soft_delete :: "env \<Rightarrow> bank_account \<Rightarrow> unit svc" where
  "account_soft_delete en bank_account =
     (if b_is_default bank_account
      then
        bindS (flush (write_account (b_id bank_account) (delete_account (now en)))) (\<lambda>_.
        bindS (select (account_get_by_user_id (b_user_id bank_account))) (\<lambda>remaining.
        case remaining of [] \<Rightarrow> returnS ()
        | b # _ \<Rightarrow> flush (write_account (b_id b) (mark_default True))))
      else flush (write_account (b_id bank_account) (\<lambda>b. b\<lparr>b_deleted_at := Some (now en)\<rparr>)))"

section \<open>Service\<close>

text \<open>\<open>data.get("account_name") or None\<close>; no exception leaves the method.\<close>

definition verify_account :: "settings \<Rightarrow> http_client \<Rightarrow> string \<Rightarrow> string \<Rightarrow> string option" where
  "verify_account cfg client account_number bank_code =
     (if PAYSTACK_SECRET_KEY cfg = [] then None
      else case resolve_account client account_number bank_code of
        Inl _ \<Rightarrow> None
      | Inr data \<Rightarrow> if truthy (ev_account_name data) then ev_account_name data else None)"

definition add_bank_account ::
  "settings \<Rightarrow> http_client \<Rightarrow> env \<Rightarrow> user \<Rightarrow> string \<Rightarrow> string \<Rightarrow> string \<Rightarrow> string \<Rightarrow> bank_account svc" where
  "add_bank_account cfg client en user account_name account_number bank_code bank_name =
     (let verified_name = verify_account cfg client account_number bank_code;
          final_name = (if truthy verified_name then the verified_name else account_name) in
      bindS (select (count_by_user (u_id user))) (\<lambda>existing_count.
      bindS (account_create en (uuid4 en 0) (u_id user) final_name account_number bank_code bank_name
               (existing_count = 0)) (\<lambda>account.
      bindS commit (\<lambda>_. returnS account))))"

definition list_bank_accounts :: "user \<Rightarrow> db \<Rightarrow> bank_account list" where
  "list_bank_accounts user d = account_get_by_user_id (u_id user) d"

section \<open>Default accounts\<close>

text \<open>
  The accounts of a user that are not deleted, and the invariant: if there are any, exactly one
  is the default; a deleted account never is.
\<close>

definition live_accounts :: "uuid \<Rightarrow> db \<Rightarrow> bank_account list" where
  "live_accounts u d = filter (\<lambda>b. b_user_id b = u \<and> b_deleted_at b = None) (bank_accounts d)"

definition defaults :: "uuid \<Rightarrow> db \<Rightarrow> bank_account list" where
  "defaults u d = filter b_is_default (live_accounts u d)"

definition accounts_ok :: "db \<Rightarrow> bool" where
  "accounts_ok d \<longleftrightarrow> distinct (map b_id (bank_accounts d)) \<and>
     (\<forall>u. length (defaults u d) = (if live_accounts u d = [] then 0 else 1))"

lemma account_get_by_idD:
  "account_get_by_id i d = Inr (Some b) \<Longrightarrow> b \<in> set (bank_accounts d) \<and> b_id b = i \<and> b_deleted_at b = None"
  unfolding account_get_by_id_def by (drule scalar_filter_Some) simp

section \<open>The default account\<close>

lemma defaults_alt:
  "defaults u d = filter (\<lambda>b. b_user_id b = u \<and> b_deleted_at b = None \<and> b_is_default b) (bank_accounts d)"
  by (simp add: defaults_def live_accounts_def conj_ac cong: conj_cong)

text \<open>The two counts that the invariant compares, after one row was rewritten.\<close>

lemma account_counts:
  assumes "distinct (map b_id (bank_accounts d))" and "b \<in> set (bank_accounts d)"
    and "d' = d\<lparr>bank_accounts := upd b_id (b_id b) f (bank_accounts d)\<rparr>"
  shows "int (length (live_accounts u d')) = int (length (live_accounts u d))
      - of_bool (b_user_id b = u \<and> b_deleted_at b = None)
      + of_bool (b_user_id (f b) = u \<and> b_deleted_at (f b) = None)"
    and "int (length (defaults u d')) = int (length (defaults u d))
      - of_bool (b_user_id b = u \<and> b_deleted_at b = None \<and> b_is_default b)
      + of_bool (b_user_id (f b) = u \<and> b_deleted_at (f b) = None \<and> b_is_default (f b))"
  unfolding assms(3) defaults_alt live_accounts_def by (simp_all add: count_upd [OF assms(1,2)])

lemma accounts_ok_iff:
  "accounts_ok d \<longleftrightarrow> distinct (map b_id (bank_accounts d)) \<and>
     (\<forall>u. int (length (defaults u d)) = of_bool (0 < int (length (live_accounts u d))))"
  by (auto simp: accounts_ok_def)

lemma wp_add_bank_account:
  assumes clean: "working s = committed s"
    and raised: "\<And>e s'. committed s' = committed s \<Longrightarrow> outbox s' = outbox s \<Longrightarrow> R e s'"
    and ok: "\<And>b s'. b_user_id b = u_id user \<Longrightarrow> b_deleted_at b = None \<Longrightarrow>
       b_is_default b = (live_accounts (u_id user) (committed s) = []) \<Longrightarrow> b_account_number b = num \<Longrightarrow>
       \<not> clashes b_id b (bank_accounts (committed s)) \<Longrightarrow>
       committed s' = (committed s)\<lparr>bank_accounts := bank_accounts (committed s) @ [b]\<rparr> \<Longrightarrow>
       outbox s' = outbox s \<Longrightarrow> Q b s'"
  shows "wp (add_bank_account cfg client en user name num code bank) Q R s"
  by (auto simp: add_bank_account_def account_create_def wp_rules Let_def clean insert_bank_account_def
      count_by_user_def live_accounts_def split: sum.split intro!: ok raised)

lemma accounts_ok_added:
  assumes "accounts_ok d" and "\<not> clashes b_id b (bank_accounts d)" and "b_deleted_at b = None"
    and "b_is_default b = (live_accounts (b_user_id b) d = [])"
  shows "accounts_ok (d\<lparr>bank_accounts := bank_accounts d @ [b]\<rparr>)"
proof -
  let ?d = "d\<lparr>bank_accounts := bank_accounts d @ [b]\<rparr>"
  have "live_accounts u ?d = live_accounts u d @ (if b_user_id b = u then [b] else [])" for u
    using assms(3) by (simp add: live_accounts_def)
  then show ?thesis
    using assms by (auto simp: accounts_ok_def defaults_def clashes_def)
qed

text \<open>What a removal commits: the account is deleted, and the oldest other one promoted.\<close>

definition account_removed :: "timestamp \<Rightarrow> bank_account \<Rightarrow> db \<Rightarrow> db" where
  "account_removed ts b d =
     (if b_is_default b
      then let d1 = d\<lparr>bank_accounts := upd b_id (b_id b) (delete_account ts) (bank_accounts d)\<rparr>
        in (case account_get_by_user_id (b_user_id b) d1 of [] \<Rightarrow> d1
            | c # _ \<Rightarrow> d1\<lparr>bank_accounts := upd b_id (b_id c) (mark_default True) (bank_accounts d1)\<rparr>)
      else d\<lparr>bank_accounts := upd b_id (b_id b) (\<lambda>b. b\<lparr>b_deleted_at := Some ts\<rparr>) (bank_accounts d)\<rparr>)"

lemma wp_account_soft_deleteI [wp_intros]:
  "(\<And>d. d = account_removed (now en) b (working s) \<Longrightarrow> Q () (s\<lparr>working := d\<rparr>)) \<Longrightarrow>
   wp (account_soft_delete en b) Q R s"
  by (auto simp: account_soft_delete_def account_removed_def wp_rules write_account_def Let_def split: list.split)

interpretation del: column_update b_id "delete_account ts" for ts
  by unfold_locales (simp add: delete_account_def)

lemma accounts_ok_removed:
  assumes ok: "accounts_ok d" and b: "b \<in> set (bank_accounts d)" "b_deleted_at b = None"
  shows "accounts_ok (account_removed ts b d)"
proof (cases "b_is_default b")
  case False
  let ?d = "d\<lparr>bank_accounts := upd b_id (b_id b) (\<lambda>b. b\<lparr>b_deleted_at := Some ts\<rparr>) (bank_accounts d)\<rparr>"
  have dist: "distinct (map b_id (bank_accounts d))" using ok by (simp add: accounts_ok_def)
  have "distinct (map b_id (bank_accounts ?d))" using dist by (simp add: map_upd_same)
  moreover have "int (length (defaults u ?d)) = of_bool (0 < int (length (live_accounts u ?d)))" for u
  proof -
    have "length (defaults u ?d) \<le> length (live_accounts u ?d)" by (simp add: defaults_def)
    moreover have "0 < length (live_accounts (b_user_id b) d)"
      using b by (auto simp: live_accounts_def filter_empty_conv)
    moreover have "int (length (defaults u d)) = of_bool (0 < int (length (live_accounts u d)))"
      using ok by (simp add: accounts_ok_iff)
    ultimately show ?thesis
      using account_counts [OF dist b(1) refl, of u "\<lambda>b. b\<lparr>b_deleted_at := Some ts\<rparr>"] False b(2)
      by (cases "u = b_user_id b") (simp_all add: of_bool_def split: if_splits)
  qed
  ultimately show ?thesis using False by (simp add: account_removed_def accounts_ok_iff)
next
  case True
  let ?d = "d\<lparr>bank_accounts := upd b_id (b_id b) (delete_account ts) (bank_accounts d)\<rparr>"
  have dist: "distinct (map b_id (bank_accounts d))" using ok by (simp add: accounts_ok_def)
  then have dist': "distinct (map b_id (bank_accounts ?d))" by (simp add: del.keys_upd)
  note c1 = account_counts [OF dist b(1) refl, of _ "delete_account ts"]
  have live: "set (account_get_by_user_id (b_user_id b) ?d) = set (live_accounts (b_user_id b) ?d)"
    by (simp add: account_get_by_user_id_def live_accounts_def)
  have none: "defaults (b_user_id b) ?d = []"
  proof -
    have "int (length (defaults (b_user_id b) d)) \<le> 1" using ok by (simp add: accounts_ok_iff)
    then have "length (defaults (b_user_id b) ?d) \<le> 0"
      using c1(2) [of "b_user_id b"] b(2) True by (simp add: delete_account_def del: le_zero_eq length_0_conv)
    then show ?thesis by simp
  qed
  have rest: "int (length (defaults u ?d)) = of_bool (0 < int (length (live_accounts u ?d)))" if "u \<noteq> b_user_id b" for u
    using c1 [of u] ok that by (simp add: accounts_ok_iff delete_account_def)
  show ?thesis
  proof (cases "account_get_by_user_id (b_user_id b) ?d")
    case Nil
    then have "live_accounts (b_user_id b) ?d = []" using live by simp
    with none have "int (length (defaults u ?d)) = of_bool (0 < int (length (live_accounts u ?d)))" for u
      using rest [of u] by (cases "u = b_user_id b") simp_all
    then have "accounts_ok ?d" using dist' by (simp add: accounts_ok_iff del: db.simps)
    then show ?thesis using Nil True by (simp add: account_removed_def)
  next
    case (Cons c cs)
    then have c: "c \<in> set (live_accounts (b_user_id b) ?d)" using live by auto
    then have "c \<in> set (bank_accounts ?d)" "b_user_id c = b_user_id b" "b_deleted_at c = None"
      by (auto simp: live_accounts_def)
    moreover have "\<not> b_is_default c" using c none by (auto simp: defaults_def filter_empty_conv)
    ultimately have props: "c \<in> set (bank_accounts ?d)" "b_user_id c = b_user_id b" "b_deleted_at c = None" "\<not> b_is_default c"
      by auto
    let ?e = "?d\<lparr>bank_accounts := upd b_id (b_id c) (mark_default True) (bank_accounts ?d)\<rparr>"
    note c2 = account_counts [OF dist' props(1) refl, of _ "mark_default True"]
    have "0 < length (live_accounts (b_user_id b) ?d)" using c by (auto simp: length_pos_if_in_set)
    then have "int (length (defaults u ?e)) = of_bool (0 < int (length (live_accounts u ?e)))" for u
      using c2 [of u] rest [of u] none props by (cases "u = b_user_id b") (simp_all add: mark_default_def del: db.simps)
    moreover have "distinct (map b_id (bank_accounts ?e))"
      using dist' by (simp add: mark_default_def map_upd_same)
    ultimately have "accounts_ok ?e" by (simp add: accounts_ok_iff del: db.simps)
    then show ?thesis using Cons True by (simp add: account_removed_def)
  qed
qed

end
