(* ===== verification/Withdrawals.thy ===== *)
theory Withdrawals
  imports Bank_Accounts Fraud Accounts
begin

text \<open>
  Withdrawals: \<open>WithdrawalService\<close> (\<open>app/services/withdrawal.py\<close>) and the Celery task
  \<open>process_withdrawal\<close> (\<open>app/workers/withdrawal_tasks.py\<close>). A withdrawal takes its amount from
  the balance when it is initiated, without a ledger entry; the payout's success writes the DEBIT
  entry, its failure gives the amount back.
\<close>

section \<open>Service\<close>

text \<open>\<open>result.scalar_one_or_none()\<close>: several active withdrawals are an error.\<close>

definition get_active_withdrawal :: "uuid \<Rightarrow> db \<Rightarrow> exn + transaction option" where
  "get_active_withdrawal user_id d =
     scalar_one_or_none (filter (\<lambda>t. t_initiated_by_user_id t = user_id \<and> t_type t = WITHDRAWAL \<and>
       t_status t \<in> {PENDING, PROCESSING}) (transactions d))"

text \<open>\<open>(txn.extra_data or {}).get("bank_account_id")\<close>.\<close>

definition extra_account :: "transaction \<Rightarrow> jval option" where
  "extra_account t = map_of (get_or [] (t_extra_data t)) ''bank_account_id''"

definition remove_bank_account :: "env \<Rightarrow> user \<Rightarrow> uuid \<Rightarrow> unit svc" where
  "remove_bank_account en user bank_account_id =
     bindS (query (account_get_by_id bank_account_id)) (\<lambda>account.
     case account of None \<Rightarrow> raiseS (NotFoundError ''Bank account'')
     | Some b \<Rightarrow>
     if b_user_id b \<noteq> u_id user then raiseS (NotFoundError ''Bank account'')
     else
     bindS (query (get_active_withdrawal (u_id user))) (\<lambda>active.
     if (case active of None \<Rightarrow> False | Some t \<Rightarrow> extra_account t = Some (JUuid bank_account_id))
     then raiseS (ForbiddenError ''Cannot remove a bank account with an active withdrawal in progress.'')
     else
     bindS (account_soft_delete en b) (\<lambda>_. commit)))"

definition initiate_withdrawal ::
  "settings \<Rightarrow> env \<Rightarrow> user \<Rightarrow> uuid \<Rightarrow> money \<Rightarrow> transaction svc" where
  "initiate_withdrawal cfg en user bank_account_id amount =
     bindS (query (wallet_get_by_user_id (u_id user))) (\<lambda>wallet.
     case wallet of None \<Rightarrow> raiseS (ForbiddenError ''Wallet is inactive or does not exist.'')
     | Some w \<Rightarrow>
     if \<not> w_is_active w then raiseS (ForbiddenError ''Wallet is inactive or does not exist.'')
     else
     bindS (query (check_withdrawal cfg en user w amount)) (\<lambda>_.
     bindS (query (get_active_withdrawal (u_id user))) (\<lambda>active.
     if active \<noteq> None
     then raiseS (ValidationError (''You already have a withdrawal in progress. '' @
            ''Please wait for it to complete before initiating another.'') ''WITHDRAWAL_ALREADY_PENDING'')
     else
     bindS (query (account_get_by_id bank_account_id)) (\<lambda>bank_account.
     if (case bank_account of None \<Rightarrow> True | Some b \<Rightarrow> b_user_id b \<noteq> u_id user)
     then raiseS (NotFoundError ''Bank account'')
     else
     bindS (query (wallet_lock_for_update (w_id w))) (\<lambda>locked_wallet.
     case locked_wallet of None \<Rightarrow> raiseS (ForbiddenError ''Wallet not found.'')
     | Some lw \<Rightarrow>
     if w_balance lw < amount then raiseS InsufficientBalanceError
     else
     bindS (transaction_create
        ((new_transaction (uuid4 en 1) (now en) (''txn_'' @ uuid_hex (uuid4 en 0)) WITHDRAWAL amount (u_id user))
          \<lparr>t_status := PENDING, t_currency := w_currency lw, t_source_wallet_id := Some (w_id lw),
           t_extra_data := Some [(''bank_account_id'', JUuid bank_account_id)]\<rparr>)) (\<lambda>txn.
     let new_balance = w_balance lw - amount in
     bindS (wallet_update_balance lw new_balance) (\<lambda>_.
     bindS commit (\<lambda>_.
     bindS (catchS (delay en (ProcessWithdrawal (t_id txn))) (\<lambda>_. True) (\<lambda>_. returnS ())) (\<lambda>_.
     bindS (audit_log_write en (uuid4 en 2) (Some (u_id user)) ACTOR_USER ''withdrawal.initiated''
        (Some ''transaction'') (Some (t_id txn))
        (Some [(''amount'', JMoney amount), (''currency'', JStr (t_currency txn))])) (\<lambda>_.
     returnS txn))))))))))"

definition process_payout_success :: "env \<Rightarrow> string \<Rightarrow> string \<Rightarrow> unit svc" where
  "process_payout_success en ref transfer_code =
     bindS (query (get_by_reference ref)) (\<lambda>txn.
     case txn of None \<Rightarrow> returnS ()
     | Some t \<Rightarrow>
     if t_status t = COMPLETED then returnS ()
     else if t_status t \<noteq> PROCESSING then returnS ()
     else
     case t_source_wallet_id t of None \<Rightarrow> returnS ()
     | Some source_wallet_id \<Rightarrow>
     bindS (query (wallet_lock_for_update source_wallet_id)) (\<lambda>wallet.
     case wallet of None \<Rightarrow> returnS ()
     | Some w \<Rightarrow>
     bindS (create_entry en (uuid4 en 0) (t_id t) (w_id w) DEBIT (t_amount t) (t_currency t) (w_balance w)) (\<lambda>_.
     bindS (update_status t COMPLETED None None) (\<lambda>_.
     bindS commit (\<lambda>_.
     audit_log_write en (uuid4 en 1) (Some (t_initiated_by_user_id t)) ACTOR_SYSTEM ''withdrawal.completed''
        (Some ''transaction'') (Some (t_id t))
        (Some [(''amount'', JMoney (t_amount t)), (''transfer_code'', JStr transfer_code)]))))))"

definition process_payout_failure :: "env \<Rightarrow> string \<Rightarrow> string \<Rightarrow> unit svc" where
  "process_payout_failure en ref transfer_code =
     bindS (query (get_by_reference ref)) (\<lambda>txn.
     case txn of None \<Rightarrow> returnS ()
     | Some t \<Rightarrow>
     if t_status t = FAILED then returnS ()
     else if t_status t \<noteq> PROCESSING then returnS ()
     else
     case t_source_wallet_id t of None \<Rightarrow> returnS ()
     | Some source_wallet_id \<Rightarrow>
     bindS (query (wallet_lock_for_update source_wallet_id)) (\<lambda>wallet.
     case wallet of None \<Rightarrow> returnS ()
     | Some w \<Rightarrow>
     let restored_balance = w_balance w + t_amount t in
     bindS (wallet_update_balance w restored_balance) (\<lambda>_.
     bindS (update_status t FAILED (Some (''Paystack transfer failed or reversed: '' @ transfer_code)) None) (\<lambda>_.
     bindS commit (\<lambda>_.
     audit_log_write en (uuid4 en 0) (Some (t_initiated_by_user_id t)) ACTOR_SYSTEM ''withdrawal.failed''
        (Some ''transaction'') (Some (t_id t))
        (Some [(''amount'', JMoney (t_amount t)), (''transfer_code'', JStr transfer_code),
               (''reason'', JStr (''Paystack transfer failed: '' @ transfer_code))]))))))"

section \<open>Payout\<close>

text \<open>\<open>uuid.UUID(bank_account_id_str)\<close>, with the falsy values that end the task early.\<close>

definition parse_account :: "jval option \<Rightarrow> exn + uuid option" where
  "parse_account x = (case x of
       None \<Rightarrow> Inr None | Some JNull \<Rightarrow> Inr None | Some (JStr []) \<Rightarrow> Inr None
     | Some (JUuid i) \<Rightarrow> Inr (Some i) | _ \<Rightarrow> Inl ValueError)"

definition resolve_recipient :: "http_client \<Rightarrow> bank_account \<Rightarrow> string svc" where
  "resolve_recipient client bank_account =
     (if truthy (b_paystack_recipient_code bank_account)
      then returnS (the (b_paystack_recipient_code bank_account))
      else
        bindS (query (\<lambda>_. create_transfer_recipient client (b_account_name bank_account)
          (b_account_number bank_account) (b_bank_code bank_account) ''NGN'')) (\<lambda>recipient_data.
        let recipient_code = get_or '''' (ev_recipient_code recipient_data) in
        if recipient_code = [] then raiseS (ExternalServiceError ''Paystack'')
        else bindS (set_recipient_code bank_account recipient_code) (\<lambda>_. returnS recipient_code)))"

definition set_provider_reference :: "string \<Rightarrow> transaction \<Rightarrow> transaction" where
  "set_provider_reference code t = t\<lparr>t_provider_reference := Some code\<rparr>"

definition execute_payout :: "http_client \<Rightarrow> uuid \<Rightarrow> unit svc" where
  "execute_payout client transaction_id =
     bindS (query (transaction_get_by_id transaction_id)) (\<lambda>txn.
     case txn of None \<Rightarrow> returnS ()
     | Some t \<Rightarrow>
     if t_status t \<in> {COMPLETED, FAILED} then returnS ()
     else if t_status t = PROCESSING \<and> t_provider_reference t \<noteq> None then returnS ()
     else
     bindS (query (\<lambda>_. parse_account (extra_account t))) (\<lambda>bank_account_id.
     case bank_account_id of None \<Rightarrow> returnS ()
     | Some bi \<Rightarrow>
     bindS (query (account_get_by_id bi)) (\<lambda>bank_account.
     case bank_account of None \<Rightarrow> returnS ()
     | Some b \<Rightarrow>
     bindS (resolve_recipient client b) (\<lambda>recipient_code.
     bindS (if t_status t = PENDING then update_status t PROCESSING None None else returnS t) (\<lambda>t.
     bindS (query (\<lambda>_. paystack_transfer client (t_amount t) recipient_code (t_reference t)
              (''PayCore withdrawal '' @ t_reference t))) (\<lambda>transfer_data.
     let transfer_code_value = get_or '''' (ev_transfer_code transfer_data) in
     bindS (flush (\<lambda>d. Inr (d\<lparr>transactions := upd t_id (t_id t) (set_provider_reference transfer_code_value)
              (transactions d)\<rparr>))) (\<lambda>_.
     commit)))))))"

text \<open>The task: one attempt; the queue repeats an attempt that raised, each in a new session.\<close>

definition process_withdrawal :: "http_client \<Rightarrow> uuid \<Rightarrow> unit svc" where
  "process_withdrawal client transaction_id = execute_payout client transaction_id"

section \<open>The outcomes of a withdrawal request\<close>

definition withdrawal_txn :: "env \<Rightarrow> wallet \<Rightarrow> money \<Rightarrow> uuid \<Rightarrow> uuid \<Rightarrow> transaction" where
  "withdrawal_txn en w amount user_id account_id =
     (new_transaction (uuid4 en 1) (now en) (''txn_'' @ uuid_hex (uuid4 en 0)) WITHDRAWAL amount user_id)
       \<lparr>t_status := PENDING, t_currency := w_currency w, t_source_wallet_id := Some (w_id w),
        t_extra_data := Some [(''bank_account_id'', JUuid account_id)]\<rparr>"

definition amount_held :: "transaction \<Rightarrow> wallet \<Rightarrow> db \<Rightarrow> db" where
  "amount_held t w d =
     d\<lparr>transactions := transactions d @ [t],
       wallets := upd w_id (w_id w) (\<lambda>v. v\<lparr>w_balance := w_balance w - t_amount t\<rparr>) (wallets d)\<rparr>"

definition may_withdraw :: "settings \<Rightarrow> env \<Rightarrow> user \<Rightarrow> uuid \<Rightarrow> wallet \<Rightarrow> money \<Rightarrow> db \<Rightarrow> bool" where
  "may_withdraw cfg en user account_id w a d \<longleftrightarrow>
     w \<in> set (wallets d) \<and> w_user_id w = u_id user \<and> w_is_active w \<and> a \<le> w_balance w \<and>
     (\<exists>b\<in>set (bank_accounts d). b_id b = account_id \<and> b_user_id b = u_id user \<and> b_deleted_at b = None) \<and>
     check_withdrawal cfg en user w a d = Inr () \<and> get_active_withdrawal (u_id user) d = Inr None"

lemma withdrawal_txn_simps [simp]:
  "t_id (withdrawal_txn en w a u b) = uuid4 en 1" "t_status (withdrawal_txn en w a u b) = PENDING"
  "t_type (withdrawal_txn en w a u b) = WITHDRAWAL" "t_amount (withdrawal_txn en w a u b) = a"
  "t_source_wallet_id (withdrawal_txn en w a u b) = Some (w_id w)"
  "t_destination_wallet_id (withdrawal_txn en w a u b) = None"
  "t_initiated_by_user_id (withdrawal_txn en w a u b) = u"
  "t_provider_reference (withdrawal_txn en w a u b) = None"
  by (simp_all add: withdrawal_txn_def)

lemma may_withdrawI:
  assumes "distinct (map w_id (wallets d))"
    and "wallet_get_by_user_id (u_id user) d = Inr (Some sw)" "w_is_active sw"
    and "wallet_lock_for_update (w_id sw) d = Inr (Some w)" "a \<le> w_balance w"
    and "\<not> (case x of None \<Rightarrow> True | Some b \<Rightarrow> b_user_id b \<noteq> u_id user)" "account_get_by_id i d = Inr x"
    and "check_withdrawal cfg en user sw a d = Inr ()" "get_active_withdrawal (u_id user) d = Inr None"
  shows "may_withdraw cfg en user i w a d"
proof -
  from assms(1,2,4) have "w = sw"
    by (auto intro!: distinct_key_eq [OF assms(1)] dest: wallet_lockD wallet_get_by_user_idD)
  then show ?thesis
    using assms by (auto simp: may_withdraw_def split: option.splits dest!: wallet_get_by_user_idD account_get_by_idD)
qed

lemma wp_initiate_withdrawal:
  assumes clean: "working s = committed s" and dw: "distinct (map w_id (wallets (committed s)))"
    and raised: "\<And>e s'. committed s' = committed s \<Longrightarrow> outbox s' = outbox s \<Longrightarrow> R e s'"
    and held: "\<And>w t s' al. may_withdraw cfg en user i w a (committed s) \<Longrightarrow>
       t = withdrawal_txn en w a (u_id user) i \<Longrightarrow> fresh_in t (committed s) \<Longrightarrow>
       committed s' = (amount_held t w (committed s))\<lparr>audit_logs := al\<rparr> \<Longrightarrow> prefix (audit_logs (committed s)) al \<Longrightarrow>
       outbox s' = outbox s @ (if broker_up en then [ProcessWithdrawal (t_id t)] else []) \<Longrightarrow> Q t s'"
  shows "wp (initiate_withdrawal cfg en user i a) Q R s"
  unfolding initiate_withdrawal_def withdrawal_txn_def [symmetric]
  by (intro wp_intros wp_audit_clean; (rule raised; simp; fail)?)
    (auto simp: clean amount_held_def intro!: held may_withdrawI [OF dw])

lemma sound_amount_held:
  assumes sound: "sound d" and may: "may_withdraw cfg en user i w a d"
    and fresh: "fresh_in (withdrawal_txn en w a (u_id user) i) d"
  shows "sound (amount_held (withdrawal_txn en w a (u_id user) i) w d)"
proof -
  let ?t = "withdrawal_txn en w a (u_id user) i"
  from may have w: "w \<in> set (wallets d)" "a \<le> w_balance w" and none: "get_active_withdrawal (u_id user) d = Inr None"
    by (auto simp: may_withdraw_def)
  have "rebalanced (\<lambda>i. if i = w_id w then w_balance w - a - w_balance w else 0) (wallets d)
     (upd w_id (w_id w) (\<lambda>v. v\<lparr>w_balance := w_balance w - a\<rparr>) (wallets d))"
    by (rule rebalanced_upd) (use w soundD [OF sound] in auto)
  moreover have "effect [] (\<lambda>i. - hold_of i ?t) = (\<lambda>i. if i = w_id w then w_balance w - a - w_balance w else 0)"
    by (rule ext) (simp add: effect_def hold_of_def active_withdrawal_def)
  moreover have "\<forall>u\<in>set (transactions d). active_withdrawal u \<longrightarrow> t_initiated_by_user_id u \<noteq> u_id user"
    using none by (auto simp: get_active_withdrawal_def scalar_Inr_None_iff filter_empty_conv active_withdrawal_def)
  ultimately show ?thesis
    using sound_append [OF sound, of ?t "[]"] w fresh
    by (simp add: amount_held_def txn_ok_def posted_as_def fresh_in_def)
qed

section \<open>The outcomes of a payout\<close>

text \<open>The row and the entry a successful payout leaves, and the row a failed one leaves.\<close>

definition payout_done :: "env \<Rightarrow> transaction \<Rightarrow> wallet \<Rightarrow> db \<Rightarrow> db" where
  "payout_done en t w d =
     d\<lparr>ledger_entries := ledger_entries d @
         [\<lparr>e_id = uuid4 en 0, e_transaction_id = t_id t, e_wallet_id = w_id w, e_entry_type = DEBIT,
           e_amount = t_amount t, e_currency = t_currency t, e_balance_after = w_balance w, e_created_at = now en\<rparr>],
       transactions := upd t_id (t_id t) (set_status COMPLETED None None) (transactions d)\<rparr>"

definition payout_reversed :: "string \<Rightarrow> transaction \<Rightarrow> wallet \<Rightarrow> db \<Rightarrow> db" where
  "payout_reversed code t w d =
     d\<lparr>wallets := upd w_id (w_id w) (\<lambda>v. v\<lparr>w_balance := w_balance w + t_amount t\<rparr>) (wallets d),
       transactions := upd t_id (t_id t)
         (set_status FAILED (Some (''Paystack transfer failed or reversed: '' @ code)) None) (transactions d)\<rparr>"

definition payout_ready :: "string \<Rightarrow> transaction \<Rightarrow> wallet \<Rightarrow> db \<Rightarrow> bool" where
  "payout_ready ref t w d \<longleftrightarrow> t \<in> set (transactions d) \<and> t_reference t = ref \<and> t_status t = PROCESSING \<and>
     t_source_wallet_id t = Some (w_id w) \<and> w \<in> set (wallets d)"

lemma payout_readyI:
  "get_by_reference ref d = Inr (Some t) \<Longrightarrow> t_status t = PROCESSING \<Longrightarrow> t_source_wallet_id t = Some i \<Longrightarrow>
   wallet_lock_for_update i d = Inr (Some w) \<Longrightarrow> payout_ready ref t w d"
  by (auto simp: payout_ready_def dest: get_by_referenceD wallet_lockD)

lemma wp_process_payout_success:
  assumes clean: "working s = committed s"
    and raised: "\<And>e s'. committed s' = committed s \<Longrightarrow> outbox s' = outbox s \<Longrightarrow> R e s'"
    and skip: "Q () s"
    and ok: "\<And>t w s' al. payout_ready ref t w (committed s) \<Longrightarrow>
       committed s' = (payout_done en t w (committed s))\<lparr>audit_logs := al\<rparr> \<Longrightarrow> prefix (audit_logs (committed s)) al \<Longrightarrow> outbox s' = outbox s \<Longrightarrow> Q () s'"
  shows "wp (process_payout_success en ref code) Q R s"
  unfolding process_payout_success_def
  by (intro wp_intros wp_audit_clean; (rule raised skip; simp; fail)?)
    (auto simp: clean payout_done_def intro!: ok payout_readyI)

lemma wp_process_payout_failure:
  assumes clean: "working s = committed s"
    and raised: "\<And>e s'. committed s' = committed s \<Longrightarrow> outbox s' = outbox s \<Longrightarrow> R e s'"
    and skip: "Q () s"
    and ok: "\<And>t w s' al. payout_ready ref t w (committed s) \<Longrightarrow> 0 \<le> w_balance w + t_amount t \<Longrightarrow>
       committed s' = (payout_reversed code t w (committed s))\<lparr>audit_logs := al\<rparr> \<Longrightarrow> prefix (audit_logs (committed s)) al \<Longrightarrow> outbox s' = outbox s \<Longrightarrow> Q () s'"
  shows "wp (process_payout_failure en ref code) Q R s"
  unfolding process_payout_failure_def
  by (intro wp_intros wp_audit_clean; (rule raised skip; simp; fail)?)
    (auto simp: clean payout_reversed_def intro!: ok payout_readyI)

text \<open>In a sound database such a transaction is a withdrawal without entries.\<close>

lemma payout_ready_sound:
  assumes "sound d" and "payout_ready ref t w d"
  shows "t \<in> set (transactions d)" "w \<in> set (wallets d)" "t_type t = WITHDRAWAL" "t_status t = PROCESSING"
    "t_source_wallet_id t = Some (w_id w)" "t_destination_wallet_id t = None" "postings (t_id t) (ledger_entries d) = []"
proof -
  from assms have t: "t \<in> set (transactions d)" by (simp add: payout_ready_def)
  from soundD(7) [OF assms(1) t] soundD(8) [OF assms(1) t] assms(2)
  show "t \<in> set (transactions d)" "w \<in> set (wallets d)" "t_type t = WITHDRAWAL" "t_status t = PROCESSING"
    "t_source_wallet_id t = Some (w_id w)" "t_destination_wallet_id t = None" "postings (t_id t) (ledger_entries d) = []"
    by (cases "t_type t"; simp add: payout_ready_def txn_ok_def posted_as_def)+
qed

lemma sound_payout_done:
  assumes sound: "sound d" and ready: "payout_ready ref t w d"
  shows "sound (payout_done en t w d)"
proof -
  note r = payout_ready_sound [OF sound ready]
  let ?new = "[\<lparr>e_id = uuid4 en 0, e_transaction_id = t_id t, e_wallet_id = w_id w, e_entry_type = DEBIT,
           e_amount = t_amount t, e_currency = t_currency t, e_balance_after = w_balance w, e_created_at = now en\<rparr>]"
  have "rebalanced (effect ?new (\<lambda>i. hold_of i t - hold_of i (set_status COMPLETED None None t))) (wallets d) (wallets d)"
    by (rule rebalanced_refl) (use r soundD [OF sound] in \<open>auto simp: effect_def hold_of_def active_withdrawal_def\<close>)
  with sound_settle [OF sound r(1), of "set_status COMPLETED None None" ?new "wallets d"] r
  show ?thesis
    by (simp add: payout_done_def txn_ok_def posted_as_def active_withdrawal_def sound_def)
qed

lemma sound_payout_reversed:
  assumes sound: "sound d" and ready: "payout_ready ref t w d" and "0 \<le> w_balance w + t_amount t"
  shows "sound (payout_reversed code t w d)"
proof -
  note r = payout_ready_sound [OF sound ready]
  let ?f = "set_status FAILED (Some (''Paystack transfer failed or reversed: '' @ code)) None"
  have "rebalanced (\<lambda>i. if i = w_id w then w_balance w + t_amount t - w_balance w else 0) (wallets d)
     (upd w_id (w_id w) (\<lambda>v. v\<lparr>w_balance := w_balance w + t_amount t\<rparr>) (wallets d))"
    by (rule rebalanced_upd) (use assms(3) r soundD [OF sound] in auto)
  moreover have "effect [] (\<lambda>i. hold_of i t - hold_of i (?f t)) =
     (\<lambda>i. if i = w_id w then w_balance w + t_amount t - w_balance w else 0)"
    by (rule ext) (use r in \<open>simp add: effect_def hold_of_def active_withdrawal_def\<close>)
  ultimately show ?thesis
    using sound_settle [OF sound r(1), of ?f "[]"] r
    by (simp add: payout_reversed_def txn_ok_def posted_as_def active_withdrawal_def sound_def)
qed

section \<open>The outcomes of a payout attempt\<close>

definition mark_sent :: "bool \<Rightarrow> string \<Rightarrow> transaction \<Rightarrow> transaction" where
  "mark_sent pending code t =
     set_provider_reference code (if pending then set_status PROCESSING None None t else t)"

definition may_send :: "uuid \<Rightarrow> transaction \<Rightarrow> bank_account \<Rightarrow> db \<Rightarrow> bool" where
  "may_send i t b d \<longleftrightarrow> t \<in> set (transactions d) \<and> t_id t = i \<and> t_status t \<notin> {COMPLETED, FAILED} \<and>
     (t_status t = PROCESSING \<longrightarrow> t_provider_reference t = None) \<and>
     extra_account t = Some (JUuid (b_id b)) \<and> b \<in> set (bank_accounts d) \<and> b_deleted_at b = None"

lemma set_provider_reference_simps [simp]:
  "t_id (set_provider_reference c t) = t_id t" "t_status (set_provider_reference c t) = t_status t"
  "t_type (set_provider_reference c t) = t_type t" "t_amount (set_provider_reference c t) = t_amount t"
  "t_reference (set_provider_reference c t) = t_reference t"
  "t_source_wallet_id (set_provider_reference c t) = t_source_wallet_id t"
  "t_destination_wallet_id (set_provider_reference c t) = t_destination_wallet_id t"
  "t_initiated_by_user_id (set_provider_reference c t) = t_initiated_by_user_id t"
  "t_provider_reference (set_provider_reference c t) = Some c"
  by (simp_all add: set_provider_reference_def)

lemma mark_sent_simps [simp]:
  "t_id (mark_sent p c t) = t_id t" "t_type (mark_sent p c t) = t_type t" "t_amount (mark_sent p c t) = t_amount t"
  "t_reference (mark_sent p c t) = t_reference t"
  "t_source_wallet_id (mark_sent p c t) = t_source_wallet_id t"
  "t_destination_wallet_id (mark_sent p c t) = t_destination_wallet_id t"
  "t_initiated_by_user_id (mark_sent p c t) = t_initiated_by_user_id t"
  "t_provider_reference (mark_sent p c t) = Some c"
  "t_status (mark_sent p c t) = (if p then PROCESSING else t_status t)"
  by (simp_all add: mark_sent_def)

lemma parse_account_Some: "parse_account x = Inr (Some i) \<Longrightarrow> x = Some (JUuid i)"
  by (auto simp: parse_account_def split: option.splits jval.splits list.splits)

text \<open>The bank accounts before and after a recipient code was perhaps stored.\<close>

definition recipient_cached :: "bank_account \<Rightarrow> bank_account list \<Rightarrow> bank_account list \<Rightarrow> bool" where
  "recipient_cached b bs bs' \<longleftrightarrow> bs' = bs \<or>
     (\<exists>c. bs' = upd b_id (b_id b) (\<lambda>b. b\<lparr>b_paystack_recipient_code := Some c\<rparr>) bs)"

lemma recipient_cached_refl [simp]: "recipient_cached b bs bs"
  by (simp add: recipient_cached_def)

lemma recipient_cachedI:
  "recipient_cached b bs (upd b_id (b_id b) (\<lambda>b. b\<lparr>b_paystack_recipient_code := Some c\<rparr>) bs)"
  by (auto simp: recipient_cached_def)

lemma wp_resolve_recipientI:
  assumes "\<And>e s'. committed s' = committed s \<Longrightarrow> outbox s' = outbox s \<Longrightarrow> R e s'"
    and "\<And>c s' ba. working s' = (working s)\<lparr>bank_accounts := ba\<rparr> \<Longrightarrow> recipient_cached b (bank_accounts (working s)) ba \<Longrightarrow>
       committed s' = committed s \<Longrightarrow> outbox s' = outbox s \<Longrightarrow> Q c s'"
  shows "wp (resolve_recipient client b) Q R s"
proof -
  have same: "Q c s" for c by (rule assms(2) [where ba = "bank_accounts (working s)"]) simp_all
  show ?thesis
    unfolding resolve_recipient_def set_recipient_code_def
    by (intro wp_intros same; (rule assms(1); simp; fail)?) (auto simp: write_account_def intro!: assms(2) recipient_cachedI)
qed

lemma may_sendI:
  "transaction_get_by_id i d = Inr (Some t) \<Longrightarrow> t_status t \<notin> {COMPLETED, FAILED} \<Longrightarrow>
   \<not> (t_status t = PROCESSING \<and> t_provider_reference t \<noteq> None) \<Longrightarrow>
   parse_account (extra_account t) = Inr (Some bi) \<Longrightarrow> account_get_by_id bi d = Inr (Some b) \<Longrightarrow> may_send i t b d"
  by (auto simp: may_send_def dest: transaction_get_by_idD account_get_by_idD parse_account_Some)

lemma mark_sent_upd:
  "upd t_id i (mark_sent False c) (upd t_id i (set_status PROCESSING None None) rows) = upd t_id i (mark_sent True c) rows"
  "upd t_id i (set_provider_reference c) rows = upd t_id i (mark_sent False c) rows"
  by (simp_all add: upd_upd mark_sent_def [abs_def])

lemma wp_execute_payout:
  assumes clean: "working s = committed s"
    and raised: "\<And>e s'. committed s' = committed s \<Longrightarrow> outbox s' = outbox s \<Longrightarrow> R e s'"
    and skip: "Q () s"
    and sent: "\<And>t b code ba s'. may_send i t b (committed s) \<Longrightarrow>
       committed s' = (committed s)\<lparr>bank_accounts := ba,
         transactions := upd t_id (t_id t) (mark_sent (t_status t = PENDING) code) (transactions (committed s))\<rparr> \<Longrightarrow>
       recipient_cached b (bank_accounts (committed s)) ba \<Longrightarrow> outbox s' = outbox s \<Longrightarrow> Q () s'"
  shows "wp (execute_payout client i) Q R s"
  unfolding execute_payout_def
  by (intro wp_intros wp_resolve_recipientI; (rule raised skip; simp; fail)?)
    (auto simp: clean mark_sent_upd intro!: sent may_sendI)

lemma sound_mark_sent:
  assumes sound: "sound d" and may: "may_send i t b d"
  shows "sound (d\<lparr>transactions := upd t_id (t_id t) (mark_sent (t_status t = PENDING) code) (transactions d)\<rparr>)"
proof -
  from may have t: "t \<in> set (transactions d)" "t_id t = i" "t_status t \<notin> {COMPLETED, FAILED}"
    by (auto simp: may_send_def)
  let ?f = "mark_sent (t_status t = PENDING) code"
  have st: "t_status t = PENDING \<or> t_status t = PROCESSING" and ok: "txn_ok (?f t)"
    using t soundD(7) [OF sound t(1)] by (cases "t_type t"; cases "t_status t"; auto simp: txn_ok_def)+
  then have "hold_of i (?f t) = hold_of i t" "active_withdrawal (?f t) = active_withdrawal t" for i
    by (auto simp: hold_of_def active_withdrawal_def)
  then show ?thesis
    using sound_touch [OF sound t(1), of ?f] t st ok soundD(8) [OF sound t(1)] by (auto simp: posted_as_def)
qed

end
