(* ===== verification/Funding.thy ===== *)
theory Funding
  imports Withdrawals
begin

text \<open>
  Money that comes in from and is confirmed by Paystack: \<open>WalletFundingService\<close>
  (\<open>app/services/wallet_funding.py\<close>), \<open>PaystackWebhookService\<close>
  (\<open>app/services/paystack_webhook.py\<close>), the endpoint \<open>receive_paystack_webhook\<close>
  (\<open>app/api/v1/webhooks.py\<close>), the task \<open>process_paystack_webhook\<close>
  (\<open>app/workers/paystack_tasks.py\<close>) and the reconciliation sweep
  (\<open>app/workers/reconciliation_tasks.py\<close>).
\<close>

section \<open>Initiating a funding\<close>

record wallet_funding_out =
  wf_transaction_id :: uuid
  wf_reference :: string
  wf_payment_url :: string
  wf_amount :: money
  wf_currency :: string

definition MINIMUM_FUNDING_NGN :: money where
  "MINIMUM_FUNDING_NGN = 10000"

text \<open>\<open>existing.extra_data.get("payment_url", "")\<close>; the answer's field accepts strings only.\<close>

definition payment_url_of :: "transaction \<Rightarrow> exn + string" where
  "payment_url_of t = (case map_of (get_or [] (t_extra_data t)) ''payment_url'' of
       None \<Rightarrow> Inr '''' | Some (JStr u) \<Rightarrow> Inr u | _ \<Rightarrow> Inl ValueError)"

definition initiate_funding ::
  "http_client \<Rightarrow> env \<Rightarrow> user \<Rightarrow> money \<Rightarrow> string option \<Rightarrow> wallet_funding_out svc" where
  "initiate_funding client en user amount idempotency_key =
     bindS (query (wallet_get_by_user_id (u_id user))) (\<lambda>wallet.
     case wallet of None \<Rightarrow> raiseS (ForbiddenError ''No wallet found for this user.'')
     | Some w \<Rightarrow>
     if \<not> w_is_active w then raiseS (ForbiddenError ''Wallet is deactivated. Please contact support.'')
     else if amount < MINIMUM_FUNDING_NGN
     then raiseS (ValidationError ''Minimum funding amount is 100.00 NGN.'' ''BELOW_MINIMUM_AMOUNT'')
     else
     bindS (query (find_existing idempotency_key)) (\<lambda>existing.
     case existing of
       Some t \<Rightarrow>
         bindS (query (\<lambda>_. payment_url_of t)) (\<lambda>payment_url.
         returnS \<lparr>wf_transaction_id = t_id t, wf_reference = t_reference t, wf_payment_url = payment_url,
                  wf_amount = t_amount t, wf_currency = t_currency t\<rparr>)
     | None \<Rightarrow>
         let ref = ''txn_'' @ uuid_hex (uuid4 en 0) in
         bindS (query (\<lambda>_. initialize_transaction client (u_email user) amount ref)) (\<lambda>paystack_data.
         let payment_url = get_or '''' (ev_authorization_url paystack_data);
             paystack_reference = get_or ref (ev_reference paystack_data) in
         bindS (transaction_create
            ((new_transaction (uuid4 en 1) (now en) ref FUNDING amount (u_id user))
              \<lparr>t_status := PENDING, t_destination_wallet_id := Some (w_id w),
               t_provider_reference := Some paystack_reference, t_idempotency_key := idempotency_key,
               t_extra_data := Some [(''payment_url'', JStr payment_url)]\<rparr>)) (\<lambda>txn.
         bindS commit (\<lambda>_.
         returnS \<lparr>wf_transaction_id = t_id txn, wf_reference = t_reference txn, wf_payment_url = payment_url,
                  wf_amount = t_amount txn, wf_currency = t_currency txn\<rparr>)))))"

section \<open>Incoming webhooks\<close>

text \<open>
  \<open>hmac512\<close> is the hex digest of HMAC-SHA512 (key, message). The comparison is constant-time;
  its value is that of equality.
\<close>

definition verify_signature :: "(string \<Rightarrow> string \<Rightarrow> string) \<Rightarrow> settings \<Rightarrow> string \<Rightarrow> string \<Rightarrow> bool" where
  "verify_signature hmac512 cfg raw_body signature =
     (let webhook_secret = PAYSTACK_WEBHOOK_SECRET cfg
      in if webhook_secret = [] then False else hmac512 webhook_secret raw_body = signature)"

text \<open>\<open>loads\<close> is \<open>json.loads\<close>, giving the event name and its data, or failing.\<close>

definition receive_paystack_webhook ::
  "(string \<Rightarrow> string \<Rightarrow> string) \<Rightarrow> (string \<Rightarrow> (string option \<times> event_data option) option) \<Rightarrow>
   settings \<Rightarrow> env \<Rightarrow> string \<Rightarrow> string option \<Rightarrow> unit svc" where
  "receive_paystack_webhook hmac512 loads cfg en raw_body signature_header =
     (let signature = get_or '''' signature_header in
      if \<not> verify_signature hmac512 cfg raw_body signature
      then raiseS (UnauthorizedError ''Invalid or missing webhook signature.'')
      else case loads raw_body of
        None \<Rightarrow> raiseS (ValidationError ''Malformed JSON body.'' ''INVALID_JSON'')
      | Some (event, data) \<Rightarrow>
          catchS (delay en (ProcessPaystackWebhook (get_or '''' event) (get_or empty_data data)))
            (\<lambda>_. True) (\<lambda>_. returnS ()))"

text \<open>The amount of the event is in kobo; \<open>Decimal(str(amount_kobo)) / 100\<close> is that many kobo.\<close>

definition process_charge_success :: "env \<Rightarrow> event_data \<Rightarrow> unit svc" where
  "process_charge_success en data =
     (let ref = get_or '''' (ev_reference data) in
     if ref = [] then returnS ()
     else
     let amount = get_or 0 (ev_amount data) in
     bindS (query (get_by_provider_reference ref)) (\<lambda>txn.
     case txn of None \<Rightarrow> returnS ()
     | Some t \<Rightarrow>
     if t_status t = COMPLETED then returnS ()
     else if t_status t \<noteq> PENDING then returnS ()
     else
     bindS (update_status t PROCESSING None None) (\<lambda>t.
     case t_destination_wallet_id t of None \<Rightarrow> returnS ()
     | Some destination_wallet_id \<Rightarrow>
     bindS (query (wallet_lock_for_update destination_wallet_id)) (\<lambda>wallet.
     case wallet of None \<Rightarrow> returnS ()
     | Some w \<Rightarrow>
     let new_balance = w_balance w + amount in
     bindS (wallet_update_balance w new_balance) (\<lambda>_.
     bindS (create_entry en (uuid4 en 0) (t_id t) (w_id w) CREDIT amount (t_currency t) new_balance) (\<lambda>_.
     bindS (update_status t COMPLETED None None) (\<lambda>t.
     bindS commit (\<lambda>_.
     audit_log_write en (uuid4 en 1) (Some (t_initiated_by_user_id t)) ACTOR_USER ''wallet.funded''
        (Some ''transaction'') (Some (t_id t))
        (Some [(''amount'', JMoney amount), (''currency'', JStr (t_currency t))])))))))))"

definition process_transfer_result :: "env \<Rightarrow> string \<Rightarrow> event_data \<Rightarrow> unit svc" where
  "process_transfer_result en event_type data =
     (let ref = get_or '''' (ev_reference data); transfer_code = get_or '''' (ev_transfer_code data) in
      if ref = [] then returnS ()
      else if event_type = ''transfer.success'' then process_payout_success en ref transfer_code
      else if event_type \<in> {''transfer.failed'', ''transfer.reversed''} then process_payout_failure en ref transfer_code
      else returnS ())"

definition process_paystack_webhook :: "env \<Rightarrow> string \<Rightarrow> event_data \<Rightarrow> unit svc" where
  "process_paystack_webhook en event_type data =
     (if event_type = ''charge.success'' then process_charge_success en data
      else if event_type \<in> {''transfer.success'', ''transfer.failed'', ''transfer.reversed''}
      then process_transfer_result en event_type data
      else returnS ())"

section \<open>Reconciliation\<close>

definition STALE_THRESHOLD_MINUTES :: int where
  "STALE_THRESHOLD_MINUTES = 30"

definition BATCH_LIMIT :: nat where
  "BATCH_LIMIT = 50"

text \<open>
  A funding is reconciled in a session of its own: \<open>rollback\<close> at the start of the model's
  version drops what an earlier one left uncommitted. Every exception is caught and logged.
\<close>

definition reconcile_funding :: "http_client \<Rightarrow> env \<Rightarrow> uuid \<Rightarrow> string \<Rightarrow> unit svc" where
  "reconcile_funding client en txn_id provider_ref =
     catchS
       (bindS rollback (\<lambda>_.
        bindS (query (\<lambda>_. verify_transaction client provider_ref)) (\<lambda>paystack_data.
        let paystack_status = get_or '''' (ev_status paystack_data) in
        if paystack_status = ''success''
        then bindS (process_charge_success en paystack_data) (\<lambda>_. commit)
        else
          bindS (query (transaction_get_by_id txn_id)) (\<lambda>txn.
          if (case txn of None \<Rightarrow> False | Some t \<Rightarrow> t_status t = PENDING)
          then
            bindS (update_status (the txn) PROCESSING None None) (\<lambda>t.
            bindS (update_status t FAILED
              (Some (''Paystack reconciliation: status='' @ [CHR 0x27] @ paystack_status @ [CHR 0x27])) None) (\<lambda>_.
            commit))
          else returnS ()))))
       (\<lambda>_. True) (\<lambda>_. rollback)"

text \<open>The environment of the \<open>k\<close>-th item of a batch: its own stretch of fresh identifiers.\<close>

definition shift_env :: "nat \<Rightarrow> env \<Rightarrow> env" where
  "shift_env k en = en\<lparr>uuid4 := (\<lambda>n. uuid4 en (n + k))\<rparr>"

definition stale_funding :: "timestamp \<Rightarrow> db \<Rightarrow> (uuid \<times> string) list" where
  "stale_funding cutoff d =
     map (\<lambda>t. (t_id t, the (t_provider_reference t))) (take BATCH_LIMIT
       (filter (\<lambda>t. t_type t = FUNDING \<and> t_status t = PENDING \<and> t_provider_reference t \<noteq> None \<and>
          t_created_at t \<le> cutoff) (transactions d)))"

definition stale_withdrawals :: "timestamp \<Rightarrow> db \<Rightarrow> uuid list" where
  "stale_withdrawals cutoff d =
     map t_id (take BATCH_LIMIT
       (filter (\<lambda>t. t_type t = WITHDRAWAL \<and> t_status t = PENDING \<and> t_created_at t \<le> cutoff) (transactions d)))"

definition check_stale_transactions :: "http_client \<Rightarrow> env \<Rightarrow> unit svc" where
  "check_stale_transactions client en =
     (let cutoff = now en - minutes STALE_THRESHOLD_MINUTES in
      bindS (select (stale_funding cutoff)) (\<lambda>stale.
      bindS (forS (zip [0..<length stale] stale)
        (\<lambda>(k, txn_id, provider_ref). reconcile_funding client (shift_env (2 * k) en) txn_id provider_ref)) (\<lambda>_.
      bindS rollback (\<lambda>_.
      bindS (select (stale_withdrawals cutoff)) (\<lambda>stale_withdrawal_ids.
      forS stale_withdrawal_ids (\<lambda>i. delay en (ProcessWithdrawal i)))))))"

section \<open>The outcomes of a funding\<close>

definition funding_txn :: "env \<Rightarrow> wallet \<Rightarrow> money \<Rightarrow> uuid \<Rightarrow> string \<Rightarrow> string option \<Rightarrow> string \<Rightarrow> transaction" where
  "funding_txn en w amount user_id provider_ref key url =
     (new_transaction (uuid4 en 1) (now en) (''txn_'' @ uuid_hex (uuid4 en 0)) FUNDING amount user_id)
       \<lparr>t_status := PENDING, t_destination_wallet_id := Some (w_id w), t_provider_reference := Some provider_ref,
        t_idempotency_key := key, t_extra_data := Some [(''payment_url'', JStr url)]\<rparr>"

lemma funding_txn_simps [simp]:
  "t_id (funding_txn en w a u p k l) = uuid4 en 1" "t_type (funding_txn en w a u p k l) = FUNDING"
  "t_status (funding_txn en w a u p k l) = PENDING" "t_amount (funding_txn en w a u p k l) = a"
  "t_source_wallet_id (funding_txn en w a u p k l) = None"
  "t_destination_wallet_id (funding_txn en w a u p k l) = Some (w_id w)"
  "t_initiated_by_user_id (funding_txn en w a u p k l) = u"
  "t_reference (funding_txn en w a u p k l) = ''txn_'' @ uuid_hex (uuid4 en 0)"
  "t_currency (funding_txn en w a u p k l) = ''NGN''"
  by (simp_all add: funding_txn_def)

lemma wp_initiate_funding:
  assumes clean: "working s = committed s"
    and raised: "\<And>e s'. committed s' = committed s \<Longrightarrow> outbox s' = outbox s \<Longrightarrow> R e s'"
    and replay: "\<And>t u out. find_existing key (committed s) = Inr (Some t) \<Longrightarrow> payment_url_of t = Inr u \<Longrightarrow>
       out = \<lparr>wf_transaction_id = t_id t, wf_reference = t_reference t, wf_payment_url = u,
              wf_amount = t_amount t, wf_currency = t_currency t\<rparr> \<Longrightarrow> Q out s"
    and made: "\<And>w pr url t out s'. wallet_get_by_user_id (u_id user) (committed s) = Inr (Some w) \<Longrightarrow>
       w_is_active w \<Longrightarrow> MINIMUM_FUNDING_NGN \<le> a \<Longrightarrow> t = funding_txn en w a (u_id user) pr key url \<Longrightarrow>
       fresh_in t (committed s) \<Longrightarrow>
       out = \<lparr>wf_transaction_id = t_id t, wf_reference = t_reference t, wf_payment_url = url,
              wf_amount = a, wf_currency = t_currency t\<rparr> \<Longrightarrow>
       committed s' = (committed s)\<lparr>transactions := transactions (committed s) @ [t]\<rparr> \<Longrightarrow>
       outbox s' = outbox s \<Longrightarrow> Q out s'"
  shows "wp (initiate_funding client en user a key) Q R s"
  unfolding initiate_funding_def Let_def funding_txn_def [symmetric]
  by (intro wp_intros; (rule raised; simp; fail)?) (auto simp: clean intro: replay made)

lemma sound_funding_txn:
  assumes "sound d" and "wallet_get_by_user_id u d = Inr (Some w)" and "fresh_in (funding_txn en w a u p k l) d"
  shows "sound (d\<lparr>transactions := transactions d @ [funding_txn en w a u p k l]\<rparr>)"
  by (rule sound_insert_transaction)
    (use assms in \<open>auto simp: fresh_in_def txn_ok_def dest: wallet_get_by_user_idD\<close>)

section \<open>The outcomes of a charge\<close>

definition fund_ready :: "string \<Rightarrow> transaction \<Rightarrow> db \<Rightarrow> bool" where
  "fund_ready ref t d \<longleftrightarrow> t \<in> set (transactions d) \<and> t_provider_reference t = Some ref \<and> t_status t = PENDING"

definition charge_credited :: "env \<Rightarrow> transaction \<Rightarrow> wallet \<Rightarrow> money \<Rightarrow> db \<Rightarrow> db" where
  "charge_credited en t w a d =
     d\<lparr>wallets := upd w_id (w_id w) (\<lambda>v. v\<lparr>w_balance := w_balance w + a\<rparr>) (wallets d),
       ledger_entries := ledger_entries d @
         [\<lparr>e_id = uuid4 en 0, e_transaction_id = t_id t, e_wallet_id = w_id w, e_entry_type = CREDIT,
           e_amount = a, e_currency = t_currency t, e_balance_after = w_balance w + a, e_created_at = now en\<rparr>],
       transactions := upd t_id (t_id t) (set_status COMPLETED None None) (transactions d)\<rparr>"

definition left_processing :: "transaction \<Rightarrow> db \<Rightarrow> db" where
  "left_processing t d = d\<lparr>transactions := upd t_id (t_id t) (set_status PROCESSING None None) (transactions d)\<rparr>"

lemma fund_readyI: "get_by_provider_reference ref d = Inr (Some t) \<Longrightarrow> t_status t = PENDING \<Longrightarrow> fund_ready ref t d"
  by (auto simp: fund_ready_def dest: get_by_provider_referenceD)

lemma set_status_twice:
  "upd t_id i (set_status st None None) (upd t_id i (set_status st' None None) rows) = upd t_id i (set_status st None None) rows"
  by (simp add: upd_upd) (simp add: set_status_def [abs_def])

lemma wp_process_charge_success:
  assumes clean: "working s = committed s"
    and raised: "\<And>e s'. committed s' = committed s \<Longrightarrow> outbox s' = outbox s \<Longrightarrow> R e s'"
    and skip: "Q () s"
    and left: "\<And>t s'. fund_ready ref t (committed s) \<Longrightarrow> working s' = left_processing t (committed s) \<Longrightarrow>
       committed s' = committed s \<Longrightarrow> outbox s' = outbox s \<Longrightarrow> Q () s'"
    and ok: "\<And>t w s' al. ref = get_or '''' (ev_reference data) \<Longrightarrow> fund_ready ref t (committed s) \<Longrightarrow>
       w \<in> set (wallets (committed s)) \<Longrightarrow> t_destination_wallet_id t = Some (w_id w) \<Longrightarrow>
       0 \<le> w_balance w + get_or 0 (ev_amount data) \<Longrightarrow>
       committed s' = (charge_credited en t w (get_or 0 (ev_amount data)) (committed s))\<lparr>audit_logs := al\<rparr> \<Longrightarrow> prefix (audit_logs (committed s)) al \<Longrightarrow>
       working s' = committed s' \<Longrightarrow> outbox s' = outbox s \<Longrightarrow> Q () s'"
    and ref: "ref = get_or '''' (ev_reference data)"
  shows "wp (process_charge_success en data) Q R s"
  unfolding process_charge_success_def
  by (intro wp_intros wp_audit_clean; (rule raised skip; simp; fail)?;
      (auto simp: clean ref left_processing_def intro!: left fund_readyI; fail)?)
    (auto simp: clean ref charge_credited_def set_status_twice dest: wallet_lockD intro!: ok fund_readyI)

lemma fund_ready_sound:
  assumes "sound d" and "fund_ready ref t d"
  shows "t \<in> set (transactions d)" "t_type t = FUNDING" "t_status t = PENDING" "t_source_wallet_id t = None"
    "postings (t_id t) (ledger_entries d) = []"
proof -
  from assms have t: "t \<in> set (transactions d)" by (simp add: fund_ready_def)
  from soundD(7) [OF assms(1) t] soundD(8) [OF assms(1) t] assms(2)
  show "t \<in> set (transactions d)" "t_type t = FUNDING" "t_status t = PENDING" "t_source_wallet_id t = None"
    "postings (t_id t) (ledger_entries d) = []"
    by (cases "t_type t"; simp add: fund_ready_def txn_ok_def posted_as_def)+
qed

lemma sound_charge_credited:
  assumes sound: "sound d" and ready: "fund_ready ref t d"
    and w: "w \<in> set (wallets d)" "t_destination_wallet_id t = Some (w_id w)" and "0 \<le> w_balance w + a"
  shows "sound (charge_credited en t w a d)"
proof -
  note r = fund_ready_sound [OF sound ready]
  let ?new = "[\<lparr>e_id = uuid4 en 0, e_transaction_id = t_id t, e_wallet_id = w_id w, e_entry_type = CREDIT,
           e_amount = a, e_currency = t_currency t, e_balance_after = w_balance w + a, e_created_at = now en\<rparr>]"
  let ?f = "set_status COMPLETED None None"
  have "rebalanced (\<lambda>i. if i = w_id w then w_balance w + a - w_balance w else 0) (wallets d)
     (upd w_id (w_id w) (\<lambda>v. v\<lparr>w_balance := w_balance w + a\<rparr>) (wallets d))"
    by (rule rebalanced_upd) (use assms(5) w soundD [OF sound] in auto)
  moreover have "effect ?new (\<lambda>i. hold_of i t - hold_of i (?f t)) =
     (\<lambda>i. if i = w_id w then w_balance w + a - w_balance w else 0)"
    by (rule ext) (use r in \<open>simp add: effect_def hold_of_def active_withdrawal_def\<close>)
  ultimately show ?thesis
    using sound_settle [OF sound r(1), of ?f ?new] r w
    by (simp add: charge_credited_def txn_ok_def posted_as_def active_withdrawal_def sound_def)
qed

lemma sound_left_processing:
  assumes sound: "sound d" and ready: "fund_ready ref t d"
  shows "sound (left_processing t d)"
  using sound_touch [OF sound, of t "set_status PROCESSING None None"] soundD(7) [OF sound, of t] fund_ready_sound [OF assms]
  by (simp add: left_processing_def txn_ok_def posted_as_def hold_of_def active_withdrawal_def)

text \<open>A pending funding that Paystack does not confirm.\<close>

definition funding_failed :: "string \<Rightarrow> transaction \<Rightarrow> db \<Rightarrow> db" where
  "funding_failed status t d = d\<lparr>transactions := upd t_id (t_id t)
     (set_status FAILED (Some (''Paystack reconciliation: status='' @ [CHR 0x27] @ status @ [CHR 0x27])) None) (transactions d)\<rparr>"

lemma sound_funding_failed:
  assumes sound: "sound d" and t: "t \<in> set (transactions d)" "t_status t = PENDING" "t_type t = FUNDING"
  shows "sound (funding_failed status t d)"
  using sound_touch [OF sound, of t "set_status FAILED (Some (''Paystack reconciliation: status='' @ [CHR 0x27] @ status @ [CHR 0x27])) None"]
    soundD(7,8) [OF sound t(1)] t
  by (simp add: funding_failed_def txn_ok_def posted_as_def hold_of_def active_withdrawal_def)

lemma set_status_fail_twice:
  "upd t_id i (set_status st (Some m) None) (upd t_id i (set_status st' None None) rows) = upd t_id i (set_status st (Some m) None) rows"
  by (simp add: upd_upd) (simp add: set_status_def [abs_def])

text \<open>
  One item of the sweep never raises; it leaves the books as they were, credits the charge, leaves
  the funding PROCESSING (its wallet is gone), or fails it.
\<close>

lemma wp_reconcile_funding:
  assumes same: "\<And>s'. committed s' = committed s \<Longrightarrow> outbox s' = outbox s \<Longrightarrow> Q () s'"
    and charged: "\<And>t w a s' al r. fund_ready r t (committed s) \<Longrightarrow>
       w \<in> set (wallets (committed s)) \<Longrightarrow> t_destination_wallet_id t = Some (w_id w) \<Longrightarrow> 0 \<le> w_balance w + a \<Longrightarrow>
       committed s' = (charge_credited en t w a (committed s))\<lparr>audit_logs := al\<rparr> \<Longrightarrow> prefix (audit_logs (committed s)) al \<Longrightarrow> outbox s' = outbox s \<Longrightarrow> Q () s'"
    and left: "\<And>t s' r. fund_ready r t (committed s) \<Longrightarrow> committed s' = left_processing t (committed s) \<Longrightarrow>
       outbox s' = outbox s \<Longrightarrow> Q () s'"
    and failed: "\<And>t s' st. t \<in> set (transactions (committed s)) \<Longrightarrow> t_id t = i \<Longrightarrow> t_status t = PENDING \<Longrightarrow>
       committed s' = funding_failed st t (committed s) \<Longrightarrow> outbox s' = outbox s \<Longrightarrow> Q () s'"
  shows "wp (reconcile_funding client en i pref) Q R s"
proof -
  have caught: "(if True then wp rollback Q R s' else R e s')"
    if "committed s' = committed s" "outbox s' = outbox s" for e s'
    using that by (simp add: wp_rollback same)
  show ?thesis
    unfolding reconcile_funding_def wp_catchS
    by (intro wp_intros wp_process_charge_success; (rule caught; simp; fail)?; (rule same; simp; fail)?;
        (auto simp: wp_rules intro!: left; fail)?; (auto simp: wp_rules intro!: charged; fail)?)
      (auto simp: wp_rules caught same funding_failed_def set_status_fail_twice split: option.splits
        dest: transaction_get_by_idD intro!: failed)
qed

text \<open>The type of each transaction, which nothing rewrites.\<close>

definition types_of :: "db \<Rightarrow> (uuid \<times> transaction_type) list" where
  "types_of d = map (\<lambda>t. (t_id t, t_type t)) (transactions d)"

lemma types_of_outcomes [simp]:
  "types_of (charge_credited en t w a d) = types_of d" "types_of (left_processing t d) = types_of d"
  "types_of (funding_failed st t d) = types_of d" "types_of (d\<lparr>audit_logs := al\<rparr>) = types_of d"
  by (simp_all add: types_of_def charge_credited_def left_processing_def funding_failed_def map_upd_same)

lemma types_of_unique:
  assumes "distinct (map t_id (transactions d))" and "(i, ty) \<in> set (types_of d)"
    and "t \<in> set (transactions d)" and "t_id t = i"
  shows "t_type t = ty"
proof -
  obtain q where "q \<in> set (transactions d)" "t_id q = i" "t_type q = ty" using assms(2) by (auto simp: types_of_def)
  moreover from this have "t = q" using assms by (intro distinct_key_eq [OF assms(1,3)]) simp_all
  ultimately show ?thesis by simp
qed

lemma reconcile_funding_sound:
  assumes "sound (committed s)" and "(i, FUNDING) \<in> set (types_of (committed s))"
  shows "wp (reconcile_funding client en i pref)
    (\<lambda>_ s'. sound (committed s') \<and> types_of (committed s') = types_of (committed s)) R s"
proof -
  have "t_type t = FUNDING" if "t \<in> set (transactions (committed s))" "t_id t = i" for t
    using types_of_unique [OF soundD(2) [OF assms(1)] assms(2) that] .
  with assms show ?thesis
    by (intro wp_reconcile_funding) (auto intro!: sound_charge_credited sound_left_processing sound_funding_failed)
qed

lemma stale_funding_types: "(i, r) \<in> set (stale_funding c d) \<Longrightarrow> (i, FUNDING) \<in> set (types_of d)"
  unfolding stale_funding_def types_of_def by (auto dest!: in_set_takeD intro!: image_eqI)

lemma check_stale_sound:
  assumes "sound (committed s)" and "working s = committed s"
  shows "wp (check_stale_transactions client en) (\<lambda>_ s'. sound (committed s')) (\<lambda>_ s'. sound (committed s')) s"
proof -
  let ?I = "\<lambda>s' :: session. sound (committed s') \<and> types_of (committed s') = types_of (committed s)"
  let ?stale = "stale_funding (now en - minutes STALE_THRESHOLD_MINUTES) (committed s)"
  let ?item = "\<lambda>(k, txn_id, provider_ref). reconcile_funding client (shift_env (2 * k) en) txn_id provider_ref"
  have loop: "wp (forS (zip [0..<length ?stale] ?stale) ?item) (\<lambda>_. ?I) R s" for R
  proof (rule wp_forS)
    fix x and s' :: session assume x: "x \<in> set (zip [0..<length ?stale] ?stale)" and I: "?I s'"
    obtain k i r where [simp]: "x = (k, i, r)" by (cases x) auto
    have "(i, r) \<in> set ?stale" using x by (auto dest: set_zip_rightD)
    then show "wp (?item x) (\<lambda>_. ?I) R s'"
      using I reconcile_funding_sound [of s' i] stale_funding_types by simp
  qed (use assms in simp)
  have sends: "wp (forS is (\<lambda>i. delay en (ProcessWithdrawal i))) (\<lambda>_ s'. sound (committed s')) (\<lambda>_ s'. sound (committed s')) s'"
    if "sound (committed s')" for "is" s'
    by (rule wp_forS) (use that in \<open>simp_all add: wp_rules\<close>)
  show ?thesis
    unfolding check_stale_transactions_def Let_def
    by (simp add: wp_rules assms(2)) (rule wp_mono [OF loop]; simp add: wp_rules sends)
qed

end
