(* ===== verification/Kyc.thy ===== *)
theory Kyc
  imports Users Transactions
begin

text \<open>
  Identity verification: \<open>detect_mime_type\<close> and \<open>StorageService\<close>
  (\<open>app/integrations/storage.py\<close>), \<open>KYCRepository\<close> (\<open>app/repositories/kyc.py\<close>) and
  \<open>KYCService\<close> (\<open>app/services/kyc.py\<close>). S3 is a parameter: \<open>put_object\<close> says whether an upload
  succeeds, \<open>presign\<close> gives a URL for a key, or fails.
\<close>

section \<open>Storage\<close>

type_synonym byte = "8 word"

definition MAGIC :: "(byte list \<times> string) list" where
  "MAGIC = [([0xff, 0xd8, 0xff], ''image/jpeg''), ([0x89, 0x50, 0x4e, 0x47], ''image/png''),
            ([0x25, 0x50, 0x44, 0x46], ''application/pdf'')]"

definition MAX_FILE_SIZE :: nat where
  "MAX_FILE_SIZE = 5 * 1024 * 1024"

definition detect_mime_type :: "byte list \<Rightarrow> string option" where
  "detect_mime_type data = map_option snd (find (\<lambda>(magic, mime). take (length magic) data = magic) MAGIC)"

definition upload_file :: "(string \<Rightarrow> byte list \<Rightarrow> bool) \<Rightarrow> byte list \<Rightarrow> string \<Rightarrow> exn + string" where
  "upload_file put_object file_bytes key =
     (if put_object key file_bytes then Inr key else Inl (ExternalServiceError ''Document storage''))"

definition get_presigned_url :: "(string \<Rightarrow> int \<Rightarrow> string option) \<Rightarrow> string \<Rightarrow> int \<Rightarrow> exn + string" where
  "get_presigned_url presign key expiry =
     (case presign key expiry of Some url \<Rightarrow> Inr url | None \<Rightarrow> Inl (ExternalServiceError ''Document storage''))"

section \<open>Repository\<close>

definition kyc_create :: "env \<Rightarrow> uuid \<Rightarrow> uuid \<Rightarrow> int \<Rightarrow> string \<Rightarrow> kyc_submission svc" where
  "kyc_create en submission_id user_id requested_tier document_key =
     (let sub = \<lparr>k_id = submission_id, k_user_id = user_id, k_requested_tier = requested_tier,
        k_status = KYC_PENDING, k_document_key = document_key, k_reviewer_id = None,
        k_rejection_reason = None, k_reviewed_at = None, k_created_at = now en\<rparr>
      in bindS (flush (insert_kyc_submission sub)) (\<lambda>_. returnS sub))"

definition kyc_get_by_id :: "uuid \<Rightarrow> db \<Rightarrow> exn + kyc_submission option" where
  "kyc_get_by_id i d = scalar_one_or_none (filter (\<lambda>k. k_id k = i) (kyc_submissions d))"

definition get_latest_for_user :: "uuid \<Rightarrow> db \<Rightarrow> exn + kyc_submission option" where
  "get_latest_for_user user_id d =
     scalar_one_or_none (take 1 (order_desc k_created_at (filter (\<lambda>k. k_user_id k = user_id) (kyc_submissions d))))"

definition get_active_for_tier :: "uuid \<Rightarrow> int \<Rightarrow> db \<Rightarrow> exn + kyc_submission option" where
  "get_active_for_tier user_id requested_tier d =
     scalar_one_or_none (take 1 (filter (\<lambda>k. k_user_id k = user_id \<and> k_requested_tier k = requested_tier \<and>
       k_status k \<noteq> KYC_REJECTED) (kyc_submissions d)))"

definition list_by_status :: "kyc_status option \<Rightarrow> nat \<Rightarrow> nat \<Rightarrow> db \<Rightarrow> kyc_submission list \<times> nat" where
  "list_by_status status lim off d =
     (let base = filter (opt_filter (\<lambda>v k. k_status k = v) status) (kyc_submissions d)
      in (page lim off (sort_key k_created_at base), length base))"

section \<open>Service\<close>

text \<open>\<open>s.replace(ab, r)\<close> for a two-character \<open>ab\<close>: occurrences from the left, without overlap.\<close>

fun replace_pair :: "char \<Rightarrow> char \<Rightarrow> string \<Rightarrow> string \<Rightarrow> string" where
  "replace_pair a b r (x # y # xs) =
     (if x = a \<and> y = b then r @ replace_pair a b r xs else x # replace_pair a b r (y # xs))"
| "replace_pair a b r xs = xs"

definition safe_name :: "string \<Rightarrow> string" where
  "safe_name filename = replace_pair (CHR ''.'') (CHR ''.'') ''_'' (replace_char (CHR ''/'') ''_'' filename)"

definition document_key_of :: "uuid \<Rightarrow> uuid \<Rightarrow> string \<Rightarrow> string" where
  "document_key_of user_id submission_id filename =
     ''kyc/'' @ uuid_str user_id @ ''/'' @ uuid_str submission_id @ ''/'' @ safe_name filename"

definition submit_kyc ::
  "(string \<Rightarrow> byte list \<Rightarrow> bool) \<Rightarrow> env \<Rightarrow> user \<Rightarrow> int \<Rightarrow> byte list \<Rightarrow> string \<Rightarrow> kyc_submission svc" where
  "submit_kyc put_object en user target_tier file_bytes filename =
     (if MAX_FILE_SIZE < length file_bytes
      then raiseS (ValidationError ''Document must not exceed 5 MB.'' ''FILE_TOO_LARGE'')
      else if detect_mime_type file_bytes \<notin> {Some ''image/jpeg'', Some ''image/png'', Some ''application/pdf''}
      then raiseS (ValidationError ''Unsupported file type. Allowed formats: JPEG, PNG, PDF.'' ''INVALID_FILE_TYPE'')
      else if u_kyc_tier user \<noteq> target_tier - 1
      then raiseS (ValidationError (''You must complete Tier '' @ show_int (target_tier - 1) @
             '' before applying for Tier '' @ show_int target_tier @ ''.'') ''KYC_TIER_SKIP'')
      else
      bindS (query (get_active_for_tier (u_id user) target_tier)) (\<lambda>existing.
      case existing of
        Some k \<Rightarrow>
          if k_status k = KYC_PENDING
          then raiseS (ConflictError ''A KYC submission for this tier is already under review.'' ''KYC_SUBMISSION_PENDING'')
          else raiseS (ConflictError (''KYC Tier '' @ show_int target_tier @
                 '' has already been approved for this account.'') ''KYC_ALREADY_APPROVED'')
      | None \<Rightarrow>
          let submission_id = uuid4 en 0; key = document_key_of (u_id user) submission_id filename in
          bindS (query (\<lambda>_. upload_file put_object file_bytes key)) (\<lambda>_.
          bindS (kyc_create en submission_id (u_id user) target_tier key) (\<lambda>submission.
          bindS commit (\<lambda>_.
          bindS (audit_log_write en (uuid4 en 1) (Some (u_id user)) ACTOR_USER ''kyc.submitted''
             (Some ''kyc_submission'') (Some (k_id submission)) (Some [(''tier_requested'', JInt target_tier)])) (\<lambda>_.
          returnS submission))))))"

definition get_my_submission :: "uuid \<Rightarrow> db \<Rightarrow> exn + kyc_submission" where
  "get_my_submission user_id d =
     bindE (get_latest_for_user user_id d) (\<lambda>sub.
     case sub of None \<Rightarrow> Inl (NotFoundError ''KYC submission'') | Some k \<Rightarrow> Inr k)"

definition get_submission :: "uuid \<Rightarrow> db \<Rightarrow> exn + kyc_submission" where
  "get_submission submission_id d =
     bindE (kyc_get_by_id submission_id d) (\<lambda>sub.
     case sub of None \<Rightarrow> Inl (NotFoundError ''KYC submission'') | Some k \<Rightarrow> Inr k)"

definition review ::
  "timestamp \<Rightarrow> kyc_status \<Rightarrow> uuid \<Rightarrow> string option \<Rightarrow> kyc_submission \<Rightarrow> kyc_submission" where
  "review ts status reviewer_id reason k =
     k\<lparr>k_status := status, k_reviewer_id := Some reviewer_id, k_reviewed_at := Some ts,
       k_rejection_reason := (if reason \<noteq> None then reason else k_rejection_reason k)\<rparr>"

definition write_submission :: "uuid \<Rightarrow> (kyc_submission \<Rightarrow> kyc_submission) \<Rightarrow> db \<Rightarrow> exn + db" where
  "write_submission i f d =
     (if \<exists>k\<in>set (kyc_submissions d). k_id k = i \<and> \<not> refers_opt (k_reviewer_id (f k)) u_id (users d)
      then Inl IntegrityError
      else Inr (d\<lparr>kyc_submissions := upd k_id i f (kyc_submissions d)\<rparr>))"

definition approve_kyc :: "env \<Rightarrow> uuid \<Rightarrow> user \<Rightarrow> kyc_submission svc" where
  "approve_kyc en submission_id reviewer =
     bindS (query (get_submission submission_id)) (\<lambda>sub.
     if k_status sub = KYC_APPROVED
     then raiseS (ConflictError ''This submission has already been approved.'' ''KYC_ALREADY_APPROVED'')
     else if k_status sub = KYC_REJECTED
     then raiseS (ConflictError ''Cannot approve a rejected submission.'' ''KYC_ALREADY_REJECTED'')
     else if u_id reviewer = k_user_id sub
     then raiseS (ForbiddenError ''Admins cannot review their own KYC submissions.'')
     else
     let f = review (now en) KYC_APPROVED (u_id reviewer) None in
     bindS (flush (write_submission (k_id sub) f)) (\<lambda>_.
     bindS (update_kyc_tier (k_user_id sub) (k_requested_tier sub)) (\<lambda>_.
     bindS commit (\<lambda>_.
     bindS (audit_log_write en (uuid4 en 0) (Some (u_id reviewer)) ACTOR_ADMIN ''kyc.approved''
        (Some ''kyc_submission'') (Some (k_id sub))
        (Some [(''user_id'', JUuid (k_user_id sub)), (''tier_approved'', JInt (k_requested_tier sub))])) (\<lambda>_.
     returnS (f sub))))))"

fun kyc_status_value :: "kyc_status \<Rightarrow> string" where
  "kyc_status_value KYC_PENDING = ''pending''"
| "kyc_status_value KYC_APPROVED = ''approved''"
| "kyc_status_value KYC_REJECTED = ''rejected''"

definition reject_kyc :: "env \<Rightarrow> uuid \<Rightarrow> user \<Rightarrow> string \<Rightarrow> kyc_submission svc" where
  "reject_kyc en submission_id reviewer reason =
     bindS (query (get_submission submission_id)) (\<lambda>sub.
     if k_status sub \<noteq> KYC_PENDING
     then raiseS (ConflictError (''Cannot reject a submission with status '' @ [CHR 0x27] @
            kyc_status_value (k_status sub) @ [CHR 0x27] @ ''.'') ''KYC_INVALID_STATUS_FOR_REJECTION'')
     else if u_id reviewer = k_user_id sub
     then raiseS (ForbiddenError ''Admins cannot review their own KYC submissions.'')
     else
     let f = review (now en) KYC_REJECTED (u_id reviewer) (Some reason) in
     bindS (flush (write_submission (k_id sub) f)) (\<lambda>_.
     bindS commit (\<lambda>_.
     bindS (audit_log_write en (uuid4 en 0) (Some (u_id reviewer)) ACTOR_ADMIN ''kyc.rejected''
        (Some ''kyc_submission'') (Some (k_id sub))
        (Some [(''user_id'', JUuid (k_user_id sub)), (''reason'', JStr reason)])) (\<lambda>_.
     returnS (f sub)))))"

definition get_presigned_doc_url :: "(string \<Rightarrow> int \<Rightarrow> string option) \<Rightarrow> kyc_submission \<Rightarrow> exn + string" where
  "get_presigned_doc_url presign submission = get_presigned_url presign (k_document_key submission) 3600"

definition list_submissions :: "kyc_status option \<Rightarrow> nat \<Rightarrow> nat \<Rightarrow> db \<Rightarrow> kyc_submission paginated" where
  "list_submissions status lim off d =
     (let (rows, total) = list_by_status status lim off d
      in \<lparr>pg_items = rows, pg_total = total, pg_limit = lim, pg_offset = off\<rparr>)"

section \<open>Safe names\<close>

lemma no_slash_replace: "CHR ''/'' \<notin> set (replace_char (CHR ''/'') ''_'' s)"
  by (induction s) (auto simp: replace_char_def)

lemma set_replace_pair: "set (replace_pair a b r xs) \<subseteq> set xs \<union> set r"
  by (induction a b r xs rule: replace_pair.induct) auto

lemma safe_name_no_slash: "CHR ''/'' \<notin> set (safe_name s)"
  using set_replace_pair [of "CHR ''.''" "CHR ''.''" "''_''"] no_slash_replace [of s]
  by (auto simp: safe_name_def)

fun has_pair :: "char \<Rightarrow> char \<Rightarrow> string \<Rightarrow> bool" where
  "has_pair a b (x # y # xs) = (x = a \<and> y = b \<or> has_pair a b (y # xs))"
| "has_pair a b xs = False"

lemma has_pair_Cons: "has_pair a b (x # xs) \<longleftrightarrow> (x = a \<and> (\<exists>ys. xs = b # ys)) \<or> has_pair a b xs"
  by (cases xs) auto

lemma replace_pair_hd:
  "replace_pair a b [c] xs = b # ys \<Longrightarrow> c \<noteq> b \<Longrightarrow> \<exists>zs. xs = b # zs"
  by (cases "(a, b, [c], xs)" rule: replace_pair.cases) (auto split: if_splits)

lemma replace_pair_none:
  assumes "c \<noteq> a" "c \<noteq> b" shows "\<not> has_pair a b (replace_pair a b [c] xs)"
  using assms
proof (induction a b "[c]" xs rule: replace_pair.induct)
  case (1 a b x y xs)
  then show ?case
    by (auto simp: has_pair_Cons dest: replace_pair_hd)
qed auto

lemma safe_name_no_dots: "\<not> has_pair (CHR ''.'') (CHR ''.'') (safe_name s)"
  unfolding safe_name_def by (rule replace_pair_none) simp_all

lemma distinct_active_upd:
  assumes "distinct (map g (filter P rows))" and "\<And>r. g (f r) = g r" and "\<And>r. r \<in> set rows \<Longrightarrow> key r = i \<Longrightarrow> P (f r) \<Longrightarrow> P r"
  shows "distinct (map g (filter P (upd key i f rows)))"
  using assms
proof (induction rows)
  case Nil
  then show ?case by simp
next
  case (Cons r rows)
  have "set (map g (filter P (upd key i f rows))) \<subseteq> set (map g (filter P rows))"
    using Cons.prems(2,3) by (fastforce elim!: set_updE)
  then show ?case using Cons by (auto simp: upd_Cons split: if_splits)
qed

section \<open>Tier progression\<close>

definition active_submission :: "kyc_submission \<Rightarrow> bool" where
  "active_submission k \<longleftrightarrow> k_status k \<noteq> KYC_REJECTED"

text \<open>
  A user has at most one submission per tier that was not rejected; a pending one is for the next
  tier, an approved one for a tier the user has reached.
\<close>

definition tier_fits :: "user list \<Rightarrow> kyc_submission \<Rightarrow> bool" where
  "tier_fits us k \<longleftrightarrow> (\<forall>u\<in>set us. u_id u = k_user_id k \<longrightarrow>
     (k_status k = KYC_PENDING \<longrightarrow> k_requested_tier k = u_kyc_tier u + 1) \<and>
     (k_status k = KYC_APPROVED \<longrightarrow> k_requested_tier k \<le> u_kyc_tier u))"

definition kyc_ok :: "db \<Rightarrow> bool" where
  "kyc_ok d \<longleftrightarrow> distinct (map u_id (users d)) \<and> distinct (map k_id (kyc_submissions d)) \<and>
     k_user_id ` set (kyc_submissions d) \<subseteq> u_id ` set (users d) \<and>
     distinct (map (\<lambda>k. (k_user_id k, k_requested_tier k)) (filter active_submission (kyc_submissions d))) \<and>
     (\<forall>k\<in>set (kyc_submissions d). tier_fits (users d) k)"

definition approved :: "timestamp \<Rightarrow> uuid \<Rightarrow> kyc_submission \<Rightarrow> db \<Rightarrow> db" where
  "approved ts reviewer k d =
     d\<lparr>kyc_submissions := upd k_id (k_id k) (review ts KYC_APPROVED reviewer None) (kyc_submissions d),
       users := upd u_id (k_user_id k) (\<lambda>u. u\<lparr>u_kyc_tier := k_requested_tier k\<rparr>) (users d)\<rparr>"

definition rejected :: "timestamp \<Rightarrow> uuid \<Rightarrow> string \<Rightarrow> kyc_submission \<Rightarrow> db \<Rightarrow> db" where
  "rejected ts reviewer reason k d =
     d\<lparr>kyc_submissions := upd k_id (k_id k) (review ts KYC_REJECTED reviewer (Some reason)) (kyc_submissions d)\<rparr>"

lemma get_submissionD: "get_submission i d = Inr k \<Longrightarrow> k \<in> set (kyc_submissions d) \<and> k_id k = i"
  by (auto simp: get_submission_def kyc_get_by_id_def bindE_Inr_iff split: option.splits dest: scalar_filter_Some)

lemma wp_approve_kyc:
  assumes clean: "working s = committed s"
    and raised: "\<And>e s'. committed s' = committed s \<Longrightarrow> outbox s' = outbox s \<Longrightarrow> R e s'"
    and ok: "\<And>k u s' al. k \<in> set (kyc_submissions (committed s)) \<Longrightarrow> k_id k = i \<Longrightarrow> k_status k = KYC_PENDING \<Longrightarrow>
       k_user_id k \<noteq> u_id reviewer \<Longrightarrow> u \<in> set (users (committed s)) \<Longrightarrow> u_id u = k_user_id k \<Longrightarrow> u_deleted_at u = None \<Longrightarrow>
       committed s' = (approved (now en) (u_id reviewer) k (committed s))\<lparr>audit_logs := al\<rparr> \<Longrightarrow> prefix (audit_logs (committed s)) al \<Longrightarrow>
       outbox s' = outbox s \<Longrightarrow> Q (review (now en) KYC_APPROVED (u_id reviewer) None k) s'"
  shows "wp (approve_kyc en i reviewer) Q R s"
  unfolding approve_kyc_def
  by (intro wp_intros wp_audit_clean; (rule raised; simp; fail)?)
    (auto simp: clean approved_def write_submission_def dest: get_submissionD user_get_by_idD intro!: ok intro: kyc_status.exhaust
       split: if_splits)

lemma wp_reject_kyc:
  assumes clean: "working s = committed s"
    and raised: "\<And>e s'. committed s' = committed s \<Longrightarrow> outbox s' = outbox s \<Longrightarrow> R e s'"
    and ok: "\<And>k s' al. k \<in> set (kyc_submissions (committed s)) \<Longrightarrow> k_id k = i \<Longrightarrow> k_status k = KYC_PENDING \<Longrightarrow>
       k_user_id k \<noteq> u_id reviewer \<Longrightarrow>
       committed s' = (rejected (now en) (u_id reviewer) reason k (committed s))\<lparr>audit_logs := al\<rparr> \<Longrightarrow> prefix (audit_logs (committed s)) al \<Longrightarrow>
       outbox s' = outbox s \<Longrightarrow> Q (review (now en) KYC_REJECTED (u_id reviewer) (Some reason) k) s'"
  shows "wp (reject_kyc en i reviewer reason) Q R s"
  unfolding reject_kyc_def
  by (intro wp_intros wp_audit_clean; (rule raised; simp; fail)?)
    (auto simp: clean rejected_def write_submission_def dest: get_submissionD intro!: ok split: if_splits)

lemma review_simps [simp]:
  "k_id (review ts st r m k) = k_id k" "k_user_id (review ts st r m k) = k_user_id k"
  "k_requested_tier (review ts st r m k) = k_requested_tier k" "k_status (review ts st r m k) = st"
  by (simp_all add: review_def)


interpretation rev: column_update k_id "review ts st r m" for ts st r m
  by unfold_locales simp

lemma kyc_okD:
  assumes "kyc_ok d"
  shows "distinct (map u_id (users d))" "distinct (map k_id (kyc_submissions d))"
    "k_user_id ` set (kyc_submissions d) \<subseteq> u_id ` set (users d)"
    "distinct (map (\<lambda>k. (k_user_id k, k_requested_tier k)) (filter active_submission (kyc_submissions d)))"
    "k \<in> set (kyc_submissions d) \<Longrightarrow> tier_fits (users d) k"
  using assms by (auto simp: kyc_ok_def)

text \<open>Reviewing keeps the parts of the invariant that do not speak of tiers.\<close>

lemma kyc_ok_review:
  assumes ok: "kyc_ok d" and k: "k \<in> set (kyc_submissions d)" and pend: "k_status k = KYC_PENDING"
    and us: "map u_id us = map u_id (users d)"
    and fits: "tier_fits us (review ts st r m k)"
    and others: "\<And>j. j \<in> set (kyc_submissions d) \<Longrightarrow> j \<noteq> k \<Longrightarrow> tier_fits us j"
  shows "kyc_ok (d\<lparr>kyc_submissions := upd k_id (k_id k) (review ts st r m) (kyc_submissions d), users := us\<rparr>)"
proof -
  note D = kyc_okD [OF ok]
  let ?ks = "upd k_id (k_id k) (review ts st r m) (kyc_submissions d)"
  have "k_user_id ` set ?ks = k_user_id ` set (kyc_submissions d)"
    by (metis (no_types) list.set_map map_upd_same review_simps(2))
  moreover have "u_id ` set us = u_id ` set (users d)" using us by (metis list.set_map)
  moreover have "distinct (map (\<lambda>k. (k_user_id k, k_requested_tier k)) (filter active_submission ?ks))"
  proof (rule distinct_active_upd [OF D(4)])
    fix q assume "q \<in> set (kyc_submissions d)" "k_id q = k_id k"
    then have "q = k" using distinct_key_eq [OF D(2) _ k] by simp
    then show "active_submission q" using pend by (simp add: active_submission_def)
  qed simp
  moreover have "tier_fits us j" if "j \<in> set ?ks" for j
    using that
  proof (rule set_updE)
    fix q assume "q \<in> set (kyc_submissions d)" "k_id q = k_id k" "j = review ts st r m q"
    moreover from this have "q = k" using distinct_key_eq [OF D(2) _ k] by simp
    ultimately show "tier_fits us j" using fits by simp
  qed (use others in auto)
  ultimately show ?thesis
    using D(1-3) us by (simp add: kyc_ok_def rev.keys_upd)
qed

lemma kyc_ok_rejected:
  assumes "kyc_ok d" "k \<in> set (kyc_submissions d)" "k_status k = KYC_PENDING"
  shows "kyc_ok (rejected ts r reason k d)"
  using kyc_ok_review [OF assms, of "users d" ts KYC_REJECTED r "Some reason"] kyc_okD(5) [OF assms(1)]
  by (simp add: rejected_def tier_fits_def)

text \<open>An approval raises the user's tier by one; no other pending submission of the user is left.\<close>

lemma kyc_ok_approved:
  assumes ok: "kyc_ok d" and k: "k \<in> set (kyc_submissions d)" and pend: "k_status k = KYC_PENDING"
  shows "kyc_ok (approved ts r k d)"
  unfolding approved_def
proof (rule kyc_ok_review [OF ok k pend])
  let ?us = "upd u_id (k_user_id k) (\<lambda>u. u\<lparr>u_kyc_tier := k_requested_tier k\<rparr>) (users d)"
  note D = kyc_okD [OF ok]
  show "map u_id ?us = map u_id (users d)" by (rule tier.keys_upd)
  show "tier_fits ?us (review ts KYC_APPROVED r None k)"
    by (auto simp: tier_fits_def elim!: set_updE)
  fix j assume j: "j \<in> set (kyc_submissions d)" "j \<noteq> k"
  have "\<not> (k_user_id j = k_user_id k \<and> k_requested_tier j = k_requested_tier k \<and> active_submission j)"
    using distinct_key_eq [OF D(4), of j k] j k pend by (auto simp: active_submission_def)
  then show "tier_fits ?us j"
    using D(5) [OF j(1)] D(5) [OF k] pend
    by (auto simp: tier_fits_def active_submission_def elim!: set_updE)
qed

definition submitted :: "env \<Rightarrow> user \<Rightarrow> int \<Rightarrow> string \<Rightarrow> kyc_submission" where
  "submitted en user tier filename =
     \<lparr>k_id = uuid4 en 0, k_user_id = u_id user, k_requested_tier = tier, k_status = KYC_PENDING,
      k_document_key = document_key_of (u_id user) (uuid4 en 0) filename, k_reviewer_id = None,
      k_rejection_reason = None, k_reviewed_at = None, k_created_at = now en\<rparr>"

lemma wp_kyc_createI [wp_intros]:
  "(\<And>e. R e s) \<Longrightarrow>
   (\<And>k d. k = \<lparr>k_id = i, k_user_id = u, k_requested_tier = t, k_status = KYC_PENDING, k_document_key = key,
        k_reviewer_id = None, k_rejection_reason = None, k_reviewed_at = None, k_created_at = now en\<rparr> \<Longrightarrow>
      \<not> clashes k_id k (kyc_submissions (working s)) \<Longrightarrow>
      d = (working s)\<lparr>kyc_submissions := kyc_submissions (working s) @ [k]\<rparr> \<Longrightarrow> Q k (s\<lparr>working := d\<rparr>)) \<Longrightarrow>
   wp (kyc_create en i u t key) Q R s"
  by (simp add: kyc_create_def wp_rules Let_def insert_kyc_submission_def)

lemma wp_submit_kyc:
  assumes clean: "working s = committed s"
    and raised: "\<And>e s'. committed s' = committed s \<Longrightarrow> outbox s' = outbox s \<Longrightarrow> R e s'"
    and ok: "\<And>k s' al. k = submitted en user tier filename \<Longrightarrow> length bytes \<le> MAX_FILE_SIZE \<Longrightarrow>
       detect_mime_type bytes \<in> {Some ''image/jpeg'', Some ''image/png'', Some ''application/pdf''} \<Longrightarrow>
       put_object (k_document_key k) bytes \<Longrightarrow>
       u_kyc_tier user = tier - 1 \<Longrightarrow> get_active_for_tier (u_id user) tier (committed s) = Inr None \<Longrightarrow>
       \<not> clashes k_id k (kyc_submissions (committed s)) \<Longrightarrow>
       committed s' = (committed s)\<lparr>kyc_submissions := kyc_submissions (committed s) @ [k], audit_logs := al\<rparr> \<Longrightarrow> prefix (audit_logs (committed s)) al \<Longrightarrow>
       outbox s' = outbox s \<Longrightarrow> Q k s'"
  shows "wp (submit_kyc put_object en user tier bytes filename) Q R s"
  unfolding submit_kyc_def
  by (intro wp_intros wp_audit_clean; (rule raised; simp; fail)?)
    (auto simp: clean submitted_def upload_file_def not_less split: if_splits intro!: ok)

lemma kyc_ok_submitted:
  assumes ok: "kyc_ok d" and u: "user \<in> set (users d)" and t: "u_kyc_tier user = tier - 1"
    and none: "get_active_for_tier (u_id user) tier d = Inr None"
    and fresh: "\<not> clashes k_id (submitted en user tier fn) (kyc_submissions d)"
  shows "kyc_ok (d\<lparr>kyc_submissions := kyc_submissions d @ [submitted en user tier fn]\<rparr>)"
proof -
  note D = kyc_okD [OF ok]
  let ?P = "\<lambda>k. k_user_id k = u_id user \<and> k_requested_tier k = tier \<and> k_status k \<noteq> KYC_REJECTED"
  have "filter ?P (kyc_submissions d) = []"
    using none by (simp add: get_active_for_tier_def scalar_Inr_None_iff)
  then have "\<forall>k\<in>set (kyc_submissions d). \<not> ?P k" by (simp add: filter_empty_conv)
  then have "distinct (map (\<lambda>k. (k_user_id k, k_requested_tier k))
      (filter active_submission (kyc_submissions d @ [submitted en user tier fn])))"
    using D(4) by (auto simp: active_submission_def submitted_def)
  moreover have "tier_fits (users d) (submitted en user tier fn)"
    unfolding tier_fits_def
  proof (intro ballI impI)
    fix v assume "v \<in> set (users d)" "u_id v = k_user_id (submitted en user tier fn)"
    then have "v = user" using distinct_key_eq [OF D(1) _ u] by (simp add: submitted_def)
    then show "(k_status (submitted en user tier fn) = KYC_PENDING \<longrightarrow>
         k_requested_tier (submitted en user tier fn) = u_kyc_tier v + 1) \<and>
       (k_status (submitted en user tier fn) = KYC_APPROVED \<longrightarrow> k_requested_tier (submitted en user tier fn) \<le> u_kyc_tier v)"
      using t by (simp add: submitted_def)
  qed
  ultimately show ?thesis
    using D u fresh by (auto simp: kyc_ok_def clashes_def submitted_def)
qed

end
