(* ===== verification/Auth.thy ===== *)
theory Auth
  imports Users Wallets
begin

text \<open>
  Authentication: \<open>app/core/security.py\<close>, \<open>RefreshTokenRepository\<close> (\<open>app/repositories/auth.py\<close>),
  \<open>AuthService\<close> (\<open>app/services/auth.py\<close>), the dependencies \<open>get_current_user\<close> and
  \<open>require_role\<close> (\<open>app/core/deps.py\<close>) and the validators of \<open>RegisterRequest\<close>. The cryptography
  is a parameter: bcrypt (\<open>hashpw\<close>, \<open>checkpw\<close>), SHA-256, \<open>jwt.encode\<close> and \<open>jwt.decode\<close>, which
  verifies the signature and the expiry, and \<open>secrets.token_urlsafe\<close>, as the token it draws.
\<close>

section \<open>Tokens\<close>

record claims =
  c_sub :: "string option"
  c_role :: "string option"
  c_type :: "string option"
  c_iat :: timestamp
  c_exp :: timestamp

datatype jwt_error = ExpiredSignatureError | PyJWTError

record crypto =
  hashpw :: "string \<Rightarrow> string"
  checkpw :: "string \<Rightarrow> string \<Rightarrow> bool"
  sha256 :: "string \<Rightarrow> string"
  jwt_encode :: "claims \<Rightarrow> string"
  jwt_decode :: "timestamp \<Rightarrow> string \<Rightarrow> jwt_error + claims"
  token_urlsafe :: string

fun role_value :: "user_role \<Rightarrow> string" where
  "role_value USER = ''user''"
| "role_value MERCHANT = ''merchant''"
| "role_value ADMIN = ''admin''"

definition verify_password :: "crypto \<Rightarrow> string \<Rightarrow> string \<Rightarrow> bool" where
  "verify_password c plain hashed = checkpw c plain hashed"

definition hash_password :: "crypto \<Rightarrow> string \<Rightarrow> string" where
  "hash_password c plain = hashpw c plain"

definition create_access_token :: "settings \<Rightarrow> crypto \<Rightarrow> env \<Rightarrow> uuid \<Rightarrow> string \<Rightarrow> string" where
  "create_access_token cfg c en user_id role =
     jwt_encode c \<lparr>c_sub = Some (uuid_str user_id), c_role = Some role, c_type = Some ''access'',
       c_iat = now en, c_exp = now en + ACCESS_TOKEN_EXPIRE_MINUTES cfg * 60000000\<rparr>"

definition hash_refresh_token :: "crypto \<Rightarrow> string \<Rightarrow> string" where
  "hash_refresh_token c raw = sha256 c raw"

definition create_refresh_token :: "crypto \<Rightarrow> string \<times> string" where
  "create_refresh_token c = (let raw = token_urlsafe c; hashed = hash_refresh_token c raw in (raw, hashed))"

section \<open>Refresh token repository\<close>

definition token_create :: "env \<Rightarrow> uuid \<Rightarrow> uuid \<Rightarrow> string \<Rightarrow> timestamp \<Rightarrow> refresh_token svc" where
  "token_create en i user_id token_hash expires_at =
     (let token = \<lparr>r_id = i, r_user_id = user_id, r_token_hash = token_hash, r_expires_at = expires_at,
        r_is_revoked = False, r_created_at = now en\<rparr>
      in bindS (flush (insert_refresh_token token)) (\<lambda>_. returnS token))"

definition get_by_hash :: "string \<Rightarrow> db \<Rightarrow> exn + refresh_token option" where
  "get_by_hash token_hash d = scalar_one_or_none (filter (\<lambda>r. r_token_hash r = token_hash) (refresh_tokens d))"

definition set_revoked :: "refresh_token \<Rightarrow> refresh_token" where
  "set_revoked r = r\<lparr>r_is_revoked := True\<rparr>"

definition revoke :: "refresh_token \<Rightarrow> unit svc" where
  "revoke token = flush (\<lambda>d. Inr (d\<lparr>refresh_tokens := upd r_id (r_id token) set_revoked (refresh_tokens d)\<rparr>))"

definition revoke_all_for_user :: "uuid \<Rightarrow> unit svc" where
  "revoke_all_for_user user_id =
     flush (\<lambda>d. Inr (d\<lparr>refresh_tokens := map (\<lambda>r. if r_user_id r = user_id \<and> \<not> r_is_revoked r
        then set_revoked r else r) (refresh_tokens d)\<rparr>))"

section \<open>Service\<close>

record token_response =
  tr_user :: "user option"
  tr_access_token :: string
  tr_refresh_token :: string
  tr_expires_in :: int

definition issue_token_pair :: "settings \<Rightarrow> crypto \<Rightarrow> env \<Rightarrow> user \<Rightarrow> string \<times> string \<times> string \<times> int" where
  "issue_token_pair cfg c en user =
     (let access_token = create_access_token cfg c en (u_id user) (role_value (u_role user));
          (raw_refresh, refresh_hash) = create_refresh_token c;
          expires_in = ACCESS_TOKEN_EXPIRE_MINUTES cfg * 60
      in (access_token, raw_refresh, refresh_hash, expires_in))"

definition days :: "int \<Rightarrow> timestamp" where
  "days n = n * 86400000000"

definition store_refresh_token :: "settings \<Rightarrow> env \<Rightarrow> uuid \<Rightarrow> uuid \<Rightarrow> string \<Rightarrow> unit svc" where
  "store_refresh_token cfg en i user_id refresh_hash =
     (let expires_at = now en + days (REFRESH_TOKEN_EXPIRE_DAYS cfg)
      in bindS (token_create en i user_id refresh_hash expires_at) (\<lambda>_. returnS ()))"

definition register ::
  "settings \<Rightarrow> crypto \<Rightarrow> env \<Rightarrow> string \<Rightarrow> string \<Rightarrow> string \<Rightarrow> string option \<Rightarrow> token_response svc" where
  "register cfg c en email password full_name phone =
     bindS (query (user_get_by_email email)) (\<lambda>existing.
     if existing \<noteq> None
     then raiseS (ConflictError ''An account with this email already exists.'' ''EMAIL_CONFLICT'')
     else
     let hashed = hash_password c password in
     bindS (user_create en (uuid4 en 0) email hashed full_name phone USER) (\<lambda>user.
     bindS (create_wallet en (uuid4 en 1) (u_id user) ''NGN'') (\<lambda>_.
     let (access_token, raw_refresh, refresh_hash, expires_in) = issue_token_pair cfg c en user in
     bindS (store_refresh_token cfg en (uuid4 en 2) (u_id user) refresh_hash) (\<lambda>_.
     bindS commit (\<lambda>_.
     bindS (audit_log_write en (uuid4 en 3) (Some (u_id user)) ACTOR_USER ''user.registered''
        (Some ''user'') (Some (u_id user)) None) (\<lambda>_.
     returnS \<lparr>tr_user = Some user, tr_access_token = access_token, tr_refresh_token = raw_refresh,
              tr_expires_in = expires_in\<rparr>))))))"

definition login :: "settings \<Rightarrow> crypto \<Rightarrow> env \<Rightarrow> string \<Rightarrow> string \<Rightarrow> token_response svc" where
  "login cfg c en email password =
     bindS (query (user_get_by_email email)) (\<lambda>user.
     case user of None \<Rightarrow> raiseS (UnauthorizedError ''Invalid credentials.'')
     | Some u \<Rightarrow>
     if \<not> verify_password c password (u_hashed_password u)
     then raiseS (UnauthorizedError ''Invalid credentials.'')
     else if \<not> u_is_active u
     then raiseS (ForbiddenError ''Account is deactivated. Please contact support.'')
     else
     let (access_token, raw_refresh, refresh_hash, expires_in) = issue_token_pair cfg c en u in
     bindS (store_refresh_token cfg en (uuid4 en 0) (u_id u) refresh_hash) (\<lambda>_.
     bindS commit (\<lambda>_.
     bindS (audit_log_write en (uuid4 en 1) (Some (u_id u)) ACTOR_USER ''user.login''
        (Some ''user'') (Some (u_id u)) None) (\<lambda>_.
     returnS \<lparr>tr_user = None, tr_access_token = access_token, tr_refresh_token = raw_refresh,
              tr_expires_in = expires_in\<rparr>))))"

definition refresh :: "settings \<Rightarrow> crypto \<Rightarrow> env \<Rightarrow> string \<Rightarrow> token_response svc" where
  "refresh cfg c en raw_token =
     (let token_hash = hash_refresh_token c raw_token in
     bindS (query (get_by_hash token_hash)) (\<lambda>db_token.
     case db_token of None \<Rightarrow> raiseS (UnauthorizedError ''Invalid or expired refresh token.'')
     | Some r \<Rightarrow>
     if r_is_revoked r then raiseS (UnauthorizedError ''Invalid or expired refresh token.'')
     else if r_expires_at r < now en then raiseS (UnauthorizedError ''Refresh token has expired.'')
     else
     bindS (query (user_get_by_id (r_user_id r))) (\<lambda>user.
     case user of None \<Rightarrow> raiseS (UnauthorizedError ''Invalid or expired refresh token.'')
     | Some u \<Rightarrow>
     if \<not> u_is_active u then raiseS (UnauthorizedError ''Invalid or expired refresh token.'')
     else
     bindS (revoke r) (\<lambda>_.
     let (access_token, raw_refresh, refresh_hash, expires_in) = issue_token_pair cfg c en u in
     bindS (store_refresh_token cfg en (uuid4 en 0) (u_id u) refresh_hash) (\<lambda>_.
     bindS commit (\<lambda>_.
     returnS \<lparr>tr_user = None, tr_access_token = access_token, tr_refresh_token = raw_refresh,
              tr_expires_in = expires_in\<rparr>))))))"

definition logout :: "crypto \<Rightarrow> string \<Rightarrow> unit svc" where
  "logout c raw_token =
     (let token_hash = hash_refresh_token c raw_token in
     bindS (query (get_by_hash token_hash)) (\<lambda>db_token.
     case db_token of None \<Rightarrow> returnS ()
     | Some r \<Rightarrow> if r_is_revoked r then returnS () else bindS (revoke r) (\<lambda>_. commit)))"

section \<open>Dependencies\<close>

definition hex_value :: "char \<Rightarrow> nat option" where
  "hex_value ch = (let n = of_char ch :: nat in
     if 48 \<le> n \<and> n \<le> 57 then Some (n - 48) else if 97 \<le> n \<and> n \<le> 102 then Some (n - 87)
     else if 65 \<le> n \<and> n \<le> 70 then Some (n - 55) else None)"

fun parse_hex :: "uuid \<Rightarrow> string \<Rightarrow> uuid option" where
  "parse_hex acc [] = Some acc"
| "parse_hex acc (ch # s) = (case hex_value ch of None \<Rightarrow> None
     | Some v \<Rightarrow> parse_hex (Bit_Operations.or (push_bit 4 acc) (of_nat v)) s)"

text \<open>\<open>uuid.UUID(s)\<close> on the forms with and without hyphens: 32 hexadecimal digits remain.\<close>

definition parse_uuid :: "string \<Rightarrow> uuid option" where
  "parse_uuid s = (let h = filter (\<lambda>ch. ch \<noteq> CHR ''-'') s
     in if length h = 32 then parse_hex 0 h else None)"

definition get_current_user :: "crypto \<Rightarrow> env \<Rightarrow> string \<Rightarrow> db \<Rightarrow> exn + user" where
  "get_current_user c en token d =
     (case jwt_decode c (now en) token of
       Inl ExpiredSignatureError \<Rightarrow> Inl (UnauthorizedError ''Token has expired.'')
     | Inl PyJWTError \<Rightarrow> Inl (UnauthorizedError ''Invalid token.'')
     | Inr payload \<Rightarrow>
         if c_type payload \<noteq> Some ''access'' then Inl (UnauthorizedError ''Invalid token type.'')
         else if \<not> truthy (c_sub payload) then Inl (UnauthorizedError ''Invalid token payload.'')
         else case parse_uuid (the (c_sub payload)) of
           None \<Rightarrow> Inl (UnauthorizedError ''Invalid token payload.'')
         | Some user_id \<Rightarrow>
             bindE (user_get_by_id user_id d) (\<lambda>user.
             case user of None \<Rightarrow> Inl (UnauthorizedError ''User not found.'')
             | Some u \<Rightarrow> if \<not> u_is_active u then Inl (ForbiddenError ''Account is deactivated.'') else Inr u))"

definition require_role :: "string list \<Rightarrow> user \<Rightarrow> exn + user" where
  "require_role roles current_user =
     (if role_value (u_role current_user) \<notin> set roles then Inl (ForbiddenError ''Insufficient permissions.'')
      else Inr current_user)"

section \<open>Request validation\<close>

definition is_alpha :: "char \<Rightarrow> bool" where
  "is_alpha ch = (let n = of_char ch :: nat in 65 \<le> n \<and> n \<le> 90 \<or> 97 \<le> n \<and> n \<le> 122)"

definition is_digit :: "char \<Rightarrow> bool" where
  "is_digit ch = (let n = of_char ch :: nat in 48 \<le> n \<and> n \<le> 57)"

definition password_strength :: "string \<Rightarrow> exn + string" where
  "password_strength v =
     (if length v < 8 then Inl (RequestValidationError ''Password must be at least 8 characters.'')
      else if \<not> list_ex is_alpha v then Inl (RequestValidationError ''Password must contain at least one letter.'')
      else if \<not> list_ex is_digit v then Inl (RequestValidationError ''Password must contain at least one number.'')
      else Inr v)"

definition full_name_not_empty :: "string \<Rightarrow> exn + string" where
  "full_name_not_empty v =
     (if str_strip v = [] then Inl (RequestValidationError ''full_name must not be blank.'') else Inr (str_strip v))"

section \<open>Lemmas\<close>

lemma get_by_hashD: "get_by_hash h d = Inr (Some r) \<Longrightarrow> r \<in> set (refresh_tokens d) \<and> r_token_hash r = h"
  unfolding get_by_hash_def by (drule scalar_filter_Some) simp

interpretation revoked: column_update r_id set_revoked
  by unfold_locales (simp add: set_revoked_def)

section \<open>Access tokens\<close>

lemma hex_value_digit: "m < 16 \<Longrightarrow> hex_value (hex_digit m) = Some m"
proof -
  have "\<forall>m\<in>set [0..<16]. hex_value (hex_digit m) = Some m" by code_simp
  then show "m < 16 \<Longrightarrow> hex_value (hex_digit m) = Some m" by simp
qed

lemma hex_digit_no_dash: "m < 16 \<Longrightarrow> hex_digit m \<noteq> CHR ''-''"
  using hex_value_digit [of m] by (auto simp: hex_value_def)

lemma word_nibble_step:
  fixes u :: uuid
  shows "Bit_Operations.or (push_bit k (take_bit 4 (drop_bit k u))) (take_bit k u) = take_bit (k + 4) u"
  by (rule bit_eqI) (auto simp: bit_or_iff bit_push_bit_iff bit_take_bit_iff bit_drop_bit_eq)

lemma parse_hex_nibbles:
  "parse_hex acc (map (\<lambda>i. hex_digit (nibble u i)) (rev [0..<n])) =
   Some (Bit_Operations.or (push_bit (4 * n) acc) (take_bit (4 * n) u))"
proof (induction n arbitrary: acc)
  case 0
  then show ?case by simp
next
  case (Suc n)
  have v: "hex_value (hex_digit (nibble u n)) = Some (nibble u n)" by (rule hex_value_digit [OF nibble_less])
  have n: "of_nat (nibble u n) = (take_bit 4 (drop_bit (4 * n) u) :: uuid)" by (simp add: nibble_def)
  have "Bit_Operations.or (push_bit (4 * n) (Bit_Operations.or (push_bit 4 acc) (of_nat (nibble u n)))) (take_bit (4 * n) u) =
     Bit_Operations.or (push_bit (4 * Suc n) acc) (take_bit (4 * Suc n) u)"
    unfolding n using word_nibble_step [of "4 * n" u]
    by (simp add: push_bit_or or.assoc push_bit_push_bit add.commute)
  then show ?case using Suc by (simp add: v)
qed

lemma uuid_hex_no_dash: "CHR ''-'' \<notin> set (uuid_hex u)"
  by (auto simp: uuid_hex_def) (metis hex_digit_no_dash nibble_less)

lemma undash_pieces:
  assumes "a \<notin> set h" and "length h = 32"
  shows "filter (\<lambda>ch. ch \<noteq> a) (take 8 h @ [a] @ take 4 (drop 8 h) @ [a] @ take 4 (drop 12 h) @ [a] @
     take 4 (drop 16 h) @ [a] @ drop 20 h) = h"
proof -
  have "filter (\<lambda>ch. ch \<noteq> a) (take m (drop n h)) = take m (drop n h)" for m n
    using assms(1) by (intro filter_True) (auto dest: in_set_takeD in_set_dropD)
  from this [of _ 0] this this [of 12 20] assms(2) show ?thesis
    using take_drop_glue [of 4 16 h] take_drop_glue [of 4 12 h] take_drop_glue [of 4 8 h] take_drop_glue [of 8 0 h]
    by simp
qed

lemma parse_uuid_str: "parse_uuid (uuid_str u) = Some u"
proof -
  have "filter (\<lambda>ch. ch \<noteq> CHR ''-'') (uuid_str u) = uuid_hex u"
    unfolding uuid_str_def Let_def using undash_pieces [OF uuid_hex_no_dash, of u] by simp
  moreover have "parse_hex 0 (uuid_hex u) = Some u"
    unfolding uuid_hex_def parse_hex_nibbles by (simp add: take_bit_word_eq_self)
  ultimately show ?thesis by (simp add: parse_uuid_def)
qed

section \<open>Token rotation\<close>

definition rotated :: "refresh_token \<Rightarrow> refresh_token \<Rightarrow> db \<Rightarrow> db" where
  "rotated r n d = d\<lparr>refresh_tokens := upd r_id (r_id r) set_revoked (refresh_tokens d) @ [n]\<rparr>"

lemma set_revoked_simps [simp]:
  "r_id (set_revoked r) = r_id r" "r_token_hash (set_revoked r) = r_token_hash r" "r_is_revoked (set_revoked r)"
  "r_user_id (set_revoked r) = r_user_id r" "r_expires_at (set_revoked r) = r_expires_at r"
  by (simp_all add: set_revoked_def)

lemma wp_token_createI [wp_intros]:
  "(\<And>e. R e s) \<Longrightarrow>
   (\<And>n d. n = \<lparr>r_id = i, r_user_id = u, r_token_hash = h, r_expires_at = x, r_is_revoked = False, r_created_at = now en\<rparr> \<Longrightarrow>
      \<not> clashes r_token_hash n (refresh_tokens (working s)) \<Longrightarrow>
      d = (working s)\<lparr>refresh_tokens := refresh_tokens (working s) @ [n]\<rparr> \<Longrightarrow> Q n (s\<lparr>working := d\<rparr>)) \<Longrightarrow>
   wp (token_create en i u h x) Q R s"
  by (simp add: token_create_def wp_rules Let_def insert_refresh_token_def)

lemma wp_refresh:
  assumes clean: "working s = committed s"
    and raised: "\<And>e s'. committed s' = committed s \<Longrightarrow> outbox s' = outbox s \<Longrightarrow> R e s'"
    and ok: "\<And>r n u out s'. get_by_hash (hash_refresh_token c raw) (committed s) = Inr (Some r) \<Longrightarrow>
       \<not> r_is_revoked r \<Longrightarrow> now en \<le> r_expires_at r \<Longrightarrow>
       user_get_by_id (r_user_id r) (committed s) = Inr (Some u) \<Longrightarrow> u_is_active u \<Longrightarrow>
       n = \<lparr>r_id = uuid4 en 0, r_user_id = u_id u, r_token_hash = hash_refresh_token c (token_urlsafe c),
            r_expires_at = now en + days (REFRESH_TOKEN_EXPIRE_DAYS cfg), r_is_revoked = False, r_created_at = now en\<rparr> \<Longrightarrow>
       r_token_hash n \<notin> r_token_hash ` set (refresh_tokens (committed s)) \<Longrightarrow>
       committed s' = rotated r n (committed s) \<Longrightarrow> outbox s' = outbox s \<Longrightarrow>
       out = \<lparr>tr_user = None, tr_access_token = create_access_token cfg c en (u_id u) (role_value (u_role u)),
              tr_refresh_token = token_urlsafe c, tr_expires_in = ACCESS_TOKEN_EXPIRE_MINUTES cfg * 60\<rparr> \<Longrightarrow> Q out s'"
  shows "wp (refresh cfg c en raw) Q R s"
proof -
  have hashes: "r_token_hash ` set (upd r_id i set_revoked rows) = r_token_hash ` set rows" for i rows
    by (metis (no_types) list.set_map map_upd_same set_revoked_simps(2))
  show ?thesis
    unfolding refresh_def store_refresh_token_def revoke_def
    by (intro wp_intros; (rule raised; simp; fail)?)
      (auto simp: clean issue_token_pair_def create_refresh_token_def Let_def clashes_def hashes rotated_def
        intro!: ok)
qed

text \<open>The consumed token is found again, revoked.\<close>

lemma get_by_hash_rotated:
  assumes "get_by_hash h d = Inr (Some r)" and "r_token_hash n \<notin> r_token_hash ` set (refresh_tokens d)"
  shows "get_by_hash h (rotated r n d) = Inr (Some (set_revoked r))"
proof -
  have r: "filter (\<lambda>r. r_token_hash r = h) (refresh_tokens d) = [r]"
    using assms(1) by (simp add: get_by_hash_def scalar_Inr_Some_iff)
  then have "h \<in> r_token_hash ` set (refresh_tokens d)" by (force dest: filter_single_in)
  then have "r_token_hash n \<noteq> h" using assms(2) by auto
  then show ?thesis by (simp add: get_by_hash_def rotated_def filter_upd r upd_Cons)
qed

lemma refresh_revoked:
  assumes "get_by_hash (hash_refresh_token c raw) (working s) = Inr (Some r)" and "r_is_revoked r"
  shows "refresh cfg c en raw s = (Inl (UnauthorizedError ''Invalid or expired refresh token.''), s)"
  using assms by (simp add: refresh_def Let_def bindS_def query_def askS_def raiseS_def)

end
