(* ===== verification/Abstract_Spec.thy ===== *)
theory Abstract_Spec
  imports Payments Funding Kyc Auth
begin

text \<open>
  The backend as an abstract transition system on its database: \<open>change l d d'\<close> is one of the
  things that may ever happen to the tables, \<open>l\<close> the user on whose request it happens (None for
  the worker tasks). The theory \<open>Refinement\<close> shows that every service only makes such changes;
  here every change is shown to keep the invariants, so an invariant is proved once.
\<close>

section \<open>The changes\<close>

text \<open>What a delivery attempt may do to its row.\<close>

definition attempt_on :: "(webhook_delivery \<Rightarrow> webhook_delivery) \<Rightarrow> webhook_delivery \<Rightarrow> bool" where
  "attempt_on f w \<longleftrightarrow> d_status w \<noteq> WD_DELIVERED \<and> d_attempt_count w \<le> d_attempt_count (f w) \<and>
     (\<forall>v. d_id (f v) = d_id v \<and> d_merchant_id (f v) = d_merchant_id v \<and>
          d_transaction_id (f v) = d_transaction_id v \<and> d_payload (f v) = d_payload v)"

inductive change :: "uuid option \<Rightarrow> db \<Rightarrow> db \<Rightarrow> bool" where
  audited: "prefix (audit_logs d) al \<Longrightarrow> change l d (d\<lparr>audit_logs := al\<rparr>)"
| delivery_added: "enqueued (webhook_deliveries d) wd \<Longrightarrow> change l d (d\<lparr>webhook_deliveries := wd\<rparr>)"
| delivery_attempted: "w \<in> set (webhook_deliveries d) \<Longrightarrow> attempt_on f w \<Longrightarrow>
    change l d (d\<lparr>webhook_deliveries := upd d_id (d_id w) f (webhook_deliveries d)\<rparr>)"
| tokens_changed: "change l d (d\<lparr>refresh_tokens := rt\<rparr>)"
| user_added: "\<not> clashes u_id u (users d) \<Longrightarrow> u_role u = USER \<Longrightarrow> u_kyc_tier u = 0 \<Longrightarrow>
    change l d (d\<lparr>users := users d @ [u]\<rparr>)"
| merchant_role: "change (Some i) d (d\<lparr>users := upd u_id i (\<lambda>u. u\<lparr>u_role := MERCHANT\<rparr>) (users d)\<rparr>)"
| merchant_added: "\<not> clashes m_id m (merchants d) \<Longrightarrow> \<not> clashes m_user_id m (merchants d) \<Longrightarrow> m_user_id m = u \<Longrightarrow>
    change (Some u) d (d\<lparr>merchants := merchants d @ [m]\<rparr>)"
| merchant_updated: "m \<in> set (merchants d) \<Longrightarrow> m_user_id m = u \<Longrightarrow>
    (\<And>n. m_id (f n) = m_id n \<and> m_user_id (f n) = m_user_id n) \<Longrightarrow>
    change (Some u) d (d\<lparr>merchants := upd m_id (m_id m) f (merchants d)\<rparr>)"
| wallet_added: "\<not> clashes w_id w (wallets d) \<Longrightarrow> \<not> clashes w_user_id w (wallets d) \<Longrightarrow> w_balance w = 0 \<Longrightarrow>
    change l d (d\<lparr>wallets := wallets d @ [w]\<rparr>)"
| funds_moved: "ty = TRANSFER \<or> ty = MERCHANT_PAYMENT \<Longrightarrow> src \<in> set (wallets d) \<Longrightarrow> dst \<in> set (wallets d) \<Longrightarrow>
    w_user_id src = u \<Longrightarrow> w_user_id dst \<noteq> u \<Longrightarrow> 0 < a \<Longrightarrow> a \<le> w_balance src \<Longrightarrow> 0 \<le> w_balance dst + a \<Longrightarrow>
    fresh_in (moved_txn en ty src dst a u key) d \<Longrightarrow>
    change (Some u) d (funds_moved en ty src dst a u key d)"
| funding_opened: "MINIMUM_FUNDING_NGN \<le> a \<Longrightarrow> wallet_get_by_user_id u d = Inr (Some w) \<Longrightarrow> fresh_in (funding_txn en w a u pr key url) d \<Longrightarrow>
    change (Some u) d (d\<lparr>transactions := transactions d @ [funding_txn en w a u pr key url]\<rparr>)"
| funding_credited: "fund_ready ref t d \<Longrightarrow> w \<in> set (wallets d) \<Longrightarrow> t_destination_wallet_id t = Some (w_id w) \<Longrightarrow>
    0 \<le> w_balance w + a \<Longrightarrow> change None d (charge_credited en t w a d)"
| funding_stuck: "fund_ready ref t d \<Longrightarrow> change None d (left_processing t d)"
| funding_refused: "t \<in> set (transactions d) \<Longrightarrow> t_status t = PENDING \<Longrightarrow> t_type t = FUNDING \<Longrightarrow>
    change None d (funding_failed st t d)"
| amount_held: "0 < a \<Longrightarrow> may_withdraw cfg en user i w a d \<Longrightarrow> fresh_in (withdrawal_txn en w a (u_id user) i) d \<Longrightarrow>
    change (Some (u_id user)) d (amount_held (withdrawal_txn en w a (u_id user) i) w d)"
| recipient_stored: "b \<in> set (bank_accounts d) \<Longrightarrow> change None d
    (d\<lparr>bank_accounts := upd b_id (b_id b) (\<lambda>b. b\<lparr>b_paystack_recipient_code := Some c\<rparr>) (bank_accounts d)\<rparr>)"
| payout_sent: "may_send i t b d \<Longrightarrow> change None d
    (d\<lparr>transactions := upd t_id (t_id t) (mark_sent (t_status t = PENDING) code) (transactions d)\<rparr>)"
| payout_settled: "payout_ready ref t w d \<Longrightarrow> change None d (payout_done en t w d)"
| payout_returned: "payout_ready ref t w d \<Longrightarrow> 0 \<le> w_balance w + t_amount t \<Longrightarrow>
    change None d (payout_reversed code t w d)"
| flagged: "t \<in> set (transactions d) \<Longrightarrow> change None d
    (d\<lparr>transactions := upd t_id (t_id t) (set_risk r) (transactions d)\<rparr>)"
| kyc_submitted: "user \<in> set (users d) \<Longrightarrow> u_kyc_tier user = tier - 1 \<Longrightarrow>
    get_active_for_tier (u_id user) tier d = Inr None \<Longrightarrow>
    \<not> clashes k_id (submitted en user tier fn) (kyc_submissions d) \<Longrightarrow>
    change (Some (u_id user)) d (d\<lparr>kyc_submissions := kyc_submissions d @ [submitted en user tier fn]\<rparr>)"
| kyc_approved: "k \<in> set (kyc_submissions d) \<Longrightarrow> k_status k = KYC_PENDING \<Longrightarrow> k_user_id k \<noteq> u \<Longrightarrow>
    change (Some u) d (approved ts u k d)"
| kyc_rejected: "k \<in> set (kyc_submissions d) \<Longrightarrow> k_status k = KYC_PENDING \<Longrightarrow> k_user_id k \<noteq> u \<Longrightarrow>
    change (Some u) d (rejected ts u reason k d)"
| account_added: "b_user_id b = u \<Longrightarrow> b_deleted_at b = None \<Longrightarrow> b_is_default b = (live_accounts u d = []) \<Longrightarrow>
    \<not> clashes b_id b (bank_accounts d) \<Longrightarrow> change (Some u) d (d\<lparr>bank_accounts := bank_accounts d @ [b]\<rparr>)"
| account_removed: "b \<in> set (bank_accounts d) \<Longrightarrow> b_deleted_at b = None \<Longrightarrow> b_user_id b = u \<Longrightarrow>
    change (Some u) d (account_removed ts b d)"

text \<open>One request or task makes a sequence of changes.\<close>

abbreviation changes :: "uuid option \<Rightarrow> db \<Rightarrow> db \<Rightarrow> bool" where
  "changes l \<equiv> (change l)\<^sup>*\<^sup>*"

section \<open>Invariants of every change\<close>

text \<open>The interface of an invariant: true of every database the system starts with, kept by every change.\<close>

definition initial_db :: "db \<Rightarrow> bool" where
  "initial_db d \<longleftrightarrow> (\<exists>us. distinct (map u_id us) \<and> distinct (map u_email us) \<and>
     distinct (filter (\<lambda>p. p \<noteq> None) (map u_phone us)) \<and> d = empty_db\<lparr>users := us\<rparr>)"

locale invariant =
  fixes I :: "db \<Rightarrow> bool"
  assumes init: "initial_db d \<Longrightarrow> I d"
    and step: "change l d d' \<Longrightarrow> sound d \<Longrightarrow> I d \<Longrightarrow> I d'"

lemma set_risk_books [simp]:
  "txn_ok (set_risk r t) = txn_ok t" "posted_as (set_risk r t) ps = posted_as t ps"
  "active_withdrawal (set_risk r t) = active_withdrawal t" "hold_of i (set_risk r t) = hold_of i t"
  by (cases "t_type t"; simp add: txn_ok_def posted_as_def hold_of_def active_withdrawal_def)+

lemma sound_change: "change l d d' \<Longrightarrow> sound d \<Longrightarrow> sound d'"
proof (induction rule: change.induct)
  case (funds_moved ty src d dst u a en key)
  then have "w_id src \<noteq> w_id dst" using distinct_key_eq [OF soundD(1), of d src dst] by auto
  with funds_moved show ?case by (intro sound_funds_moved) (auto simp: fresh_in_def)
next
  case (flagged t d r)
  then show ?case
    using soundD(7,8) [OF flagged(2) flagged(1)] by (intro sound_touch) simp_all
qed (auto intro: sound_insert_wallet sound_funding_txn sound_charge_credited sound_left_processing sound_funding_failed
    sound_amount_held sound_mark_sent sound_payout_done sound_payout_reversed simp: approved_def rejected_def account_removed_def Let_def
    split: list.split)

interpretation sound: invariant sound
proof
  show "initial_db d \<Longrightarrow> sound d" for d using sound_empty by (auto simp: initial_db_def)
qed (rule sound_change)

text \<open>The other tables a change leaves alone.\<close>

lemma movement_tables [simp]:
  "users (funds_moved en ty src dst a u k d) = users d" "kyc_submissions (funds_moved en ty src dst a u k d) = kyc_submissions d"
  "bank_accounts (funds_moved en ty src dst a u k d) = bank_accounts d"
  "users (charge_credited en t w x d) = users d" "kyc_submissions (charge_credited en t w x d) = kyc_submissions d"
  "bank_accounts (charge_credited en t w x d) = bank_accounts d"
  "users (left_processing t d) = users d" "kyc_submissions (left_processing t d) = kyc_submissions d"
  "bank_accounts (left_processing t d) = bank_accounts d"
  "users (funding_failed st t d) = users d" "kyc_submissions (funding_failed st t d) = kyc_submissions d"
  "bank_accounts (funding_failed st t d) = bank_accounts d"
  "users (amount_held t w d) = users d" "kyc_submissions (amount_held t w d) = kyc_submissions d"
  "bank_accounts (amount_held t w d) = bank_accounts d"
  "users (payout_done en t w d) = users d" "kyc_submissions (payout_done en t w d) = kyc_submissions d"
  "bank_accounts (payout_done en t w d) = bank_accounts d"
  "users (payout_reversed code t w d) = users d" "kyc_submissions (payout_reversed code t w d) = kyc_submissions d"
  "bank_accounts (payout_reversed code t w d) = bank_accounts d"
  by (simp_all add: funds_moved_def charge_credited_def left_processing_def funding_failed_def amount_held_def
      payout_done_def payout_reversed_def)

lemma review_tables [simp]:
  "bank_accounts (approved ts u k d) = bank_accounts d" "bank_accounts (rejected ts u m k d) = bank_accounts d"
  "users (rejected ts u m k d) = users d"
  "users (account_removed ts b d) = users d" "kyc_submissions (account_removed ts b d) = kyc_submissions d"
  by (simp_all add: approved_def rejected_def account_removed_def Let_def split: list.split)

text \<open>\<open>kyc_ok\<close> depends on two tables, \<open>accounts_ok\<close> on one.\<close>

lemma kyc_ok_frame:
  "kyc_ok d \<Longrightarrow> users d' = users d \<Longrightarrow> kyc_submissions d' = kyc_submissions d \<Longrightarrow> kyc_ok d'"
  by (simp add: kyc_ok_def)

lemma accounts_ok_frame: "accounts_ok d \<Longrightarrow> bank_accounts d' = bank_accounts d \<Longrightarrow> accounts_ok d'"
  by (simp add: accounts_ok_def defaults_def live_accounts_def)

lemma kyc_ok_user_added:
  assumes "kyc_ok d" "\<not> clashes u_id u (users d)"
  shows "kyc_ok (d\<lparr>users := users d @ [u]\<rparr>)"
proof -
  have "tier_fits (users d @ [u]) k" if "k \<in> set (kyc_submissions d)" for k
  proof -
    have "u_id u \<noteq> k_user_id k" using assms(2) kyc_okD(3) [OF assms(1)] that by (auto simp: clashes_def)
    then show ?thesis using kyc_okD(5) [OF assms(1) that] by (simp add: tier_fits_def)
  qed
  then show ?thesis using kyc_okD(1-4) [OF assms(1)] assms(2) by (auto simp: kyc_ok_def clashes_def)
qed

lemma kyc_ok_role:
  assumes "kyc_ok d"
  shows "kyc_ok (d\<lparr>users := upd u_id i (\<lambda>u. u\<lparr>u_role := r\<rparr>) (users d)\<rparr>)"
proof -
  let ?f = "\<lambda>u. u\<lparr>u_role := r\<rparr>"
  have "tier_fits (upd u_id i ?f (users d)) k" if "k \<in> set (kyc_submissions d)" for k
    using kyc_okD(5) [OF assms that] by (auto simp: tier_fits_def elim!: set_updE)
  moreover have "map u_id (upd u_id i ?f (users d)) = map u_id (users d)" by (simp add: map_upd_same)
  moreover from this have "u_id ` set (upd u_id i ?f (users d)) = u_id ` set (users d)" by (metis list.set_map)
  ultimately show ?thesis using kyc_okD(1-4) [OF assms] by (simp add: kyc_ok_def)
qed

lemma kyc_ok_change: "change l d d' \<Longrightarrow> kyc_ok d \<Longrightarrow> kyc_ok d'"
proof (induction rule: change.induct)
  case (user_added u d l)
  then show ?case by (intro kyc_ok_user_added)
next
  case (merchant_role i d)
  then show ?case by (rule kyc_ok_role)
next
  case (kyc_submitted user d tier en fn)
  then show ?case by (intro kyc_ok_submitted)
next
  case (kyc_approved k d u ts)
  then show ?case by (intro kyc_ok_approved)
next
  case (kyc_rejected k d u ts reason)
  then show ?case by (intro kyc_ok_rejected)
qed (erule kyc_ok_frame, simp, simp)+

interpretation kyc: invariant kyc_ok
proof
  show "initial_db d \<Longrightarrow> kyc_ok d" for d by (auto simp: initial_db_def kyc_ok_def empty_db_def)
qed (rule kyc_ok_change)

lemma accounts_ok_recipient:
  assumes "accounts_ok d"
  shows "accounts_ok (d\<lparr>bank_accounts := upd b_id i (\<lambda>b. b\<lparr>b_paystack_recipient_code := c\<rparr>) (bank_accounts d)\<rparr>)"
proof -
  let ?f = "\<lambda>b. b\<lparr>b_paystack_recipient_code := c\<rparr>"
  have "live_accounts u (d\<lparr>bank_accounts := upd b_id i ?f (bank_accounts d)\<rparr>) = upd b_id i ?f (live_accounts u d)"
    "defaults u (d\<lparr>bank_accounts := upd b_id i ?f (bank_accounts d)\<rparr>) = upd b_id i ?f (defaults u d)" for u
    by (simp_all add: live_accounts_def defaults_def filter_upd)
  then show ?thesis using assms by (simp add: accounts_ok_def map_upd_same flip: length_0_conv)
qed

lemma accounts_ok_change: "change l d d' \<Longrightarrow> accounts_ok d \<Longrightarrow> accounts_ok d'"
proof (induction rule: change.induct)
  case (recipient_stored b d c)
  then show ?case by (intro accounts_ok_recipient)
next
  case (account_added b u d)
  then show ?case by (intro accounts_ok_added) simp_all
next
  case (account_removed b d u ts)
  then show ?case by (intro accounts_ok_removed)
qed (erule accounts_ok_frame, simp)+

interpretation accounts: invariant accounts_ok
proof
  show "initial_db d \<Longrightarrow> accounts_ok d" for d
    by (auto simp: initial_db_def accounts_ok_def live_accounts_def defaults_def empty_db_def)
qed (rule accounts_ok_change)

lemma deliveries_distinct_change:
  "change l d d' \<Longrightarrow> distinct (map d_id (webhook_deliveries d)) \<Longrightarrow> distinct (map d_id (webhook_deliveries d'))"
proof (induction rule: change.induct)
  case (delivery_added d wd l)
  then show ?case by (auto simp: enqueued_def clashes_def)
next
  case (delivery_attempted w d f l)
  then show ?case by (simp add: attempt_on_def map_upd_same)
qed (simp_all add: funds_moved_def charge_credited_def left_processing_def funding_failed_def amount_held_def
      payout_done_def payout_reversed_def approved_def rejected_def account_removed_def Let_def split: list.split)

lemma merchants_distinct_change:
  "change l d d' \<Longrightarrow> distinct (map m_id (merchants d)) \<Longrightarrow> distinct (map m_id (merchants d'))"
proof (induction rule: change.induct)
  case (merchant_added m d u)
  then show ?case by (simp add: clashes_def)
next
  case (merchant_updated m d u f)
  then show ?case by (simp add: map_upd_same)
qed (simp_all add: funds_moved_def charge_credited_def left_processing_def funding_failed_def amount_held_def
      payout_done_def payout_reversed_def approved_def rejected_def account_removed_def Let_def split: list.split)

text \<open>All of the invariants together.\<close>

definition db_ok :: "db \<Rightarrow> bool" where
  "db_ok d \<longleftrightarrow> sound d \<and> kyc_ok d \<and> accounts_ok d \<and> distinct (map d_id (webhook_deliveries d)) \<and>
     distinct (map m_id (merchants d))"

lemma db_okD:
  "db_ok d \<Longrightarrow> sound d" "db_ok d \<Longrightarrow> kyc_ok d" "db_ok d \<Longrightarrow> accounts_ok d"
  "db_ok d \<Longrightarrow> distinct (map d_id (webhook_deliveries d))" "db_ok d \<Longrightarrow> distinct (map m_id (merchants d))"
  by (simp_all add: db_ok_def)

interpretation db_ok: invariant db_ok
proof
  show "initial_db d \<Longrightarrow> db_ok d" for d
    using sound.init kyc.init accounts.init by (auto simp: db_ok_def initial_db_def empty_db_def)
  show "change l d d' \<Longrightarrow> sound d \<Longrightarrow> db_ok d \<Longrightarrow> db_ok d'" for l d d'
    by (simp add: db_ok_def sound_change kyc_ok_change accounts_ok_change deliveries_distinct_change
        merchants_distinct_change)
qed

section \<open>What can become of the tables\<close>

text \<open>The interface of a relation between an earlier and a later database.\<close>

locale history =
  fixes R :: "uuid option \<Rightarrow> db \<Rightarrow> db \<Rightarrow> bool"
  assumes same: "R l d d"
    and later: "R l d d1 \<Longrightarrow> R l d1 d2 \<Longrightarrow> R l d d2"
    and one_change: "change l d d' \<Longrightarrow> db_ok d \<Longrightarrow> R l d d'"
begin

lemma changes:
  assumes "changes l d d'" and "db_ok d" shows "R l d d'"
  using assms
proof (induction rule: converse_rtranclp_induct)
  case (step d d1)
  then have "R l d1 d'" using db_ok.step db_okD(1) by blast
  then show ?case using later one_change step(1,4) by blast
qed (rule same)

end

definition status_leads :: "transaction_status \<Rightarrow> transaction_status \<Rightarrow> bool" where
  "status_leads = (\<lambda>st st'. st' \<in> set (valid_transitions st))\<^sup>*\<^sup>*"

text \<open>A transaction keeps everything but its status, its reason, its provider reference and its risk flag.\<close>

definition txn_leads :: "transaction \<Rightarrow> transaction \<Rightarrow> bool" where
  "txn_leads t t' \<longleftrightarrow> t_id t' = t_id t \<and> t_reference t' = t_reference t \<and> t_type t' = t_type t \<and>
     t_amount t' = t_amount t \<and> t_currency t' = t_currency t \<and> t_source_wallet_id t' = t_source_wallet_id t \<and>
     t_destination_wallet_id t' = t_destination_wallet_id t \<and> t_initiated_by_user_id t' = t_initiated_by_user_id t \<and>
     t_idempotency_key t' = t_idempotency_key t \<and> t_created_at t' = t_created_at t \<and>
     status_leads (t_status t) (t_status t') \<and> (t_risk_flagged t \<longrightarrow> t_risk_flagged t')"

definition user_leads :: "user \<Rightarrow> user \<Rightarrow> bool" where
  "user_leads u u' \<longleftrightarrow> u_id u' = u_id u \<and> u_email u' = u_email u \<and> u_hashed_password u' = u_hashed_password u \<and>
     (u_role u' = u_role u \<or> u_role u' = MERCHANT) \<and> u_kyc_tier u \<le> u_kyc_tier u'"

definition delivery_leads :: "webhook_delivery \<Rightarrow> webhook_delivery \<Rightarrow> bool" where
  "delivery_leads w w' \<longleftrightarrow> d_id w' = d_id w \<and> d_merchant_id w' = d_merchant_id w \<and>
     d_transaction_id w' = d_transaction_id w \<and> d_payload w' = d_payload w \<and>
     d_attempt_count w \<le> d_attempt_count w' \<and> (d_status w = WD_DELIVERED \<longrightarrow> w' = w)"

definition submission_leads :: "kyc_submission \<Rightarrow> kyc_submission \<Rightarrow> bool" where
  "submission_leads k k' \<longleftrightarrow> k_id k' = k_id k \<and> k_user_id k' = k_user_id k \<and>
     k_requested_tier k' = k_requested_tier k \<and> (k_status k \<noteq> KYC_PENDING \<longrightarrow> k' = k)"

definition evolves :: "db \<Rightarrow> db \<Rightarrow> bool" where
  "evolves d d' \<longleftrightarrow> prefix (ledger_entries d) (ledger_entries d') \<and> prefix (audit_logs d) (audit_logs d') \<and>
     grows txn_leads (transactions d) (transactions d') \<and> grows user_leads (users d) (users d') \<and>
     grows delivery_leads (webhook_deliveries d) (webhook_deliveries d') \<and>
     grows submission_leads (kyc_submissions d) (kyc_submissions d')"

lemma status_leads_refl [simp]: "status_leads st st"
  by (simp add: status_leads_def)

lemma status_leads_step: "st' \<in> set (valid_transitions st) \<Longrightarrow> status_leads st st'"
  unfolding status_leads_def by (rule r_into_rtranclp)

lemma status_leads_trans: "status_leads a b \<Longrightarrow> status_leads b c \<Longrightarrow> status_leads a c"
  unfolding status_leads_def by (rule rtranclp_trans)

lemma status_leads_settled [simp]:
  "status_leads PENDING PROCESSING" "status_leads PROCESSING COMPLETED" "status_leads PROCESSING FAILED"
  "status_leads PENDING COMPLETED" "status_leads PENDING FAILED"
proof -
  show s: "status_leads PENDING PROCESSING" "status_leads PROCESSING COMPLETED" "status_leads PROCESSING FAILED"
    by (rule status_leads_step; simp)+
  show "status_leads PENDING COMPLETED" "status_leads PENDING FAILED"
    by (rule status_leads_trans [OF s(1) s(2)], rule status_leads_trans [OF s(1) s(3)])
qed

lemma leads_refl [simp]: "txn_leads t t" "user_leads u u" "delivery_leads w w" "submission_leads k k"
  by (simp_all add: txn_leads_def user_leads_def delivery_leads_def submission_leads_def)

lemma leads_trans:
  "txn_leads a b \<Longrightarrow> txn_leads b c \<Longrightarrow> txn_leads a c"
  "user_leads p q \<Longrightarrow> user_leads q r \<Longrightarrow> user_leads p r"
  "delivery_leads x y \<Longrightarrow> delivery_leads y z \<Longrightarrow> delivery_leads x z"
  "submission_leads k m \<Longrightarrow> submission_leads m n \<Longrightarrow> submission_leads k n"
  by (auto simp: txn_leads_def user_leads_def delivery_leads_def submission_leads_def intro: status_leads_trans)

lemma evolves_refl: "evolves d d"
  by (simp add: evolves_def grows_refl)

lemma evolves_trans: "evolves d d1 \<Longrightarrow> evolves d1 d2 \<Longrightarrow> evolves d d2"
  unfolding evolves_def
  by (elim conjE, intro conjI; (erule (1) prefix_order.trans)?; (erule grows_trans [rotated]; (assumption | erule (1) leads_trans))?)

text \<open>One row rewritten, the rest of the database as it was.\<close>

lemma evolves_txn:
  assumes "sound d" "t \<in> set (transactions d)" "txn_leads t (f t)"
    and "transactions d' = upd t_id (t_id t) f (transactions d)" "prefix (ledger_entries d) (ledger_entries d')"
    and "audit_logs d' = audit_logs d" "users d' = users d" "webhook_deliveries d' = webhook_deliveries d"
      "kyc_submissions d' = kyc_submissions d"
  shows "evolves d d'"
  using assms by (simp add: evolves_def grows_refl grows_upd_row [OF _ soundD(2)])

lemma evolves_append:
  assumes "transactions d' = transactions d @ ts" "prefix (ledger_entries d) (ledger_entries d')"
    and "audit_logs d' = audit_logs d" "users d' = users d" "webhook_deliveries d' = webhook_deliveries d"
      "kyc_submissions d' = kyc_submissions d"
  shows "evolves d d'"
  using assms by (simp add: evolves_def grows_refl grows_append)

lemma evolves_same:
  assumes "transactions d' = transactions d" "ledger_entries d' = ledger_entries d" "audit_logs d' = audit_logs d"
    "users d' = users d" "webhook_deliveries d' = webhook_deliveries d" "kyc_submissions d' = kyc_submissions d"
  shows "evolves d d'"
  using assms by (simp add: evolves_def grows_refl)

lemma evolves_approved:
  assumes ok: "kyc_ok d" and k: "k \<in> set (kyc_submissions d)" "k_status k = KYC_PENDING"
  shows "evolves d (approved ts u k d)"
proof -
  have "user_leads v (v\<lparr>u_kyc_tier := k_requested_tier k\<rparr>)" if "v \<in> set (users d)" "u_id v = k_user_id k" for v
    using kyc_okD(5) [OF ok k(1)] that k(2) by (simp add: tier_fits_def user_leads_def)
  then have "grows user_leads (users d) (users (approved ts u k d))"
    unfolding approved_def by simp (rule grows_upd; simp)
  moreover have "grows submission_leads (kyc_submissions d) (kyc_submissions (approved ts u k d))"
    unfolding approved_def using k by simp (rule grows_upd_row [OF _ kyc_okD(2) [OF ok]]; simp add: submission_leads_def)
  ultimately show ?thesis by (simp add: evolves_def) (simp add: approved_def grows_refl)
qed

lemma evolves_rejected:
  assumes ok: "kyc_ok d" and k: "k \<in> set (kyc_submissions d)" "k_status k = KYC_PENDING"
  shows "evolves d (rejected ts u m k d)"
  using k unfolding evolves_def rejected_def
  by (simp add: grows_refl) (rule grows_upd_row [OF _ kyc_okD(2) [OF ok]]; simp add: submission_leads_def)

lemma evolves_change: "change l d d' \<Longrightarrow> db_ok d \<Longrightarrow> evolves d d'"
proof (induction rule: change.induct)
  case (delivery_added d wd l)
  then show ?case by (auto simp: evolves_def grows_refl enqueued_def intro: grows_append)
next
  case (delivery_attempted w d f l)
  then have "delivery_leads w (f w)" by (simp add: delivery_leads_def attempt_on_def)
  then show ?case using delivery_attempted by (simp add: evolves_def grows_refl grows_upd_row [OF _ db_okD(4)])
next
  case (user_added u d l)
  then show ?case by (simp add: evolves_def grows_refl grows_append)
next
  case (merchant_role i d)
  have "grows user_leads (users d) (upd u_id i (\<lambda>u. u\<lparr>u_role := MERCHANT\<rparr>) (users d))"
    by (rule grows_upd) (simp_all add: user_leads_def)
  then show ?case by (simp add: evolves_def grows_refl)
next
  case (kyc_submitted user d tier en fn)
  then show ?case by (simp add: evolves_def grows_refl grows_append)
next
  case (kyc_approved k d u ts)
  then show ?case by (intro evolves_approved db_okD)
next
  case (kyc_rejected k d u ts reason)
  then show ?case by (intro evolves_rejected db_okD)
next
  case (funding_credited ref t d w a en)
  then show ?case
    by (intro evolves_txn [where f = "set_status COMPLETED None None" and t = t] db_okD)
      (simp_all add: fund_ready_def charge_credited_def txn_leads_def set_status_def)
next
  case (funding_stuck ref t d)
  then show ?case
    by (intro evolves_txn [where f = "set_status PROCESSING None None" and t = t] db_okD)
      (simp_all add: fund_ready_def left_processing_def txn_leads_def set_status_def)
next
  case (funding_refused t d st)
  then show ?case
    by (intro evolves_txn [where t = t and f = "set_status FAILED
          (Some (''Paystack reconciliation: status='' @ [CHR 0x27] @ st @ [CHR 0x27])) None"] db_okD)
      (simp_all add: funding_failed_def txn_leads_def set_status_def)
next
  case (payout_sent i t b d code)
  then have st: "t_status t = PENDING \<or> t_status t = PROCESSING \<or> t_status t = REVERSED"
    by (cases "t_status t") (auto simp: may_send_def)
  with payout_sent show ?case
    by (intro evolves_txn [where f = "mark_sent (t_status t = PENDING) code" and t = t] db_okD)
      (auto simp: may_send_def txn_leads_def mark_sent_def set_provider_reference_def set_status_def)
next
  case (payout_settled ref t w d en)
  then show ?case
    by (intro evolves_txn [where f = "set_status COMPLETED None None" and t = t] db_okD)
      (simp_all add: payout_ready_def payout_done_def txn_leads_def set_status_def)
next
  case (payout_returned ref t w d code)
  then show ?case
    by (intro evolves_txn [where t = t and f = "set_status FAILED
          (Some (''Paystack transfer failed or reversed: '' @ code)) None"] db_okD)
      (simp_all add: payout_ready_def payout_reversed_def txn_leads_def set_status_def)
next
  case (flagged t d r)
  then show ?case
    by (intro evolves_txn [where f = "set_risk r" and t = t] db_okD) (simp_all add: txn_leads_def set_risk_def)
next
  case (funds_moved ty src d dst u a en key)
  then show ?case by (intro evolves_append) (simp_all add: funds_moved_def)
next
  case (amount_held a cfg en user i w d)
  then show ?case by (intro evolves_append) (simp_all add: amount_held_def)
next
  case (account_removed b d u ts)
  then show ?case by (intro evolves_same) (simp_all add: account_removed_def Let_def split: list.split)
qed (simp_all add: evolves_def grows_refl grows_append)

interpretation evolution: history "\<lambda>_. evolves"
  by unfold_locales (rule evolves_refl, erule (1) evolves_trans, erule (1) evolves_change)

section \<open>Whose money a change can take\<close>

definition spared :: "uuid \<Rightarrow> wallet \<Rightarrow> wallet \<Rightarrow> bool" where
  "spared u w w' \<longleftrightarrow> w_id w' = w_id w \<and> w_user_id w' = w_user_id w \<and> w_currency w' = w_currency w \<and>
     (w_user_id w \<noteq> u \<longrightarrow> w_balance w \<le> w_balance w')"

definition spares :: "uuid option \<Rightarrow> db \<Rightarrow> db \<Rightarrow> bool" where
  "spares l d d' \<longleftrightarrow> (case l of None \<Rightarrow> True | Some u \<Rightarrow> grows (spared u) (wallets d) (wallets d'))"

lemma spared_refl [simp]: "spared u w w"
  by (simp add: spared_def)

lemma spares_wallets: "wallets d' = wallets d \<Longrightarrow> spares l d d'"
  by (simp add: spares_def grows_refl split: option.split)

lemma spared_trans: "spared u a b \<Longrightarrow> spared u b c \<Longrightarrow> spared u a c"
  by (auto simp: spared_def)

lemma spares_moved:
  assumes "sound d" and src: "src \<in> set (wallets d)" "w_user_id src = u" and dst: "dst \<in> set (wallets d)" "w_user_id dst \<noteq> u"
    and "0 < a"
  shows "spares (Some u) d (funds_moved en ty src dst a u key d)"
proof -
  let ?ws = "upd w_id (w_id src) (\<lambda>w. w\<lparr>w_balance := w_balance src - a\<rparr>) (wallets d)"
  let ?f = "\<lambda>w. w\<lparr>w_balance := w_balance dst + a\<rparr>"
  note dw = soundD(1) [OF assms(1)]
  have ne: "w_id src \<noteq> w_id dst" using distinct_key_eq [OF dw src(1) dst(1)] src(2) dst(2) by auto
  have one: "grows (spared u) (wallets d) ?ws"
    by (rule grows_upd_row [OF _ dw src(1)]) (simp_all add: spared_def src)
  have two: "grows (spared u) ?ws (upd w_id (w_id dst) ?f ?ws)"
  proof (rule grows_upd)
    fix v assume "v \<in> set ?ws" "w_id v = w_id dst"
    then have "v \<in> set (wallets d)" using ne by (auto elim!: set_updE)
    then have "v = dst" using distinct_key_eq [OF dw _ dst(1)] \<open>w_id v = w_id dst\<close> by simp
    then show "spared u v (?f v)" using \<open>0 < a\<close> by (simp add: spared_def)
  qed simp
  from grows_trans [OF spared_trans one two] show ?thesis by (simp add: spares_def funds_moved_def)
qed

lemma spares_change: "change l d d' \<Longrightarrow> db_ok d \<Longrightarrow> spares l d d'"
proof (induction rule: change.induct)
  case (funds_moved ty src d dst u a en key)
  then show ?case by (intro spares_moved db_okD)
next
  case (amount_held a cfg en user i w d)
  then have "grows (spared (u_id user)) (wallets d) (wallets (amount_held (withdrawal_txn en w a (u_id user) i) w d))"
    unfolding amount_held_def
    by simp (rule grows_upd_row [OF _ soundD(1) [OF db_okD(1)]]; simp add: spared_def may_withdraw_def)
  then show ?case by (simp add: spares_def)
next
  case (wallet_added w d l)
  then show ?case by (simp add: spares_def grows_append split: option.split)
next
  case (account_removed b d u ts)
  then show ?case by (intro spares_wallets) (simp add: account_removed_def Let_def split: list.split)
qed ((simp add: spares_def; fail) | (rule spares_wallets, simp add: approved_def rejected_def; fail))+

interpretation spares: history spares
proof
  show "spares l d d" for l d by (simp add: spares_wallets)
  show "spares l d d1 \<Longrightarrow> spares l d1 d2 \<Longrightarrow> spares l d d2" for l d d1 d2
    by (cases l) (auto simp: spares_def intro: grows_trans [OF spared_trans])
qed (rule spares_change)

text \<open>Every transaction is for a positive amount.\<close>

definition amounts_ok :: "db \<Rightarrow> bool" where
  "amounts_ok d \<longleftrightarrow> (\<forall>t\<in>set (transactions d). 0 < t_amount t)"

lemma amounts_ok_frame:
  assumes "amounts_ok d" and "map t_amount (transactions d') = map t_amount (transactions d)"
  shows "amounts_ok d'"
proof -
  have "set (map t_amount (transactions d')) = set (map t_amount (transactions d))" by (simp only: assms(2))
  then show ?thesis using assms(1) by (auto simp: amounts_ok_def image_iff) (metis image_iff)
qed

lemma amounts_ok_change: "change l d d' \<Longrightarrow> amounts_ok d \<Longrightarrow> amounts_ok d'"
proof (induction rule: change.induct)
  case (funds_moved ty src d dst u a en key)
  then show ?case by (auto simp: amounts_ok_def funds_moved_def)
next
  case (funding_opened a u d w en pr key url)
  then show ?case by (auto simp: amounts_ok_def MINIMUM_FUNDING_NGN_def)
next
  case (amount_held a cfg en user i w d)
  then show ?case by (auto simp: amounts_ok_def amount_held_def)
next
  case (account_removed b d u ts)
  then show ?case by (elim amounts_ok_frame) (simp add: account_removed_def Let_def split: list.split)
qed (erule amounts_ok_frame, simp add: charge_credited_def left_processing_def funding_failed_def payout_done_def
      payout_reversed_def approved_def rejected_def map_upd_same)+

end
