(* ===== verification/Schemas.thy ===== *)
theory Schemas
  imports Payments Funding Kyc Auth
begin

text \<open>
  The request and response schemas of \<open>app/schemas\<close>: for each response model the record a client
  sees and the conversion from the row (\<open>model_validate\<close>), for each request model its fields
  and the validation pydantic and the declared validators perform. An amount is already a whole
  number of kobo (\<open>decimal_places=2\<close>), so only its sign is checked. \<open>updated_at\<close> is left out, as
  in the rows; whether a string is an email address is a parameter.
\<close>

section \<open>Responses\<close>

record user_out =
  uo_id :: uuid
  uo_email :: string
  uo_phone :: "string option"
  uo_full_name :: string
  uo_role :: user_role
  uo_kyc_tier :: int
  uo_is_active :: bool
  uo_is_email_verified :: bool
  uo_created_at :: timestamp

definition to_user_out :: "user \<Rightarrow> user_out" where
  "to_user_out u = \<lparr>uo_id = u_id u, uo_email = u_email u, uo_phone = u_phone u, uo_full_name = u_full_name u,
     uo_role = u_role u, uo_kyc_tier = u_kyc_tier u, uo_is_active = u_is_active u,
     uo_is_email_verified = u_is_email_verified u, uo_created_at = u_created_at u\<rparr>"

record wallet_out =
  wo_id :: uuid
  wo_user_id :: uuid
  wo_currency :: string
  wo_balance :: money
  wo_is_active :: bool
  wo_created_at :: timestamp

definition to_wallet_out :: "wallet \<Rightarrow> wallet_out" where
  "to_wallet_out w = \<lparr>wo_id = w_id w, wo_user_id = w_user_id w, wo_currency = w_currency w,
     wo_balance = w_balance w, wo_is_active = w_is_active w, wo_created_at = w_created_at w\<rparr>"

record transfer_out =
  to_id :: uuid
  to_reference :: string
  to_type :: transaction_type
  to_status :: transaction_status
  to_amount :: money
  to_currency :: string
  to_source_wallet_id :: "uuid option"
  to_destination_wallet_id :: "uuid option"
  to_initiated_by_user_id :: uuid
  to_idempotency_key :: "string option"
  to_created_at :: timestamp

definition to_transfer_out :: "transaction \<Rightarrow> transfer_out" where
  "to_transfer_out t = \<lparr>to_id = t_id t, to_reference = t_reference t, to_type = t_type t,
     to_status = t_status t, to_amount = t_amount t, to_currency = t_currency t,
     to_source_wallet_id = t_source_wallet_id t, to_destination_wallet_id = t_destination_wallet_id t,
     to_initiated_by_user_id = t_initiated_by_user_id t, to_idempotency_key = t_idempotency_key t,
     to_created_at = t_created_at t\<rparr>"

record transaction_out = transfer_out +
  to_extra_data :: "json option"
  to_failure_reason :: "string option"

definition to_transaction_out :: "transaction \<Rightarrow> transaction_out" where
  "to_transaction_out t = transfer_out.extend (to_transfer_out t)
     (transaction_out.fields (t_extra_data t) (t_failure_reason t))"

record transaction_admin_out = transaction_out +
  to_provider_reference :: "string option"
  to_risk_flagged :: bool
  to_risk_flag_reason :: "flag_reason option"

definition to_transaction_admin_out :: "transaction \<Rightarrow> transaction_admin_out" where
  "to_transaction_admin_out t = transaction_out.extend (to_transaction_out t)
     (transaction_admin_out.fields (t_provider_reference t) (t_risk_flagged t) (t_risk_flag_reason t))"

record ledger_entry_out =
  lo_id :: uuid
  lo_transaction_id :: uuid
  lo_wallet_id :: uuid
  lo_entry_type :: entry_type
  lo_amount :: money
  lo_currency :: string
  lo_balance_after :: money
  lo_created_at :: timestamp

definition to_ledger_entry_out :: "ledger_entry \<Rightarrow> ledger_entry_out" where
  "to_ledger_entry_out e = \<lparr>lo_id = e_id e, lo_transaction_id = e_transaction_id e, lo_wallet_id = e_wallet_id e,
     lo_entry_type = e_entry_type e, lo_amount = e_amount e, lo_currency = e_currency e,
     lo_balance_after = e_balance_after e, lo_created_at = e_created_at e\<rparr>"

record transaction_detail_admin_out =
  td_transaction :: transaction_admin_out
  td_ledger_entries :: "ledger_entry_out list"

record merchant_out =
  mo_id :: uuid
  mo_user_id :: uuid
  mo_business_name :: string
  mo_api_key_prefix :: string
  mo_webhook_url :: "string option"
  mo_webhook_secret :: "string option"
  mo_is_active :: bool
  mo_created_at :: timestamp

definition to_merchant_out :: "merchant \<Rightarrow> merchant_out" where
  "to_merchant_out m = \<lparr>mo_id = m_id m, mo_user_id = m_user_id m, mo_business_name = m_business_name m,
     mo_api_key_prefix = m_api_key_prefix m, mo_webhook_url = m_webhook_url m,
     mo_webhook_secret = m_webhook_secret m, mo_is_active = m_is_active m, mo_created_at = m_created_at m\<rparr>"

record merchant_created_out = merchant_out +
  mo_api_key :: string

definition to_merchant_created_out :: "merchant \<Rightarrow> string \<Rightarrow> merchant_created_out" where
  "to_merchant_created_out m raw_key = merchant_out.extend (to_merchant_out m) (merchant_created_out.fields raw_key)"

record bank_account_out =
  bo_id :: uuid
  bo_account_name :: string
  bo_account_number :: string
  bo_bank_code :: string
  bo_bank_name :: string
  bo_is_default :: bool
  bo_created_at :: timestamp

definition to_bank_account_out :: "bank_account \<Rightarrow> bank_account_out" where
  "to_bank_account_out b = \<lparr>bo_id = b_id b, bo_account_name = b_account_name b,
     bo_account_number = b_account_number b, bo_bank_code = b_bank_code b, bo_bank_name = b_bank_name b,
     bo_is_default = b_is_default b, bo_created_at = b_created_at b\<rparr>"

record kyc_submission_out =
  ko_id :: uuid
  ko_user_id :: uuid
  ko_requested_tier :: int
  ko_status :: kyc_status
  ko_rejection_reason :: "string option"
  ko_reviewed_at :: "timestamp option"
  ko_created_at :: timestamp

definition to_kyc_submission_out :: "kyc_submission \<Rightarrow> kyc_submission_out" where
  "to_kyc_submission_out k = \<lparr>ko_id = k_id k, ko_user_id = k_user_id k, ko_requested_tier = k_requested_tier k,
     ko_status = k_status k, ko_rejection_reason = k_rejection_reason k, ko_reviewed_at = k_reviewed_at k,
     ko_created_at = k_created_at k\<rparr>"

record kyc_submission_admin_out = kyc_submission_out +
  ko_reviewer_id :: "uuid option"
  ko_document_url :: "string option"

definition to_kyc_submission_admin_out :: "kyc_submission \<Rightarrow> string option \<Rightarrow> kyc_submission_admin_out" where
  "to_kyc_submission_admin_out k url =
     kyc_submission_out.extend (to_kyc_submission_out k) (kyc_submission_admin_out.fields (k_reviewer_id k) url)"

record webhook_delivery_out =
  do_id :: uuid
  do_merchant_id :: uuid
  do_transaction_id :: uuid
  do_event_type :: string
  do_status :: delivery_status
  do_attempt_count :: int
  do_next_retry_at :: "timestamp option"
  do_last_response_code :: "int option"
  do_last_error :: "string option"
  do_created_at :: timestamp

definition to_webhook_delivery_out :: "webhook_delivery \<Rightarrow> webhook_delivery_out" where
  "to_webhook_delivery_out w = \<lparr>do_id = d_id w, do_merchant_id = d_merchant_id w,
     do_transaction_id = d_transaction_id w, do_event_type = d_event_type w, do_status = d_status w,
     do_attempt_count = d_attempt_count w, do_next_retry_at = d_next_retry_at w,
     do_last_response_code = d_last_response_code w, do_last_error = d_last_error w, do_created_at = d_created_at w\<rparr>"

record audit_log_out =
  ao_id :: uuid
  ao_actor_id :: "uuid option"
  ao_actor_type :: actor_type
  ao_action :: string
  ao_target_type :: "string option"
  ao_target_id :: "uuid option"
  ao_metadata :: "json option"
  ao_ip_address :: "string option"
  ao_created_at :: timestamp

definition to_audit_log_out :: "audit_log \<Rightarrow> audit_log_out" where
  "to_audit_log_out a = \<lparr>ao_id = a_id a, ao_actor_id = a_actor_id a, ao_actor_type = a_actor_type a,
     ao_action = a_action a, ao_target_type = a_target_type a, ao_target_id = a_target_id a,
     ao_metadata = a_metadata a, ao_ip_address = a_ip_address a, ao_created_at = a_created_at a\<rparr>"

definition map_page :: "('a \<Rightarrow> 'b) \<Rightarrow> 'a paginated \<Rightarrow> 'b paginated" where
  "map_page f p = \<lparr>pg_items = map f (pg_items p), pg_total = pg_total p, pg_limit = pg_limit p, pg_offset = pg_offset p\<rparr>"

section \<open>Requests\<close>

text \<open>One field that does not meet its constraint fails the request.\<close>

definition check_field :: "string \<Rightarrow> bool \<Rightarrow> exn + unit" where
  "check_field name ok = (if ok then Inr () else Inl (RequestValidationError name))"

definition optional_max :: "nat \<Rightarrow> string option \<Rightarrow> bool" where
  "optional_max n s = (case s of None \<Rightarrow> True | Some v \<Rightarrow> length v \<le> n)"

definition between :: "nat \<Rightarrow> nat \<Rightarrow> string \<Rightarrow> bool" where
  "between lo hi s \<longleftrightarrow> lo \<le> length s \<and> length s \<le> hi"

record transfer_body =
  tb_recipient_user_id :: "uuid option"
  tb_recipient_email :: "string option"
  tb_amount :: money
  tb_idempotency_key :: "string option"

definition validate_transfer :: "transfer_body \<Rightarrow> exn + unit" where
  "validate_transfer b =
     bindE (check_field ''amount'' (0 < tb_amount b)) (\<lambda>_.
     bindE (check_field ''idempotency_key'' (optional_max 255 (tb_idempotency_key b))) (\<lambda>_.
     if (tb_recipient_user_id b \<noteq> None) = (tb_recipient_email b \<noteq> None)
     then Inl (RequestValidationError ''Provide exactly one of recipient_user_id or recipient_email.'')
     else Inr ()))"

record payment_body =
  pb_amount :: money
  pb_idempotency_key :: "string option"

definition validate_payment :: "payment_body \<Rightarrow> exn + unit" where
  "validate_payment b =
     bindE (check_field ''amount'' (0 < pb_amount b)) (\<lambda>_.
     check_field ''idempotency_key'' (optional_max 255 (pb_idempotency_key b)))"

text \<open>\<open>WalletFundingRequest\<close> has the same two fields with the same constraints.\<close>

definition validate_funding :: "payment_body \<Rightarrow> exn + unit" where
  "validate_funding b =
     bindE (check_field ''amount'' (0 < pb_amount b)) (\<lambda>_.
     check_field ''idempotency_key'' (optional_max 255 (pb_idempotency_key b)))"

record withdrawal_body =
  wb_bank_account_id :: uuid
  wb_amount :: money

definition validate_withdrawal :: "withdrawal_body \<Rightarrow> exn + unit" where
  "validate_withdrawal b = check_field ''amount'' (0 < wb_amount b)"

record bank_account_body =
  bb_account_name :: string
  bb_account_number :: string
  bb_bank_code :: string
  bb_bank_name :: string

definition validate_bank_account :: "bank_account_body \<Rightarrow> exn + unit" where
  "validate_bank_account b =
     bindE (check_field ''account_name'' (between 2 255 (bb_account_name b))) (\<lambda>_.
     bindE (check_field ''account_number''
       (between 6 20 (bb_account_number b) \<and> list_all is_digit (bb_account_number b))) (\<lambda>_.
     bindE (check_field ''bank_code'' (between 2 20 (bb_bank_code b))) (\<lambda>_.
     check_field ''bank_name'' (between 2 100 (bb_bank_name b)))))"

definition validate_merchant :: "string \<Rightarrow> exn + unit" where
  "validate_merchant business_name = check_field ''business_name'' (between 2 255 business_name)"

definition validate_webhook :: "string option \<Rightarrow> exn + unit" where
  "validate_webhook webhook_url = check_field ''webhook_url'' (optional_max 500 webhook_url)"

definition validate_rejection :: "string \<Rightarrow> exn + unit" where
  "validate_rejection reason = check_field ''reason'' (between 10 500 reason)"

definition validate_tier :: "int \<Rightarrow> exn + unit" where
  "validate_tier target_tier = check_field ''target_tier'' (1 \<le> target_tier \<and> target_tier \<le> 2)"

text \<open>The validators of \<open>UserUpdateRequest\<close>.\<close>

definition update_full_name :: "string option \<Rightarrow> exn + string option" where
  "update_full_name v = (case v of None \<Rightarrow> Inr None
     | Some s \<Rightarrow> if str_strip s = [] then Inl (RequestValidationError ''full_name must not be blank.'')
                else Inr (Some (str_strip s)))"

definition phone_format :: "string option \<Rightarrow> exn + string option" where
  "phone_format v = (case v of None \<Rightarrow> Inr None
     | Some s \<Rightarrow>
         let cleaned = str_strip s;
             digits = replace_char (CHR '' '') '''' (replace_char (CHR ''+'') '''' cleaned)
         in if digits = [] \<or> \<not> list_all is_digit digits
            then Inl (RequestValidationError ''Invalid phone number format.'')
            else if length cleaned < 7 \<or> 20 < length cleaned
            then Inl (RequestValidationError ''Phone number must be between 7 and 20 characters.'')
            else Inr (Some cleaned))"

record register_body =
  rb_email :: string
  rb_password :: string
  rb_full_name :: string
  rb_phone :: "string option"

text \<open>\<open>email_ok\<close> is pydantic's \<open>EmailStr\<close>: the normalised address, or a failure.\<close>

definition validate_email :: "(string \<Rightarrow> string option) \<Rightarrow> string \<Rightarrow> exn + string" where
  "validate_email email_ok s = (case email_ok s of None \<Rightarrow> Inl (RequestValidationError ''email'') | Some e \<Rightarrow> Inr e)"

definition validate_register :: "(string \<Rightarrow> string option) \<Rightarrow> register_body \<Rightarrow> exn + register_body" where
  "validate_register email_ok b =
     bindE (validate_email email_ok (rb_email b)) (\<lambda>email.
     bindE (password_strength (rb_password b)) (\<lambda>password.
     bindE (full_name_not_empty (rb_full_name b)) (\<lambda>full_name.
     Inr (b\<lparr>rb_email := email, rb_password := password, rb_full_name := full_name\<rparr>))))"

text \<open>The \<open>limit\<close> and \<open>offset\<close> query parameters of every list.\<close>

definition validate_page :: "int \<Rightarrow> int \<Rightarrow> exn + nat \<times> nat" where
  "validate_page lim off =
     bindE (check_field ''limit'' (1 \<le> lim \<and> lim \<le> 100)) (\<lambda>_.
     bindE (check_field ''offset'' (0 \<le> off)) (\<lambda>_. Inr (nat lim, nat off)))"

section \<open>Lemmas\<close>

lemma check_field_Inr [simp]: "check_field name ok = Inr x \<longleftrightarrow> ok"
  by (simp add: check_field_def)

lemma validate_transfer_ok:
  "validate_transfer b = Inr () \<longleftrightarrow> 0 < tb_amount b \<and> optional_max 255 (tb_idempotency_key b) \<and>
     (tb_recipient_user_id b = None) \<noteq> (tb_recipient_email b = None)"
  by (auto simp: validate_transfer_def bindE_Inr_iff)

lemma validate_payment_ok:
  "validate_payment b = Inr () \<longleftrightarrow> 0 < pb_amount b \<and> optional_max 255 (pb_idempotency_key b)"
  by (auto simp: validate_payment_def bindE_Inr_iff)

lemma validate_page_ok:
  "validate_page lim off = Inr (l, m) \<longleftrightarrow> 1 \<le> lim \<and> lim \<le> 100 \<and> 0 \<le> off \<and> l = nat lim \<and> m = nat off"
  by (auto simp: validate_page_def bindE_Inr_iff)

end
