(* ===== verification/Api.thy ===== *)
theory Api
  imports Schemas
begin

text \<open>
  The HTTP endpoints of \<open>app/api/v1\<close>. Each one first resolves its dependencies (the caller, from
  the bearer token; for \<open>/admin\<close> also the role), then validates its input, then calls the
  services, all in one session, and converts the result to its response model. A request carries
  a bearer token and a JSON body of the right shape; rate limits, statuses and envelopes are in theory Http.
\<close>

text \<open>Everything the program calls outside, in one record.\<close>

record outside =
  o_settings :: settings
  o_crypto :: crypto
  o_paystack :: http_client
  o_put_object :: "string \<Rightarrow> byte list \<Rightarrow> bool"
  o_presign :: "string \<Rightarrow> int \<Rightarrow> string option"
  o_hmac512 :: "string \<Rightarrow> string \<Rightarrow> string"
  o_hmac256 :: "string \<Rightarrow> string \<Rightarrow> string"
  o_loads :: "string \<Rightarrow> (string option \<times> event_data option) option"
  o_dumps :: "json \<Rightarrow> string"
  o_post :: "string \<Rightarrow> string \<Rightarrow> string \<Rightarrow> string + int"
  o_email_ok :: "string \<Rightarrow> string option"

section \<open>Dependencies\<close>

definition current_user :: "outside \<Rightarrow> env \<Rightarrow> string \<Rightarrow> user svc" where
  "current_user w en token = query (get_current_user (o_crypto w) en token)"

definition current_admin :: "outside \<Rightarrow> env \<Rightarrow> string \<Rightarrow> user svc" where
  "current_admin w en token =
     bindS (current_user w en token) (\<lambda>user. query (\<lambda>_. require_role [''admin''] user))"

definition validated :: "exn + 'a \<Rightarrow> 'a svc" where
  "validated r = query (\<lambda>_. r)"

section \<open>Accounts and sessions\<close>

record register_out =
  ro_user :: user_out
  ro_access_token :: string
  ro_refresh_token :: string
  ro_expires_in :: int

definition api_register :: "outside \<Rightarrow> env \<Rightarrow> register_body \<Rightarrow> register_out svc" where
  "api_register w en body =
     bindS (validated (validate_register (o_email_ok w) body)) (\<lambda>body.
     bindS (register (o_settings w) (o_crypto w) en (rb_email body) (rb_password body) (rb_full_name body)
       (rb_phone body)) (\<lambda>result.
     returnS \<lparr>ro_user = to_user_out (the (tr_user result)), ro_access_token = tr_access_token result,
              ro_refresh_token = tr_refresh_token result, ro_expires_in = tr_expires_in result\<rparr>))"

definition api_login :: "outside \<Rightarrow> env \<Rightarrow> string \<Rightarrow> string \<Rightarrow> token_response svc" where
  "api_login w en email password =
     bindS (validated (validate_email (o_email_ok w) email)) (\<lambda>email.
     login (o_settings w) (o_crypto w) en email password)"

definition api_refresh :: "outside \<Rightarrow> env \<Rightarrow> string \<Rightarrow> token_response svc" where
  "api_refresh w en raw_token = refresh (o_settings w) (o_crypto w) en raw_token"

definition api_logout :: "outside \<Rightarrow> string \<Rightarrow> unit svc" where
  "api_logout w raw_token = logout (o_crypto w) raw_token"

definition get_my_profile :: "outside \<Rightarrow> env \<Rightarrow> string \<Rightarrow> user_out svc" where
  "get_my_profile w en token = bindS (current_user w en token) (\<lambda>user. returnS (to_user_out user))"

definition update_my_profile :: "outside \<Rightarrow> env \<Rightarrow> string \<Rightarrow> string option \<Rightarrow> string option \<Rightarrow> user_out svc" where
  "update_my_profile w en token full_name phone =
     bindS (current_user w en token) (\<lambda>user.
     bindS (validated (update_full_name full_name)) (\<lambda>full_name.
     bindS (validated (phone_format phone)) (\<lambda>phone.
     bindS (update_profile (u_id user) full_name phone) (\<lambda>updated.
     returnS (to_user_out updated)))))"

section \<open>Wallets\<close>

definition fund_wallet :: "outside \<Rightarrow> env \<Rightarrow> string \<Rightarrow> payment_body \<Rightarrow> wallet_funding_out svc" where
  "fund_wallet w en token body =
     bindS (current_user w en token) (\<lambda>user.
     bindS (validated (validate_funding body)) (\<lambda>_.
     initiate_funding (o_paystack w) en user (pb_amount body) (pb_idempotency_key body)))"

definition get_my_wallet :: "outside \<Rightarrow> env \<Rightarrow> string \<Rightarrow> wallet_out svc" where
  "get_my_wallet w en token =
     bindS (current_user w en token) (\<lambda>user.
     bindS (query (get_wallet (u_id user))) (\<lambda>wallet.
     if \<not> w_is_active wallet then raiseS (ForbiddenError ''Wallet is deactivated. Please contact support.'')
     else returnS (to_wallet_out wallet)))"

definition get_my_transactions :: "outside \<Rightarrow> env \<Rightarrow> string \<Rightarrow> int \<Rightarrow> int \<Rightarrow> transaction_out paginated svc" where
  "get_my_transactions w en token lim off =
     bindS (current_user w en token) (\<lambda>user.
     bindS (validated (validate_page lim off)) (\<lambda>(lim, off).
     bindS (query (get_statement (u_id user) lim off)) (\<lambda>result.
     returnS (map_page to_transaction_out result))))"

section \<open>Transactions\<close>

definition api_list_transactions ::
  "outside \<Rightarrow> env \<Rightarrow> string \<Rightarrow> int \<Rightarrow> int \<Rightarrow> transaction_type option \<Rightarrow> transaction_status option \<Rightarrow>
   transaction_out paginated svc" where
  "api_list_transactions w en token lim off ty status =
     bindS (current_user w en token) (\<lambda>user.
     bindS (validated (validate_page lim off)) (\<lambda>(lim, off).
     bindS (select (list_transactions (u_id user) lim off ty status)) (\<lambda>result.
     returnS (map_page to_transaction_out result))))"

definition api_get_transaction :: "outside \<Rightarrow> env \<Rightarrow> string \<Rightarrow> string \<Rightarrow> transaction_out svc" where
  "api_get_transaction w en token reference =
     bindS (current_user w en token) (\<lambda>user.
     bindS (query (get_transaction reference (u_id user))) (\<lambda>txn. returnS (to_transaction_out txn)))"

definition api_initiate_transfer :: "outside \<Rightarrow> env \<Rightarrow> string \<Rightarrow> transfer_body \<Rightarrow> transfer_out svc" where
  "api_initiate_transfer w en token body =
     bindS (current_user w en token) (\<lambda>user.
     bindS (validated (validate_transfer body)) (\<lambda>_.
     bindS (initiate_transfer (o_settings w) en user (tb_recipient_user_id body) (tb_recipient_email body)
       (tb_amount body) (tb_idempotency_key body)) (\<lambda>txn.
     returnS (to_transfer_out txn))))"

section \<open>Merchants\<close>

definition api_create_merchant :: "outside \<Rightarrow> env \<Rightarrow> string \<Rightarrow> string \<Rightarrow> merchant_created_out svc" where
  "api_create_merchant w en token business_name =
     bindS (current_user w en token) (\<lambda>user.
     bindS (validated (validate_merchant business_name)) (\<lambda>_.
     bindS (create_merchant (hashpw (o_crypto w)) en user business_name) (\<lambda>(merchant, raw_key).
     returnS (to_merchant_created_out merchant raw_key))))"

definition api_get_merchant_profile :: "outside \<Rightarrow> env \<Rightarrow> string \<Rightarrow> merchant_out svc" where
  "api_get_merchant_profile w en token =
     bindS (current_user w en token) (\<lambda>user.
     bindS (query (get_merchant_profile (u_id user))) (\<lambda>merchant. returnS (to_merchant_out merchant)))"

definition api_rotate_api_key :: "outside \<Rightarrow> env \<Rightarrow> string \<Rightarrow> merchant_created_out svc" where
  "api_rotate_api_key w en token =
     bindS (current_user w en token) (\<lambda>user.
     bindS (rotate_api_key (hashpw (o_crypto w)) en (u_id user)) (\<lambda>(merchant, raw_key).
     returnS (to_merchant_created_out merchant raw_key)))"

definition api_update_webhook :: "outside \<Rightarrow> env \<Rightarrow> string \<Rightarrow> string option \<Rightarrow> bool \<Rightarrow> merchant_out svc" where
  "api_update_webhook w en token webhook_url regenerate_secret =
     bindS (current_user w en token) (\<lambda>user.
     bindS (validated (validate_webhook webhook_url)) (\<lambda>_.
     bindS (update_webhook_config en (u_id user) webhook_url regenerate_secret) (\<lambda>merchant.
     returnS (to_merchant_out merchant))))"

definition pay_merchant :: "outside \<Rightarrow> env \<Rightarrow> string \<Rightarrow> uuid \<Rightarrow> payment_body \<Rightarrow> transaction_out svc" where
  "pay_merchant w en token merchant_id body =
     bindS (current_user w en token) (\<lambda>user.
     bindS (validated (validate_payment body)) (\<lambda>_.
     bindS (initiate_payment (o_settings w) en user merchant_id (pb_amount body) (pb_idempotency_key body)) (\<lambda>txn.
     returnS (to_transaction_out txn))))"

text \<open>The dependency \<open>get_merchant_from_api_key\<close>.\<close>

definition get_merchant_from_api_key :: "outside \<Rightarrow> string \<Rightarrow> merchant svc" where
  "get_merchant_from_api_key w x_api_key = query (authenticate (checkpw (o_crypto w)) x_api_key)"

section \<open>Bank accounts and withdrawals\<close>

definition api_add_bank_account :: "outside \<Rightarrow> env \<Rightarrow> string \<Rightarrow> bank_account_body \<Rightarrow> bank_account_out svc" where
  "api_add_bank_account w en token body =
     bindS (current_user w en token) (\<lambda>user.
     bindS (validated (validate_bank_account body)) (\<lambda>_.
     bindS (add_bank_account (o_settings w) (o_paystack w) en user (bb_account_name body) (bb_account_number body)
       (bb_bank_code body) (bb_bank_name body)) (\<lambda>account.
     returnS (to_bank_account_out account))))"

definition api_list_bank_accounts :: "outside \<Rightarrow> env \<Rightarrow> string \<Rightarrow> bank_account_out list svc" where
  "api_list_bank_accounts w en token =
     bindS (current_user w en token) (\<lambda>user.
     bindS (select (list_bank_accounts user)) (\<lambda>accounts. returnS (map to_bank_account_out accounts)))"

definition api_remove_bank_account :: "outside \<Rightarrow> env \<Rightarrow> string \<Rightarrow> uuid \<Rightarrow> unit svc" where
  "api_remove_bank_account w en token bank_account_id =
     bindS (current_user w en token) (\<lambda>user. remove_bank_account en user bank_account_id)"

definition api_initiate_withdrawal :: "outside \<Rightarrow> env \<Rightarrow> string \<Rightarrow> withdrawal_body \<Rightarrow> transaction_out svc" where
  "api_initiate_withdrawal w en token body =
     bindS (current_user w en token) (\<lambda>user.
     bindS (validated (validate_withdrawal body)) (\<lambda>_.
     bindS (initiate_withdrawal (o_settings w) en user (wb_bank_account_id body) (wb_amount body)) (\<lambda>txn.
     returnS (to_transaction_out txn))))"

definition get_withdrawal_status :: "outside \<Rightarrow> env \<Rightarrow> string \<Rightarrow> string \<Rightarrow> transaction_out svc" where
  "get_withdrawal_status w en token reference =
     bindS (current_user w en token) (\<lambda>user.
     bindS (query (get_by_reference reference)) (\<lambda>txn.
     case txn of None \<Rightarrow> raiseS (NotFoundError ''Withdrawal'')
     | Some t \<Rightarrow> if t_initiated_by_user_id t \<noteq> u_id user then raiseS (NotFoundError ''Withdrawal'')
                else returnS (to_transaction_out t)))"

section \<open>Identity verification\<close>

definition api_submit_kyc ::
  "outside \<Rightarrow> env \<Rightarrow> string \<Rightarrow> int \<Rightarrow> byte list \<Rightarrow> string option \<Rightarrow> kyc_submission_out svc" where
  "api_submit_kyc w en token target_tier file_bytes filename =
     bindS (current_user w en token) (\<lambda>user.
     bindS (validated (validate_tier target_tier)) (\<lambda>_.
     bindS (submit_kyc (o_put_object w) en user target_tier file_bytes
       (if truthy filename then the filename else ''document'')) (\<lambda>submission.
     returnS (to_kyc_submission_out submission))))"

definition get_my_kyc :: "outside \<Rightarrow> env \<Rightarrow> string \<Rightarrow> kyc_submission_out svc" where
  "get_my_kyc w en token =
     bindS (current_user w en token) (\<lambda>user.
     bindS (query (get_my_submission (u_id user))) (\<lambda>submission. returnS (to_kyc_submission_out submission)))"

section \<open>Administration\<close>

definition admin_list_audit_logs ::
  "outside \<Rightarrow> env \<Rightarrow> string \<Rightarrow> uuid option \<Rightarrow> string option \<Rightarrow> timestamp option \<Rightarrow> timestamp option \<Rightarrow>
   int \<Rightarrow> int \<Rightarrow> audit_log_out paginated svc" where
  "admin_list_audit_logs w en token actor_id action from_date to_date lim off =
     bindS (current_admin w en token) (\<lambda>_.
     bindS (validated (validate_page lim off)) (\<lambda>(lim, off).
     bindS (select (audit_list_all lim off actor_id action from_date to_date)) (\<lambda>items.
     bindS (select (audit_count_all actor_id action from_date to_date)) (\<lambda>total.
     returnS \<lparr>pg_items = map to_audit_log_out items, pg_total = total, pg_limit = lim, pg_offset = off\<rparr>))))"

definition admin_list_webhook_deliveries ::
  "outside \<Rightarrow> env \<Rightarrow> string \<Rightarrow> int \<Rightarrow> int \<Rightarrow> webhook_delivery_out paginated svc" where
  "admin_list_webhook_deliveries w en token lim off =
     bindS (current_admin w en token) (\<lambda>_.
     bindS (validated (validate_page lim off)) (\<lambda>(lim, off).
     bindS (select (delivery_list_all lim off)) (\<lambda>items.
     bindS (select delivery_count_all) (\<lambda>total.
     returnS \<lparr>pg_items = map to_webhook_delivery_out items, pg_total = total, pg_limit = lim, pg_offset = off\<rparr>))))"

definition admin_list_kyc_submissions ::
  "outside \<Rightarrow> env \<Rightarrow> string \<Rightarrow> kyc_status option \<Rightarrow> int \<Rightarrow> int \<Rightarrow> kyc_submission_out paginated svc" where
  "admin_list_kyc_submissions w en token status lim off =
     bindS (current_admin w en token) (\<lambda>_.
     bindS (validated (validate_page lim off)) (\<lambda>(lim, off).
     bindS (select (list_submissions (Some (get_or KYC_PENDING status)) lim off)) (\<lambda>result.
     returnS (map_page to_kyc_submission_out result))))"

text \<open>The path parameter is a plain string: \<open>uuid.UUID(submission_id)\<close> in the body can fail.\<close>

definition submission_path :: "string \<Rightarrow> uuid svc" where
  "submission_path s = (case parse_uuid s of None \<Rightarrow> raiseS ValueError | Some i \<Rightarrow> returnS i)"

definition admin_get_kyc_submission :: "outside \<Rightarrow> env \<Rightarrow> string \<Rightarrow> string \<Rightarrow> kyc_submission_admin_out svc" where
  "admin_get_kyc_submission w en token submission_id =
     bindS (current_admin w en token) (\<lambda>_.
     bindS (submission_path submission_id) (\<lambda>i.
     bindS (query (get_submission i)) (\<lambda>sub.
     bindS (query (\<lambda>_. get_presigned_doc_url (o_presign w) sub)) (\<lambda>doc_url.
     returnS (to_kyc_submission_admin_out sub (Some doc_url))))))"

definition admin_approve_kyc :: "outside \<Rightarrow> env \<Rightarrow> string \<Rightarrow> string \<Rightarrow> kyc_submission_admin_out svc" where
  "admin_approve_kyc w en token submission_id =
     bindS (current_admin w en token) (\<lambda>admin.
     bindS (submission_path submission_id) (\<lambda>i.
     bindS (approve_kyc en i admin) (\<lambda>sub.
     returnS (to_kyc_submission_admin_out sub None))))"

definition admin_reject_kyc :: "outside \<Rightarrow> env \<Rightarrow> string \<Rightarrow> string \<Rightarrow> string \<Rightarrow> kyc_submission_admin_out svc" where
  "admin_reject_kyc w en token submission_id reason =
     bindS (current_admin w en token) (\<lambda>admin.
     bindS (validated (validate_rejection reason)) (\<lambda>_.
     bindS (submission_path submission_id) (\<lambda>i.
     bindS (reject_kyc en i admin reason) (\<lambda>sub.
     returnS (to_kyc_submission_admin_out sub None)))))"

definition admin_list_transactions ::
  "outside \<Rightarrow> env \<Rightarrow> string \<Rightarrow> transaction_status option \<Rightarrow> transaction_type option \<Rightarrow> bool option \<Rightarrow>
   timestamp option \<Rightarrow> timestamp option \<Rightarrow> int \<Rightarrow> int \<Rightarrow> transaction_admin_out paginated svc" where
  "admin_list_transactions w en token status ty risk_flagged from_date to_date lim off =
     bindS (current_admin w en token) (\<lambda>_.
     bindS (validated (validate_page lim off)) (\<lambda>(lim, off).
     bindS (select (list_admin lim off status ty risk_flagged from_date to_date)) (\<lambda>items.
     bindS (select (count_admin status ty risk_flagged from_date to_date)) (\<lambda>total.
     returnS \<lparr>pg_items = map to_transaction_admin_out items, pg_total = total, pg_limit = lim, pg_offset = off\<rparr>))))"

definition admin_get_transaction :: "outside \<Rightarrow> env \<Rightarrow> string \<Rightarrow> string \<Rightarrow> transaction_detail_admin_out svc" where
  "admin_get_transaction w en token reference =
     bindS (current_admin w en token) (\<lambda>_.
     bindS (query (get_by_reference reference)) (\<lambda>txn.
     case txn of None \<Rightarrow> raiseS (NotFoundError ''Transaction'')
     | Some t \<Rightarrow>
       bindS (select (ledger_get_by_transaction (t_id t))) (\<lambda>entries.
       returnS \<lparr>td_transaction = to_transaction_admin_out t, td_ledger_entries = map to_ledger_entry_out entries\<rparr>)))"

definition run_reconciliation :: "outside \<Rightarrow> env \<Rightarrow> string \<Rightarrow> unit svc" where
  "run_reconciliation w en token =
     bindS (current_admin w en token) (\<lambda>admin.
     bindS (delay en CheckStaleTransactions) (\<lambda>_.
     audit_log_write en (uuid4 en 0) (Some (u_id admin)) ACTOR_ADMIN ''admin.reconciliation_triggered'' None None None))"

definition admin_list_users ::
  "outside \<Rightarrow> env \<Rightarrow> string \<Rightarrow> user_role option \<Rightarrow> int option \<Rightarrow> int \<Rightarrow> int \<Rightarrow> user_out paginated svc" where
  "admin_list_users w en token role kyc_tier lim off =
     bindS (current_admin w en token) (\<lambda>_.
     bindS (validated (check_field ''kyc_tier'' (case kyc_tier of None \<Rightarrow> True | Some k \<Rightarrow> 0 \<le> k \<and> k \<le> 2))) (\<lambda>_.
     bindS (validated (validate_page lim off)) (\<lambda>(lim, off).
     bindS (select (user_list_all lim off role kyc_tier)) (\<lambda>items.
     bindS (select (user_count_all role kyc_tier)) (\<lambda>total.
     returnS \<lparr>pg_items = map to_user_out items, pg_total = total, pg_limit = lim, pg_offset = off\<rparr>)))))"

definition admin_get_user :: "outside \<Rightarrow> env \<Rightarrow> string \<Rightarrow> uuid \<Rightarrow> user_out svc" where
  "admin_get_user w en token user_id =
     bindS (current_admin w en token) (\<lambda>_.
     bindS (query (user_get_by_id user_id)) (\<lambda>user.
     case user of None \<Rightarrow> raiseS (NotFoundError ''User'') | Some u \<Rightarrow> returnS (to_user_out u)))"

end
