(* ===== verification/Refinement.thy ===== *)
theory Refinement
  imports Abstract_Spec Api
begin

text \<open>
  Every service, worker task and endpoint refines the abstract specification: a run on a clean
  session, whether it returns or raises, leaves a committed database reached by \<open>change\<close>s of the
  caller (\<open>Some\<close> user) or of the system (\<open>None\<close>).
\<close>

named_theorems refine_intros \<open>rules that follow the structure of an endpoint\<close>

definition refines :: "uuid option \<Rightarrow> db \<Rightarrow> 'a svc \<Rightarrow> bool" where
  "refines l d m \<longleftrightarrow> (\<forall>s. working s = d \<longrightarrow> committed s = d \<longrightarrow>
     wp m (\<lambda>_ s'. changes l d (committed s')) (\<lambda>_ s'. changes l d (committed s')) s)"

lemma refinesI:
  "(\<And>s. working s = d \<Longrightarrow> committed s = d \<Longrightarrow>
     wp m (\<lambda>_ s'. changes l d (committed s')) (\<lambda>_ s'. changes l d (committed s')) s) \<Longrightarrow> refines l d m"
  by (simp add: refines_def)

lemma refines_run: "refines l d m \<Longrightarrow> run m d = (r, d', out) \<Longrightarrow> changes l d d'"
proof -
  assume "refines l d m" and r: "run m d = (r, d', out)"
  then have "wp m (\<lambda>_ s'. changes l d (committed s')) (\<lambda>_ s'. changes l d (committed s')) (fresh_session d)"
    by (simp add: refines_def)
  with r show "changes l d d'" by (cases r) (auto simp: run_def wp_def split: prod.splits)
qed

section \<open>Structure\<close>

lemma refines_return [refine_intros]: "refines l d (returnS x)"
  by (simp add: refines_def wp_rules)

lemma refines_raise [refine_intros]: "refines l d (raiseS e)"
  by (simp add: refines_def wp_rules)

lemma refines_query [refine_intros]: "refines l d (query q)"
  by (simp add: refines_def wp_rules split: sum.split)

lemma refines_query_bind [refine_intros]:
  "(\<And>a. q d = Inr a \<Longrightarrow> refines l d (f a)) \<Longrightarrow> refines l d (bindS (query q) f)"
  by (auto simp: refines_def wp_rules split: sum.split)

lemma refines_select_bind [refine_intros]: "refines l d (f (q d)) \<Longrightarrow> refines l d (bindS (select q) f)"
  by (simp add: refines_def wp_rules)

lemma refines_validated_bind [refine_intros]:
  "(\<And>a. r = Inr a \<Longrightarrow> refines l d (f a)) \<Longrightarrow> refines l d (bindS (validated r) f)"
  by (auto simp: validated_def intro: refines_query_bind)

lemma refines_delay [refine_intros]: "refines l d (delay en t)"
  by (simp add: refines_def wp_rules)

lemma refines_delay_bind [refine_intros]: "refines l d (f ()) \<Longrightarrow> refines l d (bindS (delay en t) f)"
  by (simp add: refines_def wp_rules)

lemma refines_if [refine_intros]: "(b \<Longrightarrow> refines l d m) \<Longrightarrow> (\<not> b \<Longrightarrow> refines l d n) \<Longrightarrow> refines l d (if b then m else n)"
  by simp

lemma refines_option [refine_intros]:
  "(x = None \<Longrightarrow> refines l d m) \<Longrightarrow> (\<And>a. x = Some a \<Longrightarrow> refines l d (f a)) \<Longrightarrow>
   refines l d (case x of None \<Rightarrow> m | Some a \<Rightarrow> f a)"
  by (cases x) simp_all

lemma refines_prod [refine_intros]:
  "(\<And>a b. x = (a, b) \<Longrightarrow> refines l d (f a b)) \<Longrightarrow> refines l d (case x of (a, b) \<Rightarrow> f a b)"
  by (cases x) simp

text \<open>What follows a service call in an endpoint only converts its result.\<close>

lemma refines_then:
  assumes "refines l d m" and "\<And>x. \<exists>y. f x = returnS y"
  shows "refines l d (bindS m f)"
proof (rule refinesI)
  fix s :: session assume "working s = d" "committed s = d"
  then have "wp m (\<lambda>_ s'. changes l d (committed s')) (\<lambda>_ s'. changes l d (committed s')) s"
    using assms(1) by (simp add: refines_def)
  then show "wp (bindS m f) (\<lambda>_ s'. changes l d (committed s')) (\<lambda>_ s'. changes l d (committed s')) s"
    unfolding wp_bindS
  proof (rule wp_mono)
    fix a and s' :: session assume "changes l d (committed s')"
    moreover obtain y where "f a = returnS y" using assms(2) by blast
    ultimately show "wp (f a) (\<lambda>_ s'. changes l d (committed s')) (\<lambda>_ s'. changes l d (committed s')) s'"
      by (simp add: wp_rules)
  qed
qed

section \<open>Sequences of changes\<close>

lemma changes_one: "change l d d' \<Longrightarrow> changes l d d'"
  by (rule r_into_rtranclp)

lemma changes_then: "changes l d d1 \<Longrightarrow> change l d1 d2 \<Longrightarrow> changes l d d2"
  by (rule rtranclp.rtrancl_into_rtrancl)

lemma changes_audited: "changes l d d1 \<Longrightarrow> prefix (audit_logs d1) al \<Longrightarrow> changes l d (d1\<lparr>audit_logs := al\<rparr>)"
  by (erule changes_then) (rule change.audited)

lemma changes_log: "prefix (audit_logs d) al \<Longrightarrow> changes l d (d\<lparr>audit_logs := al\<rparr>)"
  by (rule changes_audited) simp_all

lemma changes_ok: "changes l d d' \<Longrightarrow> db_ok d \<Longrightarrow> db_ok d'"
  by (induction rule: rtranclp_induct) (auto intro: db_ok.step dest: db_okD)

lemma changes_sound: "changes l d d' \<Longrightarrow> sound d \<Longrightarrow> sound d'"
  by (induction rule: rtranclp_induct) (auto intro: sound_change)

section \<open>Money\<close>

lemma moved_changes:
  assumes "moved en ty src dst a u key d d'" "ty = TRANSFER \<or> ty = MERCHANT_PAYMENT" "src \<in> set (wallets d)"
    "dst \<in> set (wallets d)" "w_user_id src = u" "w_user_id dst \<noteq> u" "0 < a" "a \<le> w_balance src" "0 \<le> w_balance dst + a"
  shows "changes (Some u) d d'"
proof -
  let ?m = "funds_moved en ty src dst a u key d"
  obtain wd al where d': "d' = ?m\<lparr>webhook_deliveries := wd, audit_logs := al\<rparr>" and
    wd: "enqueued (webhook_deliveries d) wd" and al: "prefix (audit_logs d) al" and
    fresh: "fresh_in (moved_txn en ty src dst a u key) d"
    using assms(1) unfolding moved_def by blast
  have "change (Some u) d ?m" by (rule change.funds_moved) (fact assms fresh)+
  moreover have "change (Some u) ?m (?m\<lparr>webhook_deliveries := wd\<rparr>)"
    by (rule change.delivery_added) (simp add: wd)
  ultimately have "changes (Some u) d (?m\<lparr>webhook_deliveries := wd\<rparr>)" by (intro changes_then [OF changes_one])
  then show ?thesis unfolding d' by (rule changes_audited) (simp add: al)
qed

text \<open>A raise that left the committed database alone.\<close>

lemma changes_unchanged: "committed s' = d \<Longrightarrow> changes l d (committed s')"
  by simp

lemma refines_initiate_transfer:
  assumes "sound d" "0 < a"
  shows "refines (Some (u_id sender)) d (initiate_transfer cfg en sender rid email a key)"
proof (rule refinesI, rule wp_initiate_transfer, goal_cases)
  case (5 s src dst t s' al)
  then have "moved en TRANSFER src dst a (u_id sender) key d (committed s')" by (intro movedI_audit) simp_all
  then show ?case by (rule moved_changes) (use 5 assms in \<open>simp_all add: may_transfer_def\<close>)
next
  case (6 s src dst s')
  then have "moved en TRANSFER src dst a (u_id sender) key d (committed s')" by (intro movedI_plain) simp_all
  then show ?case by (rule moved_changes) (use 6 assms in \<open>simp_all add: may_transfer_def\<close>)
qed (use soundD [OF assms(1)] in simp_all)

lemma refines_initiate_payment:
  assumes "sound d" "0 < a"
  shows "refines (Some (u_id payer)) d (initiate_payment cfg en payer mid a key)"
proof (rule refinesI, rule wp_initiate_payment, goal_cases)
  case (5 s src dst t s' al wd)
  then have "moved en MERCHANT_PAYMENT src dst a (u_id payer) key d (committed s')" by (intro movedI) simp_all
  then show ?case by (rule moved_changes) (use 5 assms in \<open>simp_all add: may_pay_def\<close>)
next
  case (6 s src dst s')
  then have "moved en MERCHANT_PAYMENT src dst a (u_id payer) key d (committed s')" by (intro movedI_plain) simp_all
  then show ?case by (rule moved_changes) (use 6 assms in \<open>simp_all add: may_pay_def\<close>)
qed (use soundD [OF assms(1)] in simp_all)

lemma refines_initiate_funding: "refines (Some (u_id user)) d (initiate_funding client en user a key)"
proof (rule refinesI, rule wp_initiate_funding, goal_cases)
  case (4 s w pr url t out s')
  then show ?case by (simp add: changes_one change.funding_opened)
qed simp_all

lemma refines_initiate_withdrawal:
  assumes "sound d" "0 < a"
  shows "refines (Some (u_id user)) d (initiate_withdrawal cfg en user i a)"
proof (rule refinesI, rule wp_initiate_withdrawal, goal_cases)
  case (4 s w t s' al)
  then have "changes (Some (u_id user)) d (amount_held t w d)"
    using assms by (auto intro!: changes_one change.amount_held)
  then show ?case using 4 by (auto intro!: changes_audited simp: amount_held_def)
qed (use soundD [OF assms(1)] in simp_all)

lemma refines_process_charge_success: "refines None d (process_charge_success en data)"
proof (rule refinesI, rule wp_process_charge_success [where ref = "get_or '''' (ev_reference data)"], goal_cases)
  case (5 s t w s' al)
  then have "changes None d (charge_credited en t w (get_or 0 (ev_amount data)) d)"
    by (auto intro!: changes_one change.funding_credited)
  then show ?case using 5 by (auto intro!: changes_audited simp: charge_credited_def)
qed simp_all

lemma refines_process_payout_success: "refines None d (process_payout_success en ref code)"
proof (rule refinesI, rule wp_process_payout_success, goal_cases)
  case (4 s t w s' al)
  then have "changes None d (payout_done en t w d)" by (auto intro!: changes_one change.payout_settled)
  then show ?case using 4 by (auto intro!: changes_audited simp: payout_done_def)
qed simp_all

lemma refines_process_payout_failure: "refines None d (process_payout_failure en ref code)"
proof (rule refinesI, rule wp_process_payout_failure, goal_cases)
  case (4 s t w s' al)
  then have "changes None d (payout_reversed code t w d)" by (auto intro!: changes_one change.payout_returned)
  then show ?case using 4 by (auto intro!: changes_audited simp: payout_reversed_def)
qed simp_all

lemma refines_process_transfer_result: "refines None d (process_transfer_result en ev data)"
  unfolding process_transfer_result_def Let_def
  by (intro refine_intros refines_process_payout_success refines_process_payout_failure)

lemma refines_process_paystack_webhook: "refines None d (process_paystack_webhook en ev data)"
  unfolding process_paystack_webhook_def
  by (intro refine_intros refines_process_charge_success refines_process_transfer_result)

section \<open>Payouts, flags and deliveries\<close>

lemma refines_execute_payout: "refines None d (execute_payout client i)"
proof (rule refinesI, rule wp_execute_payout, goal_cases)
  case (4 s t b code ba s')
  let ?d = "d\<lparr>bank_accounts := ba\<rparr>"
  have b: "b \<in> set (bank_accounts d)" and send: "may_send i t b d" using 4 by (simp_all add: may_send_def)
  have "changes None d ?d"
    using 4(5) b changes_one [OF change.recipient_stored [OF b]] 4(2) by (auto simp: recipient_cached_def)
  moreover obtain b' where "may_send i t b' ?d"
  proof (cases "ba = bank_accounts d")
    case True
    then show thesis using send that [of b] by (simp add: may_send_def)
  next
    case False
    then obtain c where "ba = upd b_id (b_id b) (\<lambda>b. b\<lparr>b_paystack_recipient_code := Some c\<rparr>) (bank_accounts d)"
      using 4(2,5) by (auto simp: recipient_cached_def)
    then have "b\<lparr>b_paystack_recipient_code := Some c\<rparr> \<in> set (bank_accounts ?d)" using b by (auto simp: upd_def)
    then show thesis using send that [of "b\<lparr>b_paystack_recipient_code := Some c\<rparr>"] by (simp add: may_send_def)
  qed
  from change.payout_sent [OF this, of code] have
    "change None ?d (?d\<lparr>transactions := upd t_id (t_id t) (mark_sent (t_status t = PENDING) code) (transactions d)\<rparr>)"
    by simp
  ultimately show ?case using 4 by (auto intro: changes_then)
qed simp_all

lemma refines_process_withdrawal: "refines None d (process_withdrawal client i)"
  unfolding process_withdrawal_def by (rule refines_execute_payout)

lemma refines_flag_transaction_risk: "refines None d (flag_transaction_risk en i r)"
proof (rule refinesI)
  fix s :: session assume s: "working s = d" "committed s = d"
  have "changes None d (d\<lparr>transactions := upd t_id (t_id t) (set_risk r) (transactions d)\<rparr>)"
    if "transaction_get_by_id i d = Inr (Some t)" for t
    using transaction_get_by_idD [OF that] by (intro changes_one change.flagged) simp
  then show "wp (flag_transaction_risk en i r) (\<lambda>_ s'. changes None d (committed s')) (\<lambda>_ s'. changes None d (committed s')) s"
    unfolding flag_transaction_risk_def log_sync_eq
    by (intro wp_intros wp_audit_clean; simp add: s) (erule changes_audited, simp)
qed

lemma refines_deliver_merchant_webhook: "refines l d (deliver_merchant_webhook dumps hmac post en i)"
proof (rule refinesI)
  fix s :: session assume s: "working s = d" "committed s = d"
  have attempted: "changes l d (d\<lparr>webhook_deliveries := upd d_id (d_id w) f (webhook_deliveries d)\<rparr>)"
    if "delivery_get_by_id i d = Inr (Some w)" "attempt_on f w" for w f
    using delivery_get_by_idD [OF that(1)] that(2) by (intro changes_one change.delivery_attempted) simp_all
  have fail: "attempt_on (record_failure ts (d_attempt_count w + 1) c m) w" if "d_status w \<noteq> WD_DELIVERED" for w ts c m
    using that by (simp add: attempt_on_def record_failure_def)
  show "wp (deliver_merchant_webhook dumps hmac post en i) (\<lambda>_ s'. changes l d (committed s')) (\<lambda>_ s'. changes l d (committed s')) s"
    unfolding deliver_merchant_webhook_def log_sync_eq
    by (intro wp_intros wp_audit_clean; (simp add: s; fail)?)
      (auto simp: s write_delivery_def attempt_on_def intro!: attempted changes_audited fail)
qed

lemma refines_for_delay: "refines l d (forS xs (\<lambda>x. delay en (t x)))"
proof (rule refinesI)
  fix s :: session assume "committed s = d"
  then show "wp (forS xs (\<lambda>x. delay en (t x))) (\<lambda>_ s'. changes l d (committed s')) (\<lambda>_ s'. changes l d (committed s')) s"
    by (intro wp_forS) (auto simp: wp_rules)
qed

lemma refines_retry_pending_webhooks: "refines l d (retry_pending_webhooks en)"
  unfolding retry_pending_webhooks_def by (intro refine_intros refines_for_delay)

section \<open>Profiles, merchants, accounts\<close>

lemma refines_update_profile: "refines l d (update_profile i n p)"
proof (rule refinesI)
  fix s :: session assume s: "working s = d" "committed s = d"
  show "wp (update_profile i n p) (\<lambda>_ s'. changes l d (committed s')) (\<lambda>_ s'. changes l d (committed s')) s"
    unfolding update_profile_def user_update_profile_def by (intro wp_intros; simp add: s)
qed

lemma refines_add_bank_account:
  "refines (Some (u_id user)) d (add_bank_account cfg client en user name num code bank)"
proof (rule refinesI, rule wp_add_bank_account, goal_cases)
  case (3 s b s')
  then show ?case by (auto intro!: changes_one change.account_added)
qed simp_all

lemma refines_remove_bank_account: "refines (Some (u_id user)) d (remove_bank_account en user i)"
proof (rule refinesI)
  fix s :: session assume s: "working s = d" "committed s = d"
  show "wp (remove_bank_account en user i) (\<lambda>_ s'. changes (Some (u_id user)) d (committed s'))
      (\<lambda>_ s'. changes (Some (u_id user)) d (committed s')) s"
    unfolding remove_bank_account_def
    by (intro wp_intros; (simp add: s; fail)?) (auto simp: s dest!: account_get_by_idD intro!: changes_one change.account_removed)
qed

lemma refines_submit_kyc:
  assumes "user \<in> set (users d)"
  shows "refines (Some (u_id user)) d (submit_kyc put en user tier bytes fn)"
proof (rule refinesI, rule wp_submit_kyc, goal_cases)
  case (3 s k s' al)
  then have "changes (Some (u_id user)) d (d\<lparr>kyc_submissions := kyc_submissions d @ [k]\<rparr>)"
    using assms by (auto intro!: changes_one change.kyc_submitted)
  then show ?case using 3 by (auto dest: changes_audited)
qed simp_all

lemma refines_approve_kyc: "refines (Some (u_id reviewer)) d (approve_kyc en i reviewer)"
proof (rule refinesI, rule wp_approve_kyc, goal_cases)
  case (3 s k u s' al)
  then have "changes (Some (u_id reviewer)) d (approved (now en) (u_id reviewer) k d)"
    by (intro changes_one change.kyc_approved) simp_all
  then show ?case using 3 by (auto intro!: changes_audited simp: approved_def)
qed simp_all

lemma refines_reject_kyc: "refines (Some (u_id reviewer)) d (reject_kyc en i reviewer reason)"
proof (rule refinesI, rule wp_reject_kyc, goal_cases)
  case (3 s k s' al)
  then have "changes (Some (u_id reviewer)) d (rejected (now en) (u_id reviewer) reason k d)"
    by (intro changes_one change.kyc_rejected) simp_all
  then show ?case using 3 by (auto intro!: changes_audited simp: rejected_def)
qed simp_all

lemma refines_audit: "refines l d (audit_log_write en i ai at act tt ti md)"
proof (rule refinesI)
  fix s :: session assume s: "working s = d" "committed s = d"
  show "wp (audit_log_write en i ai at act tt ti md) (\<lambda>_ s'. changes l d (committed s')) (\<lambda>_ s'. changes l d (committed s')) s"
    by (rule wp_audit_clean) (simp_all add: s changes_log)
qed

lemma refines_update_webhook_config: "refines (Some u) d (update_webhook_config en u url regen)"
proof (rule refinesI)
  fix s :: session assume s: "working s = d" "committed s = d"
  show "wp (update_webhook_config en u url regen) (\<lambda>_ s'. changes (Some u) d (committed s'))
      (\<lambda>_ s'. changes (Some u) d (committed s')) s"
    unfolding update_webhook_config_def update_webhook_def
    by (intro wp_intros; (simp add: s; fail)?)
      (auto simp: s write_merchant_def set_webhook_def dest!: get_merchant_profileD intro!: changes_one change.merchant_updated)
qed

lemma refines_rotate_api_key: "refines (Some u) d (rotate_api_key hsh en u)"
proof (rule refinesI)
  fix s :: session assume s: "working s = d" "committed s = d"
  have rotated: "changes (Some u) d (d\<lparr>merchants := upd m_id (m_id m) (set_api_key h p) (merchants d)\<rparr>)"
    if "get_merchant_profile u d = Inr m" for m h p
    using get_merchant_profileD [OF that] by (intro changes_one change.merchant_updated) (simp_all add: set_api_key_def)
  show "wp (rotate_api_key hsh en u) (\<lambda>_ s'. changes (Some u) d (committed s'))
      (\<lambda>_ s'. changes (Some u) d (committed s')) s"
    unfolding rotate_api_key_def update_api_key_def
    by (intro wp_intros wp_audit_clean; (simp add: s; fail)?) (auto simp: s write_merchant_def intro!: changes_audited rotated)
qed

section \<open>Sessions of a user\<close>

lemma refines_logout: "refines l d (logout c raw)"
proof (rule refinesI)
  fix s :: session assume s: "working s = d" "committed s = d"
  show "wp (logout c raw) (\<lambda>_ s'. changes l d (committed s')) (\<lambda>_ s'. changes l d (committed s')) s"
    unfolding logout_def revoke_def
    by (intro wp_intros; (simp add: s; fail)?) (auto simp: s intro!: changes_one change.tokens_changed)
qed

lemma refines_refresh: "refines l d (refresh cfg c en raw)"
proof (rule refinesI)
  fix s :: session assume s: "working s = d" "committed s = d"
  show "wp (refresh cfg c en raw) (\<lambda>_ s'. changes l d (committed s')) (\<lambda>_ s'. changes l d (committed s')) s"
    by (rule wp_refresh) (auto simp: s rotated_def intro!: changes_one change.tokens_changed)
qed

lemma changes_tokens_audited: "prefix (audit_logs d) al \<Longrightarrow> changes l d (d\<lparr>refresh_tokens := rt, audit_logs := al\<rparr>)"
  using changes_audited [OF changes_one [OF change.tokens_changed, of l d rt], of al] by simp

lemma refines_login: "refines l d (login cfg c en e p)"
proof (rule refinesI)
  fix s :: session assume s: "working s = d" "committed s = d"
  show "wp (login cfg c en e p) (\<lambda>_ s'. changes l d (committed s')) (\<lambda>_ s'. changes l d (committed s')) s"
    unfolding login_def store_refresh_token_def
    by (intro wp_intros wp_audit_clean; (simp add: s; fail)?)
      (auto simp: s intro!: changes_tokens_audited)
qed

lemma changes_registered:
  assumes u: "insert_user u d = Inr d1" "u_role u = USER" "u_kyc_tier u = 0" and w: "insert_wallet w d1 = Inr d2" "w_balance w = 0"
  shows "changes l d (d2\<lparr>refresh_tokens := rt\<rparr>)"
proof -
  have "change l d d1" using u by (auto simp: insert_user_def split: if_splits intro: change.user_added)
  moreover have "change l d1 d2" using w by (auto simp: insert_wallet_def split: if_splits intro: change.wallet_added)
  moreover have "change l d2 (d2\<lparr>refresh_tokens := rt\<rparr>)" by (rule change.tokens_changed)
  ultimately show ?thesis by (intro changes_then [OF changes_then [OF changes_one]])
qed

lemma refines_register: "refines l d (register cfg c en e p n ph)"
proof (rule refinesI)
  fix s :: session assume s: "working s = d" "committed s = d"
  show "wp (register cfg c en e p n ph) (\<lambda>_ s'. changes l d (committed s')) (\<lambda>_ s'. changes l d (committed s')) s"
    unfolding register_def store_refresh_token_def user_create_def create_wallet_def wallet_create_def
    by (intro wp_intros wp_audit_clean; (simp add: s; fail)?)
      (auto simp: s intro!: changes_audited changes_registered)
qed

lemma changes_merchant:
  assumes m: "insert_merchant m d = Inr d1" "m_user_id m = u" 
    and w: "d2 = d1 \<or> (\<exists>w. insert_wallet w d1 = Inr d2 \<and> w_balance w = 0)" and r: "set_role u MERCHANT d2 = Inr d3"
  shows "changes (Some u) d d3"
proof -
  have "change (Some u) d d1" using m by (auto simp: insert_merchant_def split: if_splits intro: change.merchant_added)
  moreover have "changes (Some u) d1 d2"
    using w by (auto simp: insert_wallet_def split: if_splits intro!: changes_one change.wallet_added)
  moreover have "change (Some u) d2 d3" using r by (auto simp: set_role_def intro: change.merchant_role)
  ultimately show ?thesis by (meson changes_one changes_then rtranclp_trans)
qed

lemmas changes_merchant_kept = changes_merchant [OF _ _ disjI1 [OF refl]]

lemma changes_merchant_new: "insert_merchant m d = Inr d1 \<Longrightarrow> m_user_id m = u \<Longrightarrow> insert_wallet w d1 = Inr d2 \<Longrightarrow>
    w_balance w = 0 \<Longrightarrow> set_role u MERCHANT d2 = Inr d3 \<Longrightarrow> changes (Some u) d d3"
  by (rule changes_merchant [OF _ _ disjI2]) auto

lemma refines_create_merchant: "refines (Some (u_id user)) d (create_merchant hsh en user n)"
proof (rule refinesI)
  fix s :: session assume s: "working s = d" "committed s = d"
  let ?R = "\<lambda>_ s'. changes (Some (u_id user)) d (committed s')"
  show "wp (create_merchant hsh en user n) ?R ?R s"
    unfolding create_merchant_def merchant_create_def wallet_create_def
    by (intro wp_intros wp_audit_clean; (simp add: s; fail)?)
      (auto simp: s intro!: changes_audited intro: changes_merchant_kept changes_merchant_new)
qed

section \<open>Webhooks and the sweep\<close>

lemma refines_receive_paystack_webhook: "refines l d (receive_paystack_webhook h ld cfg en body sig)"
proof (rule refinesI)
  fix s :: session assume s: "working s = d" "committed s = d"
  show "wp (receive_paystack_webhook h ld cfg en body sig) (\<lambda>_ s'. changes l d (committed s')) (\<lambda>_ s'. changes l d (committed s')) s"
    unfolding receive_paystack_webhook_def by (simp add: wp_rules s Let_def split: option.split)
qed

lemma refines_reconcile_funding:
  assumes "changes None d (committed s)" "sound d" "(i, FUNDING) \<in> set (types_of (committed s))"
  shows "wp (reconcile_funding client en i pref)
    (\<lambda>_ s'. changes None d (committed s') \<and> types_of (committed s') = types_of (committed s)) R s"
proof (rule wp_reconcile_funding, goal_cases)
  case (2 t w a s' al r)
  then have "change None (committed s) (charge_credited en t w a (committed s))" by (intro change.funding_credited)
  then have "changes None d (charge_credited en t w a (committed s))" by (rule changes_then [OF assms(1)])
  then have "changes None d (committed s')"
    unfolding 2(5) by (rule changes_audited) (simp add: charge_credited_def 2(6))
  then show ?case by (simp add: 2(5))
next
  case (3 t s' r)
  then have "change None (committed s) (left_processing t (committed s))" by (intro change.funding_stuck)
  then show ?case using changes_then [OF assms(1)] by (simp add: 3(2))
next
  case (4 t s' st)
  have "t_type t = FUNDING"
    by (rule types_of_unique [OF soundD(2) assms(3) 4(1,2)]) (rule changes_sound [OF assms(1,2)])
  then have "change None (committed s) (funding_failed st t (committed s))" by (intro change.funding_refused 4(1,3))
  then show ?case using changes_then [OF assms(1)] by (simp add: 4(4))
qed (use assms in simp_all)

lemma refines_check_stale_transactions:
  assumes "sound d"
  shows "refines None d (check_stale_transactions client en)"
proof (rule refinesI)
  fix s :: session assume s: "working s = d" "committed s = d"
  let ?I = "\<lambda>s' :: session. changes None d (committed s') \<and> types_of (committed s') = types_of d"
  let ?R = "\<lambda>_ s'. changes None d (committed s')"
  let ?stale = "stale_funding (now en - minutes STALE_THRESHOLD_MINUTES) d"
  let ?item = "\<lambda>(k, txn_id, provider_ref). reconcile_funding client (shift_env (2 * k) en) txn_id provider_ref"
  have loop: "wp (forS (zip [0..<length ?stale] ?stale) ?item) (\<lambda>_. ?I) ?R s"
  proof (rule wp_forS)
    fix x and s' :: session assume x: "x \<in> set (zip [0..<length ?stale] ?stale)" and I: "?I s'"
    obtain k i r where [simp]: "x = (k, i, r)" by (cases x) auto
    have "(i, r) \<in> set ?stale" using x by (auto dest: set_zip_rightD)
    then show "wp (?item x) (\<lambda>_. ?I) ?R s'"
      using I refines_reconcile_funding [of d s' i] assms stale_funding_types by simp
  qed (simp add: s)
  have sends: "wp (forS is (\<lambda>i. delay en (ProcessWithdrawal i))) ?R ?R s'" if "changes None d (committed s')" for "is" s'
    by (rule wp_forS) (use that in \<open>simp_all add: wp_rules\<close>)
  show "wp (check_stale_transactions client en) ?R ?R s"
    unfolding check_stale_transactions_def Let_def
    by (simp add: wp_rules s) (rule wp_mono [OF loop]; simp add: wp_rules sends)
qed

end
