(* ===== verification/System.thy ===== *)
theory System
  imports Refinement
begin

text \<open>
  The program as a whole: \<open>app/api/v1/router.py\<close> sends a request to its endpoint, the Celery
  application (\<open>app/workers/celery_app.py\<close>) a queued task to its function, and the beat
  schedule queues the two periodic tasks. Each request or task is one atomic step on the
  committed database. A worker acknowledges a task after it ran (\<open>task_acks_late\<close>), so a task
  may run again, and the queue may hand tasks out in any order.
\<close>

section \<open>Requests\<close>

datatype public_request =
    PostRegister register_body
  | PostLogin string string
  | PostRefresh string
  | PostLogout string
  | PostPaystackWebhook string "string option"

datatype user_request =
    GetMyProfile
  | PatchMyProfile "string option" "string option"
  | PostFund payment_body
  | GetMyWallet
  | GetMyTransactions int int
  | GetTransactions int int "transaction_type option" "transaction_status option"
  | GetTransaction string
  | PostTransfer transfer_body
  | PostMerchant string
  | GetMerchant
  | PostApiKey
  | PatchWebhook "string option" bool
  | PostPayment uuid payment_body
  | PostBankAccount bank_account_body
  | GetBankAccounts
  | DeleteBankAccount uuid
  | PostWithdrawal withdrawal_body
  | GetWithdrawal string
  | PostKyc int "byte list" "string option"
  | GetMyKyc

datatype admin_request =
    AdminAuditLogs "uuid option" "string option" "timestamp option" "timestamp option" int int
  | AdminDeliveries int int
  | AdminKycList "kyc_status option" int int
  | AdminKyc string
  | AdminApproveKyc string
  | AdminRejectKyc string string
  | AdminTransactions "transaction_status option" "transaction_type option" "bool option"
      "timestamp option" "timestamp option" int int
  | AdminTransaction string
  | AdminReconcile
  | AdminUsers "user_role option" "int option" int int
  | AdminUser uuid

datatype request =
    Public public_request
  | AsUser string user_request
  | AsAdmin string admin_request

datatype response =
    NoData
  | RegisterOut register_out
  | TokenOut token_response
  | UserOut user_out
  | FundingOut wallet_funding_out
  | WalletOut wallet_out
  | TransactionPage "transaction_out paginated"
  | TransactionOut transaction_out
  | TransferOut transfer_out
  | MerchantOut merchant_out
  | MerchantCreatedOut merchant_created_out
  | BankAccountOut bank_account_out
  | BankAccountList "bank_account_out list"
  | KycOut kyc_submission_out
  | KycAdminOut kyc_submission_admin_out
  | KycPage "kyc_submission_out paginated"
  | AuditPage "audit_log_out paginated"
  | DeliveryPage "webhook_delivery_out paginated"
  | TransactionAdminPage "transaction_admin_out paginated"
  | TransactionDetail transaction_detail_admin_out
  | UserPage "user_out paginated"

definition answer :: "('a \<Rightarrow> response) \<Rightarrow> 'a svc \<Rightarrow> response svc" where
  "answer C m = bindS m (\<lambda>x. returnS (C x))"

fun handle_public :: "outside \<Rightarrow> env \<Rightarrow> public_request \<Rightarrow> response svc" where
  "handle_public w en (PostRegister body) = answer RegisterOut (api_register w en body)"
| "handle_public w en (PostLogin email password) = answer TokenOut (api_login w en email password)"
| "handle_public w en (PostRefresh raw) = answer TokenOut (api_refresh w en raw)"
| "handle_public w en (PostLogout raw) = answer (\<lambda>_. NoData) (api_logout w raw)"
| "handle_public w en (PostPaystackWebhook body sig) = answer (\<lambda>_. NoData)
     (receive_paystack_webhook (o_hmac512 w) (o_loads w) (o_settings w) en body sig)"

fun handle_user :: "outside \<Rightarrow> env \<Rightarrow> string \<Rightarrow> user_request \<Rightarrow> response svc" where
  "handle_user w en tok GetMyProfile = answer UserOut (get_my_profile w en tok)"
| "handle_user w en tok (PatchMyProfile n p) = answer UserOut (update_my_profile w en tok n p)"
| "handle_user w en tok (PostFund body) = answer FundingOut (fund_wallet w en tok body)"
| "handle_user w en tok GetMyWallet = answer WalletOut (get_my_wallet w en tok)"
| "handle_user w en tok (GetMyTransactions l m) = answer TransactionPage (get_my_transactions w en tok l m)"
| "handle_user w en tok (GetTransactions l m ty st) =
     answer TransactionPage (api_list_transactions w en tok l m ty st)"
| "handle_user w en tok (GetTransaction ref) = answer TransactionOut (api_get_transaction w en tok ref)"
| "handle_user w en tok (PostTransfer body) = answer TransferOut (api_initiate_transfer w en tok body)"
| "handle_user w en tok (PostMerchant name) = answer MerchantCreatedOut (api_create_merchant w en tok name)"
| "handle_user w en tok GetMerchant = answer MerchantOut (api_get_merchant_profile w en tok)"
| "handle_user w en tok PostApiKey = answer MerchantCreatedOut (api_rotate_api_key w en tok)"
| "handle_user w en tok (PatchWebhook url regen) = answer MerchantOut (api_update_webhook w en tok url regen)"
| "handle_user w en tok (PostPayment i body) = answer TransactionOut (pay_merchant w en tok i body)"
| "handle_user w en tok (PostBankAccount body) = answer BankAccountOut (api_add_bank_account w en tok body)"
| "handle_user w en tok GetBankAccounts = answer BankAccountList (api_list_bank_accounts w en tok)"
| "handle_user w en tok (DeleteBankAccount i) = answer (\<lambda>_. NoData) (api_remove_bank_account w en tok i)"
| "handle_user w en tok (PostWithdrawal body) = answer TransactionOut (api_initiate_withdrawal w en tok body)"
| "handle_user w en tok (GetWithdrawal ref) = answer TransactionOut (get_withdrawal_status w en tok ref)"
| "handle_user w en tok (PostKyc tier bytes fn) = answer KycOut (api_submit_kyc w en tok tier bytes fn)"
| "handle_user w en tok GetMyKyc = answer KycOut (get_my_kyc w en tok)"

fun handle_admin :: "outside \<Rightarrow> env \<Rightarrow> string \<Rightarrow> admin_request \<Rightarrow> response svc" where
  "handle_admin w en tok (AdminAuditLogs i a f t l m) = answer AuditPage (admin_list_audit_logs w en tok i a f t l m)"
| "handle_admin w en tok (AdminDeliveries l m) = answer DeliveryPage (admin_list_webhook_deliveries w en tok l m)"
| "handle_admin w en tok (AdminKycList st l m) = answer KycPage (admin_list_kyc_submissions w en tok st l m)"
| "handle_admin w en tok (AdminKyc i) = answer KycAdminOut (admin_get_kyc_submission w en tok i)"
| "handle_admin w en tok (AdminApproveKyc i) = answer KycAdminOut (admin_approve_kyc w en tok i)"
| "handle_admin w en tok (AdminRejectKyc i reason) = answer KycAdminOut (admin_reject_kyc w en tok i reason)"
| "handle_admin w en tok (AdminTransactions st ty rf f t l m) =
     answer TransactionAdminPage (admin_list_transactions w en tok st ty rf f t l m)"
| "handle_admin w en tok (AdminTransaction ref) = answer TransactionDetail (admin_get_transaction w en tok ref)"
| "handle_admin w en tok AdminReconcile = answer (\<lambda>_. NoData) (run_reconciliation w en tok)"
| "handle_admin w en tok (AdminUsers r k l m) = answer UserPage (admin_list_users w en tok r k l m)"
| "handle_admin w en tok (AdminUser i) = answer UserOut (admin_get_user w en tok i)"

fun handle :: "outside \<Rightarrow> env \<Rightarrow> request \<Rightarrow> response svc" where
  "handle w en (Public r) = handle_public w en r"
| "handle w en (AsUser tok r) = handle_user w en tok r"
| "handle w en (AsAdmin tok r) = handle_admin w en tok r"

text \<open>The user a request speaks for, when its token is good.\<close>

fun bearer :: "request \<Rightarrow> string option" where
  "bearer (Public r) = None"
| "bearer (AsUser tok r) = Some tok"
| "bearer (AsAdmin tok r) = Some tok"

definition caller :: "outside \<Rightarrow> env \<Rightarrow> request \<Rightarrow> db \<Rightarrow> uuid option" where
  "caller w en r d = (case bearer r of None \<Rightarrow> None
     | Some tok \<Rightarrow> (case get_current_user (o_crypto w) en tok d of Inl e \<Rightarrow> None | Inr u \<Rightarrow> Some (u_id u)))"

section \<open>Tasks\<close>

fun perform :: "outside \<Rightarrow> env \<Rightarrow> task \<Rightarrow> unit svc" where
  "perform w en (FlagTransactionRisk i r) = flag_transaction_risk en i r"
| "perform w en (DeliverMerchantWebhook i) = deliver_merchant_webhook (o_dumps w) (o_hmac256 w) (o_post w) en i"
| "perform w en (ProcessPaystackWebhook ev data) = process_paystack_webhook en ev data"
| "perform w en (ProcessWithdrawal i) = process_withdrawal (o_paystack w) i"
| "perform w en CheckStaleTransactions = check_stale_transactions (o_paystack w) en"
| "perform w en RetryPendingWebhooks = retry_pending_webhooks en"

definition beat_schedule :: "task list" where
  "beat_schedule = [RetryPendingWebhooks, CheckStaleTransactions]"

section \<open>Steps\<close>

record system =
  database :: db
  queue :: "task list"

inductive step :: "outside \<Rightarrow> system \<Rightarrow> system \<Rightarrow> bool" for w where
  request: "run (handle w en r) d = (a, d', out) \<Longrightarrow>
    step w \<lparr>database = d, queue = q\<rparr> \<lparr>database = d', queue = q @ out\<rparr>"
| work: "t \<in> set q \<Longrightarrow> run (perform w en t) d = (a, d', out) \<Longrightarrow>
    step w \<lparr>database = d, queue = q\<rparr> \<lparr>database = d', queue = q @ out\<rparr>"
| acknowledge: "step w \<lparr>database = d, queue = q\<rparr> \<lparr>database = d, queue = remove1 t q\<rparr>"
| beat: "t \<in> set beat_schedule \<Longrightarrow> step w \<lparr>database = d, queue = q\<rparr> \<lparr>database = d, queue = q @ [t]\<rparr>"

definition initial :: "system \<Rightarrow> bool" where
  "initial s \<longleftrightarrow> initial_db (database s) \<and> queue s = []"

inductive reachable :: "outside \<Rightarrow> system \<Rightarrow> bool" for w where
  init: "initial s \<Longrightarrow> reachable w s"
| later: "reachable w s \<Longrightarrow> step w s s' \<Longrightarrow> reachable w s'"

inductive_cases stepE: "step w s s'"

section \<open>Requests and tasks refine the abstract specification\<close>

lemma refines_answer: "refines l d m \<Longrightarrow> refines l d (answer C m)"
  unfolding answer_def by (rule refines_then) blast+

lemma get_current_userD:
  assumes "get_current_user c en tok d = Inr u"
  shows "u \<in> set (users d)" "u_deleted_at u = None" "u_is_active u"
  using assms by (auto simp: get_current_user_def bindE_Inr_iff user_get_by_id_def split: sum.splits jwt_error.splits if_splits option.splits
      dest: scalar_filter_Some)

definition speaks :: "outside \<Rightarrow> env \<Rightarrow> string \<Rightarrow> db \<Rightarrow> uuid option \<Rightarrow> bool" where
  "speaks w en tok d l \<longleftrightarrow> (\<forall>u. get_current_user (o_crypto w) en tok d = Inr u \<longrightarrow> l = Some (u_id u))"

lemma refines_as_user:
  assumes "speaks w en tok d l"
    and "\<And>u. get_current_user (o_crypto w) en tok d = Inr u \<Longrightarrow> u \<in> set (users d) \<Longrightarrow> refines (Some (u_id u)) d (f u)"
  shows "refines l d (bindS (current_user w en tok) f)"
  unfolding current_user_def
  by (rule refines_query_bind) (use assms get_current_userD(1) in \<open>auto simp: speaks_def\<close>)

lemma bindS_assoc: "bindS (bindS m f) g = bindS m (\<lambda>x. bindS (f x) g)"
  by (rule ext) (simp add: bindS_def split: prod.split sum.split)

lemma refines_as_admin:
  assumes "speaks w en tok d l"
    and "\<And>u. get_current_user (o_crypto w) en tok d = Inr u \<Longrightarrow> u \<in> set (users d) \<Longrightarrow> u_role u = ADMIN \<Longrightarrow>
      refines (Some (u_id u)) d (f u)"
  shows "refines l d (bindS (current_admin w en tok) f)"
  unfolding current_admin_def bindS_assoc
proof (rule refines_as_user [OF assms(1)], rule refines_query_bind)
  fix u a assume *: "get_current_user (o_crypto w) en tok d = Inr u" "u \<in> set (users d)" "require_role [''admin''] u = Inr a"
  then have "a = u" "u_role u = ADMIN" by (cases "u_role u"; simp add: require_role_def split: if_splits)+
  with * show "refines (Some (u_id u)) d (f a)" using assms(2) by simp
qed

lemma refines_result: "refines l d m \<Longrightarrow> refines l d (bindS m (\<lambda>x. returnS (g x)))"
  by (rule refines_then) blast+

lemma refines_result_pair: "refines l d m \<Longrightarrow> refines l d (bindS m (\<lambda>(x, y). returnS (g x y)))"
  by (rule refines_then) (auto split: prod.split)

lemmas refines_services = refines_register refines_login refines_refresh refines_logout refines_update_profile
  refines_initiate_funding refines_initiate_transfer refines_create_merchant refines_rotate_api_key
  refines_update_webhook_config refines_initiate_payment refines_add_bank_account refines_remove_bank_account
  refines_initiate_withdrawal refines_submit_kyc refines_approve_kyc refines_reject_kyc refines_audit
  refines_receive_paystack_webhook

lemmas user_endpoints = get_my_profile_def update_my_profile_def fund_wallet_def get_my_wallet_def get_my_transactions_def
  api_list_transactions_def api_get_transaction_def api_initiate_transfer_def api_create_merchant_def
  api_get_merchant_profile_def api_rotate_api_key_def api_update_webhook_def pay_merchant_def api_add_bank_account_def
  api_list_bank_accounts_def api_remove_bank_account_def api_initiate_withdrawal_def get_withdrawal_status_def
  api_submit_kyc_def get_my_kyc_def

lemmas admin_endpoints = admin_list_audit_logs_def admin_list_webhook_deliveries_def admin_list_kyc_submissions_def
  submission_path_def admin_get_kyc_submission_def admin_approve_kyc_def admin_reject_kyc_def
  admin_list_transactions_def admin_get_transaction_def run_reconciliation_def admin_list_users_def admin_get_user_def

lemma submission_path_query: "submission_path s = query (\<lambda>_. case parse_uuid s of None \<Rightarrow> Inl ValueError | Some i \<Rightarrow> Inr i)"
  by (rule ext) (simp add: submission_path_def query_def askS_def returnS_def raiseS_def split: option.split)

lemma refines_handle_public: "refines l d (handle_public w en r)"
  by (cases r; simp only: handle_public.simps api_register_def api_login_def api_refresh_def api_logout_def;
      intro refines_answer refines_result refines_services refine_intros)

lemma refines_handle_user:
  assumes "speaks w en tok d l" and "sound d"
  shows "refines l d (handle_user w en tok r)"
  by (cases r; simp only: handle_user.simps user_endpoints;
      intro refines_answer refines_as_user [OF assms(1)] refines_result refines_result_pair refines_services refine_intros assms(2);
      simp add: validate_transfer_ok validate_payment_ok validate_withdrawal_def)

lemma refines_handle_admin:
  assumes "speaks w en tok d l"
  shows "refines l d (handle_admin w en tok r)"
  by (cases r; simp only: handle_admin.simps admin_endpoints submission_path_query [unfolded submission_path_def];
      intro refines_answer refines_as_admin [OF assms] refines_result refines_services refine_intros)

lemma speaks_caller: "caller w en r d \<in> {None, l} \<Longrightarrow> bearer r = Some tok \<Longrightarrow> speaks w en tok d l"
  by (auto simp: caller_def speaks_def)

lemma refines_handle:
  assumes "caller w en r d \<in> {None, l}" and "sound d"
  shows "refines l d (handle w en r)"
  using assms speaks_caller [OF assms(1)]
  by (cases r) (simp_all add: refines_handle_public refines_handle_user refines_handle_admin)

lemma refines_perform: "sound d \<Longrightarrow> refines None d (perform w en t)"
  by (cases t) (simp_all add: refines_flag_transaction_risk refines_deliver_merchant_webhook refines_process_paystack_webhook
      refines_process_withdrawal refines_check_stale_transactions refines_retry_pending_webhooks)

section \<open>Steps and reachable states\<close>

lemma step_changes: "step w s s' \<Longrightarrow> sound (database s) \<Longrightarrow> \<exists>l. changes l (database s) (database s')"
proof (induction rule: step.induct)
  case (request en r d a d' out q)
  then show ?case using refines_run [OF refines_handle] by fastforce
next
  case (work t q en d a d' out)
  then show ?case using refines_run [OF refines_perform] by fastforce
qed auto

context invariant
begin

lemma changes: "changes l d d' \<Longrightarrow> sound d \<Longrightarrow> I d \<Longrightarrow> sound d' \<and> I d'"
  by (induction rule: rtranclp_induct) (auto intro: step sound_change)

lemma sys_step: "System.step w s s' \<Longrightarrow> sound (database s) \<Longrightarrow> I (database s) \<Longrightarrow> sound (database s') \<and> I (database s')"
  using step_changes changes by blast

lemma reachable: "reachable w s \<Longrightarrow> sound (database s) \<and> I (database s)"
proof (induction rule: reachable.induct, goal_cases)
  case (1 s)
  then show ?case using init sound.init by (simp add: initial_def)
qed (use sys_step in blast)

end

lemma reachable_ok: "reachable w s \<Longrightarrow> db_ok (database s)"
  using db_ok.reachable by blast

lemma reachable_steps: "(step w)\<^sup>*\<^sup>* s s' \<Longrightarrow> reachable w s \<Longrightarrow> reachable w s'"
  by (induction rule: rtranclp_induct) (auto intro: reachable.later)

lemma step_evolves: "step w s s' \<Longrightarrow> db_ok (database s) \<Longrightarrow> evolves (database s) (database s')"
  using step_changes evolution.changes db_okD(1) by blast

lemma steps_evolve: "(step w)\<^sup>*\<^sup>* s s' \<Longrightarrow> reachable w s \<Longrightarrow> evolves (database s) (database s')"
proof (induction rule: rtranclp_induct)
  case (step s1 s2)
  then have "db_ok (database s1)" using reachable_ok reachable_steps by blast
  then show ?case using step step_evolves evolves_trans by blast
qed (rule evolves_refl)

end
