(* ===== verification/Example_Data.thy ===== *)
theory Example_Data
  imports Payments Funding Kyc Auth
begin

text \<open>
  A small concrete database and environment, on which the witnesses evaluate the operations:
  Ada (tier 1) and Bo (tier 2) have wallets with 1000 and 500 NGN from completed fundings, Mo is a
  merchant with an empty wallet, Bo has a bank account and a pending submission of Ada waits for
  review by the administrator Root.
\<close>

definition ada :: user where
  "ada = \<lparr>u_id = 1, u_email = ''ada@x.io'', u_phone = None, u_hashed_password = ''h1'',
     u_full_name = ''Ada'', u_role = USER, u_kyc_tier = 1, u_is_active = True,
     u_is_email_verified = False, u_deleted_at = None, u_created_at = 0\<rparr>"

definition bo :: user where
  "bo = ada\<lparr>u_id := 2, u_email := ''bo@x.io'', u_full_name := ''Bo'', u_kyc_tier := 2\<rparr>"

definition mo :: user where
  "mo = ada\<lparr>u_id := 3, u_email := ''mo@x.io'', u_full_name := ''Mo'', u_role := MERCHANT\<rparr>"

definition root :: user where
  "root = ada\<lparr>u_id := 4, u_email := ''root@x.io'', u_full_name := ''Root'', u_role := ADMIN\<rparr>"

definition wallet_of :: "uuid \<Rightarrow> uuid \<Rightarrow> money \<Rightarrow> wallet" where
  "wallet_of i u b = (new_wallet i 0 u ''NGN'')\<lparr>w_balance := b\<rparr>"

definition funded :: "uuid \<Rightarrow> string \<Rightarrow> uuid \<Rightarrow> uuid \<Rightarrow> money \<Rightarrow> transaction" where
  "funded i ref w u a = (new_transaction i 0 ref FUNDING a u)
     \<lparr>t_status := COMPLETED, t_destination_wallet_id := Some w, t_provider_reference := Some ref\<rparr>"

definition credit_entry :: "uuid \<Rightarrow> uuid \<Rightarrow> uuid \<Rightarrow> money \<Rightarrow> ledger_entry" where
  "credit_entry i t w a = \<lparr>e_id = i, e_transaction_id = t, e_wallet_id = w, e_entry_type = CREDIT,
     e_amount = a, e_currency = ''NGN'', e_balance_after = a, e_created_at = 0\<rparr>"

definition example_db :: db where
  "example_db = empty_db
     \<lparr>users := [ada, bo, mo, root],
      wallets := [wallet_of 11 1 (naira 1000), wallet_of 12 2 (naira 500), wallet_of 13 3 0],
      transactions := [funded 21 ''f1'' 11 1 (naira 1000), funded 22 ''f2'' 12 2 (naira 500)],
      ledger_entries := [credit_entry 31 21 11 (naira 1000), credit_entry 32 22 12 (naira 500)],
      merchants := [\<lparr>m_id = 41, m_user_id = 3, m_business_name = ''Mo'', m_api_key_hash = ''k'',
        m_api_key_prefix = ''pk_live_'', m_webhook_url = Some ''https://mo'', m_webhook_secret = Some ''s'',
        m_is_active = True, m_deleted_at = None, m_created_at = 0\<rparr>],
      kyc_submissions := [\<lparr>k_id = 51, k_user_id = 1, k_requested_tier = 2, k_status = KYC_PENDING,
        k_document_key = ''d'', k_reviewer_id = None, k_rejection_reason = None, k_reviewed_at = None,
        k_created_at = 0\<rparr>],
      bank_accounts := [\<lparr>b_id = 61, b_user_id = 2, b_account_name = ''Bo'', b_account_number = ''123456'',
        b_bank_code = ''01'', b_bank_name = ''B'', b_is_default = True, b_paystack_recipient_code = None,
        b_deleted_at = None, b_created_at = 0\<rparr>]\<rparr>"

definition example_env :: env where
  "example_env = \<lparr>now = 86400000000, uuid4 = (\<lambda>n. word_of_nat (1000 + n)), broker_up = True\<rparr>"

text \<open>The example meets the invariants.\<close>

lemma example_sound: "sound example_db"
  by code_simp

lemma example_kyc_ok: "kyc_ok example_db"
  by code_simp

lemma example_fresh_key: "find_existing None d = Inr None"
  by (simp add: find_existing_def)

end
