(* ===== verification/Example_System.thy ===== *)
theory Example_System
  imports System Example_Data
begin

text \<open>
  A concrete run of the whole program for the witnesses: a user registers, opens a funding, Paystack's
  signed notification arrives and its task credits the wallet. The outside world is as simple as
  it can be: a password is its own hash, a token is the id of its user.
\<close>

lemma uuid_str_nonempty: "uuid_str u \<noteq> []"
  by (simp add: uuid_str_def Let_def)

lemma example_db_ok: "db_ok example_db"
proof -
  have "accounts_ok example_db" by (simp add: accounts_ok_def live_accounts_def defaults_def example_db_def)
  then show ?thesis
    using example_sound example_kyc_ok by (simp add: db_ok_def) (simp add: example_db_def empty_db_def)
qed

definition example_crypto :: crypto where
  "example_crypto = \<lparr>hashpw = (\<lambda>p. p), checkpw = (\<lambda>p h. p = h), sha256 = (\<lambda>s. s),
     jwt_encode = (\<lambda>c. get_or '''' (c_sub c)),
     jwt_decode = (\<lambda>ts tok. if tok = [] then Inl PyJWTError else
       Inr \<lparr>c_sub = Some tok, c_role = None, c_type = Some ''access'', c_iat = ts, c_exp = ts\<rparr>),
     token_urlsafe = ''rt''\<rparr>"

definition example_paystack :: http_client where
  "example_paystack = \<lparr>
     http_post = (\<lambda>path payload. Answer 200 (Body (Some (empty_data
       \<lparr>ev_reference := Some ''ps1'', ev_authorization_url := Some ''https://pay'', ev_recipient_code := Some ''RCP'',
        ev_transfer_code := Some ''TRF''\<rparr>)))),
     http_get = (\<lambda>path. Answer 200 (Body (Some (empty_data\<lparr>ev_status := Some ''success'', ev_amount := Some 100000\<rparr>))))\<rparr>"

definition example_outside :: outside where
  "example_outside = \<lparr>o_settings = default_settings\<lparr>PAYSTACK_WEBHOOK_SECRET := ''s''\<rparr>, o_crypto = example_crypto,
     o_paystack = example_paystack, o_put_object = (\<lambda>k b. True), o_presign = (\<lambda>k n. Some k),
     o_hmac512 = (\<lambda>k m. k @ m), o_hmac256 = (\<lambda>k m. k @ m),
     o_loads = (\<lambda>s. Some (Some ''charge.success'', Some (empty_data\<lparr>ev_reference := Some s, ev_amount := Some 100000\<rparr>))),
     o_dumps = (\<lambda>j. ''''), o_post = (\<lambda>u b h. Inr 200), o_email_ok = Some\<rparr>"

definition env_at :: "nat \<Rightarrow> env" where
  "env_at k = \<lparr>now = 86400000000 * (int k + 1), uuid4 = (\<lambda>n. word_of_nat (1000 * k + n)), broker_up = True\<rparr>"

definition serve :: "env \<Rightarrow> request \<Rightarrow> system \<Rightarrow> system" where
  "serve en r s = (let (a, d, out) = run (handle example_outside en r) (database s)
     in \<lparr>database = d, queue = queue s @ out\<rparr>)"

text \<open>The worker takes the first task of the queue, if there is one.\<close>

definition work_on :: "env \<Rightarrow> system \<Rightarrow> system" where
  "work_on en s = (case queue s of [] \<Rightarrow> s
     | t # ts \<Rightarrow> (let (a, d, out) = run (perform example_outside en t) (database s)
         in \<lparr>database = d, queue = queue s @ out\<rparr>))"

lemma reachable_serve: "reachable example_outside s \<Longrightarrow> reachable example_outside (serve en r s)"
  by (cases s) (auto simp: serve_def split: prod.split elim!: reachable.later intro: step.request)

lemma work_on_steps: "(step example_outside)\<^sup>*\<^sup>* s (work_on en s)"
proof (cases "queue s")
  case Nil
  then show ?thesis by (simp add: work_on_def)
next
  case (Cons t ts)
  obtain a d out where r: "run (perform example_outside en t) (database s) = (a, d, out)" by (cases rule: prod_cases3)
  have "step example_outside s \<lparr>database = d, queue = queue s @ out\<rparr>"
    using step.work [OF _ r, of "queue s"] Cons by (cases s) simp
  then show ?thesis using Cons r by (simp add: work_on_def)
qed

lemma reachable_work_on: "reachable example_outside s \<Longrightarrow> reachable example_outside (work_on en s)"
  by (rule reachable_steps [OF work_on_steps])

definition sys0 :: system where
  "sys0 = \<lparr>database = empty_db\<lparr>users := [root]\<rparr>, queue = []\<rparr>"

definition sys1 :: system where
  "sys1 = serve (env_at 1) (Public (PostRegister
     \<lparr>rb_email = ''ada@x.io'', rb_password = ''passw0rd'', rb_full_name = ''Ada'', rb_phone = None\<rparr>)) sys0"

definition sys2 :: system where
  "sys2 = serve (env_at 2) (AsUser (uuid_str 1000) (PostFund \<lparr>pb_amount = naira 1000, pb_idempotency_key = None\<rparr>)) sys1"

definition sys3 :: system where
  "sys3 = serve (env_at 3) (Public (PostPaystackWebhook ''ps1'' (Some ''sps1''))) sys2"

definition sys4 :: system where
  "sys4 = work_on (env_at 4) sys3"

lemma reachable_sys0: "reachable example_outside sys0"
  by (rule reachable.init) (auto simp: initial_def initial_db_def sys0_def intro!: exI [of _ "[root]"])

lemma reachable_sys3: "reachable example_outside sys3"
  unfolding sys3_def sys2_def sys1_def by (intro reachable_serve reachable_sys0)

lemma reachable_sys4: "reachable example_outside sys4"
  unfolding sys4_def by (intro reachable_work_on reachable_sys3)

lemma sys3_to_sys4: "(step example_outside)\<^sup>*\<^sup>* sys3 sys4"
  unfolding sys4_def by (rule work_on_steps)

lemma serve_steps: "(step example_outside)\<^sup>*\<^sup>* s (serve en r s)"
  by (cases s) (auto simp: serve_def split: prod.split intro: step.request)

lemma sys0_to_sys4: "(step example_outside)\<^sup>*\<^sup>* sys0 sys4"
proof -
  have "(step example_outside)\<^sup>*\<^sup>* sys0 sys3"
    unfolding sys3_def sys2_def sys1_def by (meson serve_steps rtranclp_trans)
  then show ?thesis using sys3_to_sys4 by (rule rtranclp_trans)
qed

text \<open>
  The last task turns the pending funding into a completed one and credits the wallet. Both states are
  summarised in one evaluation.
\<close>

type_synonym summary = "(uuid \<times> money) list \<times> (uuid \<times> transaction_status) list \<times> money list \<times> uuid list"

definition summary :: "db \<Rightarrow> summary" where
  "summary d = (map (\<lambda>w. (w_id w, w_balance w)) (wallets d), map (\<lambda>t. (t_id t, t_status t)) (transactions d),
     map e_amount (ledger_entries d), map u_id (users d))"

definition summaries :: "system \<Rightarrow> summary \<times> summary" where
  "summaries s = (summary (database s), summary (database (work_on (env_at 4) s)))"

lemma example_summaries:
  "summaries sys3 = (([(1001, 0)], [(2001, PENDING)], [], [4, 1000]),
     ([(1001, naira 1000)], [(2001, COMPLETED)], [naira 1000], [4, 1000]))"
  by code_simp

lemma sys3_summary: "summary (database sys3) = ([(1001, 0)], [(2001, PENDING)], [], [4, 1000])"
  and sys4_summary: "summary (database sys4) = ([(1001, naira 1000)], [(2001, COMPLETED)], [naira 1000], [4, 1000])"
  using example_summaries by (simp_all add: summaries_def sys4_def)

end
