(* ===== verification/Properties_System.thy ===== *)
theory Properties_System
  imports Example_System
begin

text \<open>
  What holds of the whole program, whatever sequence of requests and tasks it has run: the books
  balance, history is kept, nobody's money moves without them, and only administrators administrate.
\<close>

section \<open>The books\<close>

lemma distinct_constant:
  assumes "distinct (map f xs)" and "\<And>x. x \<in> set xs \<Longrightarrow> f x = c"
  shows "length xs \<le> 1"
proof (cases xs)
  case (Cons x ys)
  then show ?thesis using assms by (cases ys) auto
qed simp

lemma sys4_wallet:
  obtains wa where "wa \<in> set (wallets (database sys4))" "w_id wa = 1001" "w_balance wa = naira 1000"
  using sys4_summary by (auto simp: summary_def map_eq_Cons_conv)

lemma sys4_transaction:
  obtains t where "t \<in> set (transactions (database sys4))" "t_id t = 2001" "t_status t = COMPLETED"
  using sys4_summary by (auto simp: summary_def map_eq_Cons_conv)

text \<open>C1. In every reachable state, whatever requests, tasks, repetitions and periodic sweeps led there,
  each wallet's balance is not negative and is exactly its credits in the ledger, less its debits,
  less the amounts its open withdrawals hold.\<close>

theorem books_balance:
  assumes "reachable w s" and "wa \<in> set (wallets (database s))"
  shows "0 \<le> w_balance wa \<and> w_balance wa =
      entry_sum CREDIT (w_id wa) (ledger_entries (database s)) - entry_sum DEBIT (w_id wa) (ledger_entries (database s))
      - held (w_id wa) (transactions (database s))"
proof -
  have "sound (database s)" using sound.reachable [OF assms(1)] by blast
  from soundD(5,6) [OF this assms(2)] show ?thesis by (simp add: book_balance_def)
qed

theorem books_balance_witness:
  "\<exists>wa. wa \<in> set (wallets (database sys4)) \<and> w_balance wa = naira 1000 \<and>
     naira 1000 = entry_sum CREDIT (w_id wa) (ledger_entries (database sys4))
       - entry_sum DEBIT (w_id wa) (ledger_entries (database sys4)) - held (w_id wa) (transactions (database sys4))"
proof -
  obtain wa where "wa \<in> set (wallets (database sys4))" "w_balance wa = naira 1000" by (rule sys4_wallet)
  moreover from this books_balance [OF reachable_sys4] show ?thesis by metis
qed

text \<open>C2. In every reachable state the ledger holds for a transaction exactly the entries its type asks for:
  none before it is COMPLETED; then a DEBIT of the source and a CREDIT of the destination, two
  different wallets, of its amount for a transfer or a payment; one DEBIT of its amount for a
  withdrawal; one CREDIT for a funding. The type REVERSAL never occurs.\<close>

theorem double_entry:
  assumes "reachable w s" and "t \<in> set (transactions (database s))"
    and ps: "ps = postings (t_id t) (ledger_entries (database s))"
  shows "(t_status t \<noteq> COMPLETED \<longrightarrow> ps = []) \<and>
    (t_status t = COMPLETED \<longrightarrow> (case t_type t of
        FUNDING \<Rightarrow> \<exists>dst x. t_destination_wallet_id t = Some dst \<and> ps = [(CREDIT, dst, x)]
      | WITHDRAWAL \<Rightarrow> \<exists>src. t_source_wallet_id t = Some src \<and> ps = [(DEBIT, src, t_amount t)]
      | REVERSAL \<Rightarrow> False
      | _ \<Rightarrow> \<exists>src dst. t_source_wallet_id t = Some src \<and> t_destination_wallet_id t = Some dst \<and> src \<noteq> dst \<and>
               ps = [(DEBIT, src, t_amount t), (CREDIT, dst, t_amount t)])) \<and>
    t_type t \<noteq> REVERSAL"
proof -
  have "sound (database s)" using sound.reachable [OF assms(1)] by blast
  from soundD(7,8) [OF this assms(2)] show ?thesis
    unfolding ps txn_ok_def posted_as_def
    by (cases "t_type t") (auto simp: map_eq_Cons_conv)
qed

theorem double_entry_witness:
  "\<exists>t. t \<in> set (transactions (database sys4)) \<and> t_status t = COMPLETED \<and> t_type t \<noteq> REVERSAL"
proof -
  obtain t where "t \<in> set (transactions (database sys4))" "t_status t = COMPLETED" by (rule sys4_transaction)
  with double_entry [OF reachable_sys4 this(1) refl] show ?thesis by blast
qed

text \<open>C23. In every reachable state a user has at most one withdrawal that is PENDING or PROCESSING.\<close>

theorem one_open_withdrawal:
  assumes "reachable w s"
  shows "length (filter (\<lambda>t. active_withdrawal t \<and> t_initiated_by_user_id t = u) (transactions (database s))) \<le> 1"
proof -
  have "active_ok (transactions (database s))"
    using sound.reachable [OF assms] by (simp add: sound_def sound_tables_def)
  then have "distinct (map t_initiated_by_user_id (filter (\<lambda>t. t_initiated_by_user_id t = u)
      (filter active_withdrawal (transactions (database s)))))"
    unfolding active_ok_def by (rule distinct_map_filter)
  from distinct_constant [OF this, of u] show ?thesis by (simp add: conj_commute)
qed

theorem one_open_withdrawal_witness:
  "length (filter (\<lambda>t. active_withdrawal t \<and> t_initiated_by_user_id t = 1000) (transactions (database sys4))) \<le> 1"
  by (rule one_open_withdrawal [OF reachable_sys4])

text \<open>Every transaction of a reachable state is for a positive amount.\<close>

interpretation amounts: invariant amounts_ok
proof
  show "initial_db d \<Longrightarrow> amounts_ok d" for d by (auto simp: initial_db_def amounts_ok_def empty_db_def)
qed (rule amounts_ok_change)

lemma amounts_positive:
  assumes "reachable w s" and "t \<in> set (transactions (database s))"
  shows "0 < t_amount t"
  using amounts.reachable [OF assms(1)] assms(2) by (simp add: amounts_ok_def)

section \<open>History\<close>

text \<open>C24. Nothing ever edits or removes a ledger entry or an audit record: what a reachable state holds is
  the beginning of what every later state holds.\<close>

theorem ledger_and_audit_append_only:
  assumes "reachable w s" and "(step w)\<^sup>*\<^sup>* s s'"
  shows "prefix (ledger_entries (database s)) (ledger_entries (database s')) \<and>
    prefix (audit_logs (database s)) (audit_logs (database s'))"
  using steps_evolve [OF assms(2,1)] by (simp add: evolves_def)

theorem ledger_and_audit_append_only_witness:
  "prefix (ledger_entries (database sys3)) (ledger_entries (database sys4)) \<and> length (ledger_entries (database sys4)) = 1"
  using ledger_and_audit_append_only [OF reachable_sys3 sys3_to_sys4] sys4_summary
  by (auto simp: summary_def map_eq_Cons_conv)

text \<open>C8. A transaction is never removed. It keeps its reference, type, amount, currency, wallets, owner,
  idempotency key and time; its status only moves along the transitions VALID_TRANSITIONS allows, so
  FAILED and REVERSED are final and COMPLETED can only be reversed; a risk flag is never lifted.\<close>

theorem transactions_only_advance:
  assumes "reachable w s" and "(step w)\<^sup>*\<^sup>* s s'" and "t \<in> set (transactions (database s))"
  shows "\<exists>t'. t' \<in> set (transactions (database s')) \<and> t_id t' = t_id t \<and> t_reference t' = t_reference t \<and>
    t_type t' = t_type t \<and> t_amount t' = t_amount t \<and> t_currency t' = t_currency t \<and>
    t_source_wallet_id t' = t_source_wallet_id t \<and> t_destination_wallet_id t' = t_destination_wallet_id t \<and>
    t_initiated_by_user_id t' = t_initiated_by_user_id t \<and> t_idempotency_key t' = t_idempotency_key t \<and>
    t_created_at t' = t_created_at t \<and> (t_risk_flagged t \<longrightarrow> t_risk_flagged t') \<and>
    (\<lambda>st st'. st' \<in> set (valid_transitions st))\<^sup>*\<^sup>* (t_status t) (t_status t')"
proof -
  have "grows txn_leads (transactions (database s)) (transactions (database s'))"
    using steps_evolve [OF assms(2,1)] by (simp add: evolves_def)
  from growsD [OF this assms(3)] show ?thesis by (auto simp: txn_leads_def status_leads_def)
qed

theorem transactions_only_advance_witness:
  "\<exists>t t'. t \<in> set (transactions (database sys3)) \<and> t_status t = PENDING \<and> t' \<in> set (transactions (database sys4)) \<and>
     t_id t' = t_id t \<and> t_amount t' = t_amount t"
proof -
  obtain t where t: "t \<in> set (transactions (database sys3))" "t_status t = PENDING"
    using sys3_summary by (auto simp: summary_def map_eq_Cons_conv)
  with transactions_only_advance [OF reachable_sys3 sys3_to_sys4 t(1)] show ?thesis by blast
qed

text \<open>The users who are administrators.\<close>

definition admins :: "db \<Rightarrow> uuid set" where
  "admins d = u_id ` {u \<in> set (users d). u_role u = ADMIN}"

lemma admins_frame: "users d' = users d \<Longrightarrow> admins d' \<subseteq> admins d"
  by (simp add: admins_def)

lemma admins_change: "change l d d' \<Longrightarrow> admins d' \<subseteq> admins d"
proof (induction rule: change.induct)
  case (user_added u d l)
  then show ?case by (auto simp: admins_def)
next
  case (merchant_role i d)
  then show ?case by (auto simp: admins_def elim!: set_updE)
next
  case (kyc_approved k d u ts)
  show ?case by (auto simp: admins_def approved_def elim!: set_updE intro: rev_image_eqI)
qed (rule admins_frame, simp)+

interpretation admins: history "\<lambda>l d d'. admins d' \<subseteq> admins d"
  by unfold_locales (auto dest: admins_change)

lemma steps_admins: "(step w)\<^sup>*\<^sup>* s s' \<Longrightarrow> reachable w s \<Longrightarrow> admins (database s') \<subseteq> admins (database s)"
proof (induction rule: rtranclp_induct)
  case (step s1 s2)
  then have "db_ok (database s1)" using reachable_ok reachable_steps by blast
  then have "admins (database s2) \<subseteq> admins (database s1)"
    using step_changes [OF step(2)] admins.changes db_okD(1) by blast
  then show ?case using step by blast
qed simp

text \<open>C25. No request and no task makes anyone an administrator. A user's id, email and password hash stay,
  the only change of role is to MERCHANT, and a KYC tier never falls.\<close>

theorem users_only_advance:
  assumes "reachable w s" and "(step w)\<^sup>*\<^sup>* s s'"
  shows "u_id ` {u \<in> set (users (database s')). u_role u = ADMIN} \<subseteq> u_id ` {u \<in> set (users (database s)). u_role u = ADMIN} \<and>
    (\<forall>u\<in>set (users (database s)). \<exists>u'\<in>set (users (database s')). u_id u' = u_id u \<and> u_email u' = u_email u \<and>
       u_hashed_password u' = u_hashed_password u \<and> (u_role u' = u_role u \<or> u_role u' = MERCHANT) \<and>
       u_kyc_tier u \<le> u_kyc_tier u')"
proof -
  have g: "grows user_leads (users (database s)) (users (database s'))"
    using steps_evolve [OF assms(2,1)] by (simp add: evolves_def)
  have "\<exists>u'\<in>set (users (database s')). user_leads u u'" if "u \<in> set (users (database s))" for u
    using growsD [OF g that] .
  then show ?thesis using steps_admins [OF assms(2,1)] unfolding admins_def user_leads_def by blast
qed

theorem users_only_advance_witness:
  "u_id ` {u \<in> set (users (database sys4)). u_role u = ADMIN} \<subseteq> {4} \<and> 1000 \<in> u_id ` set (users (database sys4))"
proof -
  have steps: "(step example_outside)\<^sup>*\<^sup>* sys0 sys4" by (rule sys0_to_sys4)
  have "u_id ` {u \<in> set (users (database sys0)). u_role u = ADMIN} \<subseteq> {4}" by (auto simp: sys0_def root_def ada_def)
  then have "u_id ` {u \<in> set (users (database sys4)). u_role u = ADMIN} \<subseteq> {4}"
    using users_only_advance [OF reachable_sys0 steps] by blast
  moreover have "map u_id (users (database sys4)) = [4, 1000]" using sys4_summary by (simp add: summary_def)
  then have "set (map u_id (users (database sys4))) = {4, 1000}" by (simp only: list.set)
  ultimately show ?thesis by auto
qed

text \<open>A webhook delivery keeps its merchant, transaction and payload, its attempt count never falls,
  and once DELIVERED it does not change any more; a reviewed KYC submission does not change any more
  either.\<close>

lemma deliveries_and_reviews_final:
  assumes "reachable w s" and "(step w)\<^sup>*\<^sup>* s s'"
  shows "(\<forall>x\<in>set (webhook_deliveries (database s)). \<exists>y\<in>set (webhook_deliveries (database s')).
      d_id y = d_id x \<and> d_merchant_id y = d_merchant_id x \<and> d_transaction_id y = d_transaction_id x \<and>
      d_payload y = d_payload x \<and> d_attempt_count x \<le> d_attempt_count y \<and> (d_status x = WD_DELIVERED \<longrightarrow> y = x)) \<and>
    (\<forall>k\<in>set (kyc_submissions (database s)). k_status k \<noteq> KYC_PENDING \<longrightarrow> k \<in> set (kyc_submissions (database s')))"
proof -
  have d: "grows delivery_leads (webhook_deliveries (database s)) (webhook_deliveries (database s'))"
    and k: "grows submission_leads (kyc_submissions (database s)) (kyc_submissions (database s'))"
    using steps_evolve [OF assms(2,1)] by (simp_all add: evolves_def)
  have "\<exists>y\<in>set (webhook_deliveries (database s')). delivery_leads x y" if "x \<in> set (webhook_deliveries (database s))" for x
    using growsD [OF d that] .
  moreover have "k \<in> set (kyc_submissions (database s'))"
    if "k \<in> set (kyc_submissions (database s))" "k_status k \<noteq> KYC_PENDING" for k
    using growsD [OF k that(1)] that(2) by (auto simp: submission_leads_def)
  ultimately show ?thesis unfolding delivery_leads_def by blast
qed

section \<open>Invariants of the other tables\<close>

text \<open>In every reachable state a user who has bank accounts that are not deleted has exactly one default
  among them, and a user without any has none.\<close>

lemma one_default_account:
  assumes "reachable w s"
  shows "length (filter b_is_default (live_accounts u (database s))) =
    (if live_accounts u (database s) = [] then 0 else 1)"
  using accounts.reachable [OF assms] by (simp add: accounts_ok_def defaults_def)

text \<open>C26. In every reachable state a user has at most one submission per tier that was not rejected, a
  pending submission asks for the tier directly above the user's, and an approved one for a tier
  the user has reached.\<close>

theorem kyc_tiers_in_order:
  assumes "reachable w s"
  shows "length (filter (\<lambda>k. k_user_id k = u \<and> k_requested_tier k = tier \<and> k_status k \<noteq> KYC_REJECTED)
      (kyc_submissions (database s))) \<le> 1 \<and>
    (\<forall>k\<in>set (kyc_submissions (database s)). \<exists>u\<in>set (users (database s)). u_id u = k_user_id k \<and>
      (k_status k = KYC_PENDING \<longrightarrow> k_requested_tier k = u_kyc_tier u + 1) \<and>
      (k_status k = KYC_APPROVED \<longrightarrow> k_requested_tier k \<le> u_kyc_tier u))"
proof -
  have ok: "kyc_ok (database s)" using kyc.reachable [OF assms(1)] by blast
  let ?mine = "filter (\<lambda>k. k_user_id k = u \<and> k_requested_tier k = tier) (filter active_submission (kyc_submissions (database s)))"
  have "distinct (map (\<lambda>k. (k_user_id k, k_requested_tier k)) ?mine)"
    by (rule distinct_map_filter [OF kyc_okD(4) [OF ok]])
  then have "length ?mine \<le> 1" by (rule distinct_constant [where c = "(u, tier)"]) simp
  moreover have "\<exists>u\<in>set (users (database s)). u_id u = k_user_id k \<and>
      (k_status k = KYC_PENDING \<longrightarrow> k_requested_tier k = u_kyc_tier u + 1) \<and>
      (k_status k = KYC_APPROVED \<longrightarrow> k_requested_tier k \<le> u_kyc_tier u)" if k: "k \<in> set (kyc_submissions (database s))" for k
  proof -
    obtain u where "u \<in> set (users (database s))" "u_id u = k_user_id k"
      using kyc_okD(3) [OF ok] k by (fastforce simp: image_iff)
    then show ?thesis using kyc_okD(5) [OF ok k] unfolding tier_fits_def by blast
  qed
  ultimately show ?thesis by (simp add: active_submission_def conj_ac)
qed

theorem kyc_tiers_in_order_witness:
  "length (filter (\<lambda>k. k_user_id k = 1000 \<and> k_requested_tier k = 1 \<and> k_status k \<noteq> KYC_REJECTED)
      (kyc_submissions (database sys4))) \<le> 1"
  using kyc_tiers_in_order [OF reachable_sys4, of 1000 1] by blast

end
