(* ===== verification/Access_Control.thy ===== *)
theory Access_Control
  imports System
begin

text \<open>
  Requests that only read: a run that raises or returns with the session as it found it. The rules
  follow the structure of an endpoint like those of \<open>refines\<close>.
\<close>

named_theorems reads_intros \<open>rules for runs that leave the session alone\<close>

definition reads :: "session \<Rightarrow> 'a svc \<Rightarrow> bool" where
  "reads s m \<longleftrightarrow> wp m (\<lambda>_ s'. s' = s) (\<lambda>_ s'. s' = s) s"

lemma reads_run: "reads (fresh_session d) m \<Longrightarrow> run m d = (r, d', out) \<Longrightarrow> d' = d \<and> out = []"
  by (cases r) (auto simp: reads_def run_def wp_def fresh_session_def split: prod.splits)

lemma reads_return [reads_intros]: "reads s (returnS x)"
  by (simp add: reads_def wp_rules)

lemma reads_raise [reads_intros]: "reads s (raiseS e)"
  by (simp add: reads_def wp_rules)

lemma reads_query [reads_intros]: "reads s (query q)"
  by (simp add: reads_def wp_rules split: sum.split)

lemma reads_bind [reads_intros]:
  assumes "reads s m" and "\<And>a. fst (m s) = Inr a \<Longrightarrow> reads s (f a)"
  shows "reads s (bindS m f)"
  using assms by (auto simp: reads_def wp_def bindS_def split: prod.splits sum.splits)

lemma reads_select [reads_intros]: "reads s (select q)"
  by (simp add: reads_def wp_rules)

lemma reads_if [reads_intros]: "(b \<Longrightarrow> reads s m) \<Longrightarrow> (\<not> b \<Longrightarrow> reads s n) \<Longrightarrow> reads s (if b then m else n)"
  by simp

lemma reads_option [reads_intros]:
  "(x = None \<Longrightarrow> reads s m) \<Longrightarrow> (\<And>a. x = Some a \<Longrightarrow> reads s (f a)) \<Longrightarrow> reads s (case x of None \<Rightarrow> m | Some a \<Rightarrow> f a)"
  by (cases x) simp_all

lemma reads_prod [reads_intros]: "(\<And>a b. x = (a, b) \<Longrightarrow> reads s (f a b)) \<Longrightarrow> reads s (case x of (a, b) \<Rightarrow> f a b)"
  by (cases x) simp

text \<open>The requests that read: every GET.\<close>

fun is_get_user :: "user_request \<Rightarrow> bool" where
  "is_get_user GetMyProfile = True"
| "is_get_user GetMyWallet = True"
| "is_get_user (GetMyTransactions l m) = True"
| "is_get_user (GetTransactions l m ty st) = True"
| "is_get_user (GetTransaction ref) = True"
| "is_get_user GetMerchant = True"
| "is_get_user GetBankAccounts = True"
| "is_get_user (GetWithdrawal ref) = True"
| "is_get_user GetMyKyc = True"
| "is_get_user _ = False"

fun is_get_admin :: "admin_request \<Rightarrow> bool" where
  "is_get_admin (AdminApproveKyc i) = False"
| "is_get_admin (AdminRejectKyc i r) = False"
| "is_get_admin AdminReconcile = False"
| "is_get_admin _ = True"

fun is_get :: "request \<Rightarrow> bool" where
  "is_get (Public r) = False"
| "is_get (AsUser tok r) = is_get_user r"
| "is_get (AsAdmin tok r) = is_get_admin r"

lemma reads_handle_user: "is_get_user r \<Longrightarrow> reads s (handle_user w en tok r)"
  by (cases r; simp only: is_get_user.simps handle_user.simps user_endpoints answer_def current_user_def validated_def;
      (intro reads_intros)?)

lemma reads_handle_admin: "is_get_admin r \<Longrightarrow> reads s (handle_admin w en tok r)"
  by (cases r; simp only: is_get_admin.simps handle_admin.simps admin_endpoints answer_def current_admin_def current_user_def
        validated_def; (intro reads_intros)?)

lemma reads_handle: "is_get r \<Longrightarrow> reads s (handle w en r)"
  by (cases r) (simp_all add: reads_handle_user reads_handle_admin)

section \<open>Who may do what\<close>

lemma run_as_user:
  assumes "get_current_user (o_crypto w) en tok d = Inl e"
  shows "run (bindS (current_user w en tok) f) d = (Inl e, d, [])"
  using assms by (simp add: run_def bindS_def current_user_def query_def askS_def raiseS_def fresh_session_def)

lemma run_as_admin:
  assumes "get_current_user (o_crypto w) en tok d = Inl e \<or>
    (\<exists>u. get_current_user (o_crypto w) en tok d = Inr u \<and> u_role u \<noteq> ADMIN \<and> e = ForbiddenError ''Insufficient permissions.'')"
  shows "run (bindS (current_admin w en tok) f) d = (Inl e, d, [])"
  using assms
proof (elim disjE exE conjE)
  fix u assume u: "get_current_user (o_crypto w) en tok d = Inr u" "u_role u \<noteq> ADMIN"
    "e = ForbiddenError ''Insufficient permissions.''"
  then have "require_role [''admin''] u = Inl e" by (cases "u_role u") (simp_all add: require_role_def)
  with u show ?thesis
    by (simp add: run_def bindS_def current_admin_def current_user_def query_def askS_def raiseS_def returnS_def fresh_session_def)
qed (simp add: current_admin_def bindS_assoc run_as_user)

lemma answer_bind: "answer C (bindS m f) = bindS m (\<lambda>x. answer C (f x))"
  by (simp add: answer_def bindS_assoc)

lemma handle_user_starts: "\<exists>f. handle_user w en tok r = bindS (current_user w en tok) f"
  by (cases r; simp only: handle_user.simps user_endpoints answer_bind; blast)

lemma handle_admin_starts: "\<exists>f. handle_admin w en tok r = bindS (current_admin w en tok) f"
  by (cases r; simp only: handle_admin.simps admin_endpoints answer_bind; blast)

lemma get_current_user_error:
  assumes "get_current_user c en tok d = Inl e" and "distinct (map u_id (users d))"
  shows "status_code e \<in> {401, 403}"
proof -
  have "user_get_by_id i d \<noteq> Inl x" for i x
    unfolding user_get_by_id_def using scalar_key_total [OF assms(2), of i "\<lambda>u. u_deleted_at u = None"] by force
  with assms(1) show ?thesis
    by (auto simp: get_current_user_def bindE_def split: sum.splits jwt_error.splits if_splits option.splits)
qed

end
