(* ===== verification/Atomicity.thy ===== *)
theory Atomicity
  imports Access_Control
begin

text \<open>
  What a request that fails leaves behind: nothing. \<open>untouched en d e s\<close> describes the session of a
  run on \<open>d\<close> that raised \<open>e\<close>; the only exception is a message broker that cannot be reached after
  the money moved. One rule per service, in the order of the code.
\<close>

named_theorems atomic_intros \<open>services that raise only before they commit\<close>

definition untouched :: "env \<Rightarrow> db \<Rightarrow> exn \<Rightarrow> session \<Rightarrow> bool" where
  "untouched en d e s \<longleftrightarrow> committed s = d \<and> outbox s = [] \<or> e = BrokerError \<and> \<not> broker_up en"

lemma untouchedI: "committed s = d \<Longrightarrow> outbox s = [] \<Longrightarrow> untouched en d e s"
  by (simp add: untouched_def)

lemma untouched_fresh [simp]: "untouched en d e (fresh_session d)"
  by (simp add: untouched_def)

section \<open>Accounts\<close>

lemma atomic_register [atomic_intros]: "(\<And>a s'. Q a s') \<Longrightarrow> wp (register cfg c en email pw name phone) Q (untouched en d) (fresh_session d)"
  unfolding register_def create_wallet_def store_refresh_token_def user_create_def wallet_create_def
  by (intro wp_intros wp_audit_clean; simp add: untouched_def)

lemma atomic_login [atomic_intros]: "(\<And>a s'. Q a s') \<Longrightarrow> wp (login cfg c en email pw) Q (untouched en d) (fresh_session d)"
  unfolding login_def store_refresh_token_def
  by (intro wp_intros wp_audit_clean; simp add: untouched_def)

lemma atomic_refresh [atomic_intros]: "(\<And>a s'. Q a s') \<Longrightarrow> wp (refresh cfg c en raw) Q (untouched en d) (fresh_session d)"
  by (rule wp_refresh) (simp_all add: untouched_def)

lemma atomic_logout [atomic_intros]: "(\<And>a s'. Q a s') \<Longrightarrow> wp (logout c raw) Q (untouched en d) (fresh_session d)"
  unfolding logout_def revoke_def by (intro wp_intros; simp add: untouched_def)

lemma atomic_update_profile [atomic_intros]: "(\<And>a s'. Q a s') \<Longrightarrow> wp (update_profile i n p) Q (untouched en d) (fresh_session d)"
  unfolding update_profile_def user_update_profile_def by (intro wp_intros; simp add: untouched_def)

section \<open>Money\<close>

lemma atomic_initiate_funding [atomic_intros]:
  "(\<And>a s'. Q a s') \<Longrightarrow> wp (initiate_funding client en user a key) Q (untouched en d) (fresh_session d)"
  by (rule wp_initiate_funding) (simp_all add: untouched_def)

lemma atomic_initiate_transfer [atomic_intros]:
  "sound d \<Longrightarrow> (\<And>a s'. Q a s') \<Longrightarrow> wp (initiate_transfer cfg en user i e a key) Q (untouched en d) (fresh_session d)"
  by (rule wp_initiate_transfer) (simp_all add: untouched_def soundD)

lemma atomic_initiate_payment [atomic_intros]:
  "sound d \<Longrightarrow> (\<And>a s'. Q a s') \<Longrightarrow> wp (initiate_payment cfg en user i a key) Q (untouched en d) (fresh_session d)"
  by (rule wp_initiate_payment) (simp_all add: untouched_def soundD)

lemma atomic_initiate_withdrawal [atomic_intros]:
  "sound d \<Longrightarrow> (\<And>a s'. Q a s') \<Longrightarrow> wp (initiate_withdrawal cfg en user i a) Q (untouched en d) (fresh_session d)"
  by (rule wp_initiate_withdrawal) (simp_all add: untouched_def soundD)

lemma atomic_add_bank_account [atomic_intros]:
  "(\<And>a s'. Q a s') \<Longrightarrow> wp (add_bank_account cfg client en user n num code bank) Q (untouched en d) (fresh_session d)"
  by (rule wp_add_bank_account) (simp_all add: untouched_def)

lemma atomic_remove_bank_account [atomic_intros]:
  "(\<And>a s'. Q a s') \<Longrightarrow> wp (remove_bank_account en user i) Q (untouched en d) (fresh_session d)"
  unfolding remove_bank_account_def
  by (intro wp_intros; simp add: untouched_def)

section \<open>Merchants and reviews\<close>

lemma atomic_create_merchant [atomic_intros]:
  "(\<And>a s'. Q a s') \<Longrightarrow> wp (create_merchant h en user n) Q (untouched en d) (fresh_session d)"
  unfolding create_merchant_def merchant_create_def wallet_create_def
  by (intro wp_intros wp_audit_clean; simp add: untouched_def)

lemma atomic_rotate_api_key [atomic_intros]:
  "(\<And>a s'. Q a s') \<Longrightarrow> wp (rotate_api_key h en u) Q (untouched en d) (fresh_session d)"
  unfolding rotate_api_key_def update_api_key_def
  by (intro wp_intros wp_audit_clean; simp add: untouched_def)

lemma atomic_update_webhook_config [atomic_intros]:
  "(\<And>a s'. Q a s') \<Longrightarrow> wp (update_webhook_config en u url b) Q (untouched en d) (fresh_session d)"
  unfolding update_webhook_config_def update_webhook_def
  by (intro wp_intros; simp add: untouched_def)

lemma atomic_submit_kyc [atomic_intros]:
  "(\<And>a s'. Q a s') \<Longrightarrow> wp (submit_kyc put en user tier bytes name) Q (untouched en d) (fresh_session d)"
  by (rule wp_submit_kyc) (simp_all add: untouched_def)

lemma atomic_approve_kyc [atomic_intros]:
  "(\<And>a s'. Q a s') \<Longrightarrow> wp (approve_kyc en i user) Q (untouched en d) (fresh_session d)"
  by (rule wp_approve_kyc) (simp_all add: untouched_def)

lemma atomic_reject_kyc [atomic_intros]:
  "(\<And>a s'. Q a s') \<Longrightarrow> wp (reject_kyc en i user reason) Q (untouched en d) (fresh_session d)"
  by (rule wp_reject_kyc) (simp_all add: untouched_def)

lemma atomic_receive_paystack_webhook [atomic_intros]:
  "(\<And>a s'. Q a s') \<Longrightarrow> wp (receive_paystack_webhook hm lo cfg en body sig) Q (untouched en d) (fresh_session d)"
  unfolding receive_paystack_webhook_def
  by (auto simp: wp_rules Let_def delay_def wp_def catchS_def returnS_def raiseS_def split: option.splits)

section \<open>Requests\<close>

lemma atomic_reads:
  assumes "reads (fresh_session d) m" shows "wp m (\<lambda>_ _. True) (untouched en d) (fresh_session d)"
  using wp_mono [OF assms [unfolded reads_def], of "\<lambda>_ _. True" "untouched en d"] by auto

lemma atomic_handle_public: "wp (handle_public w en r) (\<lambda>_ _. True) (untouched en d) (fresh_session d)"
  by (cases r; simp only: handle_public.simps api_register_def api_login_def api_refresh_def api_logout_def answer_def validated_def;
      (intro wp_intros atomic_intros)?; simp)

lemma atomic_handle_user:
  assumes "sound d" shows "wp (handle_user w en tok r) (\<lambda>_ _. True) (untouched en d) (fresh_session d)"
proof (cases "is_get_user r")
  case True
  then show ?thesis by (intro atomic_reads reads_handle_user)
next
  case False
  then show ?thesis
    by (cases r; simp only: is_get_user.simps handle_user.simps user_endpoints answer_def current_user_def validated_def;
        (intro wp_intros atomic_intros assms)?; simp)
qed

lemma atomic_handle_admin: "wp (handle_admin w en tok r) (\<lambda>_ _. True) (untouched en d) (fresh_session d)"
proof (cases "is_get_admin r")
  case True
  then show ?thesis by (intro atomic_reads reads_handle_admin)
next
  case False
  then show ?thesis
    by (cases r; simp only: is_get_admin.simps handle_admin.simps admin_endpoints answer_def current_admin_def current_user_def
          validated_def submission_path_query; (intro wp_intros atomic_intros audit_never_raises [THEN wp_mono])?; simp add: untouched_def)
qed

lemma atomic_handle:
  assumes "sound d" shows "wp (handle w en r) (\<lambda>_ _. True) (untouched en d) (fresh_session d)"
  by (cases r) (simp_all add: atomic_handle_public atomic_handle_user [OF assms] atomic_handle_admin)

end
