(* ===== verification/Properties_Access.thy ===== *)
theory Properties_Access
  imports Atomicity Example_System
begin

text \<open>
  Requests as steps of the abstract specification, and what a request may not do: reach another
  user's money, administrate without the role, act with a bad token, or change anything by reading.
\<close>

lemma example_token: "get_current_user (o_crypto example_outside) en (uuid_str 1) example_db = Inr ada"
  "get_current_user (o_crypto example_outside) en (uuid_str 4) example_db = Inr root"
  by (simp_all add: get_current_user_def example_outside_def example_crypto_def parse_uuid_str uuid_str_nonempty
      user_get_by_id_def example_db_def ada_def bo_def mo_def root_def bindE_def)

text \<open>C6. Every request is a sequence of the changes the abstract specification allows its caller, whether it
  returns or raises: for a request with a good token those of that user, for any other request only
  those that anyone may make. The services never change the tables in another way.\<close>

theorem requests_refine_specification:
  assumes "run (handle w en r) d = (a, d', out)" and "sound d" and "caller w en r d \<in> {None, l}"
  shows "(change l)\<^sup>*\<^sup>* d d'"
  by (rule refines_run [OF refines_handle [OF assms(3,2)] assms(1)])

definition example_transfer :: request where
  "example_transfer = AsUser (uuid_str 1) (PostTransfer
     \<lparr>tb_recipient_user_id = Some 2, tb_recipient_email = None, tb_amount = naira 100, tb_idempotency_key = None\<rparr>)"

lemma example_caller: "caller example_outside en example_transfer example_db = Some 1"
  by (simp add: caller_def example_transfer_def example_token) (simp add: ada_def)

lemma run_cases:
  obtains a d' out where "run m d = (a, d', out)"
  by (cases "run m d") auto

theorem requests_refine_specification_witness:
  "\<exists>a d' out. run (handle example_outside example_env example_transfer) example_db = (a, d', out) \<and>
     (change (Some 1))\<^sup>*\<^sup>* example_db d'"
proof -
  obtain a d' out where r: "run (handle example_outside example_env example_transfer) example_db = (a, d', out)"
    by (rule run_cases)
  from requests_refine_specification [OF r example_sound] example_caller r show ?thesis by blast
qed

text \<open>C7. So does every worker task, with the changes of the system: whatever the task, and however
  often it is delivered.\<close>

theorem tasks_refine_specification:
  assumes "run (perform w en t) d = (a, d', out)" and "sound d"
  shows "(change None)\<^sup>*\<^sup>* d d'"
  by (rule refines_run [OF refines_perform [OF assms(2)] assms(1)])

theorem tasks_refine_specification_witness:
  "\<exists>a d' out. run (perform example_outside example_env CheckStaleTransactions) example_db = (a, d', out) \<and>
     (change None)\<^sup>*\<^sup>* example_db d'"
proof -
  obtain a d' out where r: "run (perform example_outside example_env CheckStaleTransactions) example_db = (a, d', out)"
    by (rule run_cases)
  from tasks_refine_specification [OF r example_sound] r show ?thesis by blast
qed

text \<open>C3. No request, whatever it is and whether it succeeds or fails, takes money from the wallet of a user
  other than the one whose token it carries; the wallet keeps its owner and currency. A request without
  a good token takes money from nobody.\<close>

theorem only_the_owner_spends:
  assumes "run (handle w en r) d = (a, d', out)" and "db_ok d"
    and "x \<in> set (wallets d)" and "caller w en r d \<noteq> Some (w_user_id x)"
  shows "\<exists>y. y \<in> set (wallets d') \<and> w_id y = w_id x \<and> w_user_id y = w_user_id x \<and> w_currency y = w_currency x \<and>
    w_balance x \<le> w_balance y"
proof -
  obtain u where u: "caller w en r d \<in> {None, Some u}" "w_user_id x \<noteq> u"
  proof (cases "caller w en r d")
    case None
    have "w_user_id x \<noteq> w_user_id x + 1" by simp
    then show thesis using that None by blast
  qed (use assms(4) that in auto)
  have "changes (Some u) d d'" by (rule refines_run [OF refines_handle [OF u(1) db_okD(1) [OF assms(2)]] assms(1)])
  then have "grows (spared u) (wallets d) (wallets d')"
    using spares.changes [OF _ assms(2)] by (fastforce simp: spares_def)
  from growsD [OF this assms(3)] show ?thesis using u(2) by (auto simp: spared_def)
qed

theorem only_the_owner_spends_witness:
  "\<exists>a d' out y. run (handle example_outside example_env example_transfer) example_db = (a, d', out) \<and>
     y \<in> set (wallets d') \<and> w_id y = 12 \<and> naira 500 \<le> w_balance y"
proof -
  obtain a d' out where r: "run (handle example_outside example_env example_transfer) example_db = (a, d', out)"
    by (rule run_cases)
  have "wallet_of 12 2 (naira 500) \<in> set (wallets example_db)" by (simp add: example_db_def)
  from only_the_owner_spends [OF r example_db_ok this] r show ?thesis
    by (auto simp: example_caller wallet_of_def)
qed

text \<open>A request to an endpoint that needs a user, made with a token \<open>get_current_user\<close> refuses, is
  answered with that error, 401 or 403, before anything else happens: nothing changes, nothing is sent.\<close>

lemma bad_token_refused:
  assumes "get_current_user (o_crypto w) en tok d = Inl e" and "db_ok d"
  shows "run (handle w en (AsUser tok r)) d = (Inl e, d, []) \<and> status_code e \<in> {401, 403}"
proof -
  obtain f where "handle_user w en tok r = bindS (current_user w en tok) f" using handle_user_starts by blast
  then show ?thesis
    using run_as_user [OF assms(1)] get_current_user_error [OF assms(1) kyc_okD(1) [OF db_okD(2) [OF assms(2)]]] by simp
qed


text \<open>Every administration endpoint refuses a caller who is not an administrator, with 401 or 403, before
  anything else happens: nothing changes, nothing is read out, nothing is sent.\<close>

lemma only_admins_administrate:
  assumes "\<nexists>u. get_current_user (o_crypto w) en tok d = Inr u \<and> u_role u = ADMIN" and "db_ok d"
  shows "\<exists>e. run (handle w en (AsAdmin tok r)) d = (Inl e, d, []) \<and> status_code e \<in> {401, 403}"
proof -
  obtain f where f: "handle_admin w en tok r = bindS (current_admin w en tok) f" using handle_admin_starts by blast
  show ?thesis
  proof (cases "get_current_user (o_crypto w) en tok d")
    case (Inl e)
    then show ?thesis
      using run_as_admin [OF disjI1 [OF Inl]] f get_current_user_error [OF Inl kyc_okD(1) [OF db_okD(2) [OF assms(2)]]] by auto
  next
    case (Inr u)
    then have "run (bindS (current_admin w en tok) f) d = (Inl (ForbiddenError ''Insufficient permissions.''), d, [])"
      using assms(1) by (intro run_as_admin) blast
    then show ?thesis using f by (intro exI [of _ "ForbiddenError ''Insufficient permissions.''"]) simp
  qed
qed


lemma get_changes_nothing:
  assumes "run (handle w en r) d = (a, d', out)" and "is_get r"
  shows "d' = d \<and> out = []"
  by (rule reads_run [OF reads_handle [OF assms(2)] assms(1)])




end
