(* ===== verification/Properties_Money.thy ===== *)
theory Properties_Money
  imports Example_Data
begin

text \<open>
  What a wallet-to-wallet transfer and a merchant payment do: the balances, the transaction row
  and the two ledger entries of a success, the limits it respects, what a failure and a repeated
  request leave behind.
\<close>

section \<open>Transfers\<close>



text \<open>A transfer that raises leaves the database as it was and sends nothing, with one exception:
  when the message broker cannot be reached, the fraud flag's message fails after the money moved
  and the caller sees that error although the transfer is committed.\<close>

lemma transfer_failure:
  assumes "run (initiate_transfer cfg en sender rid email a key) d = (Inl e, d', out)" and "sound d"
  shows "d' = d \<and> out = [] \<or> e = BrokerError \<and> \<not> broker_up en \<and>
    (\<exists>src dst. may_transfer cfg en sender src dst a d \<and> moved en TRANSFER src dst a (u_id sender) key d d')"
  using transfer_ends [OF assms(1) soundD(1) [OF assms(2)]] by auto

text \<open>C21. A transfer that succeeds with an unused key respects the limits of the sender's KYC tier, which is
  not 0: the amount is within the single-transaction limit, what the sender has transferred since
  midnight UTC, this transfer included, is within the daily limit, and no transfer of the same amount
  between the same wallets was made within the duplicate window.\<close>

theorem transfer_within_limits:
  assumes "run (initiate_transfer cfg en sender rid email a key) d = (Inr t, d', out)"
    and "sound d" and "find_existing key d = Inr None"
  shows "u_kyc_tier sender \<noteq> 0 \<and> a \<le> naira (single_limit cfg (u_kyc_tier sender)) \<and>
    get_daily_outgoing_sum (u_id sender) TRANSFER (day_start_of (now en)) d' \<le> naira (daily_limit cfg (u_kyc_tier sender)) \<and>
    (\<exists>src dst. t_source_wallet_id t = Some src \<and> t_destination_wallet_id t = Some dst \<and>
       count_recent_transfers src dst a (now en - seconds (FRAUD_DUPLICATE_WINDOW_SECONDS cfg)) d = 0)"
proof -
  have run: "run (transfer_request cfg en (sender, rid, email) a key) d = (Inr t, d', out)"
    using assms(1) by (simp add: transfer_request_def)
  obtain src dst where m: "may_transfer cfg en sender src dst a d" "moved en TRANSFER src dst a (u_id sender) key d d'"
    "t = moved_txn en TRANSFER src dst a (u_id sender) key"
    by (rule transfer.moves_the_amount [OF run soundD(1) [OF assms(2)] assms(3)]) simp_all
  then have "check_transfer cfg en sender src (w_id dst) a d = Inr ()" by (simp add: may_transfer_def)
  then show ?thesis using m(3) daily_sum_moved [OF m(2)] by (simp add: check_transfer_ok)
qed

text \<open>The run most witnesses below look at: Ada sends Bo 100 NGN.\<close>

lemma example_transfer_returns:
  obtains t d' out where
    "run (initiate_transfer default_settings example_env ada (Some 2) None (naira 100) None) example_db = (Inr t, d', out)"
proof -
  have "\<not> isl (fst (run (initiate_transfer default_settings example_env ada (Some 2) None (naira 100) None) example_db))"
    by code_simp
  then show thesis by (rule run_returns) (rule that)
qed

theorem transfer_within_limits_witness:
  "\<exists>t d' out. run (initiate_transfer default_settings example_env ada (Some 2) None (naira 100) None) example_db = (Inr t, d', out) \<and>
     get_daily_outgoing_sum 1 TRANSFER (day_start_of (now example_env)) d' \<le> naira 50000"
proof -
  obtain t d' out where r: "run (initiate_transfer default_settings example_env ada (Some 2) None (naira 100) None) example_db = (Inr t, d', out)"
    by (rule example_transfer_returns)
  have "u_id ada = 1" "daily_limit default_settings (u_kyc_tier ada) = 50000"
    by (simp_all add: ada_def daily_limit_def default_settings_def)
  with transfer_within_limits [OF r example_sound example_fresh_key] r show ?thesis by metis
qed

text \<open>A transfer request whose idempotency key already belongs to a transaction moves nothing and sends
  nothing; if it does not raise, it answers with that transaction.\<close>

lemma transfer_replay:
  assumes "run (initiate_transfer cfg en sender rid email a key) d = (res, d', out)"
    and "sound d" and "find_existing key d = Inr (Some t)"
  shows "d' = d \<and> out = [] \<and> (\<forall>t'. res = Inr t' \<longrightarrow> t' = t)"
proof -
  have "run (transfer_request cfg en (sender, rid, email) a key) d = (res, d', out)"
    using assms(1) by (simp add: transfer_request_def)
  then show ?thesis by (rule transfer.replay_answers_the_same [OF _ soundD(1) [OF assms(2)] assms(3)])
qed

text \<open>Ada's first funding holds the key k1.\<close>

definition keyed_db :: db where
  "keyed_db = example_db\<lparr>transactions :=
     [(funded 21 ''f1'' 11 1 (naira 1000))\<lparr>t_idempotency_key := Some ''k1''\<rparr>, funded 22 ''f2'' 12 2 (naira 500)]\<rparr>"


section \<open>Merchant payments\<close>




end
