(* ===== verification/Event_Handlers.thy ===== *)
theory Event_Handlers
  imports System
begin

text \<open>
  The handlers of Paystack's events under redelivery: Paystack repeats a notification it did not see
  acknowledged, and the queue repeats a task. Each handler is a function of the committed database
  that either raises and changes nothing, or returns and is idle on the same event from then on.
\<close>

text \<open>What one delivery makes of the database.\<close>

definition after :: "'a svc \<Rightarrow> db \<Rightarrow> db" where
  "after m d = fst (snd (run m d))"

lemma after_run: "run m d = (r, d', out) \<Longrightarrow> after m d = d'"
  by (simp add: after_def)

locale event_handler =
  fixes handler :: "env \<Rightarrow> 'e \<Rightarrow> unit svc"
  assumes raises: "run (handler en e) d = (Inl x, d', out) \<Longrightarrow> d' = d"
    and settles: "run (handler en e) d = (Inr (), d', out) \<Longrightarrow> sound d \<Longrightarrow> run (handler en' e) d' = (Inr (), d', [])"
begin

lemma idle_forever:
  "(\<And>en. run (handler en e) d = (Inr (), d, [])) \<Longrightarrow> fold (\<lambda>en. after (handler en e)) ens d = d"
  by (induction ens) (simp_all add: after_def)

lemma at_most_once:
  assumes "sound d"
  shows "fold (\<lambda>en. after (handler en e)) ens d = d \<or>
    (\<exists>en. en \<in> set ens \<and> fold (\<lambda>en. after (handler en e)) ens d = after (handler en e) d)"
proof (induction ens)
  case (Cons en ens)
  obtain r d' out where run: "run (handler en e) d = (r, d', out)" by (cases "run (handler en e) d") auto
  show ?case
  proof (cases r)
    case (Inl x)
    then have "after (handler en e) d = d" using raises run by (simp add: after_def)
    then show ?thesis using Cons by auto
  next
    case (Inr u)
    then have "fold (\<lambda>en. after (handler en e)) ens d' = d'" using settles run assms by (intro idle_forever) simp
    moreover have "after (handler en e) d = d'" using run by (simp add: after_def)
    ultimately show ?thesis by auto
  qed
qed simp

end

section \<open>Payouts\<close>

text \<open>The databases on which a payout event for a reference has nothing to do.\<close>

definition payout_idle :: "string \<Rightarrow> db \<Rightarrow> bool" where
  "payout_idle ref d \<longleftrightarrow> get_by_reference ref d = Inr None \<or>
     (\<exists>t. get_by_reference ref d = Inr (Some t) \<and> (t_status t \<noteq> PROCESSING \<or> t_source_wallet_id t = None \<or>
        wallet_lock_for_update (the (t_source_wallet_id t)) d = Inr None))"

lemma run_payout_idle:
  assumes "payout_idle ref d"
  shows "run (process_payout_success en ref code) d = (Inr (), d, [])" "run (process_payout_failure en ref code) d = (Inr (), d, [])"
  using assms
  by (auto simp: payout_idle_def run_def fresh_session_def process_payout_success_def process_payout_failure_def bindS_def query_def
      askS_def returnS_def split: option.split)

lemma payout_success_ends:
  assumes "run (process_payout_success en ref code) d = (r, d', out)"
  shows "out = [] \<and> (d' = d \<and> (r = Inr () \<longrightarrow> payout_idle ref d) \<or>
    (r = Inr () \<and> (\<exists>t w al. get_by_reference ref d = Inr (Some t) \<and> payout_ready ref t w d \<and> prefix (audit_logs d) al \<and>
       d' = (payout_done en t w d)\<lparr>audit_logs := al\<rparr>)))"
proof -
  let ?Q = "\<lambda>r s'. outbox s' = [] \<and> (committed s' = d \<and> (r = Inr () \<longrightarrow> payout_idle ref d) \<or>
    (r = Inr () \<and> (\<exists>t w al. get_by_reference ref d = Inr (Some t) \<and> payout_ready ref t w d \<and> prefix (audit_logs d) al \<and>
       committed s' = (payout_done en t w d)\<lparr>audit_logs := al\<rparr>)))"
  have "wp (process_payout_success en ref code) (\<lambda>u. ?Q (Inr u)) (\<lambda>e. ?Q (Inl e)) (fresh_session d)"
    unfolding process_payout_success_def
    by (intro wp_intros wp_audit_clean; (simp; fail)?; (auto simp: payout_idle_def; fail)?)
      (auto simp: payout_done_def intro!: payout_readyI)
  then show ?thesis by (rule runE [OF assms]) (auto split: sum.splits)
qed

lemma payout_failure_ends:
  assumes "run (process_payout_failure en ref code) d = (r, d', out)"
  shows "out = [] \<and> (d' = d \<and> (r = Inr () \<longrightarrow> payout_idle ref d) \<or>
    (r = Inr () \<and> (\<exists>t w al. get_by_reference ref d = Inr (Some t) \<and> payout_ready ref t w d \<and> 0 \<le> w_balance w + t_amount t \<and>
       prefix (audit_logs d) al \<and> d' = (payout_reversed code t w d)\<lparr>audit_logs := al\<rparr>)))"
proof -
  let ?Q = "\<lambda>r s'. outbox s' = [] \<and> (committed s' = d \<and> (r = Inr () \<longrightarrow> payout_idle ref d) \<or>
    (r = Inr () \<and> (\<exists>t w al. get_by_reference ref d = Inr (Some t) \<and> payout_ready ref t w d \<and> 0 \<le> w_balance w + t_amount t \<and>
       prefix (audit_logs d) al \<and> committed s' = (payout_reversed code t w d)\<lparr>audit_logs := al\<rparr>)))"
  have "wp (process_payout_failure en ref code) (\<lambda>u. ?Q (Inr u)) (\<lambda>e. ?Q (Inl e)) (fresh_session d)"
    unfolding process_payout_failure_def
    by (intro wp_intros wp_audit_clean; (simp; fail)?; (auto simp: payout_idle_def; fail)?)
      (auto simp: payout_reversed_def intro!: payout_readyI)
  then show ?thesis by (rule runE [OF assms]) (auto split: sum.splits)
qed

text \<open>After it took effect the handler finds the row it rewrote, and that is settled.\<close>

lemma get_by_reference_hit:
  "distinct (map t_reference (transactions d)) \<Longrightarrow> t \<in> set (transactions d) \<Longrightarrow> get_by_reference (t_reference t) d = Inr (Some t)"
  unfolding get_by_reference_def
  using scalar_key_hit [where key = t_reference and rows = "transactions d" and r = t and P = "\<lambda>_. True"] by simp

lemma payout_idle_settled:
  assumes "sound d'" and "t \<in> set (transactions d')" "t_reference t = ref" "t_status t \<noteq> PROCESSING"
  shows "payout_idle ref d'"
  using get_by_reference_hit [OF soundD(4) [OF assms(1)] assms(2)] assms(3,4) by (auto simp: payout_idle_def)

lemma payout_done_idle:
  assumes "sound d" "payout_ready ref t w d"
  shows "payout_idle ref ((payout_done en t w d)\<lparr>audit_logs := al\<rparr>)"
proof (rule payout_idle_settled)
  show "sound ((payout_done en t w d)\<lparr>audit_logs := al\<rparr>)" using sound_payout_done [OF assms] by simp
  show "set_status COMPLETED None None t \<in> set (transactions ((payout_done en t w d)\<lparr>audit_logs := al\<rparr>))"
    using assms(2) by (auto simp: payout_done_def payout_ready_def intro: stat.in_upd)
qed (use assms(2) in \<open>simp_all add: payout_ready_def\<close>)

lemma payout_reversed_idle:
  assumes "sound d" "payout_ready ref t w d" "0 \<le> w_balance w + t_amount t"
  shows "payout_idle ref ((payout_reversed code t w d)\<lparr>audit_logs := al\<rparr>)"
proof (rule payout_idle_settled)
  show "sound ((payout_reversed code t w d)\<lparr>audit_logs := al\<rparr>)" using sound_payout_reversed [OF assms] by simp
  show "set_status FAILED (Some (''Paystack transfer failed or reversed: '' @ code)) None t
      \<in> set (transactions ((payout_reversed code t w d)\<lparr>audit_logs := al\<rparr>))"
    using assms(2) by (auto simp: payout_reversed_def payout_ready_def intro: stat.in_upd)
qed (use assms(2) in \<open>simp_all add: payout_ready_def\<close>)

interpretation payout_success: event_handler "\<lambda>en (ref, code). process_payout_success en ref code"
proof
  fix en en' d d' out x and e :: "string \<times> string"
  obtain ref code where e: "e = (ref, code)" by (cases e)
  show "d' = d" if "run (case e of (ref, code) \<Rightarrow> process_payout_success en ref code) d = (Inl x, d', out)"
    using payout_success_ends [of en ref code d "Inl x"] that e by simp
  assume r: "run (case e of (ref, code) \<Rightarrow> process_payout_success en ref code) d = (Inr (), d', out)" and "sound d"
  have "payout_idle ref d'"
    using payout_success_ends [of en ref code d "Inr ()" d' out] r e payout_done_idle [OF \<open>sound d\<close>] by auto
  then show "run (case e of (ref, code) \<Rightarrow> process_payout_success en' ref code) d' = (Inr (), d', [])"
    by (simp add: e run_payout_idle)
qed

interpretation payout_failure: event_handler "\<lambda>en (ref, code). process_payout_failure en ref code"
proof
  fix en en' d d' out x and e :: "string \<times> string"
  obtain ref code where e: "e = (ref, code)" by (cases e)
  show "d' = d" if "run (case e of (ref, code) \<Rightarrow> process_payout_failure en ref code) d = (Inl x, d', out)"
    using payout_failure_ends [of en ref code d "Inl x"] that e by simp
  assume r: "run (case e of (ref, code) \<Rightarrow> process_payout_failure en ref code) d = (Inr (), d', out)" and "sound d"
  have "payout_idle ref d'"
    using payout_failure_ends [of en ref code d "Inr ()" d' out] r e payout_reversed_idle [OF \<open>sound d\<close>] by auto
  then show "run (case e of (ref, code) \<Rightarrow> process_payout_failure en' ref code) d' = (Inr (), d', [])"
    by (simp add: e run_payout_idle)
qed

section \<open>Charges\<close>

definition charge_idle :: "string \<Rightarrow> db \<Rightarrow> bool" where
  "charge_idle ref d \<longleftrightarrow> ref = [] \<or> get_by_provider_reference ref d = Inr None \<or>
     (\<exists>t. get_by_provider_reference ref d = Inr (Some t) \<and> (t_status t \<noteq> PENDING \<or> t_destination_wallet_id t = None \<or>
        wallet_lock_for_update (the (t_destination_wallet_id t)) d = Inr None))"

lemma run_charge_idle:
  assumes "charge_idle (get_or '''' (ev_reference data)) d"
  shows "run (process_charge_success en data) d = (Inr (), d, [])"
  using assms
  by (auto simp: charge_idle_def run_def fresh_session_def process_charge_success_def bindS_def query_def Let_def
      askS_def returnS_def update_status_def flush_def putS_def split: option.split)

lemma charge_ends:
  assumes "run (process_charge_success en data) d = (r, d', out)" and ref: "ref = get_or '''' (ev_reference data)"
    and amount: "a = get_or 0 (ev_amount data)"
  shows "out = [] \<and> (d' = d \<and> (r = Inr () \<longrightarrow> charge_idle ref d) \<or>
    (r = Inr () \<and> (\<exists>t w al. get_by_provider_reference ref d = Inr (Some t) \<and> fund_ready ref t d \<and> w \<in> set (wallets d) \<and>
       t_destination_wallet_id t = Some (w_id w) \<and> 0 \<le> w_balance w + a \<and> prefix (audit_logs d) al \<and>
       d' = (charge_credited en t w a d)\<lparr>audit_logs := al\<rparr>)))"
proof -
  let ?Q = "\<lambda>r s'. outbox s' = [] \<and> (committed s' = d \<and> (r = Inr () \<longrightarrow> charge_idle ref d) \<or>
    (r = Inr () \<and> (\<exists>t w al. get_by_provider_reference ref d = Inr (Some t) \<and> fund_ready ref t d \<and> w \<in> set (wallets d) \<and>
       t_destination_wallet_id t = Some (w_id w) \<and> 0 \<le> w_balance w + a \<and> prefix (audit_logs d) al \<and>
       committed s' = (charge_credited en t w a d)\<lparr>audit_logs := al\<rparr>)))"
  have "wp (process_charge_success en data) (\<lambda>u. ?Q (Inr u)) (\<lambda>e. ?Q (Inl e)) (fresh_session d)"
    unfolding process_charge_success_def
    by (intro wp_intros wp_audit_clean; (simp; fail)?; (auto simp: charge_idle_def ref; fail)?)
      (auto simp: ref amount charge_credited_def set_status_twice dest: wallet_lockD intro!: fund_readyI)
  then show ?thesis by (rule runE [OF assms(1)]) (auto split: sum.splits)
qed

lemma charge_credited_idle:
  assumes "get_by_provider_reference ref d = Inr (Some t)"
  shows "charge_idle ref ((charge_credited en t w a d)\<lparr>audit_logs := al\<rparr>)"
proof -
  have "filter (\<lambda>t. t_provider_reference t = Some ref) (transactions d) = [t]"
    using assms by (simp add: get_by_provider_reference_def scalar_Inr_Some_iff)
  then have "get_by_provider_reference ref ((charge_credited en t w a d)\<lparr>audit_logs := al\<rparr>) =
      Inr (Some (set_status COMPLETED None None t))"
    by (simp add: get_by_provider_reference_def charge_credited_def filter_upd upd_Cons)
  then show ?thesis by (simp add: charge_idle_def)
qed

interpretation charge: event_handler process_charge_success
proof
  fix en en' d d' out x and e :: event_data
  let ?ref = "get_or '''' (ev_reference e)"
  show "d' = d" if "run (process_charge_success en e) d = (Inl x, d', out)"
    using charge_ends [OF that] by simp
  assume r: "run (process_charge_success en e) d = (Inr (), d', out)"
  have "charge_idle ?ref d'"
    using charge_ends [OF r refl refl] charge_credited_idle by auto
  then show "run (process_charge_success en' e) d' = (Inr (), d', [])" by (rule run_charge_idle)
qed

section \<open>The task\<close>

text \<open>Whatever the event is, the task does what one of the handlers does, or nothing.\<close>

lemma process_paystack_webhook_cases:
  obtains (charge) "\<And>en. process_paystack_webhook en ev data = process_charge_success en data"
  | (settled) "\<And>en. process_paystack_webhook en ev data =
        process_payout_success en (get_or '''' (ev_reference data)) (get_or '''' (ev_transfer_code data))"
  | (reversed) "\<And>en. process_paystack_webhook en ev data =
        process_payout_failure en (get_or '''' (ev_reference data)) (get_or '''' (ev_transfer_code data))"
  | (ignored) "\<And>en. process_paystack_webhook en ev data = returnS ()"
  by (cases "ev = ''charge.success''"; cases "ev = ''transfer.success''"; cases "ev \<in> {''transfer.failed'', ''transfer.reversed''}";
      cases "get_or '''' (ev_reference data) = []")
    (simp_all add: process_paystack_webhook_def process_transfer_result_def Let_def)

lemma run_return [simp]: "run (returnS x) d = (Inr x, d, [])"
  by (simp add: run_def returnS_def fresh_session_def)

interpretation webhook: event_handler "\<lambda>en (ev, data). process_paystack_webhook en ev data"
proof
  fix en en' d d' out x and e :: "string \<times> event_data"
  obtain ev data where e: "e = (ev, data)" by (cases e)
  let ?p = "(get_or '''' (ev_reference data), get_or '''' (ev_transfer_code data))"
  show "d' = d" if "run (case e of (ev, data) \<Rightarrow> process_paystack_webhook en ev data) d = (Inl x, d', out)"
    using that charge.raises [of en data d x d' out] payout_success.raises [of en ?p d x d' out]
      payout_failure.raises [of en ?p d x d' out]
    by (cases rule: process_paystack_webhook_cases [of ev data]) (simp_all add: e)
  assume "run (case e of (ev, data) \<Rightarrow> process_paystack_webhook en ev data) d = (Inr (), d', out)" and "sound d"
  then show "run (case e of (ev, data) \<Rightarrow> process_paystack_webhook en' ev data) d' = (Inr (), d', [])"
    using charge.settles [of en data d d' out en'] payout_success.settles [of en ?p d d' out en']
      payout_failure.settles [of en ?p d d' out en']
    by (cases rule: process_paystack_webhook_cases [of ev data]) (simp_all add: e)
qed

section \<open>The payout task\<close>

lemma execute_payout_ends:
  assumes "run (execute_payout client i) d = (r, d', out)"
  shows "out = [] \<and> (d' = d \<or>
    (r = Inr () \<and> (\<exists>t b code ba. may_send i t b d \<and> recipient_cached b (bank_accounts d) ba \<and>
       d' = d\<lparr>bank_accounts := ba, transactions := upd t_id (t_id t) (mark_sent (t_status t = PENDING) code) (transactions d)\<rparr>)))"
proof -
  let ?Q = "\<lambda>r s'. outbox s' = [] \<and> (committed s' = d \<or>
    (r = Inr () \<and> (\<exists>t b code ba. may_send i t b d \<and> recipient_cached b (bank_accounts d) ba \<and> committed s' =
       d\<lparr>bank_accounts := ba, transactions := upd t_id (t_id t) (mark_sent (t_status t = PENDING) code) (transactions d)\<rparr>)))"
  have "wp (execute_payout client i) (\<lambda>u. ?Q (Inr u)) (\<lambda>e. ?Q (Inl e)) (fresh_session d)"
    by (rule wp_execute_payout) auto
  then show ?thesis by (rule runE [OF assms]) (auto split: sum.splits)
qed

lemma run_payout_sent:
  assumes "transaction_get_by_id i d = Inr (Some t)" and "t_status t = PROCESSING" "t_provider_reference t \<noteq> None"
  shows "run (execute_payout client i) d = (Inr (), d, [])"
  using assms by (simp add: run_def fresh_session_def execute_payout_def bindS_def query_def askS_def returnS_def)

lemma payout_sent_idle:
  assumes "sound d" "may_send i t b d"
    and "d' = d\<lparr>bank_accounts := ba, transactions := upd t_id (t_id t) (mark_sent (t_status t = PENDING) code) (transactions d)\<rparr>"
  shows "run (execute_payout client i) d' = (Inr (), d', [])"
proof (rule run_payout_sent)
  let ?t = "mark_sent (t_status t = PENDING) code t"
  have t: "t \<in> set (transactions d)" "t_id t = i" using assms(2) by (simp_all add: may_send_def)
  have "?t \<in> set (transactions d')" using t(1) by (auto simp: assms(3) upd_def)
  moreover have "distinct (map t_id (transactions d'))"
    using soundD(2) [OF assms(1)] by (simp add: assms(3) map_upd_same)
  ultimately show "transaction_get_by_id i d' = Inr (Some ?t)"
    unfolding transaction_get_by_id_def
    using t(2) scalar_key_hit [where key = t_id and rows = "transactions d'" and r = ?t and P = "\<lambda>_. True"] by simp
  show "t_status ?t = PROCESSING" "t_provider_reference ?t \<noteq> None"
    using t(1) soundD(7) [OF assms(1) t(1)] assms(2)
    by (cases "t_status t"; cases "t_type t"; simp add: may_send_def txn_ok_def mark_sent_def set_provider_reference_def)+
qed

interpretation payout_task: event_handler "\<lambda>_. process_withdrawal client" for client
proof
  fix en en' :: env and d d' out x i
  show "d' = d" if "run (process_withdrawal client i) d = (Inl x, d', out)"
    using execute_payout_ends [OF that [unfolded process_withdrawal_def]] by simp
  assume r: "run (process_withdrawal client i) d = (Inr (), d', out)" and "sound d"
  show "run (process_withdrawal client i) d' = (Inr (), d', [])"
    using execute_payout_ends [OF r [unfolded process_withdrawal_def]] r payout_sent_idle [OF \<open>sound d\<close>]
    unfolding process_withdrawal_def by auto
qed

end
