(* ===== verification/Properties_Payouts.thy ===== *)
theory Properties_Payouts
  imports Event_Handlers Example_System
begin

text \<open>
  Money in and out of the system: fundings credited by Paystack's notification, withdrawals with
  their hold, their payout and its two outcomes, and all of it under repeated delivery.
\<close>

section \<open>Example\<close>

text \<open>Bo has opened a funding of 300 NGN, and a withdrawal of 100 NGN is on its way to the bank.\<close>

definition pending_funding :: transaction where
  "pending_funding = (funded 23 ''f3'' 12 2 (naira 300))\<lparr>t_status := PENDING\<rparr>"

definition sent_withdrawal :: transaction where
  "sent_withdrawal = (new_transaction 24 0 ''w1'' WITHDRAWAL (naira 100) 2)
     \<lparr>t_status := PROCESSING, t_source_wallet_id := Some 12, t_provider_reference := Some ''TRF'',
      t_extra_data := Some [(''bank_account_id'', JUuid 61)]\<rparr>"

definition banking_db :: db where
  "banking_db = example_db
     \<lparr>wallets := [wallet_of 11 1 (naira 1000), wallet_of 12 2 (naira 400), wallet_of 13 3 0],
      transactions := [funded 21 ''f1'' 11 1 (naira 1000), funded 22 ''f2'' 12 2 (naira 500), pending_funding, sent_withdrawal]\<rparr>"

lemma banking_sound: "sound banking_db"
  by code_simp

definition charge_data :: event_data where
  "charge_data = empty_data\<lparr>ev_reference := Some ''f3'', ev_amount := Some 30000\<rparr>"

section \<open>Repeated delivery\<close>





section \<open>Fundings\<close>

text \<open>C18. The notification of a charge for a pending funding, when its handler returns, completes that
  funding and credits its wallet with the amount of the notification, in the balance and as one
  ledger entry; every other balance and every other transaction stays as it was.\<close>

theorem charge_credits_the_wallet:
  assumes "run (process_charge_success en data) d = (Inr (), d', out)" and "sound d"
    and "get_by_provider_reference ref d = Inr (Some t)" "ref = get_or '''' (ev_reference data)" "ref \<noteq> []"
    and "t_status t = PENDING" "t_destination_wallet_id t = Some i" "wallet_lock_for_update i d = Inr (Some w)"
  shows "postings (t_id t) (ledger_entries d') = [(CREDIT, i, get_or 0 (ev_amount data))] \<and>
    transactions d' = upd t_id (t_id t) (set_status COMPLETED None None) (transactions d) \<and>
    (\<forall>j. balance_of j d' = map_option (\<lambda>b. b + (if j = i then get_or 0 (ev_amount data) else 0)) (balance_of j d))"
proof -
  have "\<not> charge_idle ref d" using assms(3-8) by (simp add: charge_idle_def)
  then obtain t' v al where c: "get_by_provider_reference ref d = Inr (Some t')" "fund_ready ref t' d" "v \<in> set (wallets d)"
    "t_destination_wallet_id t' = Some (w_id v)" "d' = (charge_credited en t' v (get_or 0 (ev_amount data)) d)\<lparr>audit_logs := al\<rparr>"
    using charge_ends [OF assms(1) assms(4) refl] by auto
  have t: "t' = t" "w_id v = i" using c(1,4) assms(3,7) by simp_all
  have "postings (t_id t) (ledger_entries d) = []" using fund_ready_sound(5) [OF assms(2) c(2)] t by simp
  then show ?thesis
    using c(5) t balance_of_write [OF soundD(1) [OF assms(2)] c(3)]
    by (simp add: charge_credited_def postings_def balance_of_def)
qed

theorem charge_credits_the_wallet_witness:
  "\<exists>d' out. run (process_charge_success (env_at 1) charge_data) banking_db = (Inr (), d', out) \<and>
     balance_of 12 d' = Some (naira 700) \<and> balance_of 11 d' = Some (naira 1000)"
proof -
  have "\<not> isl (fst (run (process_charge_success (env_at 1) charge_data) banking_db))" by code_simp
  then obtain d' out where r: "run (process_charge_success (env_at 1) charge_data) banking_db = (Inr (), d', out)"
    by (auto elim: run_returns)
  have "get_by_provider_reference ''f3'' banking_db = Inr (Some pending_funding)"
    "wallet_lock_for_update 12 banking_db = Inr (Some (wallet_of 12 2 (naira 400)))"
    "balance_of 12 banking_db = Some (naira 400)" "balance_of 11 banking_db = Some (naira 1000)" by code_simp+
  with charge_credits_the_wallet [OF r banking_sound this(1) _ _ _ _ this(2)] r show ?thesis
    by (simp add: charge_data_def pending_funding_def funded_def naira_def)
qed

section \<open>Withdrawals\<close>

text \<open>C10. A withdrawal request that succeeds is from a user of KYC tier 2 within the tier's limits, who had no
  open withdrawal and owns the bank account; it appends one PENDING transaction, takes exactly the
  amount from the user's wallet and from no other, writes no ledger entry, and queues the payout when
  the broker can be reached.\<close>

theorem withdrawal_holds_the_amount:
  assumes "run (initiate_withdrawal cfg en user i a) d = (Inr t, d', out)" and "sound d"
  shows "\<exists>w b. w \<in> set (wallets d) \<and> w_user_id w = u_id user \<and> a \<le> w_balance w \<and> 2 \<le> u_kyc_tier user \<and>
    a \<le> naira (single_limit cfg (u_kyc_tier user)) \<and>
    get_daily_outgoing_sum (u_id user) WITHDRAWAL (day_start_of (now en)) d + a \<le> naira (daily_limit cfg (u_kyc_tier user)) \<and>
    filter (\<lambda>t. active_withdrawal t \<and> t_initiated_by_user_id t = u_id user) (transactions d) = [] \<and>
    b \<in> set (bank_accounts d) \<and> b_id b = i \<and> b_user_id b = u_id user \<and> b_deleted_at b = None \<and>
    transactions d' = transactions d @ [t] \<and> t_type t = WITHDRAWAL \<and> t_status t = PENDING \<and> t_amount t = a \<and>
    t_source_wallet_id t = Some (w_id w) \<and> ledger_entries d' = ledger_entries d \<and>
    (\<forall>j. balance_of j d' = map_option (\<lambda>b. b + (if j = w_id w then - a else 0)) (balance_of j d)) \<and>
    out = (if broker_up en then [ProcessWithdrawal (t_id t)] else [])"
proof -
  let ?Q = "\<lambda>t s'. \<exists>w al. may_withdraw cfg en user i w a d \<and> t = withdrawal_txn en w a (u_id user) i \<and>
    committed s' = (amount_held t w d)\<lparr>audit_logs := al\<rparr> \<and>
    outbox s' = (if broker_up en then [ProcessWithdrawal (t_id t)] else [])"
  have "wp (initiate_withdrawal cfg en user i a) ?Q (\<lambda>_ _. True) (fresh_session d)"
    by (rule wp_initiate_withdrawal) (use soundD(1) [OF assms(2)] in auto)
  then obtain w al where w: "may_withdraw cfg en user i w a d" "t = withdrawal_txn en w a (u_id user) i"
    "d' = (amount_held t w d)\<lparr>audit_logs := al\<rparr>" "out = (if broker_up en then [ProcessWithdrawal (t_id t)] else [])"
    by (rule runE [OF assms(1)]) auto
  obtain b where b: "b \<in> set (bank_accounts d)" "b_id b = i" "b_user_id b = u_id user" "b_deleted_at b = None"
    using w(1) by (auto simp: may_withdraw_def)
  have none: "filter (\<lambda>t. active_withdrawal t \<and> t_initiated_by_user_id t = u_id user) (transactions d) = []"
    using w(1) by (auto simp: may_withdraw_def get_active_withdrawal_def scalar_Inr_None_iff filter_empty_conv active_withdrawal_def)
  have "w \<in> set (wallets d)" using w(1) by (simp add: may_withdraw_def)
  from balance_of_write [OF soundD(1) [OF assms(2)] this, of _ "- a"]
  have "balance_of j d' = map_option (\<lambda>b. b + (if j = w_id w then - a else 0)) (balance_of j d)" for j
    by (simp add: w(2,3) amount_held_def balance_of_def)
  with w none b show ?thesis
    by - (rule exI [of _ w], rule exI [of _ b], simp add: may_withdraw_def check_withdrawal_ok amount_held_def)
qed

theorem withdrawal_holds_the_amount_witness:
  "\<exists>t d' out. run (initiate_withdrawal default_settings example_env bo 61 (naira 100)) example_db = (Inr t, d', out) \<and>
     transactions d' = transactions example_db @ [t] \<and> out = [ProcessWithdrawal (t_id t)]"
proof -
  let ?m = "initiate_withdrawal default_settings example_env bo 61 (naira 100)"
  have "\<not> isl (fst (run ?m example_db))" by code_simp
  then obtain t d' out where r: "run ?m example_db = (Inr t, d', out)" by (rule run_returns)
  have "broker_up example_env" by (simp add: example_env_def)
  with withdrawal_holds_the_amount [OF r example_sound] r show ?thesis by auto
qed

text \<open>C15. The notification that a payout went through, for a withdrawal that is PROCESSING, completes it and
  posts one DEBIT of its amount on its wallet; no balance changes, since the amount was already held.\<close>

theorem payout_success_settles:
  assumes "run (process_payout_success en ref code) d = (Inr (), d', out)" and "sound d"
    and "get_by_reference ref d = Inr (Some t)" "t_status t = PROCESSING"
    and "t_source_wallet_id t = Some i" "wallet_lock_for_update i d = Inr (Some w)"
  shows "wallets d' = wallets d \<and> transactions d' = upd t_id (t_id t) (set_status COMPLETED None None) (transactions d) \<and>
    postings (t_id t) (ledger_entries d') = [(DEBIT, i, t_amount t)]"
proof -
  have "\<not> payout_idle ref d" using assms(3-6) by (simp add: payout_idle_def)
  then obtain v al where c: "payout_ready ref t v d" "d' = (payout_done en t v d)\<lparr>audit_logs := al\<rparr>"
    using payout_success_ends [OF assms(1)] assms(3) by auto
  then have "w_id v = i" "postings (t_id t) (ledger_entries d) = []"
    using payout_ready_sound(5,7) [OF assms(2) c(1)] assms(5) by simp_all
  then show ?thesis using c(2) by (simp add: payout_done_def postings_def)
qed

lemma sent_withdrawal_found:
  "get_by_reference ''w1'' banking_db = Inr (Some sent_withdrawal)" "t_status sent_withdrawal = PROCESSING"
  "t_source_wallet_id sent_withdrawal = Some 12" "wallet_lock_for_update 12 banking_db = Inr (Some (wallet_of 12 2 (naira 400)))"
  by code_simp+

theorem payout_success_settles_witness:
  "\<exists>d' out. run (process_payout_success (env_at 1) ''w1'' ''TRF'') banking_db = (Inr (), d', out) \<and>
     wallets d' = wallets banking_db \<and> postings 24 (ledger_entries d') = [(DEBIT, 12, naira 100)]"
proof -
  have "\<not> isl (fst (run (process_payout_success (env_at 1) ''w1'' ''TRF'') banking_db))" by code_simp
  then obtain d' out where r: "run (process_payout_success (env_at 1) ''w1'' ''TRF'') banking_db = (Inr (), d', out)"
    by (auto elim: run_returns)
  from payout_success_settles [OF r banking_sound sent_withdrawal_found] r show ?thesis
    by (simp add: sent_withdrawal_def)
qed

text \<open>C16. The notification that a payout failed or was reversed, for a withdrawal that is PROCESSING, fails it
  and gives its amount back to its wallet and to no other; the ledger is not touched.\<close>

theorem payout_failure_gives_back:
  assumes "run (process_payout_failure en ref code) d = (Inr (), d', out)" and "sound d"
    and "get_by_reference ref d = Inr (Some t)" "t_status t = PROCESSING"
    and "t_source_wallet_id t = Some i" "wallet_lock_for_update i d = Inr (Some w)"
  shows "ledger_entries d' = ledger_entries d \<and>
    (\<exists>t'. get_by_reference ref d' = Inr (Some t') \<and> t_status t' = FAILED \<and> t_amount t' = t_amount t) \<and>
    (\<forall>j. balance_of j d' = map_option (\<lambda>b. b + (if j = i then t_amount t else 0)) (balance_of j d))"
proof -
  have "\<not> payout_idle ref d" using assms(3-6) by (simp add: payout_idle_def)
  then obtain v al where c: "payout_ready ref t v d" "0 \<le> w_balance v + t_amount t"
    "d' = (payout_reversed code t v d)\<lparr>audit_logs := al\<rparr>"
    using payout_failure_ends [OF assms(1)] assms(3) by auto
  let ?t = "set_status FAILED (Some (''Paystack transfer failed or reversed: '' @ code)) None t"
  have v: "w_id v = i" "v \<in> set (wallets d)" "t \<in> set (transactions d)" "t_reference t = ref"
    using payout_ready_sound(5,2,1) [OF assms(2) c(1)] assms(5) c(1) by (simp_all add: payout_ready_def)
  have "sound d'" using sound_payout_reversed [OF assms(2) c(1,2)] c(3) by simp
  moreover have "?t \<in> set (transactions d')" using v(3) c(3) by (simp add: payout_reversed_def stat.in_upd)
  ultimately have "get_by_reference ref d' = Inr (Some ?t)"
    using get_by_reference_hit [of d' ?t] v(4) soundD(4) by simp
  then show ?thesis
    using c(3) balance_of_write [OF soundD(1) [OF assms(2)] v(2)] v(1) by (simp add: payout_reversed_def balance_of_def)
qed

theorem payout_failure_gives_back_witness:
  "\<exists>d' out. run (process_payout_failure (env_at 1) ''w1'' ''TRF'') banking_db = (Inr (), d', out) \<and>
     ledger_entries d' = ledger_entries banking_db \<and> balance_of 12 d' = Some (naira 500)"
proof -
  have "\<not> isl (fst (run (process_payout_failure (env_at 1) ''w1'' ''TRF'') banking_db))" by code_simp
  then obtain d' out where r: "run (process_payout_failure (env_at 1) ''w1'' ''TRF'') banking_db = (Inr (), d', out)"
    by (auto elim: run_returns)
  have "balance_of 12 banking_db = Some (naira 400)" by code_simp
  with payout_failure_gives_back [OF r banking_sound sent_withdrawal_found] r show ?thesis
    by (simp add: sent_withdrawal_def naira_def)
qed

lemma upd_id: "distinct (map key rows) \<Longrightarrow> r \<in> set rows \<Longrightarrow> f r = r \<Longrightarrow> upd key (key r) f rows = rows"
  unfolding upd_def by (rule map_idI) (metis distinct_key_eq)

text \<open>What a payout attempt leaves of a fresh withdrawal.\<close>

lemma payout_attempt_keeps:
  assumes "run (process_withdrawal client (t_id t)) d = (r, d', out)" and "sound d"
    and t: "t \<in> set (transactions d)" "t_status t = PENDING" and q: "q \<in> set (transactions d')"
  shows "wallets d' = wallets d \<and> ledger_entries d' = ledger_entries d \<and>
    (t_reference q = t_reference t \<longrightarrow> t_amount q = t_amount t \<and> t_source_wallet_id q = t_source_wallet_id t) \<and>
    (t_id q = t_id t \<longrightarrow> t_status q \<noteq> FAILED)"
proof (cases "d' = d")
  case True
  have "q = t" if "t_reference q = t_reference t"
    using distinct_key_eq [OF soundD(4) [OF assms(2)]] q t(1) True that by simp
  moreover have "q = t" if "t_id q = t_id t"
    using distinct_key_eq [OF soundD(2) [OF assms(2)]] q t(1) True that by simp
  ultimately show ?thesis using True t(2) by auto
next
  case False
  then obtain u b code ba where u: "may_send (t_id t) u b d" and
    d': "d' = d\<lparr>bank_accounts := ba, transactions := upd t_id (t_id u) (mark_sent (t_status u = PENDING) code) (transactions d)\<rparr>"
    using execute_payout_ends [OF assms(1) [unfolded process_withdrawal_def]] by blast
  have "u = t" using u t(1) distinct_key_eq [OF soundD(2) [OF assms(2)]] by (auto simp: may_send_def)
  then have ts: "transactions d' = upd t_id (t_id t) (mark_sent True code) (transactions d)" using d' t(2) by simp
  have "q = mark_sent True code t" if "t_id q = t_id t"
    using q that distinct_key_eq [OF soundD(2) [OF assms(2)] _ t(1)] unfolding ts by (auto elim!: set_updE)
  moreover have same: "r = t" if "r \<in> set (transactions d)" "t_reference r = t_reference t" for r
    using distinct_key_eq [OF soundD(4) [OF assms(2)] that(1) t(1)] that(2) by simp
  have "t_amount q = t_amount t \<and> t_source_wallet_id q = t_source_wallet_id t" if "t_reference q = t_reference t"
    using q that unfolding ts by (elim set_updE) (auto dest: same)
  ultimately show ?thesis using d' by auto
qed

text \<open>C14. A withdrawal whose payout is attempted and then reported as failed leaves no trace in the money:
  when the failure was applied, every wallet and the whole ledger are as before the withdrawal was
  requested.\<close>

theorem failed_withdrawal_leaves_no_trace:
  assumes "run (initiate_withdrawal cfg en user i a) d = (Inr t, d1, out1)" and "sound d"
    and "run (process_withdrawal client (t_id t)) d1 = (r, d2, out2)"
    and "run (process_payout_failure en' (t_reference t) code) d2 = (Inr (), d3, out3)"
    and "t3 \<in> set (transactions d3)" "t_id t3 = t_id t" "t_status t3 = FAILED"
  shows "wallets d3 = wallets d \<and> ledger_entries d3 = ledger_entries d"
proof -
  let ?Q = "\<lambda>t s'. \<exists>w al. may_withdraw cfg en user i w a d \<and> t = withdrawal_txn en w a (u_id user) i \<and> fresh_in t d \<and>
    committed s' = (amount_held t w d)\<lparr>audit_logs := al\<rparr>"
  have "wp (initiate_withdrawal cfg en user i a) ?Q (\<lambda>_ _. True) (fresh_session d)"
    by (rule wp_initiate_withdrawal) (use soundD(1) [OF assms(2)] in auto)
  then obtain w al where w: "may_withdraw cfg en user i w a d" "t = withdrawal_txn en w a (u_id user) i" "fresh_in t d"
    "d1 = (amount_held t w d)\<lparr>audit_logs := al\<rparr>"
    by (rule runE [OF assms(1)]) auto
  have s1: "sound d1" using sound_amount_held [OF assms(2) w(1)] w by simp
  have t1: "t \<in> set (transactions d1)" "t_status t = PENDING" "t_amount t = a" "t_source_wallet_id t = Some (w_id w)"
    using w by (simp_all add: amount_held_def)
  note kept = payout_attempt_keeps [OF assms(3) s1 t1(1,2)]
  have "d3 \<noteq> d2" using kept [of t3] assms(5-7) by auto
  then obtain t' v al' where v: "payout_ready (t_reference t) t' v d2" "d3 = (payout_reversed code t' v d2)\<lparr>audit_logs := al'\<rparr>"
    using payout_failure_ends [OF assms(4)] by auto
  have t': "t_amount t' = a" "w_id v = w_id w" "wallets d2 = wallets d1" "ledger_entries d2 = ledger_entries d1"
    using kept [of t'] v(1) t1 by (simp_all add: payout_ready_def)
  have ws: "w \<in> set (wallets d)" "wallets d1 = upd w_id (w_id w) (\<lambda>v. v\<lparr>w_balance := w_balance w - a\<rparr>) (wallets d)"
    using w t1(3) by (simp_all add: may_withdraw_def amount_held_def)
  have "v \<in> set (wallets d1)" using v(1) t'(3) by (simp add: payout_ready_def)
  then have "w_balance v = w_balance w - a" using t'(2) unfolding ws(2) by (auto elim!: set_updE)
  then have "wallets d3 = upd w_id (w_id w) (\<lambda>v. v\<lparr>w_balance := w_balance w\<rparr>) (wallets d)"
    using t' v(2) ws(2) by (simp add: payout_reversed_def upd_upd)
  also have "\<dots> = wallets d" by (rule upd_id [OF soundD(1) [OF assms(2)] ws(1)]) simp
  finally show ?thesis using v(2) t'(4) w(4) by (simp add: payout_reversed_def amount_held_def)
qed

text \<open>Bo withdraws 100 NGN; the transfer is sent; Paystack reports its failure.\<close>

definition withdrawal_story :: bool where
  "withdrawal_story = (case run (initiate_withdrawal default_settings example_env bo 61 (naira 100)) example_db of
     (Inl e, _) \<Rightarrow> False
   | (Inr t, d1, out1) \<Rightarrow> (case run (process_withdrawal example_paystack (t_id t)) d1 of
     (r, d2, out2) \<Rightarrow> (case run (process_payout_failure (env_at 5) (t_reference t) ''TRF'') d2 of
     (Inl e, _) \<Rightarrow> False
   | (Inr u, d3, out3) \<Rightarrow> list_ex (\<lambda>t3. t_id t3 = t_id t \<and> t_status t3 = FAILED) (transactions d3))))"

lemma withdrawal_story: withdrawal_story
  by code_simp

theorem failed_withdrawal_leaves_no_trace_witness:
  "\<exists>t d1 out1 r d2 out2 d3 out3.
     run (initiate_withdrawal default_settings example_env bo 61 (naira 100)) example_db = (Inr t, d1, out1) \<and>
     run (process_withdrawal example_paystack (t_id t)) d1 = (r, d2, out2) \<and>
     run (process_payout_failure (env_at 5) (t_reference t) ''TRF'') d2 = (Inr (), d3, out3) \<and>
     wallets d3 = wallets example_db"
proof -
  note story = withdrawal_story [unfolded withdrawal_story_def]
  obtain r1 d1 out1 where 1: "run (initiate_withdrawal default_settings example_env bo 61 (naira 100)) example_db = (r1, d1, out1)"
    by (cases rule: prod_cases3)
  then obtain t where t: "r1 = Inr t" using story by (cases r1) simp_all
  obtain r d2 out2 where 2: "run (process_withdrawal example_paystack (t_id t)) d1 = (r, d2, out2)" by (cases rule: prod_cases3)
  obtain r3 d3 out3 where 3: "run (process_payout_failure (env_at 5) (t_reference t) ''TRF'') d2 = (r3, d3, out3)"
    by (cases rule: prod_cases3)
  then have u: "r3 = Inr ()" using story 1 2 t by (cases r3) simp_all
  obtain t3 where "t3 \<in> set (transactions d3)" "t_id t3 = t_id t" "t_status t3 = FAILED"
    using story 1 2 3 t u by (auto simp: list_ex_iff)
  from failed_withdrawal_leaves_no_trace [OF 1 [unfolded t] example_sound 2 3 [unfolded u] this] 1 2 3 t u show ?thesis by blast
qed

end
