(* ===== verification/Properties_Auth.thy ===== *)
theory Properties_Auth
  imports Example_System "HOL-Library.Countable"
begin

text \<open>
  Registration, login, access tokens, refresh tokens and API keys.
\<close>

section \<open>Access tokens\<close>




section \<open>Registration and login\<close>



text \<open>C33. A failed login does not tell whether the email is registered: an unknown email and a wrong password
  are answered with the same error, and in both cases nothing is changed or sent.\<close>

theorem login_reveals_nothing:
  assumes "user_get_by_email email d = Inr None \<or>
    (\<exists>u. user_get_by_email email d = Inr (Some u) \<and> \<not> checkpw c password (u_hashed_password u))"
  shows "run (login cfg c en email password) d = (Inl (UnauthorizedError ''Invalid credentials.''), d, [])"
  using assms by (auto simp: login_def run_def fresh_session_def bindS_def query_def askS_def returnS_def raiseS_def verify_password_def)

theorem login_reveals_nothing_witness:
  "run (login default_settings example_crypto example_env ''ada@x.io'' ''guess'') example_db =
     (Inl (UnauthorizedError ''Invalid credentials.''), example_db, [])"
proof (rule login_reveals_nothing, rule disjI2, rule exI, rule conjI)
  show "user_get_by_email ''ada@x.io'' example_db = Inr (Some ada)" by code_simp
  show "\<not> checkpw example_crypto ''guess'' (u_hashed_password ada)" by code_simp
qed

section \<open>Refresh tokens\<close>

text \<open>C31. A refresh token works once: when a refresh succeeded, the token it returned is stored, not revoked, for
  the same user, and presenting the consumed token again is refused, changing nothing.\<close>

theorem refresh_token_rotates:
  assumes "run (refresh cfg c en raw) d = (Inr r, d', out)"
  shows "run (refresh cfg c en' raw) d' = (Inl (UnauthorizedError ''Invalid or expired refresh token.''), d', []) \<and>
    (\<exists>old new. get_by_hash (sha256 c raw) d = Inr (Some old) \<and> \<not> r_is_revoked old \<and> now en \<le> r_expires_at old \<and>
       get_by_hash (sha256 c (tr_refresh_token r)) d' = Inr (Some new) \<and> \<not> r_is_revoked new \<and> r_user_id new = r_user_id old)"
proof -
  let ?Q = "\<lambda>out s'. \<exists>old new. committed s' = rotated old new d \<and> get_by_hash (hash_refresh_token c raw) d = Inr (Some old) \<and> \<not> r_is_revoked old \<and>
     now en \<le> r_expires_at old \<and> r_user_id new = r_user_id old \<and> \<not> r_is_revoked new \<and>
     r_token_hash new = sha256 c (tr_refresh_token out) \<and> r_token_hash new \<notin> r_token_hash ` set (refresh_tokens d)"
  have "wp (refresh cfg c en raw) ?Q (\<lambda>_ _. True) (fresh_session d)"
  proof (rule wp_refresh, goal_cases)
    case (3 r n u out s')
    then show ?case
      by - (rule exI [of _ r], rule exI [of _ n], auto simp: hash_refresh_token_def dest!: user_get_by_idD)
  qed simp_all
  then obtain old new where o: "get_by_hash (hash_refresh_token c raw) d = Inr (Some old)" "\<not> r_is_revoked old"
    "now en \<le> r_expires_at old" "r_user_id new = r_user_id old" "\<not> r_is_revoked new"
    "r_token_hash new = sha256 c (tr_refresh_token r)" "r_token_hash new \<notin> r_token_hash ` set (refresh_tokens d)"
    "d' = rotated old new d"
    by (rule runE [OF assms]) auto
  have "get_by_hash (hash_refresh_token c raw) d' = Inr (Some (set_revoked old))"
    unfolding o(8) by (rule get_by_hash_rotated [OF o(1,7)])
  then have "refresh cfg c en' raw (fresh_session d') = (Inl (UnauthorizedError ''Invalid or expired refresh token.''), fresh_session d')"
    by (intro refresh_revoked [where r = "set_revoked old"]) (simp_all add: fresh_session_def)
  then have refused: "run (refresh cfg c en' raw) d' = (Inl (UnauthorizedError ''Invalid or expired refresh token.''), d', [])"
    by (simp add: run_def fresh_session_def)
  have "filter (\<lambda>q. r_token_hash q = r_token_hash new) (refresh_tokens d) = []"
    using o(7) by (auto simp: filter_empty_conv image_iff)
  then have "filter (\<lambda>q. r_token_hash q = r_token_hash new) (upd r_id (r_id old) set_revoked (refresh_tokens d)) = []"
    by (simp add: filter_upd)
  then have "get_by_hash (r_token_hash new) d' = Inr (Some new)" by (simp add: get_by_hash_def o(8) rotated_def)
  with o refused show ?thesis by (auto simp: hash_refresh_token_def)
qed

definition session_db :: db where
  "session_db = example_db\<lparr>refresh_tokens := [\<lparr>r_id = 71, r_user_id = 1, r_token_hash = ''old'',
     r_expires_at = 86400000001, r_is_revoked = False, r_created_at = 0\<rparr>]\<rparr>"

theorem refresh_token_rotates_witness:
  "\<exists>r d' out. run (refresh default_settings example_crypto example_env ''old'') session_db = (Inr r, d', out) \<and>
     run (refresh default_settings example_crypto example_env ''old'') d' =
       (Inl (UnauthorizedError ''Invalid or expired refresh token.''), d', [])"
proof -
  have "\<not> isl (fst (run (refresh default_settings example_crypto example_env ''old'') session_db))" by code_simp
  then obtain r d' out where r: "run (refresh default_settings example_crypto example_env ''old'') session_db = (Inr r, d', out)"
    by (rule run_returns)
  from refresh_token_rotates [OF r] r show ?thesis by blast
qed

section \<open>API keys\<close>



end
