(* ===== verification/Message_Origin.thy ===== *)
theory Message_Origin
  imports System
begin

text \<open>
  Where the messages on the queue come from. \<open>sends P m\<close>: whatever \<open>m\<close> puts into its session's outbox
  satisfies \<open>P\<close>, whether it returns or raises. The rules follow the structure of a method, so that
  one line per operation settles the whole program; the only sender of Paystack's notifications is
  the webhook endpoint, behind its check of the signature.
\<close>

named_theorems sends_intros \<open>what the parts of a method send\<close>

definition sends :: "(task \<Rightarrow> bool) \<Rightarrow> 'a svc \<Rightarrow> bool" where
  "sends P m \<longleftrightarrow> (\<forall>s r s'. m s = (r, s') \<longrightarrow> (\<exists>ts. outbox s' = outbox s @ ts \<and> (\<forall>t\<in>set ts. P t)))"

lemma sends_run:
  assumes "sends P m" and "run m d = (r, d', out)"
  shows "\<forall>t\<in>set out. P t"
  using assms by (fastforce simp: sends_def run_def fresh_session_def split: prod.splits)

lemma sends_silent: "(\<And>s. outbox (snd (m s)) = outbox s) \<Longrightarrow> sends P m"
  unfolding sends_def by (metis append_Nil2 empty_iff list.set(1) snd_conv)

lemma sends_basic [sends_intros]:
  "sends P (returnS x)" "sends P (raiseS e)" "sends P (query q)" "sends P (select p)" "sends P (flush f)"
  "sends P commit" "sends P rollback"
  by (rule sends_silent; simp add: returnS_def raiseS_def query_def select_def askS_def flush_def commit_def rollback_def
      putS_def split: sum.split)+

lemma sends_delay [sends_intros]: "P t \<Longrightarrow> sends P (delay en t)"
  by (auto simp: sends_def delay_def)

lemma sends_bind [sends_intros]:
  assumes "sends P m" and "\<And>a. sends P (f a)"
  shows "sends P (bindS m f)"
  unfolding sends_def
proof (intro allI impI)
  fix s r s' assume r: "bindS m f s = (r, s')"
  obtain x s1 where 1: "m s = (x, s1)" by (cases "m s")
  obtain ts where ts: "outbox s1 = outbox s @ ts" "\<forall>t\<in>set ts. P t" using assms(1) 1 unfolding sends_def by blast
  show "\<exists>ts. outbox s' = outbox s @ ts \<and> (\<forall>t\<in>set ts. P t)"
  proof (cases x)
    case (Inl e)
    then show ?thesis using r 1 ts by (auto simp: bindS_def)
  next
    case (Inr a)
    then have "f a s1 = (r, s')" using r 1 by (simp add: bindS_def)
    then obtain us where "outbox s' = outbox s1 @ us" "\<forall>t\<in>set us. P t" using assms(2) unfolding sends_def by blast
    with ts show ?thesis by (intro exI [of _ "ts @ us"]) auto
  qed
qed

lemma sends_catch [sends_intros]:
  assumes "sends P m" and "\<And>e. sends P (h e)"
  shows "sends P (catchS m p h)"
  unfolding sends_def
proof (intro allI impI)
  fix s r s' assume r: "catchS m p h s = (r, s')"
  obtain x s1 where 1: "m s = (x, s1)" by (cases "m s")
  obtain ts where ts: "outbox s1 = outbox s @ ts" "\<forall>t\<in>set ts. P t" using assms(1) 1 unfolding sends_def by blast
  show "\<exists>ts. outbox s' = outbox s @ ts \<and> (\<forall>t\<in>set ts. P t)"
  proof (cases "\<exists>e. x = Inl e \<and> p e")
    case True
    then obtain e where "h e s1 = (r, s')" using r 1 by (auto simp: catchS_def)
    then obtain us where "outbox s' = outbox s1 @ us" "\<forall>t\<in>set us. P t" using assms(2) unfolding sends_def by blast
    with ts show ?thesis by (intro exI [of _ "ts @ us"]) auto
  next
    case False
    then show ?thesis using r 1 ts by (auto simp: catchS_def split: sum.splits if_splits)
  qed
qed

lemma sends_cases [sends_intros]:
  "\<lbrakk>b \<Longrightarrow> sends P m; \<not> b \<Longrightarrow> sends P n\<rbrakk> \<Longrightarrow> sends P (if b then m else n)"
  "\<lbrakk>x = None \<Longrightarrow> sends P m; \<And>a. x = Some a \<Longrightarrow> sends P (f a)\<rbrakk> \<Longrightarrow> sends P (case x of None \<Rightarrow> m | Some a \<Rightarrow> f a)"
  "\<lbrakk>\<And>e. y = Inl e \<Longrightarrow> sends P (g e); \<And>a. y = Inr a \<Longrightarrow> sends P (h a)\<rbrakk> \<Longrightarrow> sends P (case y of Inl e \<Rightarrow> g e | Inr a \<Rightarrow> h a)"
  "(\<And>a b. z = (a, b) \<Longrightarrow> sends P (k a b)) \<Longrightarrow> sends P (case z of (a, b) \<Rightarrow> k a b)"
  "\<lbrakk>l = [] \<Longrightarrow> sends P m; \<And>b bs. l = b # bs \<Longrightarrow> sends P (i b bs)\<rbrakk> \<Longrightarrow> sends P (case l of [] \<Rightarrow> m | b # bs \<Rightarrow> i b bs)"
  "(\<And>a. a = v \<Longrightarrow> sends P (j a)) \<Longrightarrow> sends P (Let v j)"
  by (auto split: option.split sum.split prod.split list.split)

lemma sends_for [sends_intros]: "(\<And>x. x \<in> set xs \<Longrightarrow> sends P (f x)) \<Longrightarrow> sends P (forS xs f)"
  by (induction xs) (auto intro!: sends_intros)

section \<open>Every operation but the webhook endpoint\<close>

fun internal_task :: "task \<Rightarrow> bool" where
  "internal_task (ProcessPaystackWebhook ev data) = False"
| "internal_task _ = True"

abbreviation internal :: "'a svc \<Rightarrow> bool" where
  "internal \<equiv> sends internal_task"

lemma internal_tasks [sends_intros]:
  "internal_task (FlagTransactionRisk i r)" "internal_task (DeliverMerchantWebhook i)" "internal_task (ProcessWithdrawal i)"
  "internal_task CheckStaleTransactions"
  by simp_all

lemmas writer_defs = user_create_def user_update_profile_def user_update_kyc_tier_def update_profile_def update_kyc_tier_def
  wallet_create_def wallet_update_balance_def create_wallet_def transaction_create_def update_status_def create_entry_def
  post_double_entry_def merchant_create_def update_api_key_def update_webhook_def delivery_create_def account_create_def
  set_default_def set_recipient_code_def account_soft_delete_def kyc_create_def token_create_def revoke_def
  revoke_all_for_user_def store_refresh_token_def

lemma internal_audit [sends_intros]: "internal (audit_log_write en i ai at act tt ti md)"
  unfolding audit_log_write_def audit_create_def by (intro sends_intros)

lemma internal_accounts [sends_intros]:
  "internal (register cfg c en email pw name phone)" "internal (login cfg c en email pw)"
  "internal (refresh cfg c en raw)" "internal (logout c raw)" "internal (update_profile i m phone)"
  unfolding register_def login_def refresh_def logout_def writer_defs by (intro sends_intros)+

lemma internal_flags [sends_intros]:
  "internal (maybe_flag_rapid_transfers cfg en i j)" "internal (maybe_flag_merchant_payment cfg en i user a)"
  "internal (flag_transaction_risk en i r)"
  unfolding maybe_flag_rapid_transfers_def maybe_flag_merchant_payment_def flag_transaction_risk_def log_sync_eq
  by (intro sends_intros)+

lemma internal_webhooks [sends_intros]:
  "internal (create_and_enqueue en i m j ev pl)" "internal (deliver_merchant_webhook dumps hmac post en i)"
  "internal (retry_pending_webhooks en)"
  unfolding create_and_enqueue_def deliver_merchant_webhook_def retry_pending_webhooks_def log_sync_eq writer_defs
  by (intro sends_intros)+

lemma internal_move_funds [sends_intros]: "internal (move_funds en ty src dst a u key)"
  unfolding move_funds_def write_movement_def writer_defs by (intro sends_intros)

lemma internal_movements [sends_intros]:
  "internal (initiate_transfer cfg en user i e a key)" "internal (initiate_payment cfg en user mi a key)"
  unfolding initiate_transfer_def initiate_payment_def by (intro sends_intros)+

lemma internal_merchants [sends_intros]:
  "internal (create_merchant h en user name)" "internal (rotate_api_key h en i)" "internal (update_webhook_config en i url b)"
  unfolding create_merchant_def rotate_api_key_def update_webhook_config_def writer_defs by (intro sends_intros)+

lemma internal_banking [sends_intros]:
  "internal (add_bank_account cfg client en user n num code bank)" "internal (remove_bank_account en user i)"
  "internal (initiate_withdrawal cfg en user i a)"
  unfolding add_bank_account_def remove_bank_account_def initiate_withdrawal_def writer_defs by (intro sends_intros)+

lemma internal_payouts [sends_intros]:
  "internal (process_payout_success en ref code)" "internal (process_payout_failure en ref code)"
  "internal (process_withdrawal client i)"
  unfolding process_payout_success_def process_payout_failure_def process_withdrawal_def execute_payout_def
    resolve_recipient_def writer_defs
  by (intro sends_intros)+

lemma internal_charge [sends_intros]:
  "internal (initiate_funding client en user a key)" "internal (process_charge_success en data)"
  unfolding initiate_funding_def process_charge_success_def writer_defs by (intro sends_intros)+

lemma internal_notifications [sends_intros]:
  "internal (process_paystack_webhook en ev data)" "internal (check_stale_transactions client en)"
  unfolding process_paystack_webhook_def process_transfer_result_def check_stale_transactions_def
    reconcile_funding_def writer_defs
  by (intro sends_intros)+

lemma internal_kyc [sends_intros]:
  "internal (submit_kyc put en user tier bytes name)" "internal (approve_kyc en i user)" "internal (reject_kyc en i user reason)"
  unfolding submit_kyc_def approve_kyc_def reject_kyc_def writer_defs by (intro sends_intros)+

lemma internal_perform: "internal (perform w en t)"
  by (cases t; simp only: perform.simps; intro sends_intros)

lemma internal_handle_user: "internal (handle_user w en tok r)"
  by (cases r; simp only: handle_user.simps user_endpoints answer_def current_user_def validated_def; intro sends_intros)

lemma internal_handle_admin: "internal (handle_admin w en tok r)"
  by (cases r; simp only: handle_admin.simps admin_endpoints answer_def current_admin_def current_user_def validated_def;
      intro sends_intros)

lemma internal_handle_public:
  "(\<And>body sig. r \<noteq> PostPaystackWebhook body sig) \<Longrightarrow> internal (handle_public w en r)"
  by (cases r; simp only: handle_public.simps api_register_def api_login_def api_refresh_def api_logout_def answer_def
      validated_def; (intro sends_intros)?; blast)

lemma only_webhook_external: "\<not> internal (handle w en r) \<Longrightarrow> \<exists>body sig. r = Public (PostPaystackWebhook body sig)"
  by (cases r) (auto simp: internal_handle_user internal_handle_admin intro: internal_handle_public)

section \<open>The webhook endpoint\<close>

text \<open>What a notification's request must have carried: the keyed hash of its body, under the secret that is
  shared with Paystack and may not be empty.\<close>

definition authentic :: "outside \<Rightarrow> string \<Rightarrow> string option \<Rightarrow> bool" where
  "authentic w body sig \<longleftrightarrow> PAYSTACK_WEBHOOK_SECRET (o_settings w) \<noteq> [] \<and>
     o_hmac512 w (PAYSTACK_WEBHOOK_SECRET (o_settings w)) body = get_or '''' sig"

lemma run_receive:
  assumes "run (handle_public w en (PostPaystackWebhook body sig)) d = (r, d', out)" and "t \<in> set out"
  shows "authentic w body sig \<and> d' = d \<and> out = [t] \<and>
    (\<exists>e x. o_loads w body = Some (e, x) \<and> t = ProcessPaystackWebhook (get_or '''' e) (get_or empty_data x))"
  using assms
  by (auto simp: authentic_def verify_signature_def receive_paystack_webhook_def answer_def run_def fresh_session_def Let_def
      bindS_def raiseS_def returnS_def catchS_def delay_def split: if_splits option.splits)

text \<open>So the step that puts a notification on the queue served such a request, and did nothing else.\<close>

lemma notification_queued:
  assumes "step w s s'" and t: "ProcessPaystackWebhook ev data \<in> set (queue s')" "ProcessPaystackWebhook ev data \<notin> set (queue s)"
  obtains body sig e x where "authentic w body sig" "o_loads w body = Some (e, x)" "ev = get_or '''' e" "data = get_or empty_data x"
    "database s' = database s" "queue s' = queue s @ [ProcessPaystackWebhook ev data]"
  using assms(1)
proof (cases rule: step.cases)
  case (request en r d a d' out q)
  have new: "ProcessPaystackWebhook ev data \<in> set out" using t request(1,2) by simp
  have "\<not> internal (handle w en r)"
    using sends_run [OF _ request(3), of internal_task] new by (metis internal_task.simps(1))
  then obtain body sig where r: "r = Public (PostPaystackWebhook body sig)"
    using only_webhook_external by blast
  show thesis
    using run_receive [OF request(3) [unfolded r handle.simps] new] request(1,2) that by auto
next
  case (work t' q en d a d' out)
  then have "ProcessPaystackWebhook ev data \<in> set out" using t by simp
  then show thesis using sends_run [OF internal_perform work(4)] by (metis internal_task.simps(1))
next
  case (acknowledge d q t')
  then show thesis using t by (auto dest: notin_set_remove1)
next
  case (beat t' d q)
  then show thesis using t by (auto simp: beat_schedule_def)
qed

end
