(* ===== verification/Properties_Operations.thy ===== *)
theory Properties_Operations
  imports Message_Origin Properties_Payouts "HOL-Library.Multiset"
begin

text \<open>
  Outgoing and incoming webhooks, identity verification, the listing of transactions and the periodic sweeps.
\<close>

section \<open>Outgoing webhooks\<close>

text \<open>A pending delivery with attempts left, whose merchant has a webhook URL, and what the merchant's server
  answers to the request the task makes for it.\<close>

definition deliverable :: "uuid \<Rightarrow> webhook_delivery \<Rightarrow> merchant \<Rightarrow> string \<Rightarrow> db \<Rightarrow> bool" where
  "deliverable i x m url d \<longleftrightarrow> delivery_get_by_id i d = Inr (Some x) \<and> d_status x = WD_PENDING \<and>
     0 \<le> d_attempt_count x \<and> d_attempt_count x < 6 \<and>
     filter (\<lambda>m. m_id m = d_merchant_id x) (merchants d) = [m] \<and> m_webhook_url m = Some url \<and> url \<noteq> []"

definition reply_to ::
  "(json \<Rightarrow> string) \<Rightarrow> (string \<Rightarrow> string \<Rightarrow> string) \<Rightarrow> (string \<Rightarrow> string \<Rightarrow> string \<Rightarrow> string + int) \<Rightarrow>
   webhook_delivery \<Rightarrow> merchant \<Rightarrow> string \<Rightarrow> string + int" where
  "reply_to dumps hmac post x m url = (let body = dumps (d_payload x)
     in post url body (''sha256='' @ hmac (get_or '''' (m_webhook_secret m)) body))"

definition delivered :: "string + int \<Rightarrow> bool" where
  "delivered reply \<longleftrightarrow> (case reply of Inl _ \<Rightarrow> False | Inr code \<Rightarrow> 200 \<le> code \<and> code < 300)"

text \<open>The row one attempt leaves behind.\<close>

definition attempted :: "timestamp \<Rightarrow> string + int \<Rightarrow> webhook_delivery \<Rightarrow> webhook_delivery \<Rightarrow> bool" where
  "attempted ts reply x y \<longleftrightarrow> d_attempt_count y = d_attempt_count x + 1 \<and>
     (if delivered reply then d_status y = WD_DELIVERED \<and> d_next_retry_at y = None
      else if d_attempt_count y = 6 then d_status y = WD_FAILED \<and> d_next_retry_at y = None
      else d_status y = WD_PENDING \<and> d_next_retry_at y = Some (ts + minutes (2 ^ nat (d_attempt_count y))))"

lemma attempted_failure:
  assumes "deliverable i x m url d" "\<not> delivered reply"
  shows "attempted ts reply x (record_failure ts (d_attempt_count x + 1) c e x)"
  using record_failure_schedule [of x _ ts c e] assms by (auto simp: attempted_def deliverable_def record_failure_def)

lemma attempted_success:
  "delivered reply \<Longrightarrow> attempted ts reply x
     (x\<lparr>d_status := WD_DELIVERED, d_attempt_count := d_attempt_count x + 1, d_last_response_code := c, d_next_retry_at := None\<rparr>)"
  by (simp add: attempted_def)

lemma wp_deliver:
  assumes x: "deliverable i x m url d"
  shows "wp (deliver_merchant_webhook dumps hmac post en i)
    (\<lambda>_ s'. outbox s' = [] \<and> (\<exists>f al. (\<forall>w. d_id (f w) = d_id w) \<and> attempted (now en) (reply_to dumps hmac post x m url) x (f x) \<and>
      committed s' = d\<lparr>webhook_deliveries := upd d_id i f (webhook_deliveries d), audit_logs := al\<rparr>))
    (\<lambda>_ _. False) (fresh_session d)"
proof -
  define P where "P = attempted (now en) (reply_to dumps hmac post x m url) x"
  have fail: "P (record_failure (now en) (d_attempt_count x + 1) c e x)" if "\<not> delivered (reply_to dumps hmac post x m url)" for c e
    unfolding P_def by (rule attempted_failure [OF x that])
  have sent: "P (x\<lparr>d_status := WD_DELIVERED, d_attempt_count := d_attempt_count x + 1, d_last_response_code := c, d_next_retry_at := None\<rparr>)"
    if "delivered (reply_to dumps hmac post x m url)" for c
    unfolding P_def by (rule attempted_success [OF that])
  have hit: "\<exists>f. (\<forall>w. d_id (f w) = d_id w) \<and> P (f x) \<and> (\<exists>al. d\<lparr>webhook_deliveries := upd d_id i g (webhook_deliveries d)\<rparr> =
      d\<lparr>webhook_deliveries := upd d_id i f (webhook_deliveries d), audit_logs := al\<rparr>)"
    "\<exists>f. (\<forall>w. d_id (f w) = d_id w) \<and> P (f x) \<and> (\<exists>al. d\<lparr>webhook_deliveries := upd d_id i g (webhook_deliveries d), audit_logs := al'\<rparr> =
      d\<lparr>webhook_deliveries := upd d_id i f (webhook_deliveries d), audit_logs := al\<rparr>)"
    if "P (g x)" "\<And>w. d_id (g w) = d_id w" for g al'
    using that by - (rule exI [of _ g], simp, rule exI [of _ "audit_logs d"], simp, rule exI [of _ g], auto)
  have same: "d_id (record_failure ts n c e w) = d_id w" for ts n c e w by (simp add: record_failure_def)
  have facts: "delivery_get_by_id i d = Inr (Some x)" "d_status x = WD_PENDING" "d_id x = i" "m_webhook_url m = Some url" "url \<noteq> []"
    "filter (\<lambda>m. m_id m = d_merchant_id x) (merchants d) = [m]"
    using x by (auto simp: deliverable_def dest: delivery_get_by_idD)
  show ?thesis
    unfolding deliver_merchant_webhook_def log_sync_eq P_def [symmetric]
    by (intro wp_intros wp_audit_clean; (simp; fail)?)
      (auto simp: facts write_delivery_def is_success_def same reply_to_def delivered_def Let_def
        split: sum.splits if_splits intro!: hit sent fail)
qed

lemma deliver_ends:
  assumes "deliverable i x m url d"
  obtains d' y where "run (deliver_merchant_webhook dumps hmac post en i) d = (Inr (), d', [])"
    "delivery_get_by_id i d' = Inr (Some y)" "attempted (now en) (reply_to dumps hmac post x m url) x y"
    "d' = d\<lparr>webhook_deliveries := webhook_deliveries d', audit_logs := audit_logs d'\<rparr>"
proof -
  have x: "filter (\<lambda>w. d_id w = i) (webhook_deliveries d) = [x]" "d_id x = i"
    using assms delivery_get_by_idD [of i d x] by (simp_all add: deliverable_def delivery_get_by_id_def scalar_Inr_Some_iff)
  obtain r d' out where r: "run (deliver_merchant_webhook dumps hmac post en i) d = (r, d', out)"
    by (rule prod_cases3)
  obtain s :: session where s: "committed s = d'" "outbox s = out" "case r of Inl e \<Rightarrow> False | Inr a \<Rightarrow>
      outbox s = [] \<and> (\<exists>f al. (\<forall>w. d_id (f w) = d_id w) \<and> attempted (now en) (reply_to dumps hmac post x m url) x (f x) \<and>
        committed s = d\<lparr>webhook_deliveries := upd d_id i f (webhook_deliveries d), audit_logs := al\<rparr>)"
    by (rule runE [OF r wp_deliver [OF assms]]) blast
  then obtain f al where f: "r = Inr ()" "out = []" "\<And>w. d_id (f w) = d_id w" "attempted (now en) (reply_to dumps hmac post x m url) x (f x)"
    "d' = d\<lparr>webhook_deliveries := upd d_id i f (webhook_deliveries d), audit_logs := al\<rparr>"
    by (auto split: sum.splits)
  have "delivery_get_by_id i d' = Inr (Some (f x))"
    using f(3) x by (simp add: delivery_get_by_id_def f(5) filter_upd upd_Cons)
  then show thesis using that [OF _ _ f(4)] r f(1,2,5) by simp
qed

text \<open>The delivery of the example: Mo is to be told of a payment.\<close>

definition example_delivery :: webhook_delivery where
  "example_delivery = \<lparr>d_id = 71, d_merchant_id = 41, d_transaction_id = 21, d_event_type = ''payment.completed'',
     d_payload = [], d_status = WD_PENDING, d_attempt_count = 0, d_next_retry_at = None,
     d_last_response_code = None, d_last_error = None, d_created_at = 0\<rparr>"

definition webhook_db :: db where
  "webhook_db = example_db\<lparr>webhook_deliveries := [example_delivery]\<rparr>"

lemma example_deliverable:
  "\<exists>m. deliverable 71 example_delivery m ''https://mo'' webhook_db"
  by (simp add: deliverable_def delivery_get_by_id_def webhook_db_def example_delivery_def example_db_def)



text \<open>The sweep over the deliveries whose time has come.\<close>

lemma forS_delay:
  "broker_up en \<Longrightarrow> forS xs (\<lambda>i. delay en (f i)) s = (Inr (), s\<lparr>outbox := outbox s @ map f xs\<rparr>)"
  by (induction xs arbitrary: s) (simp_all add: returnS_def bindS_def delay_def)

lemma run_retry_pending_webhooks:
  "broker_up en \<Longrightarrow> run (retry_pending_webhooks en) d =
     (Inr (), d, map DeliverMerchantWebhook (map d_id (take 100 (filter (due (now en)) (webhook_deliveries d)))))"
  by (simp add: retry_pending_webhooks_def run_def fresh_session_def bindS_def select_def askS_def forS_delay)

text \<open>C36. A webhook is not given up before its attempts are used: when an attempt failed that was not the last,
  the first sweep from 32 minutes later on queues the delivery again, and by then the delivery is
  due for every sweep; after the sixth failed attempt or a successful one no sweep ever queues
  it again. (The sweep takes at most 100 deliveries and needs the message broker.)\<close>

theorem failed_attempt_is_retried:
  assumes "deliverable i x m url d" and "run (deliver_merchant_webhook dumps hmac post en i) d = (r, d', out)"
    and "broker_up en'" "now en + minutes 32 \<le> now en'"
    and "distinct (map d_id (webhook_deliveries d'))" "length (filter (due (now en')) (webhook_deliveries d')) \<le> 100"
  shows "\<exists>sent. run (retry_pending_webhooks en') d' = (Inr (), d', sent) \<and>
    (DeliverMerchantWebhook i \<in> set sent \<longleftrightarrow>
      \<not> delivered (reply_to dumps hmac post x m url) \<and> d_attempt_count x < 5)"
proof -
  obtain y where y: "delivery_get_by_id i d' = Inr (Some y)" "attempted (now en) (reply_to dumps hmac post x m url) x y"
    by (rule deliver_ends [OF assms(1), of dumps hmac post en]) (use assms(2) in auto)
  have only: "z = y" if "z \<in> set (webhook_deliveries d')" "d_id z = i" for z
    using assms(5) that delivery_get_by_idD [OF y(1)] by (auto simp: distinct_map dest: inj_onD)
  have "DeliverMerchantWebhook i \<in> set (map DeliverMerchantWebhook (map d_id (filter (due (now en')) (webhook_deliveries d')))) \<longleftrightarrow>
      due (now en') y"
    using only delivery_get_by_idD [OF y(1)] by (auto simp: image_iff)
  moreover have "minutes (2 ^ nat (d_attempt_count y)) \<le> minutes 32" if "d_attempt_count y < 6"
  proof -
    have "(2::int) ^ nat (d_attempt_count y) \<le> 2 ^ 5" using that by (intro power_increasing) auto
    then show ?thesis by (simp add: minutes_def)
  qed
  then have "due (now en') y \<longleftrightarrow> \<not> delivered (reply_to dumps hmac post x m url) \<and> d_attempt_count x < 5"
    using y(2) assms(1,4) by (auto simp: attempted_def due_def deliverable_def split: if_splits)
  ultimately show ?thesis using run_retry_pending_webhooks [OF assms(3), of d'] assms(6) by simp
qed

theorem failed_attempt_is_retried_witness:
  "\<exists>d' sent. run (retry_pending_webhooks (env_at 2)) d' = (Inr (), d', sent) \<and> DeliverMerchantWebhook 71 \<in> set sent"
proof -
  obtain m where m: "deliverable 71 example_delivery m ''https://mo'' webhook_db" using example_deliverable by blast
  define d' where "d' = fst (snd (run (deliver_merchant_webhook (\<lambda>_. ''{}'') (\<lambda>k b. k @ b) (\<lambda>_ _ _. Inr 500) (env_at 1) 71) webhook_db))"
  obtain r out where r: "run (deliver_merchant_webhook (\<lambda>_. ''{}'') (\<lambda>k b. k @ b) (\<lambda>_ _ _. Inr 500) (env_at 1) 71) webhook_db = (r, d', out)"
    unfolding d'_def by (metis prod.collapse)
  have one: "map d_id (webhook_deliveries d') = [71]"
    unfolding d'_def by code_simp
  then have "distinct (map d_id (webhook_deliveries d'))" "length (webhook_deliveries d') = 1"
    by (simp, metis length_map list.size(3) list.size(4) One_nat_def add_0)
  moreover have "length (filter (due (now (env_at 2))) (webhook_deliveries d')) \<le> length (webhook_deliveries d')"
    by (rule length_filter_le)
  ultimately show ?thesis
    using failed_attempt_is_retried [OF m r, of "env_at 2"]
    by (auto simp: env_at_def minutes_def example_delivery_def reply_to_def delivered_def Let_def)
qed

section \<open>Incoming webhooks\<close>



section \<open>Identity verification\<close>

lemma set_upd_unique:
  assumes "distinct (map key rows)" and "r \<in> set rows"
  shows "set (upd key (key r) f rows) = insert (f r) (set rows - {r})"
proof -
  have "upd key (key r) f rows = map (\<lambda>x. if x = r then f r else x) rows"
    unfolding upd_def using distinct_key_eq [OF assms(1) _ assms(2)] by (auto intro!: map_cong)
  then show ?thesis using assms(2) by auto
qed

text \<open>C27. An approval that succeeds is of a pending submission and not by its own author; it raises that user's
  tier by exactly one and marks the submission approved, and no other user, submission or table but
  the audit log changes.\<close>

theorem approval_raises_the_tier:
  assumes "run (approve_kyc en i reviewer) d = (Inr k', d', out)" and "kyc_ok d"
  shows "\<exists>k u. k \<in> set (kyc_submissions d) \<and> k_id k = i \<and> k_status k = KYC_PENDING \<and> k_user_id k \<noteq> u_id reviewer \<and>
    u \<in> set (users d) \<and> u_id u = k_user_id k \<and> u_deleted_at u = None \<and> k_requested_tier k = u_kyc_tier u + 1 \<and>
    k' = k\<lparr>k_status := KYC_APPROVED, k_reviewer_id := Some (u_id reviewer), k_reviewed_at := Some (now en)\<rparr> \<and>
    set (users d') = insert (u\<lparr>u_kyc_tier := u_kyc_tier u + 1\<rparr>) (set (users d) - {u}) \<and>
    set (kyc_submissions d') = insert k' (set (kyc_submissions d) - {k}) \<and>
    d' = d\<lparr>users := users d', kyc_submissions := kyc_submissions d', audit_logs := audit_logs d'\<rparr> \<and> out = []"
proof -
  let ?Q = "\<lambda>k' s' :: session. outbox s' = [] \<and> (\<exists>k u al. k \<in> set (kyc_submissions d) \<and> k_id k = i \<and> k_status k = KYC_PENDING \<and>
    k_user_id k \<noteq> u_id reviewer \<and> u \<in> set (users d) \<and> u_id u = k_user_id k \<and> u_deleted_at u = None \<and>
    k' = review (now en) KYC_APPROVED (u_id reviewer) None k \<and>
    committed s' = (approved (now en) (u_id reviewer) k d)\<lparr>audit_logs := al\<rparr>)"
  have "wp (approve_kyc en i reviewer) ?Q (\<lambda>_ _. True) (fresh_session d)"
    by (rule wp_approve_kyc) auto
  then obtain k u al where k: "out = []" "k \<in> set (kyc_submissions d)" "k_id k = i" "k_status k = KYC_PENDING"
      "k_user_id k \<noteq> u_id reviewer" "u \<in> set (users d)" "u_id u = k_user_id k" "u_deleted_at u = None"
      "k' = review (now en) KYC_APPROVED (u_id reviewer) None k" "d' = (approved (now en) (u_id reviewer) k d)\<lparr>audit_logs := al\<rparr>"
    by (rule runE [OF assms(1)]) auto
  note D = kyc_okD [OF assms(2)]
  have tier: "k_requested_tier k = u_kyc_tier u + 1" using D(5) [OF k(2)] k(4,6,7) by (simp add: tier_fits_def)
  have "set (users d') = insert (u\<lparr>u_kyc_tier := u_kyc_tier u + 1\<rparr>) (set (users d) - {u})"
    using set_upd_unique [OF D(1) k(6), of "\<lambda>u. u\<lparr>u_kyc_tier := k_requested_tier k\<rparr>"] k(7) tier
    by (simp add: k(10) approved_def)
  moreover have "set (kyc_submissions d') = insert k' (set (kyc_submissions d) - {k})"
    using set_upd_unique [OF D(2) k(2), of "review (now en) KYC_APPROVED (u_id reviewer) None"] by (simp add: k(9,10) approved_def)
  ultimately show ?thesis
    using k tier by - (rule exI [of _ k], rule exI [of _ u], simp add: review_def approved_def)
qed

theorem approval_raises_the_tier_witness:
  "\<exists>k' d' out. run (approve_kyc (env_at 1) 51 root) example_db = (Inr k', d', out) \<and> k_status k' = KYC_APPROVED \<and>
     (\<exists>u\<in>set (users d'). u_id u = 1 \<and> u_kyc_tier u = 2) \<and> out = []"
proof -
  have "\<not> isl (fst (run (approve_kyc (env_at 1) 51 root) example_db))" by code_simp
  then obtain k' d' out where r: "run (approve_kyc (env_at 1) 51 root) example_db = (Inr k', d', out)" by (rule run_returns)
  from approval_raises_the_tier [OF r example_kyc_ok]
  obtain k u where k: "k \<in> set (kyc_submissions example_db)" "u \<in> set (users example_db)" "u_id u = k_user_id k"
      "k_status k' = KYC_APPROVED" "set (users d') = insert (u\<lparr>u_kyc_tier := u_kyc_tier u + 1\<rparr>) (set (users example_db) - {u})" "out = []"
    by force
  then have "u_id u = 1" "u_kyc_tier u = 1"
    by (auto simp: example_db_def ada_def bo_def mo_def root_def)
  with r k show ?thesis by auto
qed

text \<open>C37. A document that is accepted for review is at most 5 MB, starts like a JPEG, PNG or PDF file, and is
  stored under a key below the folder of this user and this submission: the last part of the key, made
  from the name the client gave, contains neither a slash nor two dots in a row, whatever the name
  was.\<close>

theorem document_key_is_confined:
  assumes "run (submit_kyc put en user tier bytes name) d = (Inr k, d', out)"
  shows "length bytes \<le> 5 * 1024 * 1024 \<and>
    (take 3 bytes = [0xff, 0xd8, 0xff] \<or> take 4 bytes = [0x89, 0x50, 0x4e, 0x47] \<or> take 4 bytes = [0x25, 0x50, 0x44, 0x46]) \<and>
    k \<in> set (kyc_submissions d') \<and> put (k_document_key k) bytes \<and>
    (\<exists>last. k_document_key k = ''kyc/'' @ uuid_str (u_id user) @ ''/'' @ uuid_str (k_id k) @ ''/'' @ last \<and>
      CHR ''/'' \<notin> set last \<and> \<not> has_pair (CHR ''.'') (CHR ''.'') last)"
proof -
  let ?Q = "\<lambda>k s' :: session. k = submitted en user tier name \<and> length bytes \<le> MAX_FILE_SIZE \<and>
    detect_mime_type bytes \<noteq> None \<and> put (k_document_key k) bytes \<and> k \<in> set (kyc_submissions (committed s'))"
  have "wp (submit_kyc put en user tier bytes name) ?Q (\<lambda>_ _. True) (fresh_session d)"
    by (rule wp_submit_kyc) auto
  then have k: "k = submitted en user tier name" "length bytes \<le> MAX_FILE_SIZE" "detect_mime_type bytes \<noteq> None"
    "put (k_document_key k) bytes" "k \<in> set (kyc_submissions d')"
    by (rule runE [OF assms], simp)+
  have "\<exists>(magic, mime) \<in> set MAGIC. take (length magic) bytes = magic"
    using k(3) by (auto simp: detect_mime_type_def find_None_iff)
  then have "take 3 bytes = [0xff, 0xd8, 0xff] \<or> take 4 bytes = [0x89, 0x50, 0x4e, 0x47] \<or> take 4 bytes = [0x25, 0x50, 0x44, 0x46]"
    by (auto simp: MAGIC_def eval_nat_numeral)
  moreover have "k_document_key k = ''kyc/'' @ uuid_str (u_id user) @ ''/'' @ uuid_str (k_id k) @ ''/'' @ safe_name name"
    by (simp add: k(1) submitted_def document_key_of_def)
  ultimately show ?thesis
    using k safe_name_no_slash safe_name_no_dots by (simp add: MAX_FILE_SIZE_def)
qed

theorem document_key_is_confined_witness:
  "\<exists>k d' out last. run (submit_kyc (\<lambda>_ _. True) (env_at 1) bo 3 [0x25, 0x50, 0x44, 0x46] ''../../a..b'') example_db = (Inr k, d', out) \<and>
     k_document_key k = ''kyc/'' @ uuid_str 2 @ ''/'' @ uuid_str (k_id k) @ ''/'' @ last \<and> CHR ''/'' \<notin> set last"
proof -
  let ?m = "submit_kyc (\<lambda>_ _. True) (env_at 1) bo 3 [0x25, 0x50, 0x44, 0x46] ''../../a..b''"
  have "fits_varchar 500 (document_key_of 2 1000 ''../../a..b'')" by code_simp
  then have "wp ?m (\<lambda>_ _. True) (\<lambda>_ _. False) (fresh_session example_db)"
    unfolding submit_kyc_def
    by (simp add: wp_rules MAX_FILE_SIZE_def detect_mime_type_def MAGIC_def upload_file_def kyc_create_def Let_def
        get_active_for_tier_def scalar_one_or_none_def insert_kyc_submission_def clashes_def refers_def audit_never_raises
        example_db_def bo_def ada_def env_at_def)
  then obtain k d' out where r: "run ?m example_db = (Inr k, d', out)"
    by (cases "run ?m example_db" rule: prod_cases3) (auto simp: run_def wp_def split: prod.splits sum.splits)
  have "u_id bo = 2" by (simp add: bo_def)
  with document_key_is_confined [OF r] r show ?thesis by auto
qed

section \<open>Listing\<close>




section \<open>Reconciliation\<close>

text \<open>A charge that can be booked: its funding waits, its wallet is there, the amounts fit and the
  identifier of the new ledger entry is fresh.\<close>

definition bookable :: "env \<Rightarrow> transaction \<Rightarrow> wallet \<Rightarrow> money \<Rightarrow> db \<Rightarrow> bool" where
  "bookable en t w a d \<longleftrightarrow> t_status t = PENDING \<and> t_destination_wallet_id t = Some (w_id w) \<and>
     wallet_lock_for_update (w_id w) d = Inr (Some w) \<and> 0 \<le> w_balance w + a \<and> fits_numeric a \<and>
     fits_numeric (w_balance w + a) \<and> uuid4 en 0 \<notin> e_id ` set (ledger_entries d)"


lemma wp_charge_booked:
  assumes "working s = d" "committed s = d" "ev_reference data = Some ref" "ref \<noteq> []"
    and "get_by_provider_reference ref d = Inr (Some t)" "bookable en t w (get_or 0 (ev_amount data)) d"
  shows "wp (process_charge_success en data) (\<lambda>_ s'. working s' = committed s' \<and> outbox s' = outbox s \<and>
    (\<exists>al. committed s' = (charge_credited en t w (get_or 0 (ev_amount data)) d)\<lparr>audit_logs := al\<rparr>)) (\<lambda>_ _. False) s"
proof -
  have "refers (t_id t) t_id (transactions d)" "refers (w_id w) w_id (wallets d)"
    using get_by_provider_referenceD [OF assms(5)] assms(6) by (auto simp: bookable_def refers_here dest: wallet_lockD)
  with assms show ?thesis
    unfolding process_charge_success_def bookable_def
    by (auto simp: Let_def wp_rules write_balance_def insert_ledger_entry_def clashes_def charge_credited_def set_status_twice
        intro!: wp_audit_clean) (rule exI [of _ "audit_logs (working s)"], simp)
qed

lemma wp_reconcile_answered:
  assumes "working s = d" "committed s = d" "transaction_get_by_id (t_id t) d = Inr (Some t)" "t_status t = PENDING"
    and "verify_transaction client ref = Inr data" "get_by_provider_reference ref d = Inr (Some t)" "ref \<noteq> []"
    and "ev_status data = Some ''success'' \<Longrightarrow> ev_reference data = Some ref \<and> bookable en t w (get_or 0 (ev_amount data)) d"
  shows "wp (reconcile_funding client en (t_id t) ref) (\<lambda>_ s'. outbox s' = outbox s \<and>
      (if ev_status data = Some ''success''
       then \<exists>al. committed s' = (charge_credited en t w (get_or 0 (ev_amount data)) d)\<lparr>audit_logs := al\<rparr>
       else committed s' = funding_failed (get_or '''' (ev_status data)) t d)) (\<lambda>_ _. False) s"
proof (cases "ev_status data = Some ''success''")
  case True
  have "wp (process_charge_success en data) (\<lambda>_. wp commit (\<lambda>_ s'. outbox s' = outbox s \<and>
      (\<exists>al. committed s' = (charge_credited en t w (get_or 0 (ev_amount data)) d)\<lparr>audit_logs := al\<rparr>)) R) R (s\<lparr>working := d\<rparr>)" for R
    by (rule wp_mono [OF wp_charge_booked [where d = d and ref = ref and t = t and w = w]])
      (use assms True in \<open>auto simp: wp_rules\<close>)
  with True assms(1,2,5) show ?thesis by (simp add: reconcile_funding_def wp_rules Let_def)
next
  case False
  then have "get_or '''' (ev_status data) \<noteq> ''success''" by (cases "ev_status data") auto
  with False assms(1-5) show ?thesis
    by (simp add: reconcile_funding_def wp_rules Let_def funding_failed_def set_status_fail_twice)
qed

text \<open>C19. Reconciliation settles a funding whose notification was lost: when Paystack answers for a pending
  funding, the item always returns, and the funding is COMPLETED with its wallet credited if the
  charge succeeded and can be booked, and FAILED with every balance unchanged for any other status.\<close>

theorem lost_notification_is_settled:
  assumes "sound d" "transaction_get_by_id (t_id t) d = Inr (Some t)" "t_status t = PENDING"
    and "verify_transaction client ref = Inr data" "get_by_provider_reference ref d = Inr (Some t)" "ref \<noteq> []"
    and "ev_status data = Some ''success'' \<Longrightarrow> ev_reference data = Some ref \<and> bookable en t w (get_or 0 (ev_amount data)) d"
  shows "\<exists>d'. run (reconcile_funding client en (t_id t) ref) d = (Inr (), d', []) \<and> sound d' \<and>
    (if ev_status data = Some ''success''
     then map t_status (filter (\<lambda>q. t_id q = t_id t) (transactions d')) = [COMPLETED] \<and>
       (\<forall>i. balance_of i d' = map_option (\<lambda>b. b + (if i = w_id w then get_or 0 (ev_amount data) else 0)) (balance_of i d))
     else map t_status (filter (\<lambda>q. t_id q = t_id t) (transactions d')) = [FAILED] \<and>
       (\<forall>i. balance_of i d' = balance_of i d))"
proof -
  let ?Q = "\<lambda>s' :: session. outbox s' = [] \<and>
    (if ev_status data = Some ''success''
     then \<exists>al. committed s' = (charge_credited en t w (get_or 0 (ev_amount data)) d)\<lparr>audit_logs := al\<rparr>
     else committed s' = funding_failed (get_or '''' (ev_status data)) t d)"
  have wp: "wp (reconcile_funding client en (t_id t) ref) (\<lambda>_. ?Q) (\<lambda>_ _. False) (fresh_session d)"
    by (rule wp_mono [OF wp_reconcile_answered [where d = d and t = t and data = data and w = w]]) (use assms in auto)
  obtain r d' out where r: "run (reconcile_funding client en (t_id t) ref) d = (r, d', out)" by (rule prod_cases3)
  obtain s :: session where s: "committed s = d'" "outbox s = out" "case r of Inl e \<Rightarrow> False | Inr a \<Rightarrow> ?Q s"
    by (rule runE [OF r wp]) blast
  then have ret: "r = Inr ()" "?Q s" by (cases r; simp)+
  have t: "t \<in> set (transactions d)" and only: "filter (\<lambda>q. t_id q = t_id t) (transactions d) = [t]"
    using transaction_get_by_idD [OF assms(2)] assms(2) by (simp_all add: transaction_get_by_id_def scalar_Inr_Some_iff)
  have ready: "fund_ready ref t d" by (rule fund_readyI [OF assms(5,3)])
  note facts = fund_ready_sound [OF assms(1) ready]
  have status: "map t_status (filter (\<lambda>q. t_id q = t_id t) (upd t_id (t_id t) (set_status st m p) (transactions d))) = [st]" for st m p
    using only by (simp add: filter_upd upd_Cons)
  show ?thesis
  proof (cases "ev_status data = Some ''success''")
    case True
    with ret(2) obtain al where d': "d' = (charge_credited en t w (get_or 0 (ev_amount data)) d)\<lparr>audit_logs := al\<rparr>"
      using s(1) by auto
    have b: "bookable en t w (get_or 0 (ev_amount data)) d" using assms(7) True by blast
    then have w: "w \<in> set (wallets d)" "t_destination_wallet_id t = Some (w_id w)" "0 \<le> w_balance w + get_or 0 (ev_amount data)"
      by (auto simp: bookable_def dest: wallet_lockD)
    have "sound d'" using sound_charge_credited [OF assms(1) ready w] by (simp add: d')
    then show ?thesis
      using True r s ret status balance_of_write [OF soundD(1) [OF assms(1)] w(1)]
      by (simp add: d' charge_credited_def balance_of_def)
  next
    case False
    then have "d' = funding_failed (get_or '''' (ev_status data)) t d" using ret(2) s(1) by simp
    then show ?thesis
      using False r s ret status sound_funding_failed [OF assms(1) t assms(3) facts(2)]
      by (simp add: funding_failed_def balance_of_def)
  qed
qed

text \<open>Bo's funding of 300 NGN that Paystack confirms when asked.\<close>

definition asked_paystack :: http_client where
  "asked_paystack = example_paystack\<lparr>http_get := (\<lambda>path. Answer 200 (Body (Some (empty_data
     \<lparr>ev_status := Some ''success'', ev_reference := Some ''f3'', ev_amount := Some 30000\<rparr>))))\<rparr>"

theorem lost_notification_is_settled_witness:
  "\<exists>d'. run (reconcile_funding asked_paystack (env_at 1) 23 ''f3'') banking_db = (Inr (), d', []) \<and> sound d' \<and>
     map t_status (filter (\<lambda>q. t_id q = 23) (transactions d')) = [COMPLETED] \<and> balance_of 12 d' = Some (naira 700)"
proof -
  let ?data = "empty_data\<lparr>ev_status := Some ''success'', ev_reference := Some ''f3'', ev_amount := Some 30000\<rparr>"
  have a: "verify_transaction asked_paystack ''f3'' = Inr ?data"
    by (simp add: verify_transaction_def paystack_get_def read_answer_def is_success_def asked_paystack_def)
  have b: "get_by_provider_reference ''f3'' banking_db = Inr (Some pending_funding)"
    "transaction_get_by_id (t_id pending_funding) banking_db = Inr (Some pending_funding)"
    "wallet_lock_for_update 12 banking_db = Inr (Some (wallet_of 12 2 (naira 400)))" "balance_of 12 banking_db = Some (naira 400)"
    "map e_id (ledger_entries banking_db) = [31, 32]"
    by code_simp+
  have "set (map e_id (ledger_entries banking_db)) = {31, 32}" unfolding b(5) by simp
  then have "bookable (env_at 1) pending_funding (wallet_of 12 2 (naira 400)) 30000 banking_db"
    using b(3) by (simp add: bookable_def pending_funding_def funded_def wallet_of_def env_at_def fits_numeric_def naira_def
        new_wallet_def)
  with lost_notification_is_settled [OF banking_sound b(2) _ a b(1), of "env_at 1" "wallet_of 12 2 (naira 400)"] b(4)
  show ?thesis by (auto simp: pending_funding_def funded_def wallet_of_def new_wallet_def naira_def)
qed

text \<open>The whole sweep: no item fails it, and the pending withdrawals come after it.\<close>

lemma wp_check_stale:
  assumes "sound d" "broker_up en"
  shows "wp (check_stale_transactions client en)
    (\<lambda>_ s'. sound (committed s') \<and> outbox s' = map ProcessWithdrawal (stale_withdrawals (now en - minutes 30) (committed s')))
    (\<lambda>_ _. False) (fresh_session d)"
proof -
  let ?I = "\<lambda>s' :: session. sound (committed s') \<and> types_of (committed s') = types_of d \<and> outbox s' = []"
  let ?stale = "stale_funding (now en - minutes STALE_THRESHOLD_MINUTES) d"
  let ?item = "\<lambda>(k, txn_id, provider_ref). reconcile_funding client (shift_env (2 * k) en) txn_id provider_ref"
  have loop: "wp (forS (zip [0..<length ?stale] ?stale) ?item) (\<lambda>_. ?I) R (fresh_session d)" for R
  proof (rule wp_forS)
    fix x and s' :: session assume x: "x \<in> set (zip [0..<length ?stale] ?stale)" and I: "?I s'"
    obtain k i r where [simp]: "x = (k, i, r)" by (cases x) auto
    have "(i, FUNDING) \<in> set (types_of (committed s'))" using x I stale_funding_types by (auto dest: set_zip_rightD)
    then have "t_type t = FUNDING" if "t \<in> set (transactions (committed s'))" "t_id t = i" for t
      using types_of_unique [OF soundD(2) _ that] I by blast
    then show "wp (?item x) (\<lambda>_. ?I) R s'"
      using I by simp (intro wp_reconcile_funding; auto intro!: sound_charge_credited sound_left_processing sound_funding_failed)
  qed (use assms in \<open>simp add: fresh_session_def\<close>)
  have after: "forS xs (\<lambda>i. delay en (ProcessWithdrawal i)) s' = (Inr (), s'\<lparr>outbox := outbox s' @ map ProcessWithdrawal xs\<rparr>)" for xs s'
    by (rule forS_delay [OF assms(2)])
  show ?thesis
    unfolding check_stale_transactions_def Let_def
    by (simp add: wp_rules fresh_session_def [of d])
      (rule wp_mono [OF loop [unfolded fresh_session_def]];
        simp add: wp_rules wp_def [of "forS xs f" for xs f] after STALE_THRESHOLD_MINUTES_def)
qed

text \<open>C20. The reconciliation sweep never fails as long as the broker can be reached, whatever Paystack answers
  or does not answer for each funding: it keeps the books sound, and then queues the payout again for
  at most 50 withdrawals, all of them pending since half an hour or longer, and for every such
  withdrawal when there are no more than 50.\<close>

theorem reconciliation_sweep:
  assumes "sound d" and "broker_up en"
  shows "\<exists>d' sent. run (check_stale_transactions client en) d = (Inr (), d', map ProcessWithdrawal sent) \<and> sound d' \<and>
    length sent \<le> 50 \<and> distinct sent \<and>
    (let stale = t_id ` {t \<in> set (transactions d'). t_type t = WITHDRAWAL \<and> t_status t = PENDING \<and>
        t_created_at t \<le> now en - minutes 30}
     in set sent \<subseteq> stale \<and> (card stale \<le> 50 \<longrightarrow> set sent = stale))"
proof -
  obtain r d' out where r: "run (check_stale_transactions client en) d = (r, d', out)" by (rule prod_cases3)
  let ?old = "\<lambda>t. t_type t = WITHDRAWAL \<and> t_status t = PENDING \<and> t_created_at t \<le> now en - minutes 30"
  obtain s :: session where s: "committed s = d'" "outbox s = out" "case r of Inl e \<Rightarrow> False | Inr a \<Rightarrow>
      sound (committed s) \<and> outbox s = map ProcessWithdrawal (stale_withdrawals (now en - minutes 30) (committed s))"
    by (rule runE [OF r wp_check_stale [OF assms]]) blast
  then have ret: "r = Inr ()" "sound d'" "out = map ProcessWithdrawal (stale_withdrawals (now en - minutes 30) d')"
    by (cases r; simp)+
  let ?all = "map t_id (filter ?old (transactions d'))"
  have sent: "stale_withdrawals (now en - minutes 30) d' = take 50 ?all"
    by (simp add: stale_withdrawals_def BATCH_LIMIT_def take_map)
  have d: "distinct ?all" by (rule distinct_map_filter [OF soundD(2) [OF ret(2)]])
  have set_all: "set ?all = t_id ` {t \<in> set (transactions d'). ?old t}" by simp
  have "card (set ?all) = length ?all" using d by (rule distinct_card)
  then have "card (set ?all) \<le> 50 \<Longrightarrow> set (take 50 ?all) = set ?all" by simp
  moreover have "set (take 50 ?all) \<subseteq> set ?all" by (rule set_take_subset)
  ultimately show ?thesis
    using r ret(1-3) sent d unfolding set_all [symmetric] Let_def
    by - (rule exI [of _ d'], rule exI [of _ "take 50 ?all"], simp only: distinct_take length_take, simp)
qed

theorem reconciliation_sweep_witness:
  "\<exists>d' sent. run (check_stale_transactions asked_paystack (env_at 1)) banking_db = (Inr (), d', map ProcessWithdrawal sent) \<and>
     sound d' \<and> length sent \<le> 50"
  using reconciliation_sweep [OF banking_sound, of "env_at 1" asked_paystack] by (auto simp: env_at_def)

end
