(* ===== verification/Ddl.thy ===== *)
theory Ddl
  imports Prelude
begin

text \<open>
  Database schemas and the statements that change them, as far as the Alembic migrations use
  PostgreSQL: types, tables, columns, constraints and indexes; what \<open>CREATE\<close>, \<open>DROP\<close> and
  \<open>ALTER TABLE\<close> do to a schema and when they fail. A well-formed schema stays well formed, and
  statements that create things can be undone by dropping the same things in the opposite order.
\<close>

section \<open>Schemas\<close>

datatype sql_type = UUID | VARCHAR nat | TEXT | BOOLEAN | SMALLINT | NUMERIC nat nat | TIMESTAMPTZ | JSONB
  | ENUM string "string list"

datatype on_delete = CASCADE | RESTRICT | SET_NULL

record column =
  col_name :: string
  col_type :: sql_type
  col_nullable :: bool
  col_default :: "string option"

record foreign_key =
  fk_columns :: "string list"
  fk_table :: string
  fk_target :: "string list"
  fk_on_delete :: on_delete

record sql_table =
  tab_name :: string
  tab_columns :: "column list"
  tab_primary_key :: "string list"
  tab_uniques :: "(string option \<times> string list) list"
  tab_foreign_keys :: "foreign_key list"
  tab_checks :: "(string \<times> string) list"

record sql_index =
  ix_name :: string
  ix_table :: string
  ix_columns :: "string list"
  ix_unique :: bool

record schema =
  enum_types :: "(string \<times> string list) list"
  tables :: "sql_table list"
  indexes :: "sql_index list"

definition empty_schema :: schema where
  "empty_schema = \<lparr>enum_types = [], tables = [], indexes = []\<rparr>"

text \<open>
  The arguments of \<open>op.create_table\<close>: columns with the constraints written on them
  (\<open>primary_key=True\<close>, \<open>unique=True\<close>, \<open>index=True\<close>, \<open>sa.ForeignKey\<close>) and table constraints.
\<close>

datatype column_flag = PRIMARY_KEY | UNIQUE_KEY | INDEXED | FOREIGN_KEY string string on_delete

datatype table_arg = Column column "column_flag list"
  | PrimaryKeyConstraint "string list"
  | UniqueConstraint string "string list"
  | ForeignKeyConstraint "string list" string "string list" on_delete
  | CheckConstraint string string

definition not_null :: "string \<Rightarrow> sql_type \<Rightarrow> column" where
  "not_null n ty = \<lparr>col_name = n, col_type = ty, col_nullable = False, col_default = None\<rparr>"

definition nullable :: "string \<Rightarrow> sql_type \<Rightarrow> column" where
  "nullable n ty = \<lparr>col_name = n, col_type = ty, col_nullable = True, col_default = None\<rparr>"

definition server_default :: "string \<Rightarrow> column \<Rightarrow> column" where
  "server_default t c = c\<lparr>col_default := Some t\<rparr>"

fun arg_columns :: "table_arg \<Rightarrow> column list" where
  "arg_columns (Column c fs) = [c]"
| "arg_columns _ = []"

fun arg_primary_key :: "table_arg \<Rightarrow> string list" where
  "arg_primary_key (Column c fs) = (if PRIMARY_KEY \<in> set fs then [col_name c] else [])"
| "arg_primary_key (PrimaryKeyConstraint cs) = cs"
| "arg_primary_key _ = []"

fun arg_uniques :: "table_arg \<Rightarrow> (string option \<times> string list) list" where
  "arg_uniques (Column c fs) = (if UNIQUE_KEY \<in> set fs then [(None, [col_name c])] else [])"
| "arg_uniques (UniqueConstraint n cs) = [(Some n, cs)]"
| "arg_uniques _ = []"

fun flag_foreign_key :: "string \<Rightarrow> column_flag \<Rightarrow> foreign_key list" where
  "flag_foreign_key n (FOREIGN_KEY t c od) = [\<lparr>fk_columns = [n], fk_table = t, fk_target = [c], fk_on_delete = od\<rparr>]"
| "flag_foreign_key n _ = []"

fun arg_foreign_keys :: "table_arg \<Rightarrow> foreign_key list" where
  "arg_foreign_keys (Column c fs) = concat (map (flag_foreign_key (col_name c)) fs)"
| "arg_foreign_keys (ForeignKeyConstraint cs t ts od) = [\<lparr>fk_columns = cs, fk_table = t, fk_target = ts, fk_on_delete = od\<rparr>]"
| "arg_foreign_keys _ = []"

fun arg_checks :: "table_arg \<Rightarrow> (string \<times> string) list" where
  "arg_checks (CheckConstraint n c) = [(n, c)]"
| "arg_checks _ = []"

definition table_of :: "string \<Rightarrow> table_arg list \<Rightarrow> sql_table" where
  "table_of n args = \<lparr>tab_name = n, tab_columns = concat (map arg_columns args),
     tab_primary_key = concat (map arg_primary_key args), tab_uniques = concat (map arg_uniques args),
     tab_foreign_keys = concat (map arg_foreign_keys args), tab_checks = concat (map arg_checks args)\<rparr>"

section \<open>Statements\<close>

datatype ddl = CreateType string "string list"
  | CreateTypeIfMissing string "string list"
  | DropType string
  | DropTypeIfPresent string
  | CreateTable string "table_arg list"
  | DropTable string
  | CreateIndex sql_index
  | DropIndex string string
  | AddColumn string column
  | DropColumn string string

datatype ddl_error = DuplicateObject string | UndefinedObject string | DuplicateTable string | UndefinedTable string
  | InvalidTableDefinition string | DuplicateColumn string | UndefinedColumn string | NotNullWithoutDefault string
  | DependentObjects string | WrongRevision

definition type_names :: "schema \<Rightarrow> string list" where
  "type_names s = map fst (enum_types s)"

definition table_names :: "schema \<Rightarrow> string list" where
  "table_names s = map tab_name (tables s)"

definition column_names :: "sql_table \<Rightarrow> string list" where
  "column_names t = map col_name (tab_columns t)"

text \<open>Tables, indexes and named UNIQUE constraints share one space of names.\<close>

definition relation_names :: "schema \<Rightarrow> string list" where
  "relation_names s = table_names s @ map ix_name (indexes s) @
     concat (map (\<lambda>t. concat (map (\<lambda>(n, cs). case n of None \<Rightarrow> [] | Some m \<Rightarrow> [m]) (tab_uniques t))) (tables s))"

fun enum_of :: "sql_type \<Rightarrow> string list" where
  "enum_of (ENUM n ls) = [n]"
| "enum_of _ = []"

definition enums_used :: "sql_table \<Rightarrow> string list" where
  "enums_used t = concat (map (\<lambda>c. enum_of (col_type c)) (tab_columns t))"

text \<open>The columns that the constraints of a table name.\<close>

definition constrained :: "sql_table \<Rightarrow> string list" where
  "constrained t = tab_primary_key t @ concat (map snd (tab_uniques t)) @ concat (map fk_columns (tab_foreign_keys t))"

definition find_table :: "schema \<Rightarrow> string \<Rightarrow> sql_table option" where
  "find_table s n = List.find (\<lambda>t. tab_name t = n) (tables s)"

text \<open>A foreign key refers to the primary key or a UNIQUE key of a table.\<close>

definition fk_valid :: "schema \<Rightarrow> foreign_key \<Rightarrow> bool" where
  "fk_valid s fk \<longleftrightarrow> (case find_table s (fk_table fk) of None \<Rightarrow> False
     | Some t \<Rightarrow> fk_target fk = tab_primary_key t \<or> fk_target fk \<in> set (map snd (tab_uniques t)))"

definition drop_column :: "string \<Rightarrow> sql_table \<Rightarrow> sql_table" where
  "drop_column c t = t\<lparr>tab_columns := filter (\<lambda>x. col_name x \<noteq> c) (tab_columns t),
     tab_primary_key := (if c \<in> set (tab_primary_key t) then [] else tab_primary_key t),
     tab_uniques := filter (\<lambda>(n, cs). c \<notin> set cs) (tab_uniques t),
     tab_foreign_keys := filter (\<lambda>fk. c \<notin> set (fk_columns fk)) (tab_foreign_keys t)\<rparr>"

definition map_table :: "string \<Rightarrow> (sql_table \<Rightarrow> sql_table) \<Rightarrow> sql_table list \<Rightarrow> sql_table list" where
  "map_table n f ts = map (\<lambda>t. if tab_name t = n then f t else t) ts"

text \<open>Adding a NOT NULL column without a default is refused, as it is on a table that has rows.\<close>

fun exec1 :: "ddl \<Rightarrow> schema \<Rightarrow> ddl_error + schema" where
  "exec1 (CreateType n ls) s =
     (if n \<in> set (type_names s) then Inl (DuplicateObject n) else Inr (s\<lparr>enum_types := enum_types s @ [(n, ls)]\<rparr>))"
| "exec1 (CreateTypeIfMissing n ls) s =
     (if n \<in> set (type_names s) then Inr s else Inr (s\<lparr>enum_types := enum_types s @ [(n, ls)]\<rparr>))"
| "exec1 (DropType n) s =
     (if n \<notin> set (type_names s) then Inl (UndefinedObject n)
      else if n \<in> set (concat (map enums_used (tables s))) then Inl (DependentObjects n)
      else Inr (s\<lparr>enum_types := filter (\<lambda>(m, ls). m \<noteq> n) (enum_types s)\<rparr>))"
| "exec1 (DropTypeIfPresent n) s =
     (if n \<notin> set (type_names s) then Inr s
      else if n \<in> set (concat (map enums_used (tables s))) then Inl (DependentObjects n)
      else Inr (s\<lparr>enum_types := filter (\<lambda>(m, ls). m \<noteq> n) (enum_types s)\<rparr>))"
| "exec1 (CreateTable n args) s =
     (let t = table_of n args in
      if n \<in> set (relation_names s) then Inl (DuplicateTable n)
      else if \<not> distinct (column_names t) then Inl (InvalidTableDefinition n)
      else if \<not> set (constrained t) \<subseteq> set (column_names t) then Inl (InvalidTableDefinition n)
      else if \<not> set (enums_used t) \<subseteq> set (type_names s) then Inl (UndefinedObject n)
      else if \<not> list_all (fk_valid s) (tab_foreign_keys t) then Inl (UndefinedTable n)
      else Inr (s\<lparr>tables := tables s @ [t]\<rparr>))"
| "exec1 (DropTable n) s =
     (if n \<notin> set (table_names s) then Inl (UndefinedTable n)
      else if \<exists>t\<in>set (tables s). tab_name t \<noteq> n \<and> n \<in> fk_table ` set (tab_foreign_keys t) then Inl (DependentObjects n)
      else Inr (s\<lparr>tables := filter (\<lambda>t. tab_name t \<noteq> n) (tables s), indexes := filter (\<lambda>i. ix_table i \<noteq> n) (indexes s)\<rparr>))"
| "exec1 (CreateIndex i) s =
     (if ix_name i \<in> set (relation_names s) then Inl (DuplicateTable (ix_name i))
      else case find_table s (ix_table i) of None \<Rightarrow> Inl (UndefinedTable (ix_table i))
      | Some t \<Rightarrow> if \<not> set (ix_columns i) \<subseteq> set (column_names t) then Inl (UndefinedColumn (ix_name i))
        else Inr (s\<lparr>indexes := indexes s @ [i]\<rparr>))"
| "exec1 (DropIndex n t) s =
     (if n \<notin> ix_name ` set (indexes s) then Inl (UndefinedObject n)
      else Inr (s\<lparr>indexes := filter (\<lambda>i. ix_name i \<noteq> n) (indexes s)\<rparr>))"
| "exec1 (AddColumn n c) s =
     (case find_table s n of None \<Rightarrow> Inl (UndefinedTable n)
      | Some t \<Rightarrow> if col_name c \<in> set (column_names t) then Inl (DuplicateColumn (col_name c))
        else if \<not> set (enum_of (col_type c)) \<subseteq> set (type_names s) then Inl (UndefinedObject n)
        else if \<not> col_nullable c \<and> col_default c = None then Inl (NotNullWithoutDefault (col_name c))
        else Inr (s\<lparr>tables := map_table n (\<lambda>t. t\<lparr>tab_columns := tab_columns t @ [c]\<rparr>) (tables s)\<rparr>))"
| "exec1 (DropColumn n c) s =
     (case find_table s n of None \<Rightarrow> Inl (UndefinedTable n)
      | Some t \<Rightarrow> if c \<notin> set (column_names t) then Inl (UndefinedColumn c)
        else Inr (s\<lparr>tables := map_table n (drop_column c) (tables s),
               indexes := filter (\<lambda>i. \<not> (ix_table i = n \<and> c \<in> set (ix_columns i))) (indexes s)\<rparr>))"

fun exec :: "ddl list \<Rightarrow> schema \<Rightarrow> ddl_error + schema" where
  "exec [] s = Inr s"
| "exec (c # cs) s = bindE (exec1 c s) (exec cs)"

lemma exec_append: "exec (cs @ ds) s = bindE (exec cs s) (exec ds)"
  by (induction cs arbitrary: s) (simp_all add: bindE_def split: sum.split)

section \<open>Well-formed schemas\<close>

definition schema_ok :: "schema \<Rightarrow> bool" where
  "schema_ok s \<longleftrightarrow> distinct (type_names s) \<and> distinct (table_names s) \<and> distinct (map ix_name (indexes s)) \<and>
     (\<forall>t\<in>set (tables s). distinct (column_names t) \<and> set (constrained t) \<subseteq> set (column_names t) \<and>
        set (enums_used t) \<subseteq> set (type_names s) \<and> fk_table ` set (tab_foreign_keys t) \<subseteq> set (table_names s)) \<and>
     (\<forall>i\<in>set (indexes s). \<exists>t\<in>set (tables s). tab_name t = ix_table i \<and> set (ix_columns i) \<subseteq> set (column_names t))"

lemma schema_okD:
  assumes "schema_ok s"
  shows "distinct (type_names s)" "distinct (table_names s)" "distinct (map ix_name (indexes s))"
    "t \<in> set (tables s) \<Longrightarrow> distinct (column_names t)"
    "t \<in> set (tables s) \<Longrightarrow> set (constrained t) \<subseteq> set (column_names t)"
    "t \<in> set (tables s) \<Longrightarrow> set (enums_used t) \<subseteq> set (type_names s)"
    "t \<in> set (tables s) \<Longrightarrow> fk_table ` set (tab_foreign_keys t) \<subseteq> set (table_names s)"
    "i \<in> set (indexes s) \<Longrightarrow> \<exists>t\<in>set (tables s). tab_name t = ix_table i \<and> set (ix_columns i) \<subseteq> set (column_names t)"
  using assms by (simp_all add: schema_ok_def)

lemma schema_ok_empty: "schema_ok empty_schema"
  by (simp add: schema_ok_def empty_schema_def type_names_def table_names_def)

lemma find_table_None: "find_table s n = None \<longleftrightarrow> n \<notin> set (table_names s)"
  by (auto simp: find_table_def find_None_iff table_names_def)

lemma find_table_Some: "find_table s n = Some t \<Longrightarrow> t \<in> set (tables s) \<and> tab_name t = n"
  by (auto simp: find_table_def find_Some_iff)

lemma find_table_unique:
  assumes "distinct (table_names s)" and "find_table s n = Some t" and "t' \<in> set (tables s)" and "tab_name t' = n"
  shows "t' = t"
  using assms find_table_Some [OF assms(2)] by (auto simp: table_names_def distinct_map inj_on_def)

lemma table_of_name [simp]: "tab_name (table_of n args) = n"
  by (simp add: table_of_def)

lemma map_table_names [simp]: "(\<And>t. tab_name (f t) = tab_name t) \<Longrightarrow> map tab_name (map_table n f ts) = map tab_name ts"
  by (simp add: map_table_def)

text \<open>Creating statements keep a schema well formed.\<close>

fun creates :: "ddl \<Rightarrow> bool" where
  "creates (CreateType n ls) = True"
| "creates (CreateTypeIfMissing n ls) = True"
| "creates (CreateTable n args) = True"
| "creates (CreateIndex i) = True"
| "creates (AddColumn n c) = True"
| "creates _ = False"

lemma schema_ok_add_type:
  "schema_ok s \<Longrightarrow> n \<notin> set (type_names s) \<Longrightarrow> schema_ok (s\<lparr>enum_types := enum_types s @ [(n, ls)]\<rparr>)"
  by (auto simp: schema_ok_def type_names_def table_names_def)

lemma schema_ok_add_table:
  assumes "schema_ok s" "exec1 (CreateTable n args) s = Inr s'"
  shows "schema_ok s'"
proof -
  have s': "s' = s\<lparr>tables := tables s @ [table_of n args]\<rparr>" and new: "n \<notin> set (table_names s)"
    using assms(2) by (auto simp: Let_def relation_names_def split: if_splits)
  have fks: "fk_table ` set (tab_foreign_keys (table_of n args)) \<subseteq> set (table_names s)"
    using assms(2) find_table_None [of s] by (auto simp: Let_def fk_valid_def list_all_iff split: if_splits option.splits)
  have "distinct (column_names (table_of n args))" "set (constrained (table_of n args)) \<subseteq> set (column_names (table_of n args))"
    "set (enums_used (table_of n args)) \<subseteq> set (type_names s)"
    using assms(2) by (simp_all add: Let_def split: if_splits)
  then show ?thesis
    using assms(1) new fks unfolding s' schema_ok_def type_names_def table_names_def by (auto simp: subset_iff)
qed

lemma schema_ok_add_index:
  assumes "schema_ok s" "exec1 (CreateIndex i) s = Inr s'"
  shows "schema_ok s'"
proof -
  obtain t where t: "find_table s (ix_table i) = Some t" "set (ix_columns i) \<subseteq> set (column_names t)"
    "s' = s\<lparr>indexes := indexes s @ [i]\<rparr>" "ix_name i \<notin> set (map ix_name (indexes s))"
    using assms(2) by (auto simp: relation_names_def split: if_splits option.splits)
  then show ?thesis
    using assms(1) find_table_Some [OF t(1)] by (auto simp: schema_ok_def type_names_def table_names_def)
qed

lemma schema_ok_add_column:
  assumes "schema_ok s" "exec1 (AddColumn n c) s = Inr s'"
  shows "schema_ok s'"
proof -
  let ?f = "\<lambda>t. t\<lparr>tab_columns := tab_columns t @ [c]\<rparr>"
  obtain t where t: "find_table s n = Some t" "col_name c \<notin> set (column_names t)"
    "set (enum_of (col_type c)) \<subseteq> set (type_names s)" and s': "s' = s\<lparr>tables := map_table n ?f (tables s)\<rparr>"
    using assms(2) by (auto split: if_splits option.splits)
  have names: "table_names s' = table_names s" "type_names s' = type_names s" "indexes s' = indexes s"
    by (simp_all add: s' table_names_def type_names_def)
  have new: "col_name c \<notin> set (column_names t')" if "t' \<in> set (tables s)" "tab_name t' = n" for t'
    using find_table_unique [OF schema_okD(2) [OF assms(1)] t(1) that] t(2) by simp
  have cols: "column_names (?f t') = column_names t' @ [col_name c]" "constrained (?f t') = constrained t'"
    "enums_used (?f t') = enums_used t' @ enum_of (col_type c)" for t'
    by (simp_all add: column_names_def constrained_def enums_used_def)
  have "\<forall>t\<in>set (tables s'). distinct (column_names t) \<and> set (constrained t) \<subseteq> set (column_names t) \<and>
      set (enums_used t) \<subseteq> set (type_names s) \<and> fk_table ` set (tab_foreign_keys t) \<subseteq> set (table_names s)"
  proof
    fix t' assume "t' \<in> set (tables s')"
    then obtain t0 where t0: "t0 \<in> set (tables s)" "t' = (if tab_name t0 = n then ?f t0 else t0)"
      by (auto simp: s' map_table_def)
    show "distinct (column_names t') \<and> set (constrained t') \<subseteq> set (column_names t') \<and>
      set (enums_used t') \<subseteq> set (type_names s) \<and> fk_table ` set (tab_foreign_keys t') \<subseteq> set (table_names s)"
      using schema_okD(4-7) [OF assms(1) t0(1)] new [OF t0(1)] t(3) by (cases "tab_name t0 = n") (auto simp: t0(2) cols)
  qed
  moreover have "\<exists>t\<in>set (tables s'). tab_name t = ix_table i \<and> set (ix_columns i) \<subseteq> set (column_names t)"
    if i: "i \<in> set (indexes s)" for i
  proof -
    obtain t0 where "t0 \<in> set (tables s)" "tab_name t0 = ix_table i" "set (ix_columns i) \<subseteq> set (column_names t0)"
      using schema_okD(8) [OF assms(1) i] by blast
    then show ?thesis
      by (intro bexI [of _ "if tab_name t0 = n then ?f t0 else t0"]) (auto simp: s' map_table_def cols)
  qed
  ultimately show ?thesis using schema_okD(1-3) [OF assms(1)] by (simp add: schema_ok_def names)
qed

lemma schema_ok_creates:
  assumes "creates c" "schema_ok s" "exec1 c s = Inr s'"
  shows "schema_ok s'"
  using assms
proof (cases c)
  case (CreateTable n args)
  then show ?thesis using assms schema_ok_add_table by blast
next
  case (CreateIndex i)
  then show ?thesis using assms schema_ok_add_index by blast
next
  case (AddColumn n col)
  then show ?thesis using assms schema_ok_add_column by blast
qed (auto intro: schema_ok_add_type split: if_splits)

section \<open>Undoing\<close>

fun undoes :: "ddl \<Rightarrow> ddl \<Rightarrow> bool" where
  "undoes (CreateType n ls) (DropType m) \<longleftrightarrow> m = n"
| "undoes (CreateTypeIfMissing n ls) (DropTypeIfPresent m) \<longleftrightarrow> m = n"
| "undoes (CreateTable n args) (DropTable m) \<longleftrightarrow> m = n"
| "undoes (CreateIndex i) (DropIndex m t) \<longleftrightarrow> m = ix_name i \<and> t = ix_table i"
| "undoes (AddColumn n c) (DropColumn m k) \<longleftrightarrow> m = n \<and> k = col_name c"
| "undoes _ _ \<longleftrightarrow> False"

lemma undoes_creates: "undoes c b \<Longrightarrow> creates c"
  by (cases "(c, b)" rule: undoes.cases) simp_all

text \<open>The types a list of statements creates.\<close>

fun created_types :: "ddl list \<Rightarrow> string list" where
  "created_types [] = []"
| "created_types (CreateType n ls # cs) = n # created_types cs"
| "created_types (CreateTypeIfMissing n ls # cs) = n # created_types cs"
| "created_types (c # cs) = created_types cs"

lemma undo_type:
  assumes "schema_ok s" "n \<notin> set (type_names s)" "b = DropType n \<or> b = DropTypeIfPresent n"
  shows "exec1 b (s\<lparr>enum_types := enum_types s @ [(n, ls)]\<rparr>) = Inr s"
proof -
  have "n \<notin> set (concat (map enums_used (tables s)))" using schema_okD(6) [OF assms(1)] assms(2) by auto
  moreover have "filter (\<lambda>(m, ls). m \<noteq> n) (enum_types s) = enum_types s"
    using assms(2) by (force simp: filter_id_conv type_names_def)
  ultimately show ?thesis using assms(3) by (auto simp: type_names_def)
qed

lemma undo_table:
  assumes "schema_ok s" "exec1 (CreateTable n args) s = Inr s'"
  shows "exec1 (DropTable n) s' = Inr s"
proof -
  have s': "s' = s\<lparr>tables := tables s @ [table_of n args]\<rparr>" and new: "n \<notin> set (table_names s)"
    using assms(2) by (auto simp: Let_def relation_names_def split: if_splits)
  have "n \<notin> fk_table ` set (tab_foreign_keys t)" if "t \<in> set (tables s)" for t
    using schema_okD(7) [OF assms(1) that] new by blast
  moreover have "filter (\<lambda>t. tab_name t \<noteq> n) (tables s) = tables s"
    using new by (auto simp: filter_id_conv table_names_def)
  moreover have "filter (\<lambda>i. ix_table i \<noteq> n) (indexes s) = indexes s"
    using new schema_okD(8) [OF assms(1)] by (auto simp: filter_id_conv table_names_def image_iff) metis
  ultimately show ?thesis by (auto simp: s' table_names_def)
qed

lemma undo_index:
  assumes "exec1 (CreateIndex i) s = Inr s'"
  shows "exec1 (DropIndex (ix_name i) t) s' = Inr s"
proof -
  have "s' = s\<lparr>indexes := indexes s @ [i]\<rparr>" "ix_name i \<notin> ix_name ` set (indexes s)"
    using assms by (auto simp: relation_names_def split: if_splits option.splits)
  moreover have "filter (\<lambda>j. ix_name j \<noteq> ix_name i) (indexes s) = indexes s"
    using calculation(2) by (auto simp: filter_id_conv) (metis image_eqI)
  ultimately show ?thesis by simp
qed

lemma drop_added_column:
  assumes "col_name c \<notin> set (column_names t)" "set (constrained t) \<subseteq> set (column_names t)"
  shows "drop_column (col_name c) (t\<lparr>tab_columns := tab_columns t @ [c]\<rparr>) = t"
proof -
  have no: "col_name c \<notin> set (constrained t)" using assms by blast
  have "filter (\<lambda>x. col_name x \<noteq> col_name c) (tab_columns t) = tab_columns t"
    using assms(1) by (auto simp: filter_id_conv column_names_def) (metis image_eqI)
  moreover have "filter (\<lambda>(n, cs). col_name c \<notin> set cs) (tab_uniques t) = tab_uniques t"
    "filter (\<lambda>fk. col_name c \<notin> set (fk_columns fk)) (tab_foreign_keys t) = tab_foreign_keys t"
    "col_name c \<notin> set (tab_primary_key t)"
    using no by (auto simp: filter_id_conv constrained_def)
  ultimately show ?thesis by (simp add: drop_column_def)
qed

lemma undo_column:
  assumes ok: "schema_ok s" and "exec1 (AddColumn n c) s = Inr s'"
  shows "exec1 (DropColumn n (col_name c)) s' = Inr s"
proof -
  let ?f = "\<lambda>t. t\<lparr>tab_columns := tab_columns t @ [c]\<rparr>"
  obtain t where t: "find_table s n = Some t" "col_name c \<notin> set (column_names t)"
    and s': "s' = s\<lparr>tables := map_table n ?f (tables s)\<rparr>"
    using assms(2) by (auto split: if_splits option.splits)
  have only: "t' = t" if "t' \<in> set (tables s)" "tab_name t' = n" for t'
    using find_table_unique [OF schema_okD(2) [OF ok] t(1) that] .
  have restored: "drop_column (col_name c) (?f t) = t"
    using drop_added_column t(2) schema_okD(5) [OF ok] find_table_Some [OF t(1)] by blast
  have names: "table_names s' = table_names s" by (simp add: s' table_names_def)
  then obtain t' where t': "find_table s' n = Some t'"
    using find_table_None [of s' n] find_table_None [of s n] t(1) by force
  then have "t' = ?f t" using find_table_Some [OF t'] only by (auto simp: s' map_table_def)
  then have has: "col_name c \<in> set (column_names t')" by (simp add: column_names_def)
  have "map_table n (drop_column (col_name c)) (map_table n ?f (tables s)) = tables s"
    unfolding map_table_def map_map using restored only by (intro map_idI) auto
  moreover have "filter (\<lambda>i. \<not> (ix_table i = n \<and> col_name c \<in> set (ix_columns i))) (indexes s) = indexes s"
    using schema_okD(8) [OF ok] only t(2) by (fastforce simp: filter_id_conv)
  ultimately show ?thesis using t' has by (simp add: s')
qed

lemma undo1:
  assumes "undoes c b" "schema_ok s" "exec1 c s = Inr s'" "set (created_types [c]) \<inter> set (type_names s) = {}"
  shows "exec1 b s' = Inr s"
  using assms
proof (cases "(c, b)" rule: undoes.cases)
  case 1
  then show ?thesis using assms undo_type [OF assms(2), of _ b] by (fastforce simp del: exec1.simps(3) split: if_splits)
next
  case 2
  then show ?thesis using assms undo_type [OF assms(2), of _ b] by (fastforce simp del: exec1.simps(4) split: if_splits)
next
  case 3
  then show ?thesis using assms undo_table by auto
next
  case 4
  then show ?thesis using assms undo_index by auto
next
  case 5
  then show ?thesis using assms undo_column by auto
qed simp_all

lemma exec1_types:
  assumes "creates c" "exec1 c s = Inr s'"
  shows "set (type_names s') = set (created_types [c]) \<union> set (type_names s)"
  using assms by (cases c) (auto simp: type_names_def Let_def split: if_splits option.splits)

lemma types_of_Cons: "created_types (c # cs) = created_types [c] @ created_types cs"
  by (cases c) simp_all

lemma undo:
  assumes "list_all2 undoes ups (rev downs)" "schema_ok s" "exec ups s = Inr s'"
    "distinct (created_types ups)" "set (created_types ups) \<inter> set (type_names s) = {}"
  shows "exec downs s' = Inr s \<and> schema_ok s'"
  using assms
proof (induction ups arbitrary: s downs)
  case (Cons c ups)
  then obtain b ds where ds: "rev downs = b # ds" "undoes c b" "list_all2 undoes ups ds"
    by (auto simp: list_all2_Cons1)
  then have downs: "downs = rev ds @ [b]" by (metis rev_rev_ident rev.simps(2))
  obtain s1 where s1: "exec1 c s = Inr s1" "exec ups s1 = Inr s'" using Cons.prems(3) by (auto simp: bindE_Inr_iff)
  have c: "creates c" using undoes_creates ds(2) .
  have "set (created_types ups) \<inter> set (type_names s1) = {}"
    using Cons.prems(4,5) exec1_types [OF c s1(1)] unfolding types_of_Cons [of c ups] by auto
  then have "exec (rev ds) s1 = Inr s1 \<or> exec (rev ds) s' = Inr s1 \<and> schema_ok s'"
    using Cons.IH [of "rev ds" s1] ds(3) schema_ok_creates [OF c Cons.prems(2) s1(1)] s1(2) Cons.prems(4)
    unfolding types_of_Cons [of c ups] by auto
  moreover have "exec1 b s1 = Inr s"
    using undo1 [OF ds(2) Cons.prems(2) s1(1)] Cons.prems(5) unfolding types_of_Cons [of c ups] by auto
  ultimately show ?case
    using Cons.IH [of "rev ds" s1] ds(3) schema_ok_creates [OF c Cons.prems(2) s1(1)] s1(2) Cons.prems(4)
      \<open>set (created_types ups) \<inter> set (type_names s1) = {}\<close>
    unfolding types_of_Cons [of c ups] downs exec_append by auto
qed simp

section \<open>What was made\<close>

text \<open>When creating statements succeed, their effect can be computed without the checks.\<close>

fun effect :: "ddl \<Rightarrow> schema \<Rightarrow> schema" where
  "effect (CreateType n ls) s = s\<lparr>enum_types := enum_types s @ [(n, ls)]\<rparr>"
| "effect (CreateTypeIfMissing n ls) s = s\<lparr>enum_types := enum_types s @ [(n, ls)]\<rparr>"
| "effect (CreateTable n args) s = s\<lparr>tables := tables s @ [table_of n args]\<rparr>"
| "effect (CreateIndex i) s = s\<lparr>indexes := indexes s @ [i]\<rparr>"
| "effect (AddColumn n c) s = s\<lparr>tables := map_table n (\<lambda>t. t\<lparr>tab_columns := tab_columns t @ [c]\<rparr>) (tables s)\<rparr>"
| "effect _ s = s"

lemma exec1_effect:
  assumes "creates c" "exec1 c s = Inr s'" "set (created_types [c]) \<inter> set (type_names s) = {}"
  shows "s' = effect c s"
  using assms by (cases c) (auto simp: Let_def split: if_splits option.splits)

lemma exec_effect:
  assumes "list_all creates cs" "exec cs s = Inr s'" "distinct (created_types cs)" "set (created_types cs) \<inter> set (type_names s) = {}"
  shows "s' = fold effect cs s"
  using assms
proof (induction cs arbitrary: s)
  case (Cons c cs)
  then obtain s1 where s1: "exec1 c s = Inr s1" "exec cs s1 = Inr s'" by (auto simp: bindE_Inr_iff)
  have c: "creates c" using Cons.prems(1) by simp
  have "s1 = effect c s" "set (created_types cs) \<inter> set (type_names s1) = {}" "distinct (created_types cs)"
    using exec1_effect [OF c s1(1)] exec1_types [OF c s1(1)] Cons.prems(3,4) unfolding types_of_Cons [of c cs] by auto
  with Cons.IH [OF _ s1(2)] Cons.prems(1) show ?case by simp
qed simp

end
