(* ===== verification/Migrations.thy ===== *)
theory Migrations
  imports Ddl Kyc Auth
begin

text \<open>
  The Alembic migrations (\<open>alembic/versions\<close>), each with its upgrade and its downgrade, as lists of
  statements on a schema; how they are run; and the tables as the classes of \<open>app/models\<close> declare
  them, for comparison.
\<close>

section \<open>The migrations\<close>

record migration =
  revision :: string
  down_revision :: "string option"
  upgrade :: "ddl list"
  downgrade :: "ddl list"

definition index_on :: "string \<Rightarrow> string \<Rightarrow> string list \<Rightarrow> ddl" where
  "index_on n t cs = CreateIndex \<lparr>ix_name = n, ix_table = t, ix_columns = cs, ix_unique = False\<rparr>"

definition unique_index_on :: "string \<Rightarrow> string \<Rightarrow> string list \<Rightarrow> ddl" where
  "unique_index_on n t cs = CreateIndex \<lparr>ix_name = n, ix_table = t, ix_columns = cs, ix_unique = True\<rparr>"

text \<open>The columns every migration writes the same way.\<close>

definition created_at_column :: table_arg where
  "created_at_column = Column (server_default ''now()'' (not_null ''created_at'' TIMESTAMPTZ)) []"

definition updated_at_column :: table_arg where
  "updated_at_column = Column (server_default ''now()'' (not_null ''updated_at'' TIMESTAMPTZ)) []"

definition deleted_at_column :: table_arg where
  "deleted_at_column = Column (nullable ''deleted_at'' TIMESTAMPTZ) []"

definition create_users_table :: migration where
  "create_users_table = \<lparr>
     revision = ''a1b2c3d4e5f6'', down_revision = None,
     upgrade = [
       CreateType ''userrole'' [''user'', ''merchant'', ''admin''],
       CreateTable ''users'' [
         Column (not_null ''id'' UUID) [PRIMARY_KEY],
         Column (not_null ''email'' (VARCHAR 255)) [],
         Column (nullable ''phone'' (VARCHAR 20)) [],
         Column (not_null ''hashed_password'' (VARCHAR 255)) [],
         Column (not_null ''full_name'' (VARCHAR 255)) [],
         Column (server_default ''user'' (not_null ''role'' (ENUM ''userrole'' [''user'', ''merchant'', ''admin'']))) [],
         Column (server_default ''0'' (not_null ''kyc_tier'' SMALLINT)) [],
         Column (server_default ''true'' (not_null ''is_active'' BOOLEAN)) [],
         Column (server_default ''false'' (not_null ''is_email_verified'' BOOLEAN)) [],
         created_at_column, updated_at_column, deleted_at_column],
       unique_index_on ''ix_users_email'' ''users'' [''email''],
       unique_index_on ''ix_users_phone'' ''users'' [''phone''],
       index_on ''ix_users_role'' ''users'' [''role''],
       index_on ''ix_users_kyc_tier'' ''users'' [''kyc_tier''],
       index_on ''ix_users_deleted_at'' ''users'' [''deleted_at'']],
     downgrade = [
       DropIndex ''ix_users_deleted_at'' ''users'',
       DropIndex ''ix_users_kyc_tier'' ''users'',
       DropIndex ''ix_users_role'' ''users'',
       DropIndex ''ix_users_phone'' ''users'',
       DropIndex ''ix_users_email'' ''users'',
       DropTable ''users'',
       DropType ''userrole'']\<rparr>"

definition create_refresh_tokens_table :: migration where
  "create_refresh_tokens_table = \<lparr>
     revision = ''b2c3d4e5f6a7'', down_revision = Some ''a1b2c3d4e5f6'',
     upgrade = [
       CreateTable ''refresh_tokens'' [
         Column (not_null ''id'' UUID) [PRIMARY_KEY],
         Column (not_null ''user_id'' UUID) [FOREIGN_KEY ''users'' ''id'' CASCADE],
         Column (not_null ''token_hash'' (VARCHAR 64)) [UNIQUE_KEY],
         Column (not_null ''expires_at'' TIMESTAMPTZ) [],
         Column (server_default ''false'' (not_null ''is_revoked'' BOOLEAN)) [],
         created_at_column, updated_at_column],
       index_on ''ix_refresh_tokens_user_id'' ''refresh_tokens'' [''user_id''],
       unique_index_on ''ix_refresh_tokens_token_hash'' ''refresh_tokens'' [''token_hash''],
       index_on ''ix_refresh_tokens_is_revoked'' ''refresh_tokens'' [''is_revoked'']],
     downgrade = [
       DropIndex ''ix_refresh_tokens_is_revoked'' ''refresh_tokens'',
       DropIndex ''ix_refresh_tokens_token_hash'' ''refresh_tokens'',
       DropIndex ''ix_refresh_tokens_user_id'' ''refresh_tokens'',
       DropTable ''refresh_tokens'']\<rparr>"

definition create_wallets_table :: migration where
  "create_wallets_table = \<lparr>
     revision = ''c3d4e5f6a7b8'', down_revision = Some ''b2c3d4e5f6a7'',
     upgrade = [
       CreateTable ''wallets'' [
         Column (not_null ''id'' UUID) [],
         Column (not_null ''user_id'' UUID) [],
         Column (server_default ''NGN'' (not_null ''currency'' (VARCHAR 3))) [],
         Column (server_default ''0'' (not_null ''balance'' (NUMERIC 20 2))) [],
         Column (server_default ''true'' (not_null ''is_active'' BOOLEAN)) [],
         created_at_column, updated_at_column, deleted_at_column,
         CheckConstraint ''ck_wallets_balance_non_negative'' ''balance >= 0'',
         ForeignKeyConstraint [''user_id''] ''users'' [''id''] CASCADE,
         PrimaryKeyConstraint [''id''],
         UniqueConstraint ''uq_wallets_user_id'' [''user_id'']],
       index_on ''ix_wallets_user_id'' ''wallets'' [''user_id''],
       index_on ''ix_wallets_deleted_at'' ''wallets'' [''deleted_at'']],
     downgrade = [
       DropIndex ''ix_wallets_deleted_at'' ''wallets'',
       DropIndex ''ix_wallets_user_id'' ''wallets'',
       DropTable ''wallets'']\<rparr>"

definition create_transactions_table :: migration where
  "create_transactions_table = \<lparr>
     revision = ''d4e5f6a7b8c9'', down_revision = Some ''c3d4e5f6a7b8'',
     upgrade = [
       CreateType ''transactiontype'' [''funding'', ''transfer'', ''merchant_payment'', ''withdrawal'', ''reversal''],
       CreateType ''transactionstatus'' [''pending'', ''processing'', ''completed'', ''failed'', ''reversed''],
       CreateTable ''transactions'' [
         Column (not_null ''id'' UUID) [],
         Column (not_null ''reference'' (VARCHAR 50)) [],
         Column (not_null ''type'' (ENUM ''transactiontype''
           [''funding'', ''transfer'', ''merchant_payment'', ''withdrawal'', ''reversal''])) [],
         Column (server_default ''pending'' (not_null ''status'' (ENUM ''transactionstatus''
           [''pending'', ''processing'', ''completed'', ''failed'', ''reversed'']))) [],
         Column (not_null ''amount'' (NUMERIC 20 2)) [],
         Column (server_default ''NGN'' (not_null ''currency'' (VARCHAR 3))) [],
         Column (nullable ''source_wallet_id'' UUID) [],
         Column (nullable ''destination_wallet_id'' UUID) [],
         Column (not_null ''initiated_by_user_id'' UUID) [],
         Column (nullable ''provider_reference'' (VARCHAR 100)) [],
         Column (nullable ''idempotency_key'' (VARCHAR 255)) [],
         Column (nullable ''metadata'' JSONB) [],
         Column (nullable ''failure_reason'' TEXT) [],
         created_at_column, updated_at_column,
         ForeignKeyConstraint [''source_wallet_id''] ''wallets'' [''id''] RESTRICT,
         ForeignKeyConstraint [''destination_wallet_id''] ''wallets'' [''id''] RESTRICT,
         ForeignKeyConstraint [''initiated_by_user_id''] ''users'' [''id''] RESTRICT,
         PrimaryKeyConstraint [''id''],
         UniqueConstraint ''uq_transactions_reference'' [''reference''],
         UniqueConstraint ''uq_transactions_idempotency_key'' [''idempotency_key'']],
       index_on ''ix_transactions_reference'' ''transactions'' [''reference''],
       index_on ''ix_transactions_provider_reference'' ''transactions'' [''provider_reference''],
       index_on ''ix_transactions_idempotency_key'' ''transactions'' [''idempotency_key''],
       index_on ''ix_transactions_source_wallet_id'' ''transactions'' [''source_wallet_id''],
       index_on ''ix_transactions_destination_wallet_id'' ''transactions'' [''destination_wallet_id''],
       index_on ''ix_transactions_initiated_by_user_id'' ''transactions'' [''initiated_by_user_id''],
       index_on ''ix_transactions_status'' ''transactions'' [''status''],
       index_on ''ix_transactions_type'' ''transactions'' [''type''],
       index_on ''ix_transactions_created_at'' ''transactions'' [''created_at'']],
     downgrade = [
       DropIndex ''ix_transactions_created_at'' ''transactions'',
       DropIndex ''ix_transactions_type'' ''transactions'',
       DropIndex ''ix_transactions_status'' ''transactions'',
       DropIndex ''ix_transactions_initiated_by_user_id'' ''transactions'',
       DropIndex ''ix_transactions_destination_wallet_id'' ''transactions'',
       DropIndex ''ix_transactions_source_wallet_id'' ''transactions'',
       DropIndex ''ix_transactions_idempotency_key'' ''transactions'',
       DropIndex ''ix_transactions_provider_reference'' ''transactions'',
       DropIndex ''ix_transactions_reference'' ''transactions'',
       DropTable ''transactions'',
       DropType ''transactionstatus'',
       DropType ''transactiontype'']\<rparr>"

definition create_ledger_entries_table :: migration where
  "create_ledger_entries_table = \<lparr>
     revision = ''e5f6a7b8c9d0'', down_revision = Some ''d4e5f6a7b8c9'',
     upgrade = [
       CreateType ''entrytype'' [''debit'', ''credit''],
       CreateTable ''ledger_entries'' [
         Column (not_null ''id'' UUID) [PRIMARY_KEY],
         Column (not_null ''transaction_id'' UUID) [FOREIGN_KEY ''transactions'' ''id'' RESTRICT],
         Column (not_null ''wallet_id'' UUID) [FOREIGN_KEY ''wallets'' ''id'' RESTRICT],
         Column (not_null ''entry_type'' (ENUM ''entrytype'' [''debit'', ''credit''])) [],
         Column (not_null ''amount'' (NUMERIC 20 2)) [],
         Column (not_null ''currency'' (VARCHAR 3)) [],
         Column (not_null ''balance_after'' (NUMERIC 20 2)) [],
         created_at_column],
       index_on ''ix_ledger_entries_transaction_id'' ''ledger_entries'' [''transaction_id''],
       index_on ''ix_ledger_entries_wallet_id'' ''ledger_entries'' [''wallet_id''],
       index_on ''ix_ledger_entries_created_at'' ''ledger_entries'' [''created_at'']],
     downgrade = [
       DropIndex ''ix_ledger_entries_created_at'' ''ledger_entries'',
       DropIndex ''ix_ledger_entries_wallet_id'' ''ledger_entries'',
       DropIndex ''ix_ledger_entries_transaction_id'' ''ledger_entries'',
       DropTable ''ledger_entries'',
       DropType ''entrytype'']\<rparr>"

definition add_fraud_fields_and_index :: migration where
  "add_fraud_fields_and_index = \<lparr>
     revision = ''f6a7b8c9d0e1'', down_revision = Some ''e5f6a7b8c9d0'',
     upgrade = [
       AddColumn ''transactions'' (server_default ''false'' (not_null ''risk_flagged'' BOOLEAN)),
       AddColumn ''transactions'' (nullable ''risk_flag_reason'' TEXT),
       index_on ''ix_transactions_fraud_check'' ''transactions''
         [''initiated_by_user_id'', ''type'', ''status'', ''created_at'']],
     downgrade = [
       DropIndex ''ix_transactions_fraud_check'' ''transactions'',
       DropColumn ''transactions'' ''risk_flag_reason'',
       DropColumn ''transactions'' ''risk_flagged'']\<rparr>"

definition create_kyc_submissions_table :: migration where
  "create_kyc_submissions_table = \<lparr>
     revision = ''g7h8i9j0k1l2'', down_revision = Some ''f6a7b8c9d0e1'',
     upgrade = [
       CreateType ''kycstatus'' [''pending'', ''approved'', ''rejected''],
       CreateTable ''kyc_submissions'' [
         Column (not_null ''id'' UUID) [PRIMARY_KEY],
         Column (not_null ''user_id'' UUID) [FOREIGN_KEY ''users'' ''id'' RESTRICT],
         Column (not_null ''requested_tier'' SMALLINT) [],
         Column (server_default ''pending'' (not_null ''status''
           (ENUM ''kycstatus'' [''pending'', ''approved'', ''rejected'']))) [],
         Column (not_null ''document_key'' (VARCHAR 500)) [],
         Column (nullable ''reviewer_id'' UUID) [FOREIGN_KEY ''users'' ''id'' SET_NULL],
         Column (nullable ''rejection_reason'' TEXT) [],
         Column (nullable ''reviewed_at'' TIMESTAMPTZ) [],
         created_at_column, updated_at_column],
       index_on ''ix_kyc_submissions_user_id'' ''kyc_submissions'' [''user_id''],
       index_on ''ix_kyc_submissions_status'' ''kyc_submissions'' [''status'']],
     downgrade = [
       DropIndex ''ix_kyc_submissions_status'' ''kyc_submissions'',
       DropIndex ''ix_kyc_submissions_user_id'' ''kyc_submissions'',
       DropTable ''kyc_submissions'',
       DropType ''kycstatus'']\<rparr>"

definition create_merchants_table :: migration where
  "create_merchants_table = \<lparr>
     revision = ''h8i9j0k1l2m3'', down_revision = Some ''g7h8i9j0k1l2'',
     upgrade = [
       CreateTable ''merchants'' [
         Column (not_null ''id'' UUID) [PRIMARY_KEY],
         Column (not_null ''user_id'' UUID) [FOREIGN_KEY ''users'' ''id'' RESTRICT, UNIQUE_KEY],
         Column (not_null ''business_name'' (VARCHAR 255)) [],
         Column (not_null ''api_key_hash'' (VARCHAR 255)) [],
         Column (not_null ''api_key_prefix'' (VARCHAR 16)) [],
         Column (nullable ''webhook_url'' (VARCHAR 500)) [],
         Column (nullable ''webhook_secret'' (VARCHAR 255)) [],
         Column (server_default ''true'' (not_null ''is_active'' BOOLEAN)) [],
         created_at_column, updated_at_column, deleted_at_column],
       index_on ''ix_merchants_user_id'' ''merchants'' [''user_id''],
       index_on ''ix_merchants_api_key_prefix'' ''merchants'' [''api_key_prefix''],
       index_on ''ix_merchants_deleted_at'' ''merchants'' [''deleted_at'']],
     downgrade = [
       DropIndex ''ix_merchants_deleted_at'' ''merchants'',
       DropIndex ''ix_merchants_api_key_prefix'' ''merchants'',
       DropIndex ''ix_merchants_user_id'' ''merchants'',
       DropTable ''merchants'']\<rparr>"

definition create_webhook_deliveries_table :: migration where
  "create_webhook_deliveries_table = \<lparr>
     revision = ''i9j0k1l2m3n4'', down_revision = Some ''h8i9j0k1l2m3'',
     upgrade = [
       CreateType ''webhookdeliverystatus'' [''pending'', ''delivered'', ''failed''],
       CreateTable ''webhook_deliveries'' [
         Column (not_null ''id'' UUID) [PRIMARY_KEY],
         Column (not_null ''merchant_id'' UUID) [FOREIGN_KEY ''merchants'' ''id'' RESTRICT],
         Column (not_null ''transaction_id'' UUID) [FOREIGN_KEY ''transactions'' ''id'' RESTRICT],
         Column (not_null ''event_type'' (VARCHAR 50)) [],
         Column (not_null ''payload'' JSONB) [],
         Column (server_default ''pending'' (not_null ''status''
           (ENUM ''webhookdeliverystatus'' [''pending'', ''delivered'', ''failed'']))) [],
         Column (server_default ''0'' (not_null ''attempt_count'' SMALLINT)) [],
         Column (nullable ''next_retry_at'' TIMESTAMPTZ) [],
         Column (nullable ''last_response_code'' SMALLINT) [],
         Column (nullable ''last_error'' TEXT) [],
         created_at_column, updated_at_column],
       index_on ''ix_webhook_deliveries_merchant_id'' ''webhook_deliveries'' [''merchant_id''],
       index_on ''ix_webhook_deliveries_transaction_id'' ''webhook_deliveries'' [''transaction_id''],
       index_on ''ix_webhook_deliveries_status'' ''webhook_deliveries'' [''status''],
       index_on ''ix_webhook_deliveries_retry_sweep'' ''webhook_deliveries'' [''status'', ''next_retry_at'']],
     downgrade = [
       DropIndex ''ix_webhook_deliveries_retry_sweep'' ''webhook_deliveries'',
       DropIndex ''ix_webhook_deliveries_status'' ''webhook_deliveries'',
       DropIndex ''ix_webhook_deliveries_transaction_id'' ''webhook_deliveries'',
       DropIndex ''ix_webhook_deliveries_merchant_id'' ''webhook_deliveries'',
       DropTable ''webhook_deliveries'',
       DropType ''webhookdeliverystatus'']\<rparr>"

definition create_bank_accounts_table :: migration where
  "create_bank_accounts_table = \<lparr>
     revision = ''j0k1l2m3n4o5'', down_revision = Some ''i9j0k1l2m3n4'',
     upgrade = [
       CreateTable ''bank_accounts'' [
         Column (not_null ''id'' UUID) [PRIMARY_KEY],
         Column (not_null ''user_id'' UUID) [FOREIGN_KEY ''users'' ''id'' RESTRICT],
         Column (not_null ''account_name'' (VARCHAR 255)) [],
         Column (not_null ''account_number'' (VARCHAR 20)) [],
         Column (not_null ''bank_code'' (VARCHAR 20)) [],
         Column (not_null ''bank_name'' (VARCHAR 100)) [],
         Column (server_default ''false'' (not_null ''is_default'' BOOLEAN)) [],
         Column (nullable ''paystack_recipient_code'' (VARCHAR 100)) [],
         deleted_at_column, created_at_column, updated_at_column],
       index_on ''ix_bank_accounts_user_id'' ''bank_accounts'' [''user_id''],
       index_on ''ix_bank_accounts_deleted_at'' ''bank_accounts'' [''deleted_at''],
       index_on ''ix_bank_accounts_user_default'' ''bank_accounts'' [''user_id'', ''is_default'']],
     downgrade = [
       DropIndex ''ix_bank_accounts_user_default'' ''bank_accounts'',
       DropIndex ''ix_bank_accounts_deleted_at'' ''bank_accounts'',
       DropIndex ''ix_bank_accounts_user_id'' ''bank_accounts'',
       DropTable ''bank_accounts'']\<rparr>"

definition create_audit_logs_table :: migration where
  "create_audit_logs_table = \<lparr>
     revision = ''k1l2m3n4o5p6'', down_revision = Some ''j0k1l2m3n4o5'',
     upgrade = [
       CreateTypeIfMissing ''actortype'' [''user'', ''system'', ''admin''],
       CreateTable ''audit_logs'' [
         Column (not_null ''id'' UUID) [PRIMARY_KEY],
         Column (nullable ''actor_id'' UUID) [],
         Column (not_null ''actor_type'' (ENUM ''actortype'' [''user'', ''system'', ''admin''])) [],
         Column (not_null ''action'' (VARCHAR 100)) [],
         Column (nullable ''target_type'' (VARCHAR 50)) [],
         Column (nullable ''target_id'' UUID) [],
         Column (nullable ''metadata'' JSONB) [],
         Column (nullable ''ip_address'' (VARCHAR 45)) [],
         created_at_column],
       index_on ''ix_audit_logs_actor_id'' ''audit_logs'' [''actor_id''],
       index_on ''ix_audit_logs_action'' ''audit_logs'' [''action''],
       index_on ''ix_audit_logs_target_id'' ''audit_logs'' [''target_id''],
       index_on ''ix_audit_logs_created_at'' ''audit_logs'' [''created_at'']],
     downgrade = [
       DropIndex ''ix_audit_logs_created_at'' ''audit_logs'',
       DropIndex ''ix_audit_logs_target_id'' ''audit_logs'',
       DropIndex ''ix_audit_logs_action'' ''audit_logs'',
       DropIndex ''ix_audit_logs_actor_id'' ''audit_logs'',
       DropTable ''audit_logs'',
       DropTypeIfPresent ''actortype'']\<rparr>"

definition migrations :: "migration list" where
  "migrations = [create_users_table, create_refresh_tokens_table, create_wallets_table, create_transactions_table,
     create_ledger_entries_table, add_fraud_fields_and_index, create_kyc_submissions_table, create_merchants_table,
     create_webhook_deliveries_table, create_bank_accounts_table, create_audit_logs_table]"

section \<open>Running them\<close>

text \<open>
  The database remembers the revision it is at. A migration applies to the revision it names as its
  predecessor. \<open>alembic/env.py\<close> runs all of them in one transaction, so one that fails leaves nothing.
\<close>

type_synonym migrated = "schema \<times> string option"

definition migrate_up :: "migration \<Rightarrow> migrated \<Rightarrow> ddl_error + migrated" where
  "migrate_up m = (\<lambda>(s, at). if down_revision m \<noteq> at then Inl WrongRevision
     else bindE (exec (upgrade m) s) (\<lambda>s'. Inr (s', Some (revision m))))"

definition migrate_down :: "migration \<Rightarrow> migrated \<Rightarrow> ddl_error + migrated" where
  "migrate_down m = (\<lambda>(s, at). if at \<noteq> Some (revision m) then Inl WrongRevision
     else bindE (exec (downgrade m) s) (\<lambda>s'. Inr (s', down_revision m)))"

fun run_all :: "('m \<Rightarrow> migrated \<Rightarrow> ddl_error + migrated) \<Rightarrow> 'm list \<Rightarrow> migrated \<Rightarrow> ddl_error + migrated" where
  "run_all f [] st = Inr st"
| "run_all f (m # ms) st = bindE (f m st) (run_all f ms)"

definition run_migrations_online ::
  "(migration \<Rightarrow> migrated \<Rightarrow> ddl_error + migrated) \<Rightarrow> migration list \<Rightarrow> migrated \<Rightarrow> ddl_error option \<times> migrated" where
  "run_migrations_online f ms st = (case run_all f ms st of Inl e \<Rightarrow> (Some e, st) | Inr st' \<Rightarrow> (None, st'))"

text \<open>Every downgrade drops what its upgrade creates, in the opposite order, and no two migrations create the
  same type.\<close>

lemma migrations_undo: "list_all (\<lambda>m. list_all2 undoes (upgrade m) (rev (downgrade m))) migrations"
  by code_simp

lemma migrations_types: "distinct (concat (map (\<lambda>m. created_types (upgrade m)) migrations))"
  by code_simp

lemma migrations_linked:
  "map down_revision migrations = None # map (\<lambda>m. Some (revision m)) (butlast migrations)"
  by code_simp

lemma exec_types:
  assumes "list_all creates cs" "exec cs s = Inr s'"
  shows "set (type_names s') = set (created_types cs) \<union> set (type_names s)"
  using assms
proof (induction cs arbitrary: s)
  case (Cons c cs)
  then obtain s1 where s1: "exec1 c s = Inr s1" "exec cs s1 = Inr s'" by (auto simp: bindE_Inr_iff)
  have c: "creates c" "list_all creates cs" using Cons.prems(1) by simp_all
  from Cons.IH [OF c(2) s1(2)] exec1_types [OF c(1) s1(1)] show ?case unfolding types_of_Cons [of c cs] by auto
qed simp

lemma undo_migration:
  assumes "m \<in> set migrations" "schema_ok s" "set (created_types (upgrade m)) \<inter> set (type_names s) = {}"
    and "migrate_up m (s, at) = Inr st"
  shows "migrate_down m st = Inr (s, at) \<and> schema_ok (fst st) \<and>
    set (type_names (fst st)) = set (created_types (upgrade m)) \<union> set (type_names s)"
proof -
  obtain s' where s': "exec (upgrade m) s = Inr s'" "down_revision m = at" "st = (s', Some (revision m))"
    using assms(4) by (auto simp: migrate_up_def bindE_Inr_iff split: if_splits)
  have back_to: "list_all2 undoes (upgrade m) (rev (downgrade m))" using migrations_undo assms(1) by (auto simp: list_all_iff)
  have "distinct (created_types (upgrade m))" using migrations_types assms(1) by (auto simp: distinct_concat_iff)
  with undo [OF back_to assms(2) s'(1) _ assms(3)] have "exec (downgrade m) s' = Inr s" "schema_ok s'" by auto
  moreover have "list_all creates (upgrade m)"
    using back_to unfolding list_all_iff list_all2_conv_all_nth by (metis in_set_conv_nth undoes_creates)
  ultimately show ?thesis using exec_types s' by (simp add: migrate_down_def)
qed

lemma run_all_append: "run_all f (ms @ ns) st = bindE (run_all f ms st) (run_all f ns)"
  by (induction ms arbitrary: st) (simp_all add: bindE_def split: sum.split)

lemma run_down_up:
  assumes "set ms \<subseteq> set migrations" "distinct (concat (map (\<lambda>m. created_types (upgrade m)) ms))"
    "schema_ok (fst st)" "\<forall>m\<in>set ms. set (created_types (upgrade m)) \<inter> set (type_names (fst st)) = {}"
    "run_all migrate_up ms st = Inr st'"
  shows "run_all migrate_down (rev ms) st' = Inr st \<and> schema_ok (fst st')"
  using assms
proof (induction ms arbitrary: st)
  case (Cons m ms)
  obtain s1 where s1: "migrate_up m st = Inr s1" "run_all migrate_up ms s1 = Inr st'"
    using Cons.prems(5) by (auto simp: bindE_Inr_iff)
  have 1: "migrate_down m s1 = Inr st" "schema_ok (fst s1)"
    "set (type_names (fst s1)) = set (created_types (upgrade m)) \<union> set (type_names (fst st))"
    using undo_migration [of m "fst st" "snd st" s1] Cons.prems s1(1) by auto
  have "\<forall>n\<in>set ms. set (created_types (upgrade n)) \<inter> set (type_names (fst s1)) = {}"
    using Cons.prems(2,4) unfolding 1(3) by fastforce
  with Cons.IH [of s1] 1 s1(2) Cons.prems(1,2) show ?case by (simp add: run_all_append)
qed simp

lemma run_up_types:
  assumes "set ms \<subseteq> set migrations" "distinct (concat (map (\<lambda>m. created_types (upgrade m)) ms))"
    "schema_ok (fst st)" "\<forall>m\<in>set ms. set (created_types (upgrade m)) \<inter> set (type_names (fst st)) = {}"
    "run_all migrate_up ms st = Inr st'"
  shows "schema_ok (fst st') \<and>
    set (type_names (fst st')) = set (concat (map (\<lambda>m. created_types (upgrade m)) ms)) \<union> set (type_names (fst st))"
  using assms
proof (induction ms arbitrary: st)
  case (Cons m ms)
  obtain s1 where s1: "migrate_up m st = Inr s1" "run_all migrate_up ms s1 = Inr st'"
    using Cons.prems(5) by (auto simp: bindE_Inr_iff)
  have 1: "schema_ok (fst s1)" "set (type_names (fst s1)) = set (created_types (upgrade m)) \<union> set (type_names (fst st))"
    using undo_migration [of m "fst st" "snd st" s1] Cons.prems s1(1) by auto
  have "\<forall>n\<in>set ms. set (created_types (upgrade n)) \<inter> set (type_names (fst s1)) = {}"
    using Cons.prems(2,4) unfolding 1(2) by fastforce
  with Cons.IH [of s1] 1 s1(2) Cons.prems(1,2) show ?case by auto
qed simp

lemma migrations_succeed: "\<not> isl (run_all migrate_up migrations (empty_schema, None))"
  by code_simp

text \<open>The schema the migrations make.\<close>

definition migrated_schema :: schema where
  "migrated_schema = fst (projr (run_all migrate_up migrations (empty_schema, None)))"

lemma run_all_revision:
  "run_all migrate_up ms st = Inr st' \<Longrightarrow> ms \<noteq> [] \<Longrightarrow> snd st' = Some (revision (last ms))"
proof (induction ms arbitrary: st)
  case (Cons m ms)
  then show ?case by (cases "ms = []") (auto simp: bindE_Inr_iff migrate_up_def split: if_splits prod.splits)
qed simp

lemma migrated: "run_all migrate_up migrations (empty_schema, None) = Inr (migrated_schema, Some ''k1l2m3n4o5p6'')"
proof -
  obtain st where st: "run_all migrate_up migrations (empty_schema, None) = Inr st"
    using migrations_succeed by (cases "run_all migrate_up migrations (empty_schema, None)") auto
  have "snd st = Some (revision (last migrations))" by (rule run_all_revision [OF st]) (simp add: migrations_def)
  also have "revision (last migrations) = ''k1l2m3n4o5p6''" by code_simp
  finally show ?thesis using st by (cases st) (simp add: migrated_schema_def)
qed

lemma migrated_schema_ok: "schema_ok migrated_schema"
  using run_down_up [OF _ migrations_types _ _ migrated] schema_ok_empty
  by (simp add: type_names_def empty_schema_def)

section \<open>The tables as the models declare them\<close>

text \<open>
  \<open>mapped_column(...)\<close> with \<open>primary_key\<close>, \<open>unique\<close>, \<open>index\<close> and \<open>ForeignKey\<close>; a column that is both
  \<open>unique\<close> and \<open>index\<close> gets one UNIQUE index. The labels of an enumeration are its members' values.
\<close>

fun transaction_type_value :: "transaction_type \<Rightarrow> string" where
  "transaction_type_value FUNDING = ''funding''"
| "transaction_type_value TRANSFER = ''transfer''"
| "transaction_type_value MERCHANT_PAYMENT = ''merchant_payment''"
| "transaction_type_value WITHDRAWAL = ''withdrawal''"
| "transaction_type_value REVERSAL = ''reversal''"

fun entry_type_value :: "entry_type \<Rightarrow> string" where
  "entry_type_value DEBIT = ''debit''"
| "entry_type_value CREDIT = ''credit''"

fun delivery_status_value :: "delivery_status \<Rightarrow> string" where
  "delivery_status_value WD_PENDING = ''pending''"
| "delivery_status_value WD_DELIVERED = ''delivered''"
| "delivery_status_value WD_FAILED = ''failed''"

fun actor_type_value :: "actor_type \<Rightarrow> string" where
  "actor_type_value ACTOR_USER = ''user''"
| "actor_type_value ACTOR_SYSTEM = ''system''"
| "actor_type_value ACTOR_ADMIN = ''admin''"

definition timestamp_mixin :: "table_arg list" where
  "timestamp_mixin = [Column (server_default ''now()'' (not_null ''created_at'' TIMESTAMPTZ)) [],
     Column (server_default ''now()'' (not_null ''updated_at'' TIMESTAMPTZ)) []]"

definition soft_delete_mixin :: "table_arg list" where
  "soft_delete_mixin = [Column (nullable ''deleted_at'' TIMESTAMPTZ) [INDEXED]]"

definition declared_users :: "table_arg list" where
  "declared_users = [
     Column (not_null ''id'' UUID) [PRIMARY_KEY],
     Column (not_null ''email'' (VARCHAR 255)) [UNIQUE_KEY, INDEXED],
     Column (nullable ''phone'' (VARCHAR 20)) [UNIQUE_KEY, INDEXED],
     Column (not_null ''hashed_password'' (VARCHAR 255)) [],
     Column (not_null ''full_name'' (VARCHAR 255)) [],
     Column (not_null ''role'' (ENUM ''userrole'' (map role_value [USER, MERCHANT, ADMIN]))) [INDEXED],
     Column (not_null ''kyc_tier'' SMALLINT) [INDEXED],
     Column (not_null ''is_active'' BOOLEAN) [],
     Column (not_null ''is_email_verified'' BOOLEAN) []] @ timestamp_mixin @ soft_delete_mixin"

definition declared_refresh_tokens :: "table_arg list" where
  "declared_refresh_tokens = [
     Column (not_null ''id'' UUID) [PRIMARY_KEY],
     Column (not_null ''user_id'' UUID) [FOREIGN_KEY ''users'' ''id'' CASCADE, INDEXED],
     Column (not_null ''token_hash'' (VARCHAR 64)) [UNIQUE_KEY, INDEXED],
     Column (not_null ''expires_at'' TIMESTAMPTZ) [],
     Column (not_null ''is_revoked'' BOOLEAN) [INDEXED]] @ timestamp_mixin"

definition declared_wallets :: "table_arg list" where
  "declared_wallets = [
     CheckConstraint ''ck_wallets_balance_non_negative'' ''balance >= 0'',
     Column (not_null ''id'' UUID) [PRIMARY_KEY],
     Column (not_null ''user_id'' UUID) [FOREIGN_KEY ''users'' ''id'' CASCADE, UNIQUE_KEY, INDEXED],
     Column (not_null ''currency'' (VARCHAR 3)) [],
     Column (not_null ''balance'' (NUMERIC 20 2)) [],
     Column (not_null ''is_active'' BOOLEAN) []] @ timestamp_mixin @ soft_delete_mixin"

definition declared_transactions :: "table_arg list" where
  "declared_transactions = [
     Column (not_null ''id'' UUID) [PRIMARY_KEY],
     Column (not_null ''reference'' (VARCHAR 50)) [UNIQUE_KEY, INDEXED],
     Column (not_null ''type'' (ENUM ''transactiontype''
       (map transaction_type_value [FUNDING, TRANSFER, MERCHANT_PAYMENT, WITHDRAWAL, REVERSAL]))) [INDEXED],
     Column (not_null ''status'' (ENUM ''transactionstatus''
       (map status_value [PENDING, PROCESSING, COMPLETED, FAILED, REVERSED]))) [INDEXED],
     Column (not_null ''amount'' (NUMERIC 20 2)) [],
     Column (not_null ''currency'' (VARCHAR 3)) [],
     Column (nullable ''source_wallet_id'' UUID) [FOREIGN_KEY ''wallets'' ''id'' RESTRICT, INDEXED],
     Column (nullable ''destination_wallet_id'' UUID) [FOREIGN_KEY ''wallets'' ''id'' RESTRICT, INDEXED],
     Column (not_null ''initiated_by_user_id'' UUID) [FOREIGN_KEY ''users'' ''id'' RESTRICT, INDEXED],
     Column (nullable ''provider_reference'' (VARCHAR 100)) [INDEXED],
     Column (nullable ''idempotency_key'' (VARCHAR 255)) [UNIQUE_KEY, INDEXED],
     Column (nullable ''metadata'' JSONB) [],
     Column (nullable ''failure_reason'' TEXT) [],
     Column (server_default ''false'' (not_null ''risk_flagged'' BOOLEAN)) [],
     Column (nullable ''risk_flag_reason'' TEXT) []] @ timestamp_mixin"

definition declared_ledger_entries :: "table_arg list" where
  "declared_ledger_entries = [
     Column (not_null ''id'' UUID) [PRIMARY_KEY],
     Column (not_null ''transaction_id'' UUID) [FOREIGN_KEY ''transactions'' ''id'' RESTRICT, INDEXED],
     Column (not_null ''wallet_id'' UUID) [FOREIGN_KEY ''wallets'' ''id'' RESTRICT, INDEXED],
     Column (not_null ''entry_type'' (ENUM ''entrytype'' (map entry_type_value [DEBIT, CREDIT]))) [],
     Column (not_null ''amount'' (NUMERIC 20 2)) [],
     Column (not_null ''currency'' (VARCHAR 3)) [],
     Column (not_null ''balance_after'' (NUMERIC 20 2)) [],
     Column (server_default ''now()'' (not_null ''created_at'' TIMESTAMPTZ)) [INDEXED]]"

definition declared_kyc_submissions :: "table_arg list" where
  "declared_kyc_submissions = [
     Column (not_null ''id'' UUID) [PRIMARY_KEY],
     Column (not_null ''user_id'' UUID) [FOREIGN_KEY ''users'' ''id'' RESTRICT, INDEXED],
     Column (not_null ''requested_tier'' SMALLINT) [],
     Column (not_null ''status'' (ENUM ''kycstatus'' (map kyc_status_value [KYC_PENDING, KYC_APPROVED, KYC_REJECTED]))) [INDEXED],
     Column (not_null ''document_key'' (VARCHAR 500)) [],
     Column (nullable ''reviewer_id'' UUID) [FOREIGN_KEY ''users'' ''id'' SET_NULL],
     Column (nullable ''rejection_reason'' TEXT) [],
     Column (nullable ''reviewed_at'' TIMESTAMPTZ) []] @ timestamp_mixin"

definition declared_merchants :: "table_arg list" where
  "declared_merchants = [
     Column (not_null ''id'' UUID) [PRIMARY_KEY],
     Column (not_null ''user_id'' UUID) [FOREIGN_KEY ''users'' ''id'' RESTRICT, UNIQUE_KEY, INDEXED],
     Column (not_null ''business_name'' (VARCHAR 255)) [],
     Column (not_null ''api_key_hash'' (VARCHAR 255)) [],
     Column (not_null ''api_key_prefix'' (VARCHAR 16)) [INDEXED],
     Column (nullable ''webhook_url'' (VARCHAR 500)) [],
     Column (nullable ''webhook_secret'' (VARCHAR 255)) [],
     Column (not_null ''is_active'' BOOLEAN) []] @ timestamp_mixin @ soft_delete_mixin"

definition declared_webhook_deliveries :: "table_arg list" where
  "declared_webhook_deliveries = [
     Column (not_null ''id'' UUID) [PRIMARY_KEY],
     Column (not_null ''merchant_id'' UUID) [FOREIGN_KEY ''merchants'' ''id'' RESTRICT, INDEXED],
     Column (not_null ''transaction_id'' UUID) [FOREIGN_KEY ''transactions'' ''id'' RESTRICT, INDEXED],
     Column (not_null ''event_type'' (VARCHAR 50)) [],
     Column (not_null ''payload'' JSONB) [],
     Column (not_null ''status'' (ENUM ''webhookdeliverystatus''
       (map delivery_status_value [WD_PENDING, WD_DELIVERED, WD_FAILED]))) [INDEXED],
     Column (not_null ''attempt_count'' SMALLINT) [],
     Column (nullable ''next_retry_at'' TIMESTAMPTZ) [INDEXED],
     Column (nullable ''last_response_code'' SMALLINT) [],
     Column (nullable ''last_error'' TEXT) []] @ timestamp_mixin"

definition declared_bank_accounts :: "table_arg list" where
  "declared_bank_accounts = [
     Column (not_null ''id'' UUID) [PRIMARY_KEY],
     Column (not_null ''user_id'' UUID) [FOREIGN_KEY ''users'' ''id'' RESTRICT, INDEXED],
     Column (not_null ''account_name'' (VARCHAR 255)) [],
     Column (not_null ''account_number'' (VARCHAR 20)) [],
     Column (not_null ''bank_code'' (VARCHAR 20)) [],
     Column (not_null ''bank_name'' (VARCHAR 100)) [],
     Column (not_null ''is_default'' BOOLEAN) [],
     Column (nullable ''paystack_recipient_code'' (VARCHAR 100)) []] @ timestamp_mixin @ soft_delete_mixin"

definition declared_audit_logs :: "table_arg list" where
  "declared_audit_logs = [
     Column (not_null ''id'' UUID) [PRIMARY_KEY],
     Column (nullable ''actor_id'' UUID) [INDEXED],
     Column (not_null ''actor_type'' (ENUM ''actortype'' (map actor_type_value [ACTOR_USER, ACTOR_SYSTEM, ACTOR_ADMIN]))) [],
     Column (not_null ''action'' (VARCHAR 100)) [INDEXED],
     Column (nullable ''target_type'' (VARCHAR 50)) [],
     Column (nullable ''target_id'' UUID) [INDEXED],
     Column (nullable ''metadata'' JSONB) [],
     Column (nullable ''ip_address'' (VARCHAR 45)) [],
     Column (server_default ''now()'' (not_null ''created_at'' TIMESTAMPTZ)) [INDEXED]]"

definition declared_tables :: "(string \<times> table_arg list) list" where
  "declared_tables = [(''users'', declared_users), (''refresh_tokens'', declared_refresh_tokens),
     (''wallets'', declared_wallets), (''transactions'', declared_transactions),
     (''ledger_entries'', declared_ledger_entries), (''kyc_submissions'', declared_kyc_submissions),
     (''merchants'', declared_merchants), (''webhook_deliveries'', declared_webhook_deliveries),
     (''bank_accounts'', declared_bank_accounts), (''audit_logs'', declared_audit_logs)]"

section \<open>Comparison\<close>

text \<open>
  What a table stores and enforces: columns with their types and nullability, the primary key, the
  unique keys (by constraint or by index), the foreign keys and the checks.
\<close>

definition unique_indexes :: "schema \<Rightarrow> string \<Rightarrow> string list list" where
  "unique_indexes s n = map ix_columns (filter (\<lambda>i. ix_table i = n \<and> ix_unique i) (indexes s))"

definition columns_of :: "sql_table \<Rightarrow> (string \<times> sql_type \<times> bool) list" where
  "columns_of t = map (\<lambda>c. (col_name c, col_type c, col_nullable c)) (tab_columns t)"

definition same_elements :: "'a list \<Rightarrow> 'a list \<Rightarrow> bool" where
  "same_elements xs ys \<longleftrightarrow> list_all (\<lambda>x. x \<in> set ys) xs \<and> list_all (\<lambda>y. y \<in> set xs) ys"

lemma same_elements_iff: "same_elements xs ys \<longleftrightarrow> set xs = set ys"
  by (auto simp: same_elements_def list_all_iff)

definition agrees :: "schema \<Rightarrow> sql_table \<Rightarrow> sql_table \<Rightarrow> bool" where
  "agrees s t m \<longleftrightarrow> tab_name t = tab_name m \<and> same_elements (columns_of t) (columns_of m) \<and>
     tab_primary_key t = tab_primary_key m \<and>
     same_elements (map snd (tab_uniques t) @ unique_indexes s (tab_name t)) (map snd (tab_uniques m)) \<and>
     same_elements (tab_foreign_keys t) (tab_foreign_keys m) \<and> same_elements (tab_checks t) (tab_checks m)"

text \<open>The enumerations of the columns have the labels of the types they name.\<close>

definition labels_agree :: "schema \<Rightarrow> sql_table \<Rightarrow> bool" where
  "labels_agree s t \<longleftrightarrow> list_all (\<lambda>c. case col_type c of ENUM n ls \<Rightarrow> (n, ls) \<in> set (enum_types s) | _ \<Rightarrow> True) (tab_columns t)"

text \<open>The schema, computed without the checks that its statements passed.\<close>

lemma run_all_exec:
  "run_all migrate_up ms st = Inr st' \<Longrightarrow> exec (concat (map upgrade ms)) (fst st) = Inr (fst st')"
  by (induction ms arbitrary: st)
    (auto simp: bindE_Inr_iff migrate_up_def exec_append split: if_splits prod.splits)

lemma migrations_create: "list_all creates (concat (map upgrade migrations))"
  by code_simp

lemma migrations_all_types: "distinct (created_types (concat (map upgrade migrations)))"
  by code_simp

lemma migrated_schema_effect: "migrated_schema = fold effect (concat (map upgrade migrations)) empty_schema"
  using exec_effect [OF migrations_create _ migrations_all_types] run_all_exec [OF migrated]
  by (simp add: type_names_def empty_schema_def)

lemma tables_agree:
  "list_all2 (agrees migrated_schema) (tables migrated_schema) (map (\<lambda>(n, args). table_of n args) declared_tables)"
  unfolding migrated_schema_effect by code_simp

lemma labels_agree: "list_all (labels_agree migrated_schema) (tables migrated_schema)"
  unfolding migrated_schema_effect by code_simp

end
