(* ===== verification/Conformance.thy ===== *)
theory Conformance
  imports Message_Origin Migrations
begin

text \<open>
  The database of the model, a record of lists of records, as an instance of the schema that the
  migrations make: each row as the values of its columns, and what it means that the columns have
  their types, keys are unique, foreign keys refer to rows and checks hold. No statement of any
  operation breaks a constraint, which the rules of \<open>maintains\<close> settle operation by operation.
\<close>

section \<open>Rows as values of columns\<close>

datatype sql_value = VNull | VUuid uuid | VText string | VReason flag_reason | VNum money | VInt int | VBool bool
  | VTime timestamp | VJson json | VEnum string

type_synonym sql_row = "(string \<times> sql_value) list"

definition opt :: "('a \<Rightarrow> sql_value) \<Rightarrow> 'a option \<Rightarrow> sql_value" where
  "opt v x = (case x of None \<Rightarrow> VNull | Some a \<Rightarrow> v a)"

definition user_row :: "user \<Rightarrow> sql_row" where
  "user_row u = [(''id'', VUuid (u_id u)), (''email'', VText (u_email u)), (''phone'', opt VText (u_phone u)),
     (''hashed_password'', VText (u_hashed_password u)), (''full_name'', VText (u_full_name u)),
     (''role'', VEnum (role_value (u_role u))), (''kyc_tier'', VInt (u_kyc_tier u)), (''is_active'', VBool (u_is_active u)),
     (''is_email_verified'', VBool (u_is_email_verified u)), (''deleted_at'', opt VTime (u_deleted_at u)),
     (''created_at'', VTime (u_created_at u))]"

definition refresh_token_row :: "refresh_token \<Rightarrow> sql_row" where
  "refresh_token_row r = [(''id'', VUuid (r_id r)), (''user_id'', VUuid (r_user_id r)), (''token_hash'', VText (r_token_hash r)),
     (''expires_at'', VTime (r_expires_at r)), (''is_revoked'', VBool (r_is_revoked r)), (''created_at'', VTime (r_created_at r))]"

definition wallet_row :: "wallet \<Rightarrow> sql_row" where
  "wallet_row w = [(''id'', VUuid (w_id w)), (''user_id'', VUuid (w_user_id w)), (''currency'', VText (w_currency w)),
     (''balance'', VNum (w_balance w)), (''is_active'', VBool (w_is_active w)), (''deleted_at'', opt VTime (w_deleted_at w)),
     (''created_at'', VTime (w_created_at w))]"

definition transaction_row :: "transaction \<Rightarrow> sql_row" where
  "transaction_row t = [(''id'', VUuid (t_id t)), (''reference'', VText (t_reference t)),
     (''type'', VEnum (transaction_type_value (t_type t))), (''status'', VEnum (status_value (t_status t))),
     (''amount'', VNum (t_amount t)), (''currency'', VText (t_currency t)),
     (''source_wallet_id'', opt VUuid (t_source_wallet_id t)),
     (''destination_wallet_id'', opt VUuid (t_destination_wallet_id t)),
     (''initiated_by_user_id'', VUuid (t_initiated_by_user_id t)),
     (''provider_reference'', opt VText (t_provider_reference t)), (''idempotency_key'', opt VText (t_idempotency_key t)),
     (''metadata'', opt VJson (t_extra_data t)), (''failure_reason'', opt VText (t_failure_reason t)),
     (''risk_flagged'', VBool (t_risk_flagged t)), (''risk_flag_reason'', opt VReason (t_risk_flag_reason t)),
     (''created_at'', VTime (t_created_at t))]"

definition ledger_entry_row :: "ledger_entry \<Rightarrow> sql_row" where
  "ledger_entry_row e = [(''id'', VUuid (e_id e)), (''transaction_id'', VUuid (e_transaction_id e)),
     (''wallet_id'', VUuid (e_wallet_id e)), (''entry_type'', VEnum (entry_type_value (e_entry_type e))),
     (''amount'', VNum (e_amount e)), (''currency'', VText (e_currency e)), (''balance_after'', VNum (e_balance_after e)),
     (''created_at'', VTime (e_created_at e))]"

definition kyc_submission_row :: "kyc_submission \<Rightarrow> sql_row" where
  "kyc_submission_row k = [(''id'', VUuid (k_id k)), (''user_id'', VUuid (k_user_id k)),
     (''requested_tier'', VInt (k_requested_tier k)), (''status'', VEnum (kyc_status_value (k_status k))),
     (''document_key'', VText (k_document_key k)), (''reviewer_id'', opt VUuid (k_reviewer_id k)),
     (''rejection_reason'', opt VText (k_rejection_reason k)), (''reviewed_at'', opt VTime (k_reviewed_at k)),
     (''created_at'', VTime (k_created_at k))]"

definition merchant_row :: "merchant \<Rightarrow> sql_row" where
  "merchant_row m = [(''id'', VUuid (m_id m)), (''user_id'', VUuid (m_user_id m)), (''business_name'', VText (m_business_name m)),
     (''api_key_hash'', VText (m_api_key_hash m)), (''api_key_prefix'', VText (m_api_key_prefix m)),
     (''webhook_url'', opt VText (m_webhook_url m)), (''webhook_secret'', opt VText (m_webhook_secret m)),
     (''is_active'', VBool (m_is_active m)), (''deleted_at'', opt VTime (m_deleted_at m)), (''created_at'', VTime (m_created_at m))]"

definition webhook_delivery_row :: "webhook_delivery \<Rightarrow> sql_row" where
  "webhook_delivery_row w = [(''id'', VUuid (d_id w)), (''merchant_id'', VUuid (d_merchant_id w)),
     (''transaction_id'', VUuid (d_transaction_id w)), (''event_type'', VText (d_event_type w)), (''payload'', VJson (d_payload w)),
     (''status'', VEnum (delivery_status_value (d_status w))), (''attempt_count'', VInt (d_attempt_count w)),
     (''next_retry_at'', opt VTime (d_next_retry_at w)), (''last_response_code'', opt VInt (d_last_response_code w)),
     (''last_error'', opt VText (d_last_error w)), (''created_at'', VTime (d_created_at w))]"

definition bank_account_row :: "bank_account \<Rightarrow> sql_row" where
  "bank_account_row b = [(''id'', VUuid (b_id b)), (''user_id'', VUuid (b_user_id b)),
     (''account_name'', VText (b_account_name b)), (''account_number'', VText (b_account_number b)),
     (''bank_code'', VText (b_bank_code b)), (''bank_name'', VText (b_bank_name b)), (''is_default'', VBool (b_is_default b)),
     (''paystack_recipient_code'', opt VText (b_paystack_recipient_code b)), (''deleted_at'', opt VTime (b_deleted_at b)),
     (''created_at'', VTime (b_created_at b))]"

definition audit_log_row :: "audit_log \<Rightarrow> sql_row" where
  "audit_log_row a = [(''id'', VUuid (a_id a)), (''actor_id'', opt VUuid (a_actor_id a)),
     (''actor_type'', VEnum (actor_type_value (a_actor_type a))), (''action'', VText (a_action a)),
     (''target_type'', opt VText (a_target_type a)), (''target_id'', opt VUuid (a_target_id a)),
     (''metadata'', opt VJson (a_metadata a)), (''ip_address'', opt VText (a_ip_address a)), (''created_at'', VTime (a_created_at a))]"

definition table_rows :: "db \<Rightarrow> (string \<times> sql_row list) list" where
  "table_rows d = [(''users'', map user_row (users d)), (''refresh_tokens'', map refresh_token_row (refresh_tokens d)),
     (''wallets'', map wallet_row (wallets d)), (''transactions'', map transaction_row (transactions d)),
     (''ledger_entries'', map ledger_entry_row (ledger_entries d)),
     (''kyc_submissions'', map kyc_submission_row (kyc_submissions d)), (''merchants'', map merchant_row (merchants d)),
     (''webhook_deliveries'', map webhook_delivery_row (webhook_deliveries d)),
     (''bank_accounts'', map bank_account_row (bank_accounts d)), (''audit_logs'', map audit_log_row (audit_logs d))]"

definition rows_of :: "db \<Rightarrow> string \<Rightarrow> sql_row list" where
  "rows_of d n = (case map_of (table_rows d) n of None \<Rightarrow> [] | Some rs \<Rightarrow> rs)"

section \<open>What a table asks of its rows\<close>

text \<open>The kinds of values, NOT NULL, the range of NUMERIC and the labels of an enumeration; not the width of strings.\<close>

fun value_ok :: "sql_type \<Rightarrow> bool \<Rightarrow> sql_value \<Rightarrow> bool" where
  "value_ok ty nl VNull = nl"
| "value_ok UUID nl (VUuid i) = True"
| "value_ok (VARCHAR n) nl (VText s) = True"
| "value_ok TEXT nl (VText s) = True"
| "value_ok TEXT nl (VReason r) = True"
| "value_ok (NUMERIC p q) nl (VNum x) = (\<bar>x\<bar> < 10 ^ p)"
| "value_ok SMALLINT nl (VInt i) = True"
| "value_ok BOOLEAN nl (VBool b) = True"
| "value_ok TIMESTAMPTZ nl (VTime t) = True"
| "value_ok JSONB nl (VJson j) = True"
| "value_ok (ENUM n ls) nl (VEnum l) = (l \<in> set ls)"
| "value_ok _ _ _ = False"

text \<open>The rows of the model have every column but \<open>updated_at\<close>.\<close>

definition column_ok :: "sql_row \<Rightarrow> string \<times> sql_type \<times> bool \<Rightarrow> bool" where
  "column_ok r = (\<lambda>(n, ty, nl). case map_of r n of None \<Rightarrow> n = ''updated_at'' | Some v \<Rightarrow> value_ok ty nl v)"

definition key_ok :: "sql_row list \<Rightarrow> string list \<Rightarrow> bool" where
  "key_ok rows k \<longleftrightarrow> distinct (filter (\<lambda>vs. Some VNull \<notin> set vs) (map (\<lambda>r. map (map_of r) k) rows))"

definition foreign_key_ok :: "db \<Rightarrow> sql_row list \<Rightarrow> foreign_key \<Rightarrow> bool" where
  "foreign_key_ok d rows fk \<longleftrightarrow> (\<forall>r\<in>set rows. Some VNull \<in> set (map (map_of r) (fk_columns fk)) \<or>
     map (map_of r) (fk_columns fk) \<in> (\<lambda>q. map (map_of q) (fk_target fk)) ` set (rows_of d (fk_table fk)))"

definition check_ok :: "sql_row list \<Rightarrow> string \<times> string \<Rightarrow> bool" where
  "check_ok rows = (\<lambda>(n, e). e = ''balance >= 0'' \<and> (\<forall>r\<in>set rows. \<exists>x. map_of r ''balance'' = Some (VNum x) \<and> 0 \<le> x))"

definition table_met :: "db \<Rightarrow> string list list \<Rightarrow> sql_table \<Rightarrow> bool" where
  "table_met d ks t \<longleftrightarrow> (let rows = rows_of d (tab_name t) in
     (\<forall>r\<in>set rows. list_all (column_ok r) (columns_of t)) \<and> list_all (key_ok rows) (tab_primary_key t # ks) \<and>
     list_all (foreign_key_ok d rows) (tab_foreign_keys t) \<and> list_all (check_ok rows) (tab_checks t))"

text \<open>A database is an instance of a schema if it has exactly its tables and each table's demands are met.\<close>

definition instance_of :: "schema \<Rightarrow> db \<Rightarrow> bool" where
  "instance_of s d \<longleftrightarrow> set (table_names s) = fst ` set (table_rows d) \<and>
     list_all (\<lambda>t. table_met d (map snd (tab_uniques t) @ unique_indexes s (tab_name t)) t) (tables s)"

lemma table_met_agrees:
  assumes "agrees s t m" "table_met d (map snd (tab_uniques m)) m"
  shows "table_met d (map snd (tab_uniques t) @ unique_indexes s (tab_name t)) t"
proof -
  note same = assms(1) [unfolded agrees_def same_elements_iff]
  show ?thesis
    using assms(2) same unfolding table_met_def Let_def list_all_iff by (metis (no_types, lifting) list.set_intros(1,2) set_ConsD)
qed

section \<open>The constraints\<close>

text \<open>The same demands, on the columns of the model's records.\<close>

definition keys_unique :: "db \<Rightarrow> bool" where
  "keys_unique d \<longleftrightarrow> distinct (map u_id (users d)) \<and> distinct (map u_email (users d)) \<and>
     distinct (filter (\<lambda>p. p \<noteq> None) (map u_phone (users d))) \<and>
     distinct (map r_id (refresh_tokens d)) \<and> distinct (map r_token_hash (refresh_tokens d)) \<and>
     distinct (map w_id (wallets d)) \<and> distinct (map w_user_id (wallets d)) \<and>
     distinct (map t_id (transactions d)) \<and> distinct (map t_reference (transactions d)) \<and>
     distinct (filter (\<lambda>k. k \<noteq> None) (map t_idempotency_key (transactions d))) \<and>
     distinct (map e_id (ledger_entries d)) \<and> distinct (map k_id (kyc_submissions d)) \<and>
     distinct (map m_id (merchants d)) \<and> distinct (map m_user_id (merchants d)) \<and>
     distinct (map d_id (webhook_deliveries d)) \<and> distinct (map b_id (bank_accounts d)) \<and> distinct (map a_id (audit_logs d))"

definition all_refer :: "'k list \<Rightarrow> 'k list \<Rightarrow> bool" where
  "all_refer ks is \<longleftrightarrow> set ks \<subseteq> set is"

definition all_refer_opt :: "'k option list \<Rightarrow> 'k list \<Rightarrow> bool" where
  "all_refer_opt ks is \<longleftrightarrow> (\<forall>k. Some k \<in> set ks \<longrightarrow> k \<in> set is)"

definition references_exist :: "db \<Rightarrow> bool" where
  "references_exist d \<longleftrightarrow> all_refer (map r_user_id (refresh_tokens d)) (map u_id (users d)) \<and>
     all_refer (map w_user_id (wallets d)) (map u_id (users d)) \<and>
     all_refer_opt (map t_source_wallet_id (transactions d)) (map w_id (wallets d)) \<and>
     all_refer_opt (map t_destination_wallet_id (transactions d)) (map w_id (wallets d)) \<and>
     all_refer (map t_initiated_by_user_id (transactions d)) (map u_id (users d)) \<and>
     all_refer (map e_transaction_id (ledger_entries d)) (map t_id (transactions d)) \<and>
     all_refer (map e_wallet_id (ledger_entries d)) (map w_id (wallets d)) \<and>
     all_refer (map k_user_id (kyc_submissions d)) (map u_id (users d)) \<and>
     all_refer_opt (map k_reviewer_id (kyc_submissions d)) (map u_id (users d)) \<and>
     all_refer (map m_user_id (merchants d)) (map u_id (users d)) \<and>
     all_refer (map d_merchant_id (webhook_deliveries d)) (map m_id (merchants d)) \<and>
     all_refer (map d_transaction_id (webhook_deliveries d)) (map t_id (transactions d)) \<and>
     all_refer (map b_user_id (bank_accounts d)) (map u_id (users d))"

definition amounts_fit :: "db \<Rightarrow> bool" where
  "amounts_fit d \<longleftrightarrow> list_all (\<lambda>x. 0 \<le> x \<and> fits_numeric x) (map w_balance (wallets d)) \<and>
     list_all fits_numeric (map t_amount (transactions d)) \<and> list_all fits_numeric (map e_amount (ledger_entries d)) \<and>
     list_all fits_numeric (map e_balance_after (ledger_entries d))"

definition constraints_ok :: "db \<Rightarrow> bool" where
  "constraints_ok d \<longleftrightarrow> keys_unique d \<and> references_exist d \<and> amounts_fit d"

lemmas constraints_defs = constraints_ok_def keys_unique_def references_exist_def amounts_fit_def

section \<open>From the constraints to the schema\<close>

lemma opt_simps [simp]: "opt v None = VNull" "opt v (Some x) = v x"
  by (simp_all add: opt_def)

lemma key_ok_single: "key_ok rows [c] \<longleftrightarrow> distinct (filter (\<lambda>v. v \<noteq> Some VNull) (map (\<lambda>r. map_of r c) rows))"
proof -
  have "map (\<lambda>r. map (map_of r) [c]) rows = map (\<lambda>v. [v]) (map (\<lambda>r. map_of r c) rows)" by simp
  moreover have "filter (\<lambda>vs. Some VNull \<notin> set vs) (map (\<lambda>v. [v]) vs) = map (\<lambda>v. [v]) (filter (\<lambda>v. v \<noteq> Some VNull) vs)" for vs
    by (induction vs) auto
  moreover have "distinct (map (\<lambda>v. [v]) vs) = distinct vs" for vs :: "sql_value option list"
    by (simp add: distinct_map inj_on_def)
  ultimately show ?thesis unfolding key_ok_def by (simp only:)
qed

lemma distinct_column:
  assumes "\<And>x y. v x = v y \<longleftrightarrow> x = y" and "\<And>x. v x \<noteq> VNull"
  shows "distinct (filter (\<lambda>w. w \<noteq> Some VNull) (map (\<lambda>x. Some (v (f x))) xs)) = distinct (map f xs)"
    "distinct (filter (\<lambda>w. w \<noteq> Some VNull) (map (\<lambda>x. Some (opt v (g x))) xs)) = distinct (filter (\<lambda>k. k \<noteq> None) (map g xs))"
proof -
  have eq: "opt v x = opt v y \<longleftrightarrow> x = y" "opt v x = VNull \<longleftrightarrow> x = None" for x y
    using assms assms(2) [symmetric] by (cases x; cases y; simp)+
  show "distinct (filter (\<lambda>w. w \<noteq> Some VNull) (map (\<lambda>x. Some (v (f x))) xs)) = distinct (map f xs)"
    by (induction xs) (auto simp: assms)
  have "filter (\<lambda>w. w \<noteq> Some VNull) (map (\<lambda>x. Some (opt v (g x))) xs) = map (\<lambda>k. Some (opt v k)) (filter (\<lambda>k. k \<noteq> None) (map g xs))"
    by (induction xs) (simp_all add: eq del: opt_simps not_None_eq)
  then show "distinct (filter (\<lambda>w. w \<noteq> Some VNull) (map (\<lambda>x. Some (opt v (g x))) xs)) = distinct (filter (\<lambda>k. k \<noteq> None) (map g xs))"
    by (simp add: distinct_map inj_on_def eq del: opt_simps not_None_eq)
qed

lemmas distinct_columns = distinct_column [of VUuid, simplified] distinct_column [of VText, simplified]

lemma foreign_key_ok_single:
  "foreign_key_ok d rows \<lparr>fk_columns = [c], fk_table = n, fk_target = [k], fk_on_delete = od\<rparr> \<longleftrightarrow>
     (\<forall>r\<in>set rows. map_of r c = Some VNull \<or> map_of r c \<in> (\<lambda>q. map_of q k) ` set (rows_of d n))"
  by (auto simp: foreign_key_ok_def)

lemma all_refer_column:
  "(\<forall>x\<in>set xs. Some (VUuid (f x)) \<in> (\<lambda>y. Some (VUuid (g y))) ` set ys) \<longleftrightarrow> all_refer (map f xs) (map g ys)"
  "(\<forall>x\<in>set xs. opt VUuid (h x) = VNull \<or> Some (opt VUuid (h x)) \<in> (\<lambda>y. Some (VUuid (g y))) ` set ys) \<longleftrightarrow>
     all_refer_opt (map h xs) (map g ys)"
proof -
  show "(\<forall>x\<in>set xs. Some (VUuid (f x)) \<in> (\<lambda>y. Some (VUuid (g y))) ` set ys) \<longleftrightarrow> all_refer (map f xs) (map g ys)"
    by (auto simp: all_refer_def)
  have "opt VUuid i = VNull \<or> Some (opt VUuid i) \<in> (\<lambda>y. Some (VUuid (g y))) ` set ys \<longleftrightarrow> (\<forall>k. i = Some k \<longrightarrow> k \<in> set (map g ys))" for i
    by (cases i) auto
  moreover have "(\<forall>x\<in>set xs. \<forall>k. h x = Some k \<longrightarrow> k \<in> S) \<longleftrightarrow> (\<forall>k. Some k \<in> set (map h xs) \<longrightarrow> k \<in> S)" for S
    by (auto dest: sym)
  ultimately show "(\<forall>x\<in>set xs. opt VUuid (h x) = VNull \<or> Some (opt VUuid (h x)) \<in> (\<lambda>y. Some (VUuid (g y))) ` set ys) \<longleftrightarrow>
      all_refer_opt (map h xs) (map g ys)"
    unfolding all_refer_opt_def by presburger
qed

lemma row_ids:
  "map_of (user_row u) ''id'' = Some (VUuid (u_id u))" "map_of (wallet_row w) ''id'' = Some (VUuid (w_id w))"
  "map_of (transaction_row t) ''id'' = Some (VUuid (t_id t))" "map_of (merchant_row m) ''id'' = Some (VUuid (m_id m))"
  by (simp_all add: user_row_def wallet_row_def transaction_row_def merchant_row_def)

text \<open>The tables, one by one.\<close>

lemmas column_defs = not_null_def nullable_def server_default_def timestamp_mixin_def soft_delete_mixin_def table_of_def
  columns_of_def column_ok_def

lemma rows_of_simps [simp]:
  "rows_of d ''users'' = map user_row (users d)" "rows_of d ''refresh_tokens'' = map refresh_token_row (refresh_tokens d)"
  "rows_of d ''wallets'' = map wallet_row (wallets d)" "rows_of d ''transactions'' = map transaction_row (transactions d)"
  "rows_of d ''ledger_entries'' = map ledger_entry_row (ledger_entries d)"
  "rows_of d ''kyc_submissions'' = map kyc_submission_row (kyc_submissions d)"
  "rows_of d ''merchants'' = map merchant_row (merchants d)"
  "rows_of d ''webhook_deliveries'' = map webhook_delivery_row (webhook_deliveries d)"
  "rows_of d ''bank_accounts'' = map bank_account_row (bank_accounts d)"
  "rows_of d ''audit_logs'' = map audit_log_row (audit_logs d)"
  by (simp_all add: rows_of_def table_rows_def)

lemma value_ok_opt [simp]:
  "value_ok UUID nl (opt VUuid i) \<longleftrightarrow> nl \<or> i \<noteq> None" "value_ok (VARCHAR n) nl (opt VText s) \<longleftrightarrow> nl \<or> s \<noteq> None"
  "value_ok TEXT nl (opt VText s) \<longleftrightarrow> nl \<or> s \<noteq> None" "value_ok TEXT nl (opt VReason r) \<longleftrightarrow> nl \<or> r \<noteq> None"
  "value_ok SMALLINT nl (opt VInt x) \<longleftrightarrow> nl \<or> x \<noteq> None" "value_ok TIMESTAMPTZ nl (opt VTime t) \<longleftrightarrow> nl \<or> t \<noteq> None"
  "value_ok JSONB nl (opt VJson j) \<longleftrightarrow> nl \<or> j \<noteq> None"
  by (simp_all add: opt_def split: option.split)

text \<open>Every member of an enumeration has one of the labels.\<close>

lemma role_value_label [simp]: "role_value r = ''user'' \<or> role_value r = ''merchant'' \<or> role_value r = ''admin''"
  by (cases r) simp_all

lemma transaction_type_value_label [simp]: "transaction_type_value ty = ''funding'' \<or> transaction_type_value ty = ''transfer'' \<or> transaction_type_value ty = ''merchant_payment'' \<or> transaction_type_value ty = ''withdrawal'' \<or> transaction_type_value ty = ''reversal''"
  by (cases ty) simp_all

lemma status_value_label [simp]: "status_value st = ''pending'' \<or> status_value st = ''processing'' \<or> status_value st = ''completed'' \<or> status_value st = ''failed'' \<or> status_value st = ''reversed''"
  by (cases st) simp_all

lemma entry_type_value_label [simp]: "entry_type_value en = ''debit'' \<or> entry_type_value en = ''credit''"
  by (cases en) simp_all

lemma kyc_status_value_label [simp]: "kyc_status_value ks = ''pending'' \<or> kyc_status_value ks = ''approved'' \<or> kyc_status_value ks = ''rejected''"
  by (cases ks) simp_all

lemma delivery_status_value_label [simp]: "delivery_status_value ds = ''pending'' \<or> delivery_status_value ds = ''delivered'' \<or> delivery_status_value ds = ''failed''"
  by (cases ds) simp_all

lemma actor_type_value_label [simp]: "actor_type_value a = ''user'' \<or> actor_type_value a = ''system'' \<or> actor_type_value a = ''admin''"
  by (cases a) simp_all

lemmas met_defs = column_defs key_ok_single foreign_key_ok_single distinct_columns all_refer_column row_ids comp_def image_image
  check_ok_def fits_numeric_def list_all_iff

abbreviation met :: "db \<Rightarrow> string \<Rightarrow> table_arg list \<Rightarrow> bool" where
  "met d n args \<equiv> table_met d (map snd (tab_uniques (table_of n args))) (table_of n args)"

lemma users_met: "constraints_ok d \<Longrightarrow> met d ''users'' declared_users"
  unfolding table_met_def Let_def constraints_defs
  by (simp add: declared_users_def user_row_def met_defs)

lemma refresh_tokens_met: "constraints_ok d \<Longrightarrow> met d ''refresh_tokens'' declared_refresh_tokens"
  unfolding table_met_def Let_def constraints_defs
  by (simp add: declared_refresh_tokens_def refresh_token_row_def met_defs)

lemma wallets_met: "constraints_ok d \<Longrightarrow> met d ''wallets'' declared_wallets"
  unfolding table_met_def Let_def constraints_defs
  by (simp add: declared_wallets_def wallet_row_def met_defs) fastforce

lemma transactions_met: "constraints_ok d \<Longrightarrow> met d ''transactions'' declared_transactions"
  unfolding table_met_def Let_def constraints_defs
  by (simp add: declared_transactions_def transaction_row_def met_defs)

lemma ledger_entries_met: "constraints_ok d \<Longrightarrow> met d ''ledger_entries'' declared_ledger_entries"
  unfolding table_met_def Let_def constraints_defs
  by (simp add: declared_ledger_entries_def ledger_entry_row_def met_defs)

lemma kyc_submissions_met: "constraints_ok d \<Longrightarrow> met d ''kyc_submissions'' declared_kyc_submissions"
  unfolding table_met_def Let_def constraints_defs
  by (simp add: declared_kyc_submissions_def kyc_submission_row_def met_defs)

lemma merchants_met: "constraints_ok d \<Longrightarrow> met d ''merchants'' declared_merchants"
  unfolding table_met_def Let_def constraints_defs
  by (simp add: declared_merchants_def merchant_row_def met_defs)

lemma webhook_deliveries_met: "constraints_ok d \<Longrightarrow> met d ''webhook_deliveries'' declared_webhook_deliveries"
  unfolding table_met_def Let_def constraints_defs
  by (simp add: declared_webhook_deliveries_def webhook_delivery_row_def met_defs)

lemma bank_accounts_met: "constraints_ok d \<Longrightarrow> met d ''bank_accounts'' declared_bank_accounts"
  unfolding table_met_def Let_def constraints_defs
  by (simp add: declared_bank_accounts_def bank_account_row_def met_defs)

lemma audit_logs_met: "constraints_ok d \<Longrightarrow> met d ''audit_logs'' declared_audit_logs"
  unfolding table_met_def Let_def constraints_defs
  by (simp add: declared_audit_logs_def audit_log_row_def met_defs)

lemma declared_met: "constraints_ok d \<Longrightarrow> list_all (\<lambda>(n, args). met d n args) declared_tables"
  by (simp add: declared_tables_def users_met refresh_tokens_met wallets_met transactions_met ledger_entries_met
      kyc_submissions_met merchants_met webhook_deliveries_met bank_accounts_met audit_logs_met)

lemma migrated_table_declared:
  assumes "t \<in> set (tables migrated_schema)"
  obtains n args where "(n, args) \<in> set declared_tables" "agrees migrated_schema t (table_of n args)"
proof -
  obtain m where "m \<in> set (map (\<lambda>(n, args). table_of n args) declared_tables)" "agrees migrated_schema t m"
    using tables_agree assms unfolding list_all2_conv_all_nth by (metis in_set_conv_nth)
  then show thesis using that by auto
qed

lemma migrated_table_names: "table_names migrated_schema = map fst declared_tables"
proof -
  have "map tab_name (tables migrated_schema) = map tab_name (map (\<lambda>(n, args). table_of n args) declared_tables)"
    using tables_agree unfolding list_all2_conv_all_nth by (intro nth_equalityI) (auto simp: agrees_def)
  also have "\<dots> = map fst declared_tables" by (simp add: comp_def case_prod_beta)
  finally show ?thesis by (simp add: table_names_def)
qed

lemma instance_of_migrated:
  assumes "constraints_ok d" shows "instance_of migrated_schema d"
proof -
  have "table_met d (map snd (tab_uniques t) @ unique_indexes migrated_schema (tab_name t)) t"
    if t: "t \<in> set (tables migrated_schema)" for t
  proof -
    obtain n args where m: "(n, args) \<in> set declared_tables" "agrees migrated_schema t (table_of n args)"
      using migrated_table_declared [OF t] .
    then have "met d n args" using declared_met [OF assms] by (auto simp: list_all_iff)
    with m(2) show ?thesis by (rule table_met_agrees)
  qed
  moreover have "set (table_names migrated_schema) = fst ` set (table_rows d)"
    unfolding migrated_table_names by (simp add: declared_tables_def table_rows_def)
  ultimately show ?thesis by (simp add: instance_of_def list_all_iff)
qed

section \<open>Every statement keeps the constraints\<close>

text \<open>
  \<open>maintains m\<close>: a session whose two databases meet the constraints still does after \<open>m\<close>, whether it
  returns or raises. As for \<open>sends\<close>, the rules follow the structure of a method.
\<close>

named_theorems maintains_intros \<open>what keeps the constraints\<close>

definition session_ok :: "session \<Rightarrow> bool" where
  "session_ok s \<longleftrightarrow> constraints_ok (working s) \<and> constraints_ok (committed s)"

definition maintains :: "'a svc \<Rightarrow> bool" where
  "maintains m \<longleftrightarrow> (\<forall>s. session_ok s \<longrightarrow> session_ok (snd (m s)))"

lemma maintains_run:
  assumes "maintains m" and "run m d = (r, d', out)" and "constraints_ok d"
  shows "constraints_ok d'"
  using assms by (auto simp: maintains_def session_ok_def run_def fresh_session_def split: prod.splits dest: spec [of _ "fresh_session d"])

lemma maintains_basic [maintains_intros]:
  "maintains (returnS x)" "maintains (raiseS e)" "maintains (query q)" "maintains (select p)" "maintains commit"
  "maintains rollback" "maintains (delay en t)"
  by (simp_all add: maintains_def session_ok_def returnS_def raiseS_def query_def select_def askS_def commit_def rollback_def
      putS_def delay_def)

lemma maintains_flush:
  "(\<And>d. constraints_ok d \<Longrightarrow> case f d of Inl e \<Rightarrow> True | Inr d' \<Rightarrow> constraints_ok d') \<Longrightarrow> maintains (flush f)"
  unfolding maintains_def session_ok_def flush_def by (auto split: sum.split) (metis sum.simps(6))

lemma maintains_update [maintains_intros]:
  "(\<And>d. constraints_ok d \<Longrightarrow> constraints_ok (g d)) \<Longrightarrow> maintains (flush (\<lambda>d. Inr (g d)))"
  by (rule maintains_flush) auto

lemma maintains_bind [maintains_intros]: "maintains m \<Longrightarrow> (\<And>a. maintains (f a)) \<Longrightarrow> maintains (bindS m f)"
  unfolding maintains_def bindS_def by (auto split: prod.split sum.split)

lemma maintains_catch [maintains_intros]: "maintains m \<Longrightarrow> (\<And>e. maintains (h e)) \<Longrightarrow> maintains (catchS m p h)"
  unfolding maintains_def catchS_def by (auto split: prod.split sum.split)

lemma maintains_cases [maintains_intros]:
  "\<lbrakk>b \<Longrightarrow> maintains m; \<not> b \<Longrightarrow> maintains n\<rbrakk> \<Longrightarrow> maintains (if b then m else n)"
  "\<lbrakk>x = None \<Longrightarrow> maintains m; \<And>a. x = Some a \<Longrightarrow> maintains (f a)\<rbrakk> \<Longrightarrow> maintains (case x of None \<Rightarrow> m | Some a \<Rightarrow> f a)"
  "\<lbrakk>\<And>e. y = Inl e \<Longrightarrow> maintains (g e); \<And>a. y = Inr a \<Longrightarrow> maintains (h a)\<rbrakk> \<Longrightarrow> maintains (case y of Inl e \<Rightarrow> g e | Inr a \<Rightarrow> h a)"
  "(\<And>a b. z = (a, b) \<Longrightarrow> maintains (k a b)) \<Longrightarrow> maintains (case z of (a, b) \<Rightarrow> k a b)"
  "\<lbrakk>l = [] \<Longrightarrow> maintains m; \<And>b bs. l = b # bs \<Longrightarrow> maintains (i b bs)\<rbrakk> \<Longrightarrow> maintains (case l of [] \<Rightarrow> m | b # bs \<Rightarrow> i b bs)"
  "(\<And>a. a = v \<Longrightarrow> maintains (j a)) \<Longrightarrow> maintains (Let v j)"
  by (auto split: option.split sum.split prod.split list.split)

lemma maintains_for [maintains_intros]: "(\<And>x. x \<in> set xs \<Longrightarrow> maintains (f x)) \<Longrightarrow> maintains (forS xs f)"
  by (induction xs) (auto intro!: maintains_intros)

subsection \<open>The statements\<close>

lemma all_refer_simps [simp]:
  "all_refer [] is" "all_refer (ks @ ls) is \<longleftrightarrow> all_refer ks is \<and> all_refer ls is"
  "all_refer [k] is \<longleftrightarrow> k \<in> set is" "all_refer ks is \<Longrightarrow> all_refer ks (is @ js)"
  "all_refer_opt [] is" "all_refer_opt (os @ ps) is \<longleftrightarrow> all_refer_opt os is \<and> all_refer_opt ps is"
  "all_refer_opt [Some k] is \<longleftrightarrow> k \<in> set is" "all_refer_opt [None] is" "all_refer_opt os is \<Longrightarrow> all_refer_opt os (is @ js)"
  by (auto simp: all_refer_def all_refer_opt_def)

lemma all_refer_opt_single: "all_refer_opt [j] (map key rows) \<longleftrightarrow> refers_opt j key rows"
  by (cases j) (auto simp: refers_def)

lemma distinct_present_append [simp]:
  "distinct (filter (\<lambda>k. k \<noteq> None) (map f rows @ [k])) \<longleftrightarrow>
     distinct (filter (\<lambda>k. k \<noteq> None) (map f rows)) \<and> (k = None \<or> k \<notin> f ` set rows)"
  by auto

lemmas insert_defs = constraints_defs clashes_def clashes_opt_def refers_def all_refer_opt_single

lemma maintains_insert_user [maintains_intros]: "maintains (flush (insert_user r))"
  by (rule maintains_flush) (simp add: insert_user_def insert_defs; force)

lemma maintains_insert_transaction [maintains_intros]: "maintains (flush (insert_transaction r))"
  by (rule maintains_flush) (simp add: insert_transaction_def transaction_fits_def insert_defs; force)

lemma maintains_insert_ledger_entry [maintains_intros]: "maintains (flush (insert_ledger_entry r))"
  by (rule maintains_flush) (simp add: insert_ledger_entry_def insert_defs)

lemma maintains_insert_merchant [maintains_intros]: "maintains (flush (insert_merchant r))"
  by (rule maintains_flush) (simp add: insert_merchant_def insert_defs)

lemma maintains_insert_kyc_submission [maintains_intros]: "maintains (flush (insert_kyc_submission r))"
  by (rule maintains_flush) (simp add: insert_kyc_submission_def insert_defs)

lemma maintains_insert_bank_account [maintains_intros]: "maintains (flush (insert_bank_account r))"
  by (rule maintains_flush) (simp add: insert_bank_account_def insert_defs)

lemma maintains_insert_refresh_token [maintains_intros]: "maintains (flush (insert_refresh_token r))"
  by (rule maintains_flush) (simp add: insert_refresh_token_def insert_defs)

lemma maintains_insert_webhook_delivery [maintains_intros]: "maintains (flush (insert_webhook_delivery r))"
  by (rule maintains_flush) (simp add: insert_webhook_delivery_def insert_defs)

lemma maintains_insert_audit_log [maintains_intros]: "maintains (flush (insert_audit_log r))"
  by (rule maintains_flush) (simp add: insert_audit_log_def insert_defs)

lemma maintains_wallet_create [maintains_intros]: "maintains (wallet_create en i u c)"
  unfolding wallet_create_def Let_def
  by (intro maintains_intros maintains_flush) (simp add: insert_wallet_def fits_numeric_def insert_defs)

text \<open>An \<open>UPDATE\<close> that leaves the constrained columns alone.\<close>

lemmas frame_defs = constraints_defs map_upd_same

lemma constraints_frame [maintains_intros]:
  "(\<And>t. t_id (f t) = t_id t \<and> t_reference (f t) = t_reference t \<and> t_idempotency_key (f t) = t_idempotency_key t \<and>
      t_amount (f t) = t_amount t \<and> t_source_wallet_id (f t) = t_source_wallet_id t \<and>
      t_destination_wallet_id (f t) = t_destination_wallet_id t \<and> t_initiated_by_user_id (f t) = t_initiated_by_user_id t) \<Longrightarrow>
    constraints_ok d \<Longrightarrow> constraints_ok (d\<lparr>transactions := upd t_id i f (transactions d)\<rparr>)"
  "(\<And>u. u_id (g u) = u_id u \<and> u_email (g u) = u_email u \<and> u_phone (g u) = u_phone u) \<Longrightarrow>
    constraints_ok d \<Longrightarrow> constraints_ok (d\<lparr>users := upd u_id i g (users d)\<rparr>)"
  "(\<And>r. r_id (h r) = r_id r \<and> r_user_id (h r) = r_user_id r \<and> r_token_hash (h r) = r_token_hash r) \<Longrightarrow>
    constraints_ok d \<Longrightarrow> constraints_ok (d\<lparr>refresh_tokens := map h (refresh_tokens d)\<rparr>)"
  by (simp_all add: frame_defs comp_def)

lemma constraints_revoked [maintains_intros]:
  "constraints_ok d \<Longrightarrow> constraints_ok (d\<lparr>refresh_tokens := upd r_id i set_revoked (refresh_tokens d)\<rparr>)"
  by (simp add: frame_defs set_revoked_def)

lemma maintains_write_account [maintains_intros]:
  "(\<And>b. b_id (f b) = b_id b \<and> b_user_id (f b) = b_user_id b) \<Longrightarrow> maintains (flush (write_account i f))"
  by (rule maintains_flush) (simp add: write_account_def frame_defs)

lemma maintains_unset_all_defaults [maintains_intros]: "maintains (flush (unset_all_defaults j))"
proof (rule maintains_flush)
  fix d assume ok: "constraints_ok d"
  let ?f = "\<lambda>b :: bank_account. if b_user_id b = j \<and> b_deleted_at b = None then b\<lparr>b_is_default := False\<rparr> else b"
  have "map b_id (map ?f bs) = map b_id bs" "map b_user_id (map ?f bs) = map b_user_id bs" for bs by simp_all
  then show "case unset_all_defaults j d of Inl e \<Rightarrow> True | Inr d' \<Rightarrow> constraints_ok d'"
    using ok by (simp add: unset_all_defaults_def constraints_defs del: map_map)
qed

lemma maintains_write_merchant [maintains_intros]:
  "(\<And>m. m_id (f m) = m_id m \<and> m_user_id (f m) = m_user_id m) \<Longrightarrow> maintains (flush (write_merchant i f))"
  by (rule maintains_flush) (simp add: write_merchant_def frame_defs)

lemma maintains_write_delivery [maintains_intros]:
  "(\<And>w. d_id (f w) = d_id w \<and> d_merchant_id (f w) = d_merchant_id w \<and> d_transaction_id (f w) = d_transaction_id w) \<Longrightarrow>
     maintains (flush (write_delivery i f))"
  by (rule maintains_flush) (simp add: write_delivery_def frame_defs)

lemma maintains_set_role [maintains_intros]: "maintains (flush (set_role i r))"
  by (rule maintains_flush) (simp add: set_role_def frame_defs)

lemma maintains_write_balance [maintains_intros]: "maintains (flush (write_balance i x))"
proof (rule maintains_flush)
  fix d assume ok: "constraints_ok d"
  have "list_all P (map w_balance (upd w_id i (\<lambda>w. w\<lparr>w_balance := x\<rparr>) ws))" if "P x" "list_all P (map w_balance ws)" for P and ws :: "wallet list"
    using that by (induction ws) (simp_all add: upd_Cons)
  then show "case write_balance i x d of Inl e \<Rightarrow> True | Inr d' \<Rightarrow> constraints_ok d'"
    using ok by (simp add: write_balance_def frame_defs)
qed

lemma maintains_write_submission [maintains_intros]:
  assumes "\<And>k. k_id (f k) = k_id k \<and> k_user_id (f k) = k_user_id k"
  shows "maintains (flush (write_submission i f))"
proof (rule maintains_flush)
  fix d assume ok: "constraints_ok d"
  have "all_refer_opt (map k_reviewer_id (upd k_id i f ks)) (map u_id us)"
    if "\<forall>k\<in>set ks. k_id k = i \<longrightarrow> refers_opt (k_reviewer_id (f k)) u_id us" "all_refer_opt (map k_reviewer_id ks) (map u_id us)"
    for ks :: "kyc_submission list" and us :: "user list"
    using that
  proof (induction ks)
    case (Cons k ks)
    then show ?case
      using all_refer_simps(6) [of "[k_reviewer_id k]" "map k_reviewer_id ks" "map u_id us"]
        all_refer_simps(6) [of "[k_reviewer_id (if k_id k = i then f k else k)]" "map k_reviewer_id (upd k_id i f ks)" "map u_id us"]
      by (auto simp: upd_Cons all_refer_opt_single)
  qed simp
  then show "case write_submission i f d of Inl e \<Rightarrow> True | Inr d' \<Rightarrow> constraints_ok d'"
    using ok by (simp add: write_submission_def frame_defs assms)
qed

text \<open>The one update of a UNIQUE column is that of a user's phone.\<close>

lemma distinct_present_iff:
  "distinct xs \<Longrightarrow> distinct (filter (\<lambda>k. k \<noteq> None) (map f xs)) \<longleftrightarrow> inj_on f {x \<in> set xs. f x \<noteq> None}"
  by (simp add: filter_map distinct_map comp_def)

definition phone_free :: "uuid \<Rightarrow> user list \<Rightarrow> bool" where
  "phone_free i rows \<longleftrightarrow> (\<forall>u\<in>set rows. \<forall>v\<in>set rows. u_id u = i \<longrightarrow> u_phone u \<noteq> None \<longrightarrow> u_id v \<noteq> i \<longrightarrow> u_phone v \<noteq> u_phone u)"

lemma write_user_phone_free:
  "write_user i f d = Inr d' \<longleftrightarrow> (\<forall>u\<in>set (upd u_id i f (users d)). u_id u = i \<longrightarrow> user_fits u) \<and>
     phone_free i (upd u_id i f (users d)) \<and> d' = d\<lparr>users := upd u_id i f (users d)\<rparr>"
proof -
  have "(\<exists>u\<in>set rows. u_id u = i \<and> u_phone u \<noteq> None \<and> (\<exists>v\<in>set rows. u_id v \<noteq> i \<and> u_phone v = u_phone u)) \<longleftrightarrow>
      \<not> phone_free i rows" for rows
    unfolding phone_free_def by blast
  then show ?thesis unfolding write_user_def Let_def by (simp only: split: if_split) auto
qed

lemma maintains_write_user [maintains_intros]:
  assumes "\<And>u. u_id (f u) = u_id u \<and> u_email (f u) = u_email u"
  shows "maintains (flush (write_user i f))"
proof (rule maintains_flush)
  fix d assume ok: "constraints_ok d"
  let ?rows = "upd u_id i f (users d)"
  have ids: "map u_id ?rows = map u_id (users d)" using assms by (simp add: map_upd_same)
  have "distinct (map u_id (users d))" "distinct (map u_id ?rows)" unfolding ids using ok by (simp_all add: constraints_defs)
  then have rows: "distinct (users d)" "inj_on u_id (set (users d))" "distinct ?rows" "inj_on u_id (set ?rows)"
    unfolding distinct_map by auto
  have "distinct (filter (\<lambda>k. k \<noteq> None) (map u_phone (users d)))" using ok by (simp only: constraints_defs)
  then have old: "inj_on u_phone {x \<in> set (users d). u_phone x \<noteq> None}" unfolding distinct_present_iff [OF rows(1)] .
  have "inj_on u_phone {x \<in> set ?rows. u_phone x \<noteq> None}" if free: "phone_free i ?rows"
  proof (rule inj_onI)
    fix x y assume x: "x \<in> {x \<in> set ?rows. u_phone x \<noteq> None}" and y: "y \<in> {x \<in> set ?rows. u_phone x \<noteq> None}"
      and same: "u_phone x = u_phone y"
    show "x = y"
    proof (cases "u_id x = i \<or> u_id y = i")
      case True
      then have "u_id x = u_id y" using free x y same unfolding phone_free_def by (metis (mono_tags, lifting) mem_Collect_eq)
      then show ?thesis using inj_onD [OF rows(4)] x y by blast
    next
      case False
      then have "x \<in> set (users d)" "y \<in> set (users d)" using x y assms by (auto elim!: set_updE)
      then show ?thesis using inj_onD [OF old same] x y by blast
    qed
  qed
  then have kept: "constraints_ok (d\<lparr>users := ?rows\<rparr>)" if "phone_free i ?rows"
    using ok that unfolding frame_defs distinct_present_iff [OF rows(3), symmetric]
    by (simp add: map_upd_same assms del: not_None_eq)
  show "case write_user i f d of Inl e \<Rightarrow> True | Inr d' \<Rightarrow> constraints_ok d'"
  proof (cases "write_user i f d")
    case (Inr d')
    then have "constraints_ok d'" using write_user_phone_free [of i f d d'] kept by blast
    with Inr show ?thesis by simp
  qed simp
qed

subsection \<open>The operations\<close>

lemma row_updates [simp]:
  "t_id (set_status st fr pr t) = t_id t" "t_id (set_risk r t) = t_id t" "t_id (set_provider_reference c t) = t_id t"
  "m_id (set_api_key h p m) = m_id m" "m_user_id (set_api_key h p m) = m_user_id m"
  "m_id (set_webhook url sec m) = m_id m" "m_user_id (set_webhook url sec m) = m_user_id m"
  "b_id (mark_default dv b) = b_id b" "b_user_id (mark_default dv b) = b_user_id b"
  "b_id (delete_account ts b) = b_id b" "b_user_id (delete_account ts b) = b_user_id b"
  "u_id (set_profile n ph v) = u_id v" "u_email (set_profile n ph v) = u_email v"
  "d_id (record_failure ts at rc er w) = d_id w" "d_merchant_id (record_failure ts at rc er w) = d_merchant_id w"
  "d_transaction_id (record_failure ts at rc er w) = d_transaction_id w"
  "k_id (review ts ks who why k) = k_id k" "k_user_id (review ts ks who why k) = k_user_id k"
  by (simp_all add: set_status_def set_risk_def set_provider_reference_def set_api_key_def set_webhook_def mark_default_def
      delete_account_def set_profile_def record_failure_def review_def)

lemma maintains_transaction_update [maintains_intros]:
  "maintains (flush (\<lambda>d. Inr (d\<lparr>transactions := upd t_id i (set_status st fr pr) (transactions d)\<rparr>)))"
  "maintains (flush (\<lambda>d. Inr (d\<lparr>transactions := upd t_id i (set_risk r) (transactions d)\<rparr>)))"
  "maintains (flush (\<lambda>d. Inr (d\<lparr>transactions := upd t_id i (set_provider_reference c) (transactions d)\<rparr>)))"
  by (intro maintains_intros; simp add: set_status_def set_risk_def set_provider_reference_def)+

lemma maintains_revoke [maintains_intros]: "maintains (revoke r)" "maintains (revoke_all_for_user u)"
  unfolding revoke_def revoke_all_for_user_def by (intro maintains_intros; simp add: set_revoked_def)+

lemmas row_writers = user_create_def user_update_profile_def user_update_kyc_tier_def update_profile_def update_kyc_tier_def
  wallet_update_balance_def create_wallet_def transaction_create_def create_entry_def
  post_double_entry_def merchant_create_def update_api_key_def update_webhook_def delivery_create_def account_create_def
  set_default_def set_recipient_code_def account_soft_delete_def kyc_create_def token_create_def store_refresh_token_def

lemma maintains_update_status [maintains_intros]: "maintains (update_status t st fr pr)"
  unfolding update_status_def by (intro maintains_intros; simp add: set_status_def)

lemma maintains_audit [maintains_intros]: "maintains (audit_log_write en i ai at act tt ti md)"
  unfolding audit_log_write_def audit_create_def by (intro maintains_intros)

lemma maintains_accounts [maintains_intros]:
  "maintains (register cfg c en email pw name phone)" "maintains (login cfg c en email pw)"
  "maintains (refresh cfg c en raw)" "maintains (logout c raw)" "maintains (update_profile i m phone)"
  unfolding register_def login_def refresh_def logout_def row_writers by (intro maintains_intros; simp)+

lemma maintains_flags [maintains_intros]:
  "maintains (maybe_flag_rapid_transfers cfg en i j)" "maintains (maybe_flag_merchant_payment cfg en i user a)"
  "maintains (flag_transaction_risk en i r)"
  unfolding maybe_flag_rapid_transfers_def maybe_flag_merchant_payment_def flag_transaction_risk_def log_sync_eq
  by (intro maintains_intros)+

lemma maintains_webhooks [maintains_intros]:
  "maintains (create_and_enqueue en i m j ev pl)" "maintains (deliver_merchant_webhook dumps hmac post en i)"
  "maintains (retry_pending_webhooks en)"
  unfolding create_and_enqueue_def deliver_merchant_webhook_def retry_pending_webhooks_def log_sync_eq row_writers
  by (intro maintains_intros; simp)+

lemma maintains_move_funds [maintains_intros]: "maintains (move_funds en ty src dst a u key)"
  unfolding move_funds_def write_movement_def row_writers by (intro maintains_intros)

lemma maintains_movements [maintains_intros]:
  "maintains (initiate_transfer cfg en user i e a key)" "maintains (initiate_payment cfg en user mi a key)"
  unfolding initiate_transfer_def initiate_payment_def by (intro maintains_intros)+

lemma maintains_merchants [maintains_intros]:
  "maintains (create_merchant h en user name)" "maintains (rotate_api_key h en i)" "maintains (update_webhook_config en i url b)"
  unfolding create_merchant_def rotate_api_key_def update_webhook_config_def row_writers by (intro maintains_intros; simp)+

lemma maintains_banking [maintains_intros]:
  "maintains (add_bank_account cfg client en user n num code bank)" "maintains (remove_bank_account en user i)"
  "maintains (initiate_withdrawal cfg en user i a)"
  unfolding add_bank_account_def remove_bank_account_def initiate_withdrawal_def row_writers by (intro maintains_intros; simp)+

lemma maintains_payouts [maintains_intros]:
  "maintains (process_payout_success en ref code)" "maintains (process_payout_failure en ref code)"
  "maintains (process_withdrawal client i)"
  unfolding process_payout_success_def process_payout_failure_def process_withdrawal_def execute_payout_def
    resolve_recipient_def row_writers
  by (intro maintains_intros; simp)+

lemma maintains_charge [maintains_intros]:
  "maintains (initiate_funding client en user a key)" "maintains (process_charge_success en data)"
  unfolding initiate_funding_def process_charge_success_def row_writers by (intro maintains_intros)+

lemma maintains_notifications [maintains_intros]:
  "maintains (process_paystack_webhook en ev data)" "maintains (check_stale_transactions client en)"
  unfolding process_paystack_webhook_def process_transfer_result_def check_stale_transactions_def
    reconcile_funding_def row_writers
  by (intro maintains_intros)+

lemma maintains_receive [maintains_intros]: "maintains (receive_paystack_webhook hm lo cfg en body sig)"
  unfolding receive_paystack_webhook_def by (intro maintains_intros)

lemma maintains_kyc [maintains_intros]:
  "maintains (submit_kyc put en user tier bytes name)" "maintains (approve_kyc en i user)" "maintains (reject_kyc en i user reason)"
  unfolding submit_kyc_def approve_kyc_def reject_kyc_def row_writers by (intro maintains_intros; simp)+

lemma maintains_perform: "maintains (perform w en t)"
  by (cases t; simp only: perform.simps; intro maintains_intros)

lemma maintains_handle_user: "maintains (handle_user w en tok r)"
  by (cases r; simp only: handle_user.simps user_endpoints answer_def current_user_def validated_def; intro maintains_intros)

lemma maintains_handle_admin: "maintains (handle_admin w en tok r)"
  by (cases r; simp only: handle_admin.simps admin_endpoints answer_def current_admin_def current_user_def validated_def;
      intro maintains_intros)

lemma maintains_handle_public: "maintains (handle_public w en r)"
  by (cases r; simp only: handle_public.simps api_register_def api_login_def api_refresh_def api_logout_def answer_def
      validated_def; intro maintains_intros)

lemma maintains_handle: "maintains (handle w en r)"
  by (cases r) (simp_all add: maintains_handle_public maintains_handle_user maintains_handle_admin)

section \<open>The system\<close>

lemma constraints_step: "step w s s' \<Longrightarrow> constraints_ok (database s) \<Longrightarrow> constraints_ok (database s')"
  by (cases rule: stepE) (auto dest: maintains_run [OF maintains_handle] maintains_run [OF maintains_perform])

lemma constraints_initial: "initial_db d \<Longrightarrow> constraints_ok d"
  by (auto simp: initial_db_def empty_db_def constraints_defs)

lemma constraints_reachable: "reachable w s \<Longrightarrow> constraints_ok (database s)"
  by (induction rule: reachable.induct) (auto simp: initial_def dest: constraints_initial constraints_step)

end
