(* ===== verification/Properties_Schema.thy ===== *)
theory Properties_Schema
  imports Conformance Example_System
begin

text \<open>
  The database schema: what the migrations make is what the models declare, every migration can be
  undone, and the database the services work on never violates it.
\<close>

text \<open>C39. The migrations, run in order on an empty database, succeed and reach the last revision; the tables they
  make are those the model classes declare, with the same columns, types and nullability, the same
  primary, unique and foreign keys and the same checks, and every enumeration column has exactly the
  labels of its type.\<close>

theorem migrations_build_the_models:
  "run_migrations_online migrate_up migrations (empty_schema, None) = (None, migrated_schema, Some ''k1l2m3n4o5p6'') \<and>
   list_all2 (agrees migrated_schema) (tables migrated_schema) (map (\<lambda>(n, args). table_of n args) declared_tables) \<and>
   list_all (labels_agree migrated_schema) (tables migrated_schema) \<and> schema_ok migrated_schema"
  using migrated tables_agree labels_agree migrated_schema_ok by (simp add: run_migrations_online_def)

text \<open>C40. Downgrading from the last revision, by any number of migrations, succeeds and leaves exactly the schema
  and revision that upgrading by the remaining ones makes; downgrading all of them leaves nothing.\<close>

theorem downgrade_undoes_upgrade:
  assumes "migrations = ms @ ns"
  shows "\<exists>st. run_migrations_online migrate_up ms (empty_schema, None) = (None, st) \<and>
    run_migrations_online migrate_down (rev ns) (migrated_schema, Some ''k1l2m3n4o5p6'') = (None, st)"
proof -
  let ?types = "\<lambda>xs. concat (map (\<lambda>m. created_types (upgrade m)) xs)"
  have types: "distinct (?types (ms @ ns))" using migrations_types assms by simp
  obtain st where st: "run_all migrate_up ms (empty_schema, None) = Inr st"
    "run_all migrate_up ns st = Inr (migrated_schema, Some ''k1l2m3n4o5p6'')"
    using migrated [unfolded assms] by (auto simp: run_all_append bindE_Inr_iff)
  have start: "schema_ok (fst (empty_schema, None))" "type_names (fst (empty_schema, None)) = []"
    using schema_ok_empty by (simp_all add: empty_schema_def type_names_def)
  have parts: "set ms \<subseteq> set migrations" "set ns \<subseteq> set migrations" "distinct (?types ms)" "distinct (?types ns)"
    using types unfolding assms by auto
  have ok: "schema_ok (fst st)" and names: "set (type_names (fst st)) = set (?types ms)"
    using run_up_types [OF parts(1,3) start(1) _ st(1)] start(2) by auto
  have "\<forall>m\<in>set ns. set (created_types (upgrade m)) \<inter> set (type_names (fst st)) = {}"
    unfolding names using types by fastforce
  then have "run_all migrate_down (rev ns) (migrated_schema, Some ''k1l2m3n4o5p6'') = Inr st"
    using run_down_up [OF parts(2,4) ok _ st(2)] by auto
  with st(1) show ?thesis by (simp add: run_migrations_online_def)
qed

theorem downgrade_undoes_upgrade_witness:
  "run_migrations_online migrate_down (rev migrations) (migrated_schema, Some ''k1l2m3n4o5p6'') = (None, empty_schema, None)"
  using downgrade_undoes_upgrade [of "[]" migrations] by (simp add: run_migrations_online_def)

text \<open>C13. In every reachable state the database is an instance of the schema the migrations make: its tables are
  the schema's; every row has a value of the right kind in every column, none in a NOT NULL column is
  missing, amounts are in range and enumerations have a declared label; no two rows share a primary or
  unique key; every foreign key names a row that exists; no balance is negative.\<close>

theorem database_meets_the_schema:
  assumes "reachable w s" shows "instance_of migrated_schema (database s)"
  by (rule instance_of_migrated [OF constraints_reachable [OF assms]])

theorem database_meets_the_schema_witness: "instance_of migrated_schema (database sys4)"
  by (rule database_meets_the_schema [OF reachable_sys4])

end
