(* ===== verification/Http.thy ===== *)
theory Http
  imports System "HOL-Library.AList"
begin

text \<open>
  The HTTP application of \<open>app/main.py\<close>: the response envelope (\<open>core/response.py\<close>,
  \<open>schemas/common.py\<close>), the exception handlers \<open>create_app\<close> registers, the request-id middleware
  (\<open>core/middleware.py\<close>), the bearer scheme in front of \<open>get_current_user\<close>, the limits on registration and
  login, and the status and message each endpoint declares. \<open>app\<close> is the whole way of a call through them
  to \<open>handle\<close> of theory System and back.

  What FastAPI, Starlette and slowapi do is the record \<open>framework\<close>: what \<open>HTTPBearer\<close> makes of the
  Authorization header (an HTTPException, or the credentials), pydantic's list of errors, whether the
  caller is over a limit, Starlette's own answer to its HTTPException; and the id
  \<open>RequestIDMiddleware\<close> draws. Of their structure the model uses what they document: the handler of
  an exception is the one of the first class of its MRO that has one; the handler of \<open>Exception\<close> runs
  outside all middleware, the other ones inside; a limit is checked when the endpoint is called, after
  its arguments are validated.
\<close>

section \<open>Bodies\<close>

datatype jvalue =
    JNull
  | JBool bool
  | JStr string
  | JData response
  | JDict "(string \<times> jvalue) list"
  | JList "jvalue list"

type_synonym body = "(string \<times> jvalue) list"

record http_response =
  hr_status :: nat
  hr_headers :: "(string \<times> string) list"
  hr_body :: body

definition json_response :: "nat \<Rightarrow> body \<Rightarrow> http_response" where
  "json_response status content = \<lparr>hr_status = status, hr_headers = [], hr_body = content\<rparr>"

definition success_response :: "jvalue \<Rightarrow> string \<Rightarrow> body" where
  "success_response data message = [(''success'', JBool True), (''message'', JStr message), (''data'', data)]"

definition error_response :: "string \<Rightarrow> string \<Rightarrow> jvalue \<Rightarrow> body" where
  "error_response message code data =
     [(''success'', JBool False), (''message'', JStr message), (''error'', JStr code), (''data'', data)]"

text \<open>An endpoint with a \<open>response_model\<close> answers with the fields of \<open>ApiResponse\<close>; those that may be
  absent default to None.\<close>

definition api_response :: "body \<Rightarrow> body" where
  "api_response b = (let opt = (\<lambda>k. (k, get_or JNull (map_of b k))) in
     [(''success'', the (map_of b ''success'')), (''message'', the (map_of b ''message'')), opt ''data'', opt ''error''])"

section \<open>Exceptions\<close>

text \<open>The \<open>message\<close> of an \<open>AppError\<close>; other exceptions have none.\<close>

fun app_error_message :: "exn \<Rightarrow> string option" where
  "app_error_message (NotFoundError r) = Some (r @ '' not found.'')"
| "app_error_message (ConflictError m c) = Some m"
| "app_error_message (UnauthorizedError m) = Some m"
| "app_error_message (ForbiddenError m) = Some m"
| "app_error_message (ValidationError m c) = Some m"
| "app_error_message InsufficientBalanceError = Some ''Insufficient wallet balance.''"
| "app_error_message (KYCTierError m) = Some m"
| "app_error_message DailyLimitError = Some ''Daily transaction limit exceeded for your KYC tier.''"
| "app_error_message DuplicateTransferError = Some ''Duplicate transfer detected. Please wait before retrying.''"
| "app_error_message (ExternalServiceError s) = Some (s @ '' is temporarily unavailable. Please try again.'')"
| "app_error_message _ = None"

text \<open>What can reach the handlers: an exception of the services, or one the libraries raise before the
  endpoint runs. FastAPI's HTTPException and slowapi's RateLimitExceeded are subclasses of Starlette's.\<close>

datatype raised =
    Raised exn
  | HTTPException nat string
  | StarletteHTTPException nat string
  | RateLimitExceeded

datatype exc_class =
    AppErrorC
  | RequestValidationErrorC
  | HTTPExceptionC
  | StarletteHTTPExceptionC
  | RateLimitExceededC
  | ExceptionC

fun mro :: "raised \<Rightarrow> exc_class list" where
  "mro (Raised (RequestValidationError f)) = [RequestValidationErrorC, ExceptionC]"
| "mro (Raised e) = (if app_error_message e = None then [ExceptionC] else [AppErrorC, ExceptionC])"
| "mro (HTTPException s t) = [HTTPExceptionC, StarletteHTTPExceptionC, ExceptionC]"
| "mro (StarletteHTTPException s t) = [StarletteHTTPExceptionC, ExceptionC]"
| "mro RateLimitExceeded = [RateLimitExceededC, StarletteHTTPExceptionC, ExceptionC]"

record framework =
  fw_bearer :: "string option \<Rightarrow> (nat \<times> string) + string"
  fw_errors :: "string \<Rightarrow> (string list \<times> string) list"
  fw_over_limit :: "string \<Rightarrow> bool"
  fw_http_exception :: "nat \<Rightarrow> string \<Rightarrow> http_response"
  fw_request_id :: uuid

section \<open>Handlers\<close>

definition rate_limit_handler :: http_response where
  "rate_limit_handler =
     json_response 429 (error_response ''Too many requests. Please slow down.'' ''RATE_LIMIT_EXCEEDED'' JNull)"

definition error_map :: "(nat \<times> string \<times> string) list" where
  "error_map =
     [(401, ''UNAUTHORIZED'', ''Authentication required.''),
      (403, ''FORBIDDEN'', ''Access denied.''),
      (404, ''NOT_FOUND'', ''Resource not found.''),
      (405, ''METHOD_NOT_ALLOWED'', ''Method not allowed.''),
      (429, ''TOO_MANY_REQUESTS'', ''Too many requests. Please slow down.'')]"

definition http_exception_handler :: "nat \<Rightarrow> string \<Rightarrow> http_response" where
  "http_exception_handler status detail =
     (let (code, default_msg) = get_or (''HTTP_ERROR'', detail) (map_of error_map status);
          message = (if detail \<noteq> [] \<and> detail \<noteq> ''Not authenticated'' then detail else default_msg)
      in json_response status (error_response message code JNull))"

definition app_error_handler :: "exn \<Rightarrow> string \<Rightarrow> http_response" where
  "app_error_handler e message = json_response (status_code e) (error_response message (error_code e) JNull)"

fun str_join :: "string \<Rightarrow> string list \<Rightarrow> string" where
  "str_join sep [] = []"
| "str_join sep [s] = s"
| "str_join sep (s # t # ss) = s @ sep @ str_join sep (t # ss)"

definition validation_error_handler :: "(string list \<times> string) list \<Rightarrow> http_response" where
  "validation_error_handler errors = json_response 422
     (error_response ''Request validation failed.'' ''VALIDATION_ERROR''
       (JList (map (\<lambda>(loc, msg). JDict [(''field'', JStr (str_join ''.'' loc)), (''message'', JStr msg)]) errors)))"

definition unhandled_error_handler :: http_response where
  "unhandled_error_handler =
     json_response 500 (error_response ''An unexpected error occurred.'' ''INTERNAL_SERVER_ERROR'' JNull)"

text \<open>The handlers registered inside the middleware, by class; FastAPI adds Starlette's own.\<close>

fun handled_by :: "framework \<Rightarrow> raised \<Rightarrow> exc_class \<Rightarrow> http_response option" where
  "handled_by fw RateLimitExceeded RateLimitExceededC = Some rate_limit_handler"
| "handled_by fw (HTTPException s t) HTTPExceptionC = Some (http_exception_handler s t)"
| "handled_by fw (StarletteHTTPException s t) StarletteHTTPExceptionC = Some (fw_http_exception fw s t)"
| "handled_by fw (Raised e) AppErrorC = map_option (app_error_handler e) (app_error_message e)"
| "handled_by fw (Raised (RequestValidationError f)) RequestValidationErrorC =
     Some (validation_error_handler (fw_errors fw f))"
| "handled_by fw _ _ = None"

fun first_some :: "('a \<Rightarrow> 'b option) \<Rightarrow> 'a list \<Rightarrow> 'b option" where
  "first_some f [] = None"
| "first_some f (x # xs) = (case f x of None \<Rightarrow> first_some f xs | Some y \<Rightarrow> Some y)"

definition exception_middleware :: "framework \<Rightarrow> raised + http_response \<Rightarrow> raised + http_response" where
  "exception_middleware fw a = (case a of Inr r \<Rightarrow> Inr r
     | Inl x \<Rightarrow> (case first_some (handled_by fw x) (mro x) of None \<Rightarrow> Inl x | Some r \<Rightarrow> Inr r))"

text \<open>\<open>RequestIDMiddleware.dispatch\<close>: an exception goes through \<open>call_next\<close> and past the header.\<close>

definition request_id_dispatch :: "uuid \<Rightarrow> raised + http_response \<Rightarrow> raised + http_response" where
  "request_id_dispatch request_id a = (case a of Inl x \<Rightarrow> Inl x
     | Inr r \<Rightarrow> Inr (r\<lparr>hr_headers := AList.update ''X-Request-ID'' (uuid_str request_id) (hr_headers r)\<rparr>))"

definition server_error_middleware :: "raised + http_response \<Rightarrow> http_response" where
  "server_error_middleware a = (case a of Inl x \<Rightarrow> unhandled_error_handler | Inr r \<Rightarrow> r)"

section \<open>Routes\<close>

text \<open>What an endpoint declares: the status and the message of its success, and whether it has a
  \<open>response_model\<close>. Each module of \<open>api/v1\<close> knows its own endpoints.\<close>

type_synonym route = "nat \<times> string \<times> bool"

fun auth_routes :: "request \<Rightarrow> route option" where
  "auth_routes (Public (PostRegister b)) = Some (201, ''Account created successfully.'', True)"
| "auth_routes (Public (PostLogin e p)) = Some (200, ''Login successful.'', True)"
| "auth_routes (Public (PostRefresh raw)) = Some (200, ''Token refreshed.'', True)"
| "auth_routes (Public (PostLogout raw)) = Some (200, ''Logged out successfully.'', True)"
| "auth_routes _ = None"

fun users_routes :: "request \<Rightarrow> route option" where
  "users_routes (AsUser tok GetMyProfile) = Some (200, ''Profile retrieved.'', True)"
| "users_routes (AsUser tok (PatchMyProfile n p)) = Some (200, ''Profile updated.'', True)"
| "users_routes _ = None"

fun wallets_routes :: "request \<Rightarrow> route option" where
  "wallets_routes (AsUser tok (PostFund b)) = Some (201, ''Funding initiated.'', True)"
| "wallets_routes (AsUser tok GetMyWallet) = Some (200, ''Wallet retrieved.'', True)"
| "wallets_routes (AsUser tok (GetMyTransactions l m)) = Some (200, ''Transactions retrieved.'', True)"
| "wallets_routes _ = None"

fun transactions_routes :: "request \<Rightarrow> route option" where
  "transactions_routes (AsUser tok (GetTransactions l m ty st)) = Some (200, ''Transactions retrieved.'', True)"
| "transactions_routes (AsUser tok (GetTransaction ref)) = Some (200, ''Transaction retrieved.'', True)"
| "transactions_routes _ = None"

fun kyc_routes :: "request \<Rightarrow> route option" where
  "kyc_routes (AsUser tok (PostKyc t b f)) = Some (201, ''KYC submission received and is under review.'', True)"
| "kyc_routes (AsUser tok GetMyKyc) = Some (200, ''KYC submission retrieved.'', True)"
| "kyc_routes _ = None"

fun admin_routes :: "request \<Rightarrow> route option" where
  "admin_routes (AsAdmin tok (AdminAuditLogs i a f t l m)) = Some (200, ''Audit logs retrieved.'', True)"
| "admin_routes (AsAdmin tok (AdminDeliveries l m)) = Some (200, ''Webhook deliveries retrieved.'', True)"
| "admin_routes (AsAdmin tok (AdminKycList st l m)) = Some (200, ''KYC submissions retrieved.'', True)"
| "admin_routes (AsAdmin tok (AdminKyc i)) = Some (200, ''KYC submission retrieved.'', True)"
| "admin_routes (AsAdmin tok (AdminApproveKyc i)) = Some (200, ''KYC submission approved. User tier upgraded.'', True)"
| "admin_routes (AsAdmin tok (AdminRejectKyc i r)) = Some (200, ''KYC submission rejected.'', True)"
| "admin_routes (AsAdmin tok (AdminTransactions st ty rf f t l m)) = Some (200, ''Transactions retrieved.'', True)"
| "admin_routes (AsAdmin tok (AdminTransaction ref)) = Some (200, ''Transaction retrieved.'', True)"
| "admin_routes (AsAdmin tok AdminReconcile) = Some (200, ''Reconciliation task enqueued.'', True)"
| "admin_routes (AsAdmin tok (AdminUsers r k l m)) = Some (200, ''Users retrieved.'', True)"
| "admin_routes (AsAdmin tok (AdminUser i)) = Some (200, ''User retrieved.'', True)"
| "admin_routes _ = None"

fun transfers_routes :: "request \<Rightarrow> route option" where
  "transfers_routes (AsUser tok (PostTransfer b)) = Some (201, ''Transfer completed successfully.'', True)"
| "transfers_routes _ = None"

fun merchants_routes :: "request \<Rightarrow> route option" where
  "merchants_routes (AsUser tok (PostMerchant n)) = Some (201, ''Merchant profile created.'', True)"
| "merchants_routes (AsUser tok GetMerchant) = Some (200, ''Merchant profile retrieved.'', True)"
| "merchants_routes (AsUser tok PostApiKey) = Some (200, ''API key rotated successfully.'', True)"
| "merchants_routes (AsUser tok (PatchWebhook u g)) = Some (200, ''Webhook configuration updated.'', True)"
| "merchants_routes (AsUser tok (PostPayment i b)) = Some (201, ''Payment completed successfully.'', True)"
| "merchants_routes _ = None"

fun webhooks_routes :: "request \<Rightarrow> route option" where
  "webhooks_routes (Public (PostPaystackWebhook b s)) = Some (200, ''Webhook accepted.'', False)"
| "webhooks_routes _ = None"

fun withdrawals_routes :: "request \<Rightarrow> route option" where
  "withdrawals_routes (AsUser tok (PostBankAccount b)) = Some (201, ''Bank account added.'', True)"
| "withdrawals_routes (AsUser tok GetBankAccounts) = Some (200, ''Bank accounts retrieved.'', True)"
| "withdrawals_routes (AsUser tok (DeleteBankAccount i)) = Some (200, ''Bank account removed.'', True)"
| "withdrawals_routes (AsUser tok (PostWithdrawal b)) = Some (201, ''Withdrawal initiated.'', True)"
| "withdrawals_routes (AsUser tok (GetWithdrawal ref)) = Some (200, ''Withdrawal retrieved.'', True)"
| "withdrawals_routes _ = None"

text \<open>The routers in the order \<open>api_router\<close> includes them.\<close>

definition api_router :: "request \<Rightarrow> route option" where
  "api_router r = first_some (\<lambda>router. router r)
     [auth_routes, users_routes, wallets_routes, transactions_routes, kyc_routes, admin_routes, transfers_routes,
      merchants_routes, webhooks_routes, withdrawals_routes]"

section \<open>The application\<close>

text \<open>The two limits of \<open>api/v1/auth.py\<close>; the body is validated before the endpoint is called.\<close>

fun limit_of :: "request \<Rightarrow> string option" where
  "limit_of (Public (PostRegister b)) = Some ''10/minute''"
| "limit_of (Public (PostLogin e p)) = Some ''20/minute''"
| "limit_of _ = None"

fun body_valid :: "outside \<Rightarrow> request \<Rightarrow> bool" where
  "body_valid w (Public (PostRegister b)) = (\<not> isl (validate_register (o_email_ok w) b))"
| "body_valid w (Public (PostLogin e p)) = (\<not> isl (validate_email (o_email_ok w) e))"
| "body_valid w _ = True"

definition limited :: "outside \<Rightarrow> framework \<Rightarrow> request \<Rightarrow> bool" where
  "limited w fw r = (case limit_of r of None \<Rightarrow> False | Some l \<Rightarrow> body_valid w r \<and> fw_over_limit fw l)"

fun to_json :: "response \<Rightarrow> jvalue" where
  "to_json NoData = JNull"
| "to_json x = JData x"

definition endpoint :: "outside \<Rightarrow> framework \<Rightarrow> env \<Rightarrow> request \<Rightarrow> db \<Rightarrow> (raised + http_response) \<times> db \<times> task list" where
  "endpoint w fw en r d = (case api_router r of
       None \<Rightarrow> (Inl (StarletteHTTPException 404 ''Not Found''), d, [])
     | Some (status, message, has_model) \<Rightarrow>
         if limited w fw r then (Inl RateLimitExceeded, d, [])
         else (case run (handle w en r) d of
             (Inl e, d', out) \<Rightarrow> (Inl (Raised e), d', out)
           | (Inr x, d', out) \<Rightarrow>
               (let b = success_response (to_json x) message
                in (Inr (json_response status (if has_model then api_response b else b)), d', out))))"

text \<open>A call: \<open>/health\<close>, an endpoint of the API, or a path or method nothing is routed for.\<close>

datatype target =
    ToPublic public_request
  | ToUser user_request
  | ToAdmin admin_request
  | Health string
  | Unrouted nat string

definition health :: "string \<Rightarrow> http_response" where
  "health environment = json_response 200
     (success_response (JDict [(''status'', JStr ''ok''), (''environment'', JStr environment)]) ''Service is healthy.'')"

text \<open>The bearer scheme is the first dependency of every endpoint that needs a user.\<close>

definition with_bearer ::
  "framework \<Rightarrow> string option \<Rightarrow> db \<Rightarrow> (string \<Rightarrow> (raised + http_response) \<times> db \<times> task list) \<Rightarrow>
   (raised + http_response) \<times> db \<times> task list" where
  "with_bearer fw header d f = (case fw_bearer fw header of
       Inl (status, detail) \<Rightarrow> (Inl (HTTPException status detail), d, [])
     | Inr tok \<Rightarrow> f tok)"

fun dispatch ::
  "outside \<Rightarrow> framework \<Rightarrow> env \<Rightarrow> string option \<Rightarrow> target \<Rightarrow> db \<Rightarrow> (raised + http_response) \<times> db \<times> task list" where
  "dispatch w fw en header (ToPublic r) d = endpoint w fw en (Public r) d"
| "dispatch w fw en header (ToUser r) d = with_bearer fw header d (\<lambda>tok. endpoint w fw en (AsUser tok r) d)"
| "dispatch w fw en header (ToAdmin r) d = with_bearer fw header d (\<lambda>tok. endpoint w fw en (AsAdmin tok r) d)"
| "dispatch w fw en header (Health environment) d = (Inr (health environment), d, [])"
| "dispatch w fw en header (Unrouted status detail) d = (Inl (StarletteHTTPException status detail), d, [])"

definition app ::
  "outside \<Rightarrow> framework \<Rightarrow> env \<Rightarrow> string option \<Rightarrow> target \<Rightarrow> db \<Rightarrow> http_response \<times> db \<times> task list" where
  "app w fw en header t d = (let (a, d', out) = dispatch w fw en header t d
     in (server_error_middleware (request_id_dispatch (fw_request_id fw) (exception_middleware fw a)), d', out))"

end
