(* ===== verification/Properties_Http.thy ===== *)
theory Properties_Http
  imports Http Properties_Access
begin

text \<open>
  What a client sees: every answer of the application is one of two envelopes, its status says which,
  and an error means that nothing happened; callers who are not authenticated are turned away.
\<close>

section \<open>Lemmas\<close>

text \<open>The two shapes of a body.\<close>

definition success_body :: "body \<Rightarrow> bool" where
  "success_body b \<longleftrightarrow> map_of b ''success'' = Some (JBool True) \<and> (\<exists>m. map_of b ''message'' = Some (JStr m)) \<and>
     map_of b ''data'' \<noteq> None \<and> map_of b ''error'' \<in> {None, Some JNull}"

definition error_body :: "string \<Rightarrow> string \<Rightarrow> body \<Rightarrow> bool" where
  "error_body m c b \<longleftrightarrow> map_of b ''success'' = Some (JBool False) \<and> map_of b ''message'' = Some (JStr m) \<and>
     map_of b ''error'' = Some (JStr c) \<and> map_of b ''data'' \<noteq> None"

lemma success_body_simps [simp]:
  "success_body (success_response x m)" "success_body (api_response (success_response x m))"
  by (simp_all add: success_body_def success_response_def api_response_def Let_def)

lemma error_body_simps [simp]: "error_body m c (error_response m' c' x) \<longleftrightarrow> m' = m \<and> c' = c"
  by (auto simp: error_body_def error_response_def)

text \<open>Every endpoint is declared by exactly one of the modules, with status 200 or 201.\<close>

lemma api_router_total: "\<exists>x. api_router r = Some x \<and> fst x \<in> {200, 201}"
proof (cases r)
  case (Public q) then show ?thesis by (cases q) (simp_all add: api_router_def)
next
  case (AsUser tok q) then show ?thesis by (cases q) (simp_all add: api_router_def)
next
  case (AsAdmin tok q) then show ?thesis by (cases q) (simp_all add: api_router_def)
qed

lemma status_code_range: "status_code e \<in> {400..500} \<or> status_code e = 503"
  by (cases e) simp_all

lemma app_error_status: "app_error_message e = Some m \<Longrightarrow> status_code e \<noteq> 500"
  by (cases e) simp_all

text \<open>A raised exception as the client sees it.\<close>

definition rejection :: "framework \<Rightarrow> raised \<Rightarrow> http_response \<Rightarrow> bool" where
  "rejection fw x r \<longleftrightarrow> r = server_error_middleware (request_id_dispatch (fw_request_id fw) (exception_middleware fw (Inl x)))"

lemma app_cases:
  assumes "app w fw en header t d = (r, d', out)"
  obtains x where "dispatch w fw en header t d = (Inl x, d', out)" "rejection fw x r"
  | r' where "dispatch w fw en header t d = (Inr r', d', out)"
      "r = r'\<lparr>hr_headers := AList.update ''X-Request-ID'' (uuid_str (fw_request_id fw)) (hr_headers r')\<rparr>"
proof -
  obtain a e out' where a: "dispatch w fw en header t d = (a, e, out')" by (rule prod_cases3)
  with assms have "d' = e" "out = out'" "r = server_error_middleware (request_id_dispatch (fw_request_id fw) (exception_middleware fw a))"
    by (simp_all add: app_def)
  with a that show thesis
    by (cases a) (simp_all add: rejection_def exception_middleware_def request_id_dispatch_def server_error_middleware_def)
qed

lemmas middleware_defs = rejection_def exception_middleware_def request_id_dispatch_def server_error_middleware_def

definition carries_id :: "framework \<Rightarrow> http_response \<Rightarrow> bool" where
  "carries_id fw r \<longleftrightarrow> map_of (hr_headers r) ''X-Request-ID'' = Some (uuid_str (fw_request_id fw))"

lemma carries_id_update [simp]:
  "carries_id fw (r\<lparr>hr_headers := AList.update ''X-Request-ID'' (uuid_str (fw_request_id fw)) h\<rparr>)"
  by (simp add: carries_id_def update_conv)

text \<open>An exception of the services is answered with its own status and code. Only one that is not of
  the application's hierarchy has status 500, and its answer is the same for all of them.\<close>

lemma rejection_Raised:
  assumes "rejection fw (Raised e) r"
  shows "hr_status r = status_code e \<and> (\<exists>m. error_body m (error_code e) (hr_body r)) \<and>
    (if status_code e = 500 then r = unhandled_error_handler else carries_id fw r)"
  using assms by (cases e) (simp_all add: middleware_defs app_error_handler_def validation_error_handler_def
    unhandled_error_handler_def json_response_def carries_id_def)

lemma rejection_HTTPException:
  assumes "rejection fw (HTTPException s x) r"
  shows "hr_status r = s \<and> (\<exists>m c. error_body m c (hr_body r)) \<and> carries_id fw r"
  using assms by (auto simp: middleware_defs http_exception_handler_def json_response_def carries_id_def split: prod.splits)

lemma rejection_RateLimit:
  assumes "rejection fw RateLimitExceeded r"
  shows "hr_status r = 429 \<and> (\<exists>m c. error_body m c (hr_body r)) \<and> carries_id fw r"
  using assms by (simp add: middleware_defs rate_limit_handler_def json_response_def carries_id_def)

text \<open>An endpoint of the API answers with its success, or refuses without running, or raises.\<close>

lemma endpoint_cases:
  assumes "endpoint w fw en q d = (a, d', out)"
  obtains x s m h where "run (handle w en q) d = (Inr x, d', out)" "api_router q = Some (s, m, h)" "s \<in> {200, 201}"
      "a = Inr (json_response s (if h then api_response (success_response (to_json x) m) else success_response (to_json x) m))"
  | e where "run (handle w en q) d = (Inl e, d', out)" "a = Inl (Raised e)"
  | "a = Inl RateLimitExceeded" "d' = d" "out = []" "limited w fw q"
proof -
  obtain s m h where q: "api_router q = Some (s, m, h)" "s \<in> {200, 201}"
    using api_router_total [of q] by (auto simp del: insert_iff)
  show thesis
  proof (cases "limited w fw q")
    case True
    then show thesis using assms q that(3) by (simp add: endpoint_def)
  next
    case False
    obtain c e o' where c: "run (handle w en q) d = (c, e, o')" by (rule prod_cases3)
    then show thesis using False assms q that(1,2) by (cases c) (auto simp: endpoint_def Let_def)
  qed
qed

text \<open>The way of a call: answered as an endpoint answers, turned away by the bearer scheme, \<open>/health\<close>, or
  not routed.\<close>

lemma dispatch_cases:
  assumes "dispatch w fw en header t d = (a, d', out)"
  obtains q where "endpoint w fw en q d = (a, d', out)"
  | s x where "fw_bearer fw header = Inl (s, x)" "a = Inl (HTTPException s x)" "d' = d" "out = []"
  | v where "t = Health v" "a = Inr (health v)" "d' = d" "out = []"
  | s x where "t = Unrouted s x" "a = Inl (StarletteHTTPException s x)" "d' = d" "out = []"
  using assms that by (cases t) (auto simp: with_bearer_def split: sum.splits)


lemma failed_request:
  assumes "run (handle w en q) d = (Inl e, d', out)" and "sound d"
  shows "d' = d \<and> out = [] \<or> status_code e = 500 \<and> \<not> broker_up en"
  by (rule runE [OF assms(1) atomic_handle [OF assms(2)]]) (auto simp: untouched_def)

text \<open>A caller without a good token, or for \<open>/admin\<close> without an administrator's, gets no further than the
  exception.\<close>

fun entitled :: "outside \<Rightarrow> framework \<Rightarrow> env \<Rightarrow> string option \<Rightarrow> target \<Rightarrow> db \<Rightarrow> bool" where
  "entitled w fw en header (ToUser r) d = (case fw_bearer fw header of Inl x \<Rightarrow> False
     | Inr tok \<Rightarrow> \<not> isl (get_current_user (o_crypto w) en tok d))"
| "entitled w fw en header (ToAdmin r) d = (case fw_bearer fw header of Inl x \<Rightarrow> False
     | Inr tok \<Rightarrow> (case get_current_user (o_crypto w) en tok d of Inl e \<Rightarrow> False | Inr u \<Rightarrow> u_role u = ADMIN))"
| "entitled w fw en header t d = True"

lemma unlimited [simp]: "\<not> limited w fw (AsUser tok r)" "\<not> limited w fw (AsAdmin tok q)"
  by (simp_all add: limited_def)

lemma endpoint_raises:
  assumes "run (handle w en q) d = (Inl e, d', out)" "\<not> limited w fw q"
  shows "endpoint w fw en q d = (Inl (Raised e), d', out)"
  using assms api_router_total [of q] by (auto simp: endpoint_def simp del: insert_iff)

lemma not_entitled:
  assumes "\<not> entitled w fw en header t d" and "db_ok d"
  obtains s x where "fw_bearer fw header = Inl (s, x)" "dispatch w fw en header t d = (Inl (HTTPException s x), d, [])"
  | e where "status_code e \<in> {401, 403}" "dispatch w fw en header t d = (Inl (Raised e), d, [])"
proof (cases "fw_bearer fw header")
  case (Inl b)
  then show thesis using assms(1) that(1) by (cases b; cases t) (simp_all add: with_bearer_def)
next
  case (Inr tok)
  show thesis
  proof (cases t)
    case (ToUser r)
    then obtain e where "get_current_user (o_crypto w) en tok d = Inl e"
      using assms(1) Inr by (auto simp: isl_def)
    from bad_token_refused [OF this assms(2), of r] show thesis
      using that(2) [of e] ToUser Inr by (simp add: with_bearer_def endpoint_raises)
  next
    case (ToAdmin r)
    then have "\<nexists>u. get_current_user (o_crypto w) en tok d = Inr u \<and> u_role u = ADMIN"
      using assms(1) Inr by auto
    from only_admins_administrate [OF this assms(2)]
    obtain e where "run (handle w en (AsAdmin tok r)) d = (Inl e, d, [])" "status_code e \<in> {401, 403}" by blast
    then show thesis using that(2) [of e] ToAdmin Inr by (simp add: with_bearer_def endpoint_raises)
  qed (use assms(1) in simp_all)
qed

section \<open>Properties\<close>

text \<open>What the properties ask of the bearer scheme: it turns a caller away with 401 or 403.\<close>

definition rejects_with_4xx :: "framework \<Rightarrow> bool" where
  "rejects_with_4xx fw \<longleftrightarrow> (\<forall>h s x. fw_bearer fw h = Inl (s, x) \<longrightarrow> s \<in> {401, 403})"

lemma rejects_with_4xxD: "rejects_with_4xx fw \<Longrightarrow> fw_bearer fw h = Inl (s, x) \<Longrightarrow> s \<in> {401, 403}"
  unfolding rejects_with_4xx_def by blast

definition example_framework :: framework where
  "example_framework = \<lparr>
     fw_bearer = (\<lambda>h. case h of None \<Rightarrow> Inl (403, ''Not authenticated'') | Some tok \<Rightarrow> Inr tok),
     fw_errors = (\<lambda>f. [([''body'', f], ''Invalid'')]), fw_over_limit = (\<lambda>l. False),
     fw_http_exception = (\<lambda>s x. json_response s [(''detail'', JStr x)]), fw_request_id = 7\<rparr>"

lemma example_framework_rejects: "rejects_with_4xx example_framework"
  by (simp add: rejects_with_4xx_def example_framework_def split: option.splits)

text \<open>C12. A client can rely on the status: an answer to \<open>/health\<close> or to an endpoint has status 200 or 201 and
  the success envelope, or a status of 400 or more and the error envelope with a message and a code. In
  the second case the database is as it was and nothing was sent, unless the answer is 500 because the
  broker could not be reached.\<close>

theorem answers_are_envelopes:
  assumes "app w fw en header t d = (r, d', out)" and "sound d" and "rejects_with_4xx fw"
    and "\<nexists>s x. t = Unrouted s x"
  shows "hr_status r \<in> {200, 201} \<and> success_body (hr_body r) \<or>
    400 \<le> hr_status r \<and> (\<exists>m c. error_body m c (hr_body r)) \<and>
    (d' = d \<and> out = [] \<or> hr_status r = 500 \<and> \<not> broker_up en)"
proof (rule app_cases [OF assms(1)])
  fix x assume x: "dispatch w fw en header t d = (Inl x, d', out)" "rejection fw x r"
  show ?thesis
  proof (rule dispatch_cases [OF x(1)])
    fix q assume "endpoint w fw en q d = (Inl x, d', out)"
    then show ?thesis
    proof (rule endpoint_cases)
      fix e assume e: "run (handle w en q) d = (Inl e, d', out)" "Inl x = Inl (Raised e)"
      with x(2) have "hr_status r = status_code e" "\<exists>m c. error_body m c (hr_body r)"
        using rejection_Raised [of fw e r] by auto
      moreover have "400 \<le> status_code e" using status_code_range [of e] by auto
      ultimately show ?thesis using failed_request [OF e(1) assms(2)] by simp
    next
      assume "Inl x = Inl RateLimitExceeded" "d' = d" "out = []"
      then show ?thesis using rejection_RateLimit [of fw r] x(2) by simp
    qed simp
  next
    fix s y assume s: "fw_bearer fw header = Inl (s, y)" "Inl x = Inl (HTTPException s y)" "d' = d" "out = []"
    from rejects_with_4xxD [OF assms(3) s(1)] s(2-) show ?thesis
      using rejection_HTTPException [of fw s y r] x(2) by auto
  qed (use assms(4) in auto)
next
  fix r' assume x: "dispatch w fw en header t d = (Inr r', d', out)" and
    r: "r = r'\<lparr>hr_headers := AList.update ''X-Request-ID'' (uuid_str (fw_request_id fw)) (hr_headers r')\<rparr>"
  have "hr_status r' \<in> {200, 201} \<and> success_body (hr_body r')"
  proof (rule dispatch_cases [OF x])
    fix q assume "endpoint w fw en q d = (Inr r', d', out)"
    then show ?thesis by (rule endpoint_cases) (auto simp: json_response_def)
  next
    fix v assume "Inr r' = Inr (health v)"
    then show ?thesis by (simp add: health_def json_response_def)
  qed simp_all
  with r show ?thesis by simp
qed

theorem answers_are_envelopes_witness:
  "\<exists>r d' out. app example_outside example_framework example_env None (ToUser GetMyWallet) example_db = (r, d', out) \<and>
     hr_status r = 403 \<and> d' = example_db \<and> out = []"
proof -
  obtain r d' out where r: "app example_outside example_framework example_env None (ToUser GetMyWallet) example_db = (r, d', out)"
    by (rule prod_cases3)
  have "hr_status (fst (app example_outside example_framework example_env None (ToUser GetMyWallet) example_db)) = 403"
    by code_simp
  then show ?thesis
    using answers_are_envelopes [OF r example_sound example_framework_rejects] r by simp
qed



text \<open>C28. A call of an endpoint that needs a user, without a token that \<open>get_current_user\<close> accepts, and a call of
  an administration endpoint without an administrator's, are answered 401 or 403 with an error envelope:
  nothing changes, nothing is read out, nothing is sent.\<close>

theorem unentitled_calls_refused:
  assumes "app w fw en header t d = (r, d', out)" and "\<not> entitled w fw en header t d"
    and "db_ok d" and "rejects_with_4xx fw"
  shows "hr_status r \<in> {401, 403} \<and> (\<exists>m c. error_body m c (hr_body r)) \<and> d' = d \<and> out = []"
proof (rule not_entitled [OF assms(2,3)])
  fix s x assume b: "fw_bearer fw header = Inl (s, x)" "dispatch w fw en header t d = (Inl (HTTPException s x), d, [])"
  then have "rejection fw (HTTPException s x) r" "d' = d" "out = []" using assms(1) by (auto simp: app_def rejection_def)
  moreover have "s \<in> {401, 403}" using assms(4) b(1) by (rule rejects_with_4xxD)
  ultimately show ?thesis using rejection_HTTPException [of fw s x r] by simp
next
  fix e assume e: "status_code e \<in> {401, 403}" "dispatch w fw en header t d = (Inl (Raised e), d, [])"
  then have "rejection fw (Raised e) r" "d' = d" "out = []" using assms(1) by (auto simp: app_def rejection_def)
  then show ?thesis using rejection_Raised [of fw e r] e(1) by auto
qed

theorem unentitled_calls_refused_witness:
  "\<exists>r d' out. app example_outside example_framework example_env (Some (uuid_str 1)) (ToAdmin (AdminApproveKyc (uuid_str 51))) example_db
      = (r, d', out) \<and> hr_status r \<in> {401, 403} \<and> d' = example_db \<and> out = []"
proof -
  let ?t = "ToAdmin (AdminApproveKyc (uuid_str 51))"
  obtain r d' out where r: "app example_outside example_framework example_env (Some (uuid_str 1)) ?t example_db = (r, d', out)"
    by (rule prod_cases3)
  have "\<not> entitled example_outside example_framework example_env (Some (uuid_str 1)) ?t example_db"
    by (simp add: example_framework_def example_token) (simp add: ada_def)
  from unentitled_calls_refused [OF r this example_db_ok example_framework_rejects] r show ?thesis by blast
qed

end
