(* ===== verification/Divergences.thy ===== *)
theory Divergences
  imports Properties_Money Properties_Operations Properties_Schema Properties_Http
begin

text \<open>
  Where the code does not do what it, its comments or its documentation say, each as a lemma about
  the model. They are behaviours of the program as it is, and every other theorem of the
  development holds with them.
\<close>

section \<open>Profiles\<close>

text \<open>\<open>PATCH /users/me\<close> answers with the changed profile but nobody commits: the change is lost.\<close>

lemma profile_update_is_lost:
  assumes "run (handle w en (AsUser tok (PatchMyProfile n p))) d = (r, d', out)"
  shows "d' = d"
proof -
  have "wp (handle w en (AsUser tok (PatchMyProfile n p))) (\<lambda>_ s'. committed s' = d) (\<lambda>_ s'. committed s' = d) (fresh_session d)"
    unfolding handle.simps handle_user.simps answer_def update_my_profile_def current_user_def validated_def update_profile_def
      user_update_profile_def
    by (intro wp_intros; simp)
  then show ?thesis by (rule runE [OF assms]) (cases r; simp)
qed

section \<open>Idempotency keys\<close>

text \<open>
  Keys are not scoped to a user: a transfer that happens to use a key of somebody else's transaction
  is answered with that transaction, as if it were the sender's.
\<close>

lemma foreign_key_is_answered:
  "map_sum (\<lambda>_. ()) t_initiated_by_user_id (fst (run (initiate_transfer default_settings example_env bo (Some 1) None (naira 100) (Some ''k1'')) keyed_db)) = Inr 1
   \<and> u_id bo = 2"
  by code_simp

text \<open>
  An empty key passes validation, is skipped by the lookup and stored: the second transfer with an
  empty key violates UNIQUE, and no existing transaction is looked for.
\<close>

lemma empty_key_works_once:
  "let d = fst (snd (run (initiate_transfer default_settings example_env ada (Some 2) None (naira 100) (Some '''')) example_db));
       en = example_env\<lparr>uuid4 := (\<lambda>n. word_of_nat (2000 + n))\<rparr>
   in length (transactions d) = 3 \<and>
     fst (run (initiate_transfer default_settings en ada (Some 2) None (naira 101) (Some '''')) d) = Inl IntegrityError"
  by code_simp

section \<open>Webhooks to merchants\<close>

text \<open>
  A delivery that was stored but whose message never reached the broker has no time for a next
  attempt, so the sweep that should pick it up never selects it.
\<close>

lemma unsent_delivery_is_never_swept:
  assumes "broker_up en" and "distinct (map d_id (webhook_deliveries d))"
    and "x \<in> set (webhook_deliveries d)" "d_next_retry_at x = None"
  shows "DeliverMerchantWebhook (d_id x) \<notin> set (snd (snd (run (retry_pending_webhooks en) d)))"
proof
  assume "DeliverMerchantWebhook (d_id x) \<in> set (snd (snd (run (retry_pending_webhooks en) d)))"
  then obtain y where "y \<in> set (take 100 (filter (due (now en)) (webhook_deliveries d)))" "d_id y = d_id x"
    by (auto simp: run_retry_pending_webhooks [OF assms(1)])
  then have "y \<in> set (webhook_deliveries d)" "due (now en) y" "d_id y = d_id x"
    by (auto dest: in_set_takeD)
  then have "y = x" using distinct_key_eq [OF assms(2) _ assms(3)] by blast
  with \<open>due (now en) y\<close> assms(4) show False by (simp add: due_def)
qed

text \<open>
  The task only skips a delivery that is DELIVERED: one that has FAILED for good is posted again
  when its message is delivered once more, and a pending one as often as it was enqueued.
\<close>

lemma failed_delivery_is_posted_again:
  "map (\<lambda>x. (d_status x, d_attempt_count x)) (webhook_deliveries (fst (snd (run
     (deliver_merchant_webhook (\<lambda>_. ''{}'') (\<lambda>k b. k @ b) (\<lambda>_ _ _. Inr 200) example_env 71)
     (webhook_db\<lparr>webhook_deliveries := [example_delivery\<lparr>d_status := WD_FAILED, d_attempt_count := 6\<rparr>]\<rparr>)))))
   = [(WD_DELIVERED, 7)]"
  by code_simp

section \<open>Notifications of payouts\<close>

text \<open>
  The payout task commits PROCESSING only after Paystack has answered. A notification that arrives
  before that commit finds the withdrawal PENDING and is dropped for good; one that reverses a
  completed payout is dropped as well.
\<close>

lemma early_payout_notification_is_dropped:
  assumes "get_by_reference ref d = Inr (Some t)" "t_status t = PENDING"
  shows "run (process_payout_success en ref code) d = (Inr (), d, [])"
    and "run (process_payout_failure en ref code) d = (Inr (), d, [])"
  using assms
  by (simp_all add: process_payout_success_def process_payout_failure_def run_def bindS_def query_def askS_def returnS_def
      fresh_session_def)

lemma late_reversal_is_dropped:
  assumes "get_by_reference ref d = Inr (Some t)" "t_status t = COMPLETED"
  shows "run (process_transfer_result en ''transfer.reversed'' (data\<lparr>ev_reference := Some ref\<rparr>)) d = (Inr (), d, [])"
  using assms
  by (simp add: process_transfer_result_def process_payout_failure_def run_def bindS_def query_def askS_def returnS_def
      fresh_session_def Let_def)

section \<open>Fundings\<close>

text \<open>The wallet is credited with what the notification says, whatever the funding was opened for.\<close>

lemma credited_amount_is_not_checked:
  "let d = fst (snd (run (process_charge_success (env_at 1) (charge_data\<lparr>ev_amount := Some 1\<rparr>)) banking_db))
   in map (\<lambda>t. (t_status t, t_amount t)) (filter (\<lambda>t. t_id t = 23) (transactions d)) = [(COMPLETED, naira 300)] \<and>
     balance_of 12 d = Some (naira 400 + 1)"
  by code_simp

text \<open>
  The sweep's second commit is no no-op: when the wallet of a confirmed funding is gone, it stores the
  PROCESSING that the handler only flushed, and no sweep looks at the funding again.
\<close>

lemma confirmed_funding_gets_stuck:
  "let d = banking_db\<lparr>wallets := filter (\<lambda>w. w_id w \<noteq> 12) (wallets banking_db)\<rparr>
   in map t_status (filter (\<lambda>t. t_id t = 23) (transactions (fst (snd (run (reconcile_funding asked_paystack (env_at 1) 23 ''f3'') d))))) =
     [PROCESSING]"
  by code_simp

section \<open>Merchants and submissions\<close>

text \<open>All keys start with the same eight characters, so looking merchants up by prefix finds them all.\<close>

lemma every_key_has_the_same_prefix: "fst (snd (generate_api_key h u)) = ''pk_live_''"
  by (simp add: generate_api_key_def Let_def)

text \<open>The id of a submission is a plain string in the path, so that a malformed one is an error 500.\<close>

lemma malformed_submission_id_is_a_500: "parse_uuid s = None \<Longrightarrow> run (submission_path s) d = (Inl ValueError, d, []) \<and> status_code ValueError = 500"
  by (simp add: submission_path_def run_def raiseS_def fresh_session_def)

section \<open>Strings that do not fit\<close>

text \<open>
  \<open>RegisterRequest.phone\<close> and the file name of a document have no limit of their own, so a longer
  one meets the width of its column: an error 500, for a document after it was uploaded.
\<close>

lemma long_phone_is_a_500:
  "fst (run (register default_settings example_crypto example_env ''new@x.io'' ''passw0rd'' ''New'' (Some (replicate 21 (CHR ''1'')))) example_db) =
     Inl DataError \<and> status_code DataError = 500"
  by code_simp

lemma long_file_name_is_refused_after_the_upload:
  assumes "length bytes \<le> MAX_FILE_SIZE" "detect_mime_type bytes \<in> {Some ''image/jpeg'', Some ''image/png'', Some ''application/pdf''}"
    and "u_kyc_tier user = tier - 1" "get_active_for_tier (u_id user) tier d = Inr None"
    and "\<not> fits_varchar 500 (document_key_of (u_id user) (uuid4 en 0) name)"
  shows "fst (run (submit_kyc put en user tier bytes name) d) =
    (if put (document_key_of (u_id user) (uuid4 en 0) name) bytes then Inl DataError
     else Inl (ExternalServiceError ''Document storage''))"
  using assms
  by (auto simp: submit_kyc_def run_def bindS_def query_def askS_def fresh_session_def upload_file_def kyc_create_def flush_def
      insert_kyc_submission_def Let_def)

section \<open>The schema\<close>

text \<open>The model declares an index on \<open>next_retry_at\<close>, the column the retry sweep filters by; no migration creates it.\<close>

lemma retry_index_is_never_created:
  "Column (nullable ''next_retry_at'' TIMESTAMPTZ) [INDEXED] \<in> set declared_webhook_deliveries \<and>
   (\<forall>i\<in>set (indexes migrated_schema). ix_columns i \<noteq> [''next_retry_at''])"
proof -
  have "list_all (\<lambda>i. ix_columns i \<noteq> [''next_retry_at'']) (indexes migrated_schema)"
    unfolding migrated_schema_effect by code_simp
  then show ?thesis by (simp add: declared_webhook_deliveries_def list_all_iff)
qed

section \<open>HTTP answers\<close>

text \<open>
  A call without the Authorization header never reaches \<open>get_current_user\<close>: where \<open>HTTPBearer\<close> raises
  403, as it does in the release the program is pinned to, the caller reads that access is denied, not that
  authentication is required.
\<close>

lemma missing_header_is_forbidden:
  assumes "fw_bearer fw None = Inl (403, ''Not authenticated'')"
    and "app w fw en None (ToUser q) d = (r, d', out)"
  shows "hr_status r = 403 \<and> hr_body r = error_response ''Access denied.'' ''FORBIDDEN'' JNull"
  using assms by (auto simp: app_def with_bearer_def middleware_defs http_exception_handler_def json_response_def error_map_def)

text \<open>The handler is registered for FastAPI's HTTPException, a subclass of the one Starlette's router raises
  for an unknown path, so that one is answered by Starlette, without the envelope.\<close>

lemma unknown_path_has_no_envelope:
  assumes "app w fw en header (Unrouted s x) d = (r, d', out)"
  shows "hr_body r = hr_body (fw_http_exception fw s x)"
  using assms by (auto simp: app_def middleware_defs)

text \<open>An answer to an exception nobody expected is made outside the request-id middleware: it is the one kind
  of answer without the header.\<close>

lemma internal_error_has_no_request_id:
  assumes "app w fw en header t d = (r, d', out)" and "dispatch w fw en header t d = (Inl (Raised e), d', out)"
    and "status_code e = 500"
  shows "hr_status r = 500 \<and> hr_headers r = []"
proof -
  have "rejection fw (Raised e) r" using assms(1,2) by (simp add: app_def rejection_def)
  from rejection_Raised [OF this] show ?thesis using assms(3) by (simp add: unhandled_error_handler_def json_response_def)
qed

end
