(* ===== verification/Spec2Isabelle.thy ===== *)
theory Spec2Isabelle
  imports Properties_System Properties_Access Properties_Money Properties_Payouts Properties_Auth Properties_Operations Properties_Schema Properties_Http Divergences
begin

text \<open>
  PayCore: a payment backend, modelled and verified.

  \<^bold>\<open>The program.\<close> \<open>src/app\<close> is a FastAPI application over PostgreSQL, with Celery workers over Redis.
  Users register, fund their NGN wallet through Paystack, transfer money to each other, pay merchants
  and withdraw to a bank account; administrators review identity documents and inspect everything.
  A request is served by an endpoint (\<open>api/v1\<close>), which calls services (\<open>services\<close>), which use
  repositories (\<open>repositories\<close>) on tables (\<open>models\<close>); slow work is sent to the workers (\<open>workers\<close>)
  as a message: risk flags, webhooks to merchants, Paystack's notifications, payouts; two periodic
  tasks sweep up what got lost.

  \<^bold>\<open>The model.\<close> A method of the code is a computation \<open>'a svc\<close>: from a session it returns a value or
  raises an exception of the code's own hierarchy, and leaves a session (theory Prelude). A
  session (\<open>session\<close> in Models, \<open>core/database.py\<close>) has the committed database, the working database
  with what was flushed, and an outbox of messages; \<open>commit\<close>, \<open>rollback\<close>, \<open>flush\<close>, \<open>delay\<close> act on it
  as SQLAlchemy and Celery do, and \<open>run\<close> is a whole request or task: what is not committed at its end is
  lost. The database is a record of tables, a table the list of its rows in insertion order, a row a
  record with the columns of the model class; inserting checks UNIQUE, CHECK and FOREIGN KEY
  constraints and the widths of the strings that come from clients or Paystack. Money is an
  integer number of hundredths (\<open>NUMERIC(20, 2)\<close>) with the range of the column checked where the database
  does; a UUID is a 128-bit word; time is an integer number of microseconds. The clock, the values
  of \<open>uuid.uuid4()\<close> and whether the broker answers are in the environment \<open>env\<close> of each run.

  \<^bold>\<open>The theories\<close>, in the order of the code:
  Prelude (computations, weakest preconditions, tables as lists, the locale \<open>column_update\<close>) and
  Python_Std (UUID texts, string methods);
  Models (\<open>core/exceptions.py\<close>, \<open>core/config.py\<close>, \<open>models/*.py\<close>, sessions);
  Audit_Trail, Users, Wallets, Transactions (repositories and services of these names, the ledger and
  the status machine \<open>VALID_TRANSITIONS\<close>), Fraud (limits, duplicates, flags), Transfers and Payments (the
  two movements between wallets, with locks, idempotency and the IntegrityError path), Merchants (profiles
  and API keys), Webhook_Delivery (webhooks to merchants and their retries), Paystack (the client),
  Bank_Accounts and Withdrawals (the hold, the payout, its two outcomes), Funding (fundings, incoming
  webhooks, reconciliation), Kyc (documents, submissions, reviews), Auth (registration, tokens, login,
  the access-token dependency); Schemas (\<open>schemas/*.py\<close>: validation and response models) and Api (every
  endpoint of \<open>api/v1\<close>); System (the router, the tasks, the beat schedule, and the whole program as the
  step relation \<open>step\<close> on a database and a queue of messages); Http (\<open>app/main.py\<close>: what a client sees of a
  call, from the bearer header to the status, the headers and the envelope of the answer). Ddl and Migrations are the database's
  side: schemas, the statements that change them, the migrations of \<open>alembic/versions\<close> with
  upgrade and downgrade, and the tables as the classes of \<open>models\<close> declare them.

  \<^bold>\<open>The specification\<close> is in Accounts and Abstract_Spec. \<open>sound\<close> says what the books are: each
  balance is the wallet's credits less its debits less the amounts that open withdrawals hold, and each
  transaction has exactly the ledger entries of its type and status. \<open>change l d d'\<close> is the abstract
  transition system: what one committed change may do to the database on behalf of the user \<open>l\<close> (or of
  nobody). Refinement proves that every service, endpoint and task, on every path, is a sequence of
  such changes; the locales \<open>invariant\<close> and \<open>history\<close> then carry a property of single changes to all
  reachable states and to all pairs of an earlier and a later state. Transfers and payments share
  the contract of the locale \<open>money_movement\<close>, the handlers of repeated messages that of
  \<open>event_handler\<close> (in Event_Handlers: a handler either fails and changes nothing, or returns and is
  idle from then on). Four more arguments follow the structure of all operations: Access_Control
  (which requests only read), Atomicity (a request that raises has committed nothing), Message_Origin
  (who sends which messages) and Conformance (no statement breaks a constraint of the schema, so the
  database is always an instance of the migrated schema).

  \<^bold>\<open>The properties\<close> (C1 to C40) are in the theories \<open>Properties_*\<close>: the books and the history of the whole
  program (Properties_System), refinement and access (Properties_Access), transfers and payments
  (Properties_Money), fundings, withdrawals and repeated events (Properties_Payouts), accounts and
  credentials (Properties_Auth), webhooks, reviews, listings and sweeps (Properties_Operations), the database schema
  (Properties_Schema), what a client is answered (Properties_Http). Each
  property with a hypothesis has a witness on the databases of Example_Data or on the run of
  Example_System, in which a user registers, opens a funding and is credited. Divergences proves the
  places where the code does not do what it or its documentation says.

  \<^bold>\<open>Bounds.\<close> Nothing is bounded or fuelled: every loop of the code is a \<open>for\<close> over a list that was read
  before (\<open>forS\<close>), so every run is total, and each theorem about a run covers raising as well as
  returning. The limits in the model are the code's (100 deliveries and 50 transactions per sweep, 6
  attempts, pages of 1 to 100).

  \<^bold>\<open>Parameters.\<close> What the program calls outside is an argument, collected in the record \<open>outside\<close>: bcrypt,
  SHA-256, HMAC, JWT, \<open>secrets\<close>, JSON, S3, HTTP to Paystack and to merchants, pydantic's email
  check. Only Properties_Auth assumes laws of them: that decoding a token gives back what was
  encoded until it expires, and that a password matches its own hash and no other password's; and
  Properties_Http that the bearer scheme turns a caller away with 401 or 403. What the web framework
  decides before the program's code runs is the record \<open>framework\<close> of Http.

  \<^bold>\<open>Not modelled.\<close> A request or task is one atomic step, so interleavings below that granularity, row
  locks and isolation levels are not expressed (a lock is a lookup); steps may come in any order, and a
  message may be run any number of times or be lost. The width of a VARCHAR column is checked where a
  string comes from a client, or from Paystack on an insert; constants, hashes and the codes Paystack
  gives later are taken to fit. A session that
  failed to flush can be used again here, while SQLAlchemy asks for a rollback first; the one place
  where the code goes on without is the audit record of a payment whose webhook delivery could not
  be stored, which is written here and would be lost. \<open>updated_at\<close> columns, log lines, the counting of
  \<open>core/limiter.py\<close> (whether a caller is over a limit is a parameter), CORS, the documentation pages,
  the parsing of HTTP and the settings nothing reads are left out: none of them takes part in what
  the services decide.
\<close>

end
